(* ===== verification/Prelude.thy ===== *)
theory Prelude
  imports Main "HOL-Library.Word" "HOL-Library.List_Lexorder" "HOL-Library.Char_ord"
    "HOL-Library.Signed_Division"
begin

text \<open>
  Shared vocabulary of the development: Go error values, results that carry an error,
  Go maps as canonical association lists, and the fragments of Go's \<open>strings\<close>,
  \<open>strconv\<close> and \<open>fmt\<close> packages that the program uses. The named collections
  \<open>gomap_simps\<close>, \<open>str_simps\<close> and \<open>err_simps\<close> carry the component proofs.
\<close>

named_theorems gomap_simps \<open>lookups and well-formedness of Go maps\<close>
named_theorems str_simps \<open>splitting, joining and formatting of strings\<close>
named_theorems err_simps \<open>classification of Go errors\<close>

section \<open>Errors and results\<close>

text \<open>
  The exported error values that the code wraps with \<open>%w\<close>:
  \<open>jsonpatch.ErrJSONPatch\<close>, \<open>jsonpatch.ErrListResources\<close> and
  \<open>resource.ErrInvalidClient\<close>.
\<close>

datatype sentinel = ErrJSONPatch | ErrListResources | ErrInvalidClient

text \<open>
  A Go error: a plain one (\<open>errors.New\<close>, \<open>fmt.Errorf\<close> without \<open>%w\<close>, or an error
  of a library), the API server's NotFound status, the REST mapper's NoKindMatch, a
  sentinel, a wrapping \<open>fmt.Errorf("pre%wpost", err)\<close>, and the run-time panic that a
  handler turns into an error.
\<close>

datatype goerror =
    Err string
  | NotFoundErr string
  | NoMatchErr string
  | SentinelErr sentinel
  | WrapErr string goerror string
  | PanicErr string

type_synonym 'a res = "goerror + 'a"

primrec sentinel_text :: "sentinel \<Rightarrow> string" where
  "sentinel_text ErrJSONPatch = ''jsonpatch error''"
| "sentinel_text ErrListResources = ''list resources error''"
| "sentinel_text ErrInvalidClient = ''invalid client''"

text \<open>The \<open>Error()\<close> method: the text of an error.\<close>

primrec error_text :: "goerror \<Rightarrow> string" where
  "error_text (Err s) = s"
| "error_text (NotFoundErr s) = s"
| "error_text (NoMatchErr s) = s"
| "error_text (SentinelErr x) = sentinel_text x"
| "error_text (WrapErr pre e post) = pre @ error_text e @ post"
| "error_text (PanicErr s) = s"

text \<open>
  \<open>errors.Is\<close> for a sentinel, \<open>apierrors.IsNotFound\<close> and \<open>meta.IsNoMatchError\<close>. The
  first two look through wrapped errors, the last one, a type switch, does not.
\<close>

primrec errors_is :: "sentinel \<Rightarrow> goerror \<Rightarrow> bool" where
  "errors_is x (Err s) = False"
| "errors_is x (NotFoundErr s) = False"
| "errors_is x (NoMatchErr s) = False"
| "errors_is x (SentinelErr y) = (x = y)"
| "errors_is x (WrapErr pre e post) = errors_is x e"
| "errors_is x (PanicErr s) = False"

primrec is_not_found :: "goerror \<Rightarrow> bool" where
  "is_not_found (Err s) = False"
| "is_not_found (NotFoundErr s) = True"
| "is_not_found (NoMatchErr s) = False"
| "is_not_found (SentinelErr y) = False"
| "is_not_found (WrapErr pre e post) = is_not_found e"
| "is_not_found (PanicErr s) = False"

fun is_no_match :: "goerror \<Rightarrow> bool" where
  "is_no_match (NoMatchErr s) = True"
| "is_no_match _ = False"

text \<open>\<open>client.IgnoreNotFound(err)\<close>: nil on a NotFound error, the error otherwise.\<close>

definition ignore_not_found :: "goerror \<Rightarrow> goerror option" where
  "ignore_not_found e = (if is_not_found e then None else Some e)"

lemma ignore_not_found_simps [err_simps, simp]:
  "is_not_found e \<Longrightarrow> ignore_not_found e = None"
  "\<not> is_not_found e \<Longrightarrow> ignore_not_found e = Some e"
  by (simp_all add: ignore_not_found_def)

text \<open>\<open>fmt.Errorf("%w: %s", sentinel, err)\<close>.\<close>

definition wrap_sentinel :: "sentinel \<Rightarrow> goerror \<Rightarrow> goerror" where
  "wrap_sentinel x e = WrapErr [] (SentinelErr x) ('': '' @ error_text e)"

lemma errors_is_wrap_sentinel [err_simps, simp]:
  "errors_is x (wrap_sentinel y e) = (x = y)"
  by (simp add: wrap_sentinel_def)

lemma wrap_sentinel_not_found [err_simps, simp]: "\<not> is_not_found (wrap_sentinel x e)"
  by (simp add: wrap_sentinel_def)

section \<open>Go maps\<close>

text \<open>
  A Go map with an ordered key type is the association list of its entries with strictly
  ascending keys. The representation is canonical: two maps are equal exactly when they
  hold the same entries. A nil map is \<open>None\<close> where the code tells it from an empty one.
  The order of the list is the order in which \<open>encoding/json\<close> prints a map; it is not
  the order in which \<open>range\<close> visits it, which is a parameter of the loops.
\<close>

type_synonym ('k, 'v) gomap = "('k \<times> 'v) list"

definition gm_wf :: "('k::linorder, 'v) gomap \<Rightarrow> bool" where
  "gm_wf m = sorted_wrt (<) (map fst m)"

primrec gm_put :: "'k::linorder \<Rightarrow> 'v \<Rightarrow> ('k, 'v) gomap \<Rightarrow> ('k, 'v) gomap" where
  "gm_put k v [] = [(k, v)]"
| "gm_put k v (e # m) =
     (if fst e < k then e # gm_put k v m
      else if fst e = k then (k, v) # m
      else (k, v) # e # m)"

abbreviation gm_get :: "('k, 'v) gomap \<Rightarrow> 'k \<Rightarrow> 'v option" where
  "gm_get \<equiv> map_of"

text \<open>The Go literal or loop that stores a list of entries in order, later ones winning.\<close>

definition gm_of_list :: "('k::linorder \<times> 'v) list \<Rightarrow> ('k, 'v) gomap" where
  "gm_of_list es = fold (\<lambda>(k, v). gm_put k v) es []"

lemma gm_wf_Nil [gomap_simps, simp]: "gm_wf []"
  by (simp add: gm_wf_def)

lemma gm_wf_Cons [gomap_simps]:
  "gm_wf ((k, v) # m) \<longleftrightarrow> (\<forall>e \<in> set m. k < fst e) \<and> gm_wf m"
  by (auto simp: gm_wf_def)

lemma gm_get_put [gomap_simps, simp]: "gm_get (gm_put k v m) = (gm_get m)(k \<mapsto> v)"
  by (induction m) (auto simp: fun_eq_iff)

lemma fst_set_gm_put: "fst ` set (gm_put k v m) = insert k (fst ` set m)"
  by (induction m) auto

lemma gm_wf_put [gomap_simps, simp]: "gm_wf m \<Longrightarrow> gm_wf (gm_put k v m)"
proof (induction m)
  case Nil
  then show ?case by (simp add: gm_wf_def)
next
  case (Cons e m)
  obtain a b where e: "e = (a, b)" by (cases e)
  from Cons.prems have m: "gm_wf m" and lt: "\<forall>x \<in> fst ` set m. a < x"
    by (auto simp: e gm_wf_Cons)
  show ?case
  proof (cases "a < k")
    case True
    have "\<forall>x \<in> fst ` set (gm_put k v m). a < x"
      using True lt by (simp add: fst_set_gm_put)
    with Cons.IH [OF m] True show ?thesis by (simp add: e gm_wf_Cons)
  next
    case False
    then show ?thesis using m lt by (auto simp: e gm_wf_Cons)
  qed
qed

lemma gm_wf_distinct: "gm_wf m \<Longrightarrow> distinct (map fst m)"
  by (simp add: gm_wf_def strict_sorted_iff)

text \<open>Overwriting an entry keeps the keys.\<close>

lemma gm_put_keys:
  "gm_wf m \<Longrightarrow> gm_get m k = Some v \<Longrightarrow> map fst (gm_put k v' m) = map fst m"
proof (induction m)
  case (Cons e m)
  obtain a b where e: "e = (a, b)" by (cases e)
  have "k \<in> fst ` set m \<or> a = k"
    using Cons.prems(2) by (force simp: e split: if_splits dest: map_of_SomeD)
  with Cons show ?case by (auto simp: e gm_wf_Cons split: if_splits)
qed simp

text \<open>Canonicity: the lookup function determines the map.\<close>

lemma gm_canonical:
  assumes "gm_wf m"
  shows "m = map (\<lambda>k. (k, the (gm_get m k))) (sorted_list_of_set (dom (gm_get m)))"
proof -
  have "sorted (map fst m)" and dist: "distinct (map fst m)"
    using assms by (simp_all add: gm_wf_def strict_sorted_iff)
  then have keys: "sorted_list_of_set (dom (gm_get m)) = map fst m"
    by (metis dom_map_of_conv_image_fst list.set_map sorted_list_of_set.idem_if_sorted_distinct)
  have "\<forall>e \<in> set m. (fst e, the (gm_get m (fst e))) = e"
    using dist by (auto simp: map_of_eq_Some_iff)
  then show ?thesis by (simp add: keys map_idI)
qed

lemma gm_eqI:
  assumes "gm_wf m" and "gm_wf m'" and "gm_get m = gm_get m'"
  shows "m = m'"
  using gm_canonical [OF assms(1)] gm_canonical [OF assms(2)] assms(3) by simp

lemma gm_put_same: "gm_wf m \<Longrightarrow> gm_get m k = Some v \<Longrightarrow> gm_put k v m = m"
  by (rule gm_eqI) (auto simp: fun_eq_iff)

lemma gm_put_append: "gm_wf (m @ [(k, v)]) \<Longrightarrow> gm_put k v m = m @ [(k, v)]"
  by (induction m) (auto simp: gm_wf_def)

lemma gm_wf_of_list [gomap_simps, simp]: "gm_wf (gm_of_list es)"
proof -
  have "gm_wf m \<Longrightarrow> gm_wf (fold (\<lambda>(k, v). gm_put k v) es m)" for m :: "('a \<times> 'b) list"
    by (induction es arbitrary: m) auto
  then show ?thesis by (simp add: gm_of_list_def)
qed

text \<open>Storing the entries of a map in its own order rebuilds the map.\<close>

lemma gm_of_list_id: "gm_wf m \<Longrightarrow> gm_of_list m = m"
proof (induction m rule: rev_induct)
  case Nil
  then show ?case by (simp add: gm_of_list_def)
next
  case (snoc e m)
  obtain k v where e: "e = (k, v)" by (cases e)
  have "gm_wf m" using snoc.prems by (simp add: gm_wf_def sorted_wrt_append)
  with snoc.IH have "fold (\<lambda>(k, v). gm_put k v) m [] = m" by (simp add: gm_of_list_def)
  with snoc.prems show ?case by (simp add: gm_of_list_def e gm_put_append)
qed

lemma gm_of_list_get: "gm_get (gm_of_list es) = gm_get (rev es)"
  by (induction es rule: rev_induct) (auto simp: gm_of_list_def)

text \<open>A map all of whose values have a property.\<close>

definition all_values :: "('v \<Rightarrow> bool) \<Rightarrow> ('k::linorder, 'v) gomap \<Rightarrow> bool" where
  "all_values P m = (gm_wf m \<and> list_all P (map snd m))"

lemma all_values_Nil [gomap_simps, simp]: "all_values P []"
  by (simp add: all_values_def)

lemma all_values_put [gomap_simps]: "P v \<Longrightarrow> all_values P m \<Longrightarrow> all_values P (gm_put k v m)"
proof -
  have "P v \<Longrightarrow> list_all P (map snd m) \<Longrightarrow> list_all P (map snd (gm_put k v m))" by (induction m) auto
  then show "P v \<Longrightarrow> all_values P m \<Longrightarrow> all_values P (gm_put k v m)" by (simp add: all_values_def)
qed

lemma all_values_get: "all_values P m \<Longrightarrow> gm_get m k = Some v \<Longrightarrow> P v"
  by (auto simp: all_values_def list_all_iff dest!: map_of_SomeD)

text \<open>Searching lists.\<close>

lemma find_append: "find P (xs @ ys) = (case find P xs of None \<Rightarrow> find P ys | Some x \<Rightarrow> Some x)"
  by (induction xs) auto

section \<open>Strings\<close>

text \<open>\<open>strings.Split(s, sep)\<close> for a one-byte separator.\<close>

primrec split_on :: "char \<Rightarrow> string \<Rightarrow> string list" where
  "split_on sep [] = [[]]"
| "split_on sep (c # s) =
     (if c = sep then [] # split_on sep s
      else case split_on sep s of p # ps \<Rightarrow> (c # p) # ps | [] \<Rightarrow> [[c]])"

text \<open>\<open>strings.Join(parts, sep)\<close>.\<close>

fun join :: "string \<Rightarrow> string list \<Rightarrow> string" where
  "join sep [] = []"
| "join sep [p] = p"
| "join sep (p # q # ps) = p @ sep @ join sep (q # ps)"

text \<open>\<open>strings.HasPrefix(s, pre)\<close>.\<close>

fun has_prefix :: "string \<Rightarrow> string \<Rightarrow> bool" where
  "has_prefix s [] = True"
| "has_prefix [] (c # pre) = False"
| "has_prefix (d # s) (c # pre) = (c = d \<and> has_prefix s pre)"

lemma has_prefix_iff: "has_prefix s pre \<longleftrightarrow> (\<exists>t. s = pre @ t)"
  by (induction s pre rule: has_prefix.induct) auto

lemma split_on_nonempty [str_simps, simp]: "split_on sep s \<noteq> []"
  by (induction s) (auto split: list.splits)

lemma join_split_on [str_simps]: "join [sep] (split_on sep s) = s"
proof (induction s)
  case Nil
  then show ?case by simp
next
  case (Cons c s)
  obtain p ps where ps: "split_on sep s = p # ps"
    by (cases "split_on sep s") auto
  with Cons show ?case by (cases ps) auto
qed

lemma split_on_no_sep: "\<forall>p \<in> set (split_on sep s). sep \<notin> set p"
  by (induction s) (auto split: list.splits)

lemma split_on_plain: "sep \<notin> set s \<Longrightarrow> split_on sep s = [s]"
  by (induction s) auto

lemma split_on_append:
  "sep \<notin> set s \<Longrightarrow> split_on sep (s @ sep # t) = s # split_on sep t"
  by (induction s) auto

text \<open>A time \<open>HH:mm\<close> splits into two parts exactly when it has one colon.\<close>

lemma split_on_two_iff:
  "split_on sep s = [a, b] \<longleftrightarrow> s = a @ sep # b \<and> sep \<notin> set a \<and> sep \<notin> set b"
proof
  assume sp: "split_on sep s = [a, b]"
  have "s = a @ sep # b" using join_split_on [of sep s] sp by simp
  then show "s = a @ sep # b \<and> sep \<notin> set a \<and> sep \<notin> set b"
    using split_on_no_sep [of sep s] sp by simp
next
  assume "s = a @ sep # b \<and> sep \<notin> set a \<and> sep \<notin> set b"
  then show "split_on sep s = [a, b]" by (simp add: split_on_append split_on_plain)
qed

lemma split_on_join:
  "ps \<noteq> [] \<Longrightarrow> \<forall>p \<in> set ps. sep \<notin> set p \<Longrightarrow> split_on sep (join [sep] ps) = ps"
  by (induction "[sep]" ps rule: join.induct) (auto simp: split_on_plain split_on_append)

section \<open>Decimal numbers\<close>

text \<open>\<open>%d\<close> and \<open>strconv.Itoa\<close>: decimal digits without leading zeros.\<close>

definition digit_char :: "nat \<Rightarrow> char" where
  "digit_char d = char_of (48 + d)"

fun nat_text :: "nat \<Rightarrow> string" where
  "nat_text n = (if n < 10 then [digit_char n] else nat_text (n div 10) @ [digit_char (n mod 10)])"

declare nat_text.simps [simp del]

definition int_text :: "int \<Rightarrow> string" where
  "int_text i = (if i < 0 then CHR ''-'' # nat_text (nat (- i)) else nat_text (nat i))"

definition is_digit :: "char \<Rightarrow> bool" where
  "is_digit c = (48 \<le> (of_char c :: nat) \<and> (of_char c :: nat) \<le> 57)"

definition digit_val :: "char \<Rightarrow> nat" where
  "digit_val c = of_char c - 48"

text \<open>Reading a run of digits, most significant first.\<close>

definition digits_val :: "string \<Rightarrow> nat" where
  "digits_val s = fold (\<lambda>c acc. acc * 10 + digit_val c) s 0"

lemma of_char_digit_char [simp]: "d < 10 \<Longrightarrow> (of_char (digit_char d) :: nat) = 48 + d"
  by (simp add: digit_char_def)

lemma is_digit_digit_char [simp]: "d < 10 \<Longrightarrow> is_digit (digit_char d)"
  by (simp add: is_digit_def)

lemma digit_val_digit_char [simp]: "d < 10 \<Longrightarrow> digit_val (digit_char d) = d"
  by (simp add: digit_val_def)

lemma digits_val_snoc: "digits_val (s @ [c]) = digits_val s * 10 + digit_val c"
  by (simp add: digits_val_def)

lemma digits_val_nat_text [str_simps, simp]: "digits_val (nat_text n) = n"
proof (induction n rule: nat_text.induct)
  case (1 n)
  show ?case
  proof (cases "n < 10")
    case True
    then show ?thesis by (subst nat_text.simps) (simp add: digits_val_def)
  next
    case False
    with "1.IH" show ?thesis
      by (subst nat_text.simps) (simp add: digits_val_snoc del: mult.commute)
  qed
qed

lemma nat_text_digits: "\<forall>c \<in> set (nat_text n). is_digit c"
proof (induction n rule: nat_text.induct)
  case (1 n)
  then show ?case by (cases "n < 10") (auto simp: nat_text.simps [of n])
qed

lemma nat_text_nonempty [simp]: "nat_text n \<noteq> []"
  by (subst nat_text.simps) simp

lemma nat_text_lead: "nat_text n = c # r \<Longrightarrow> c = CHR ''0'' \<Longrightarrow> r = []"
proof (induction n arbitrary: c r rule: nat_text.induct)
  case (1 n)
  show ?case
  proof (cases "n < 10")
    case True
    with "1.prems" show ?thesis by (simp add: nat_text.simps [of n])
  next
    case False
    obtain c' r' where t: "nat_text (n div 10) = c' # r'"
      by (cases "nat_text (n div 10)") auto
    from False "1.prems" t have "c' = CHR ''0''" by (simp add: nat_text.simps [of n])
    with "1.IH" [OF False t] t have "nat_text (n div 10) = ''0''" by simp
    then have "n div 10 = digits_val ''0''" using digits_val_nat_text [of "n div 10"] by simp
    then have "n div 10 = 0" by (simp add: digits_val_def digit_val_def)
    with False show ?thesis by simp
  qed
qed

text \<open>An integer literal: decimal digits with an optional minus sign.\<close>

definition int_literal :: "string \<Rightarrow> int option" where
  "int_literal s =
     (case s of
        c # r \<Rightarrow>
          (if c = CHR ''-'' \<and> r \<noteq> [] \<and> list_all is_digit r then Some (- int (digits_val r))
           else if list_all is_digit s then Some (int (digits_val s)) else None)
      | [] \<Rightarrow> None)"

lemma int_literal_int_text: "int_literal (int_text i) = Some i"
proof -
  have digits: "list_all is_digit (nat_text n)" for n using nat_text_digits by (simp add: list_all_iff)
  show ?thesis
  proof (cases "i < 0")
    case True
    then show ?thesis using digits [of "nat (- i)"] by (simp add: int_literal_def int_text_def)
  next
    case False
    obtain c r where t: "nat_text (nat i) = c # r" by (cases "nat_text (nat i)") auto
    with digits [of "nat i"] have "c \<noteq> CHR ''-''" "list_all is_digit (c # r)" by (auto simp: is_digit_def)
    moreover have "digits_val (c # r) = nat i" using t digits_val_nat_text [of "nat i"] by simp
    ultimately show ?thesis using False t by (simp add: int_literal_def int_text_def)
  qed
qed

section \<open>Letters\<close>

definition lower_char :: "char \<Rightarrow> char" where
  "lower_char c =
     (let n = (of_char c :: nat) in if 65 \<le> n \<and> n \<le> 90 then char_of (n + 32) else c)"

section \<open>Quoted strings\<close>

text \<open>
  The verb \<open>%q\<close>: a double-quoted Go string. Bytes from 128 on, which \<open>%q\<close> prints as
  they are when they form printable characters, are taken through.
\<close>

definition hex_char :: "nat \<Rightarrow> char" where
  "hex_char n = (if n < 10 then digit_char n else char_of (87 + n))"

definition q_char :: "char \<Rightarrow> string" where
  "q_char c =
     (let b = CHR 0x5C; n = (of_char c :: nat) in
      if c = CHR 0x22 \<or> c = b then [b, c]
      else if n = 7 then [b, CHR ''a''] else if n = 8 then [b, CHR ''b'']
      else if n = 12 then [b, CHR ''f''] else if n = 10 then [b, CHR ''n'']
      else if n = 13 then [b, CHR ''r''] else if n = 9 then [b, CHR ''t'']
      else if n = 11 then [b, CHR ''v'']
      else if n < 32 \<or> n = 127 then [b, CHR ''x'', hex_char (n div 16), hex_char (n mod 16)]
      else [c])"

definition quoted :: "string \<Rightarrow> string" where
  "quoted s = CHR 0x22 # concat (map q_char s) @ [CHR 0x22]"

end
