(* ===== verification/Float64.thy ===== *)
theory Float64
  imports Prelude
begin

text \<open>
  Numbers that pass through Go's \<open>float64\<close>. \<open>json.Unmarshal\<close> into a value of type \<open>any\<close>
  reads every number literal with \<open>strconv.ParseFloat\<close>, and \<open>json.Marshal\<close> prints the
  \<open>float64\<close> again with the fewest digits that are read back as the same value.
  \<open>float_text\<close> is the composition of the two: the literal that comes out when a literal goes
  in, or \<open>None\<close> for a literal beyond the largest finite value, which \<open>ParseFloat\<close> refuses. All
  arithmetic is exact arithmetic on integers.
\<close>

section \<open>Literals\<close>

definition digits_int :: "string \<Rightarrow> int" where
  "digits_int s = fold (\<lambda>c acc. acc * 10 + int (digit_val c)) s 0"

text \<open>The exponent part of a literal, from its letter on; there may be none.\<close>

definition exponent_val :: "string \<Rightarrow> int" where
  "exponent_val s =
     (case s of
        e # g # q \<Rightarrow>
          (if g = CHR ''-'' then - digits_int q
           else if g = CHR ''+'' then digits_int q
           else digits_int (g # q))
      | _ \<Rightarrow> 0)"

text \<open>
  The value of an unsigned literal as \<open>m * 10 ^ e\<close>: the fraction digits follow the integer
  digits and count off the exponent.
\<close>

definition decimal_val :: "string \<Rightarrow> int \<times> int" where
  "decimal_val s =
     (let i = takeWhile is_digit s; r = dropWhile is_digit s;
          dot = (r \<noteq> [] \<and> hd r = CHR ''.'');
          f = (if dot then takeWhile is_digit (tl r) else []);
          x = (if dot then dropWhile is_digit (tl r) else r)
      in (digits_int (i @ f), exponent_val x - int (length f)))"

section \<open>Fractions\<close>

text \<open>The fraction \<open>n / (d * b ^ e)\<close>, as numerator and denominator.\<close>

definition scale :: "int \<Rightarrow> int \<Rightarrow> int \<Rightarrow> int \<Rightarrow> int \<times> int" where
  "scale b n d e = (if 0 \<le> e then (n, d * b ^ nat e) else (n * b ^ nat (- e), d))"

text \<open>The number of digits of \<open>n\<close> in a base.\<close>

function places :: "int \<Rightarrow> int \<Rightarrow> int" where
  "places b n = (if n \<le> 0 \<or> b \<le> 1 then 0 else 1 + places b (n div b))"
  by pat_completeness auto
termination
  by (relation "measure (\<lambda>(b, n). nat n)") (auto simp: int_div_less_self nat_less_eq_zless)

declare places.simps [simp del]

text \<open>The exponent \<open>x\<close> with \<open>b ^ (x - 1) \<le> n / d < b ^ x\<close>.\<close>

definition magnitude :: "int \<Rightarrow> int \<Rightarrow> int \<Rightarrow> int" where
  "magnitude b n d =
     (let x = places b n - places b d; (p, q) = scale b n d x in if q \<le> p then x + 1 else x)"

text \<open>The two integers next to \<open>p / q\<close>, the closer one first, the even one in the middle.\<close>

definition neighbours :: "int \<Rightarrow> int \<Rightarrow> int list" where
  "neighbours p q =
     (let k = p div q; r = p mod q in
      if r = 0 then [k]
      else if 2 * r < q \<or> 2 * r = q \<and> even k then [k, k + 1]
      else [k + 1, k])"

section \<open>Reading a float64\<close>

text \<open>
  A positive finite \<open>float64\<close> is \<open>k * 2 ^ e\<close> with \<open>0 < k < 2 ^ 53\<close> and
  \<open>-1074 \<le> e \<le> 971\<close>, where \<open>2 ^ 52 \<le> k\<close> or \<open>e = -1074\<close>. The nearest one to a positive
  fraction, or \<open>None\<close> when that is infinite; \<open>k = 0\<close> when the fraction is too small.
\<close>

definition nearest :: "int \<Rightarrow> int \<Rightarrow> (int \<times> int) option" where
  "nearest n d =
     (let e = max (- 1074) (magnitude 2 n d - 53); (p, q) = scale 2 n d e;
          k = hd (neighbours p q);
          (k', e') = (if k = 2 ^ 53 then (2 ^ 52, e + 1) else (k, e))
      in if e' \<le> 971 then Some (k', e') else None)"

section \<open>Printing a float64\<close>

text \<open>The decimals \<open>m * 10 ^ e\<close> of \<open>p\<close> digits next to a fraction.\<close>

definition decimals :: "int \<Rightarrow> int \<Rightarrow> int \<Rightarrow> (int \<times> int) list" where
  "decimals n d p =
     (let e = magnitude 10 n d - p; (a, b) = scale 10 n d e in map (\<lambda>m. (m, e)) (neighbours a b))"

definition reads_as :: "(int \<times> int) option \<Rightarrow> int \<times> int \<Rightarrow> bool" where
  "reads_as v c = (let (n, d) = scale 10 (fst c) 1 (- snd c) in nearest n d = v)"

text \<open>The closest decimal of the fewest digits that is read back as the value; 17 are enough.\<close>

definition shortest :: "int \<Rightarrow> int \<Rightarrow> int \<times> int" where
  "shortest k e =
     (let (n, d) = scale 2 k 1 (- e)
      in case find (reads_as (Some (k, e))) (concat (map (decimals n d) [1..17])) of
           Some c \<Rightarrow> c
         | None \<Rightarrow> hd (decimals n d 17))"

function int_digits :: "int \<Rightarrow> string" where
  "int_digits n = (if n \<le> 0 then [] else int_digits (n div 10) @ [digit_char (nat (n mod 10))])"
  by pat_completeness auto
termination by (relation "measure nat") auto

declare int_digits.simps [simp del]

text \<open>
  \<open>strconv.AppendFloat\<close> as \<open>encoding/json\<close> calls it, for the decimal \<open>0.ds * 10 ^ x\<close>: without
  exponent from 1e-6 up to 1e21, and with an exponent that has no leading zero otherwise.
\<close>

definition decimal_text :: "string \<Rightarrow> int \<Rightarrow> string" where
  "decimal_text ds x =
     (if - 5 \<le> x \<and> x \<le> 21 then
        (if x \<le> 0 then ''0.'' @ replicate (nat (- x)) (CHR ''0'') @ ds
         else if int (length ds) \<le> x then ds @ replicate (nat x - length ds) (CHR ''0'')
         else take (nat x) ds @ ''.'' @ drop (nat x) ds)
      else
        take 1 ds @ (if length ds = 1 then [] else ''.'' @ drop 1 ds) @ ''e'' @
        (if x < 1 then ''-'' else ''+'') @ int_digits \<bar>x - 1\<bar>)"

definition positive_text :: "int \<Rightarrow> int \<Rightarrow> string" where
  "positive_text k e =
     (let (m, x) = shortest k e;
          ds = rev (dropWhile (\<lambda>c. c = CHR ''0'') (rev (int_digits m)))
      in decimal_text ds (x + int (length (int_digits m))))"

section \<open>The literal that comes out\<close>

definition unsigned_text :: "string \<Rightarrow> string option" where
  "unsigned_text s =
     (let (m, e) = decimal_val s; (n, d) = scale 10 m 1 (- e) in
      if m = 0 then Some ''0''
      else case nearest n d of
        None \<Rightarrow> None
      | Some (k, x) \<Rightarrow> Some (if k = 0 then ''0'' else positive_text k x))"

definition float_text :: "string \<Rightarrow> string option" where
  "float_text lit =
     (case lit of
        c # r \<Rightarrow> if c = CHR ''-'' then map_option (Cons c) (unsigned_text r) else unsigned_text lit
      | [] \<Rightarrow> None)"

end
