(* ===== verification/Json.thy ===== *)
theory Json
  imports Float64
begin

text \<open>
  The fragment of Go's \<open>encoding/json\<close> that the program uses: \<open>Marshal\<close> of maps,
  strings and unstructured objects, and \<open>Unmarshal\<close> into \<open>map[string]any\<close>,
  \<open>map[string]map[string]string\<close> and slices of structs. Texts are byte strings.
  Marshalling replaces invalid UTF-8 and escapes the two line separators U+2028 and
  U+2029; the strings of API objects are valid UTF-8, so bytes from 128 on are taken
  through unchanged here. The syntax tree keeps a number as its literal; decoding into a
  value of type \<open>any\<close> makes it a \<open>float64\<close>, so that it may come out as another number
  (\<open>Float64\<close>). The nesting limit of the decoder (10000) is not modelled.
\<close>

section \<open>Values and their text\<close>

text \<open>
  A JSON text's syntax tree. An object is the list of its members in the order of the
  text. A Go value of type \<open>any\<close> is a tree whose objects are Go maps (\<open>go_value\<close>).
\<close>

datatype json =
    JNull
  | JBool bool
  | JNum string
  | JStr string
  | JArr "json list"
  | JObj "(string \<times> json) list"

abbreviation quote_char :: char where "quote_char \<equiv> CHR 0x22"
abbreviation backslash :: char where "backslash \<equiv> CHR 0x5C"

definition hex_val :: "char \<Rightarrow> nat option" where
  "hex_val c =
     (let n = of_char c in
      if 48 \<le> n \<and> n \<le> 57 then Some (n - 48)
      else if 97 \<le> n \<and> n \<le> 102 then Some (n - 87)
      else if 65 \<le> n \<and> n \<le> 70 then Some (n - 55)
      else None)"

text \<open>How \<open>Marshal\<close> writes one byte of a string, HTML-sensitive bytes escaped.\<close>

definition esc_char :: "char \<Rightarrow> string" where
  "esc_char c =
     (if c = quote_char \<or> c = backslash then [backslash, c]
      else if c = CHR 0x08 then [backslash, CHR ''b'']
      else if c = CHR 0x0C then [backslash, CHR ''f'']
      else if c = CHR 0x0A then [backslash, CHR ''n'']
      else if c = CHR 0x0D then [backslash, CHR ''r'']
      else if c = CHR 0x09 then [backslash, CHR ''t'']
      else if (of_char c :: nat) < 32 \<or> c = CHR ''<'' \<or> c = CHR ''>'' \<or> c = CHR ''&''
      then backslash # ''u00'' @ [hex_char (of_char c div 16), hex_char (of_char c mod 16)]
      else [c])"

definition quote :: "string \<Rightarrow> string" where
  "quote s = quote_char # concat (map esc_char s) @ [quote_char]"

fun marshal :: "json \<Rightarrow> string" where
  "marshal JNull = ''null''"
| "marshal (JBool b) = (if b then ''true'' else ''false'')"
| "marshal (JNum lit) = lit"
| "marshal (JStr s) = quote s"
| "marshal (JArr xs) = ''['' @ join '','' (map marshal xs) @ '']''"
| "marshal (JObj ms) =
     ''{'' @ join '','' (map (\<lambda>(k, v). quote k @ '':'' @ marshal v) ms) @ ''}''"

section \<open>Reading\<close>

definition is_ws :: "char \<Rightarrow> bool" where
  "is_ws c = (c = CHR '' '' \<or> c = CHR 0x09 \<or> c = CHR 0x0A \<or> c = CHR 0x0D)"

abbreviation skip_ws :: "string \<Rightarrow> string" where
  "skip_ws \<equiv> dropWhile is_ws"

definition is_num_char :: "char \<Rightarrow> bool" where
  "is_num_char c =
     (is_digit c \<or> c = CHR ''-'' \<or> c = CHR ''+'' \<or> c = CHR ''.'' \<or> c = CHR ''e'' \<or> c = CHR ''E'')"

text \<open>The grammar of number literals.\<close>

definition valid_exp :: "string \<Rightarrow> bool" where
  "valid_exp s =
     (case s of
        [] \<Rightarrow> True
      | c # r \<Rightarrow>
          (let q = (case r of g # q \<Rightarrow> if g = CHR ''+'' \<or> g = CHR ''-'' then q else r | [] \<Rightarrow> [])
           in (c = CHR ''e'' \<or> c = CHR ''E'') \<and> q \<noteq> [] \<and> list_all is_digit q))"

definition valid_frac :: "string \<Rightarrow> bool" where
  "valid_frac s =
     (case s of
        [] \<Rightarrow> True
      | c # r \<Rightarrow>
          (if c = CHR ''.'' then takeWhile is_digit r \<noteq> [] \<and> valid_exp (dropWhile is_digit r)
           else valid_exp s))"

definition valid_number :: "string \<Rightarrow> bool" where
  "valid_number s =
     (case (case s of c # r \<Rightarrow> if c = CHR ''-'' then r else s | [] \<Rightarrow> []) of
        [] \<Rightarrow> False
      | c # r \<Rightarrow>
          (if c = CHR ''0'' then valid_frac r
           else is_digit c \<and> valid_frac (dropWhile is_digit r)))"

definition utf8_encode :: "nat \<Rightarrow> string" where
  "utf8_encode n =
     (if n < 0x80 then [char_of n]
      else if n < 0x800 then [char_of (0xC0 + n div 64), char_of (0x80 + n mod 64)]
      else if n < 0x10000
      then [char_of (0xE0 + n div 4096), char_of (0x80 + n div 64 mod 64), char_of (0x80 + n mod 64)]
      else [char_of (0xF0 + n div 262144), char_of (0x80 + n div 4096 mod 64),
            char_of (0x80 + n div 64 mod 64), char_of (0x80 + n mod 64)])"

definition hex4 :: "char \<Rightarrow> char \<Rightarrow> char \<Rightarrow> char \<Rightarrow> nat option" where
  "hex4 a b c d =
     (case (hex_val a, hex_val b, hex_val c, hex_val d) of
        (Some w, Some x, Some y, Some z) \<Rightarrow> Some (((w * 16 + x) * 16 + y) * 16 + z)
      | _ \<Rightarrow> None)"

definition unesc :: "char \<Rightarrow> char option" where
  "unesc e =
     (if e = quote_char \<or> e = backslash \<or> e = CHR ''/'' then Some e
      else if e = CHR ''b'' then Some (CHR 0x08)
      else if e = CHR ''f'' then Some (CHR 0x0C)
      else if e = CHR ''n'' then Some (CHR 0x0A)
      else if e = CHR ''r'' then Some (CHR 0x0D)
      else if e = CHR ''t'' then Some (CHR 0x09)
      else None)"

abbreviation prepend :: "string \<Rightarrow> (string \<times> string) option \<Rightarrow> (string \<times> string) option" where
  "prepend p \<equiv> map_option (\<lambda>(s, r). (p @ s, r))"

text \<open>Four hexadecimal digits, then a whole \<open>\u\<close> escape with its surrogate pair.\<close>

fun read_u4 :: "string \<Rightarrow> (nat \<times> string) option" where
  "read_u4 (h1 # h2 # h3 # h4 # r) = map_option (\<lambda>n. (n, r)) (hex4 h1 h2 h3 h4)"
| "read_u4 _ = None"

definition read_low :: "string \<Rightarrow> (nat \<times> string) option" where
  "read_low s =
     (case s of
        b # u # r \<Rightarrow> if b = backslash \<and> u = CHR ''u'' then read_u4 r else None
      | _ \<Rightarrow> None)"

definition read_rune :: "string \<Rightarrow> (nat \<times> string) option" where
  "read_rune s =
     (case read_u4 s of
        None \<Rightarrow> None
      | Some (n, r) \<Rightarrow>
          (if n < 0xD800 \<or> 0xE000 \<le> n then Some (n, r)
           else case read_low r of
             Some (l, r1) \<Rightarrow>
               (if n < 0xDC00 \<and> 0xDC00 \<le> l \<and> l < 0xE000
                then Some (0x10000 + (n - 0xD800) * 1024 + (l - 0xDC00), r1)
                else Some (0xFFFD, r))
           | None \<Rightarrow> Some (0xFFFD, r)))"

lemma read_u4_length: "read_u4 s = Some (n, r) \<Longrightarrow> length r < length s"
  by (cases s rule: read_u4.cases) auto

lemma read_low_length: "read_low s = Some (n, r) \<Longrightarrow> length r < length s"
  by (auto simp: read_low_def dest!: read_u4_length split: list.splits if_splits)

lemma read_rune_length: "read_rune s = Some (n, r) \<Longrightarrow> length r < length s"
  by (auto simp: read_rune_def dest!: read_u4_length read_low_length
      split: option.splits if_splits)

text \<open>The body of a string literal, from after its opening quote to its closing one.\<close>

function parse_str :: "string \<Rightarrow> (string \<times> string) option" where
  "parse_str [] = None"
| "parse_str (c # s) =
     (if c = quote_char then Some ([], s)
      else if c = backslash then
        (case s of
           [] \<Rightarrow> None
         | e # r \<Rightarrow>
             (if e = CHR ''u''
              then (case read_rune r of
                      None \<Rightarrow> None
                    | Some (n, r1) \<Rightarrow> prepend (utf8_encode n) (parse_str r1))
              else (case unesc e of None \<Rightarrow> None | Some d \<Rightarrow> prepend [d] (parse_str r))))
      else if (of_char c :: nat) < 32 then None
      else prepend [c] (parse_str s))"
  by pat_completeness auto
termination
  by (relation "measure length") (auto dest: read_rune_length)

fun match_lit :: "string \<Rightarrow> string \<Rightarrow> string option" where
  "match_lit [] s = Some s"
| "match_lit (c # p) [] = None"
| "match_lit (c # p) (d # s) = (if c = d then match_lit p s else None)"

text \<open>
  The recursive-descent reader. Every call spends one unit of fuel; \<open>fuel_enough\<close>
  below is the amount that is never used up.
\<close>

fun parse_value :: "nat \<Rightarrow> string \<Rightarrow> (json \<times> string) option"
  and parse_elems :: "nat \<Rightarrow> string \<Rightarrow> (json list \<times> string) option"
  and parse_members :: "nat \<Rightarrow> string \<Rightarrow> ((string \<times> json) list \<times> string) option"
where
  "parse_value 0 s = None"
| "parse_value (Suc f) s =
     (case skip_ws s of
        [] \<Rightarrow> None
      | c # r \<Rightarrow>
          (if c = quote_char then map_option (\<lambda>(t, r1). (JStr t, r1)) (parse_str r)
           else if c = CHR ''['' then
             (case skip_ws r of
                [] \<Rightarrow> None
              | d # r1 \<Rightarrow>
                  (if d = CHR '']'' then Some (JArr [], r1)
                   else map_option (\<lambda>(xs, r2). (JArr xs, r2)) (parse_elems f (d # r1))))
           else if c = CHR ''{'' then
             (case skip_ws r of
                [] \<Rightarrow> None
              | d # r1 \<Rightarrow>
                  (if d = CHR ''}'' then Some (JObj [], r1)
                   else map_option (\<lambda>(ms, r2). (JObj ms, r2)) (parse_members f (d # r1))))
           else if is_digit c \<or> c = CHR ''-'' then
             (let lit = takeWhile is_num_char (c # r) in
              if valid_number lit then Some (JNum lit, dropWhile is_num_char (c # r)) else None)
           else if c = CHR ''t'' then map_option (Pair (JBool True)) (match_lit ''rue'' r)
           else if c = CHR ''f'' then map_option (Pair (JBool False)) (match_lit ''alse'' r)
           else if c = CHR ''n'' then map_option (Pair JNull) (match_lit ''ull'' r)
           else None))"
| "parse_elems 0 s = None"
| "parse_elems (Suc f) s =
     (case parse_value f s of
        None \<Rightarrow> None
      | Some (x, r) \<Rightarrow>
          (case skip_ws r of
             [] \<Rightarrow> None
           | c # r1 \<Rightarrow>
               (if c = CHR '','' then map_option (\<lambda>(xs, r2). (x # xs, r2)) (parse_elems f r1)
                else if c = CHR '']'' then Some ([x], r1)
                else None)))"
| "parse_members 0 s = None"
| "parse_members (Suc f) s =
     (case skip_ws s of
        [] \<Rightarrow> None
      | q # r0 \<Rightarrow>
          (if q \<noteq> quote_char then None
           else case parse_str r0 of
             None \<Rightarrow> None
           | Some (k, r1) \<Rightarrow>
               (case skip_ws r1 of
                  [] \<Rightarrow> None
                | c # r2 \<Rightarrow>
                    (if c \<noteq> CHR '':'' then None
                     else case parse_value f r2 of
                       None \<Rightarrow> None
                     | Some (v, r3) \<Rightarrow>
                         (case skip_ws r3 of
                            [] \<Rightarrow> None
                          | d # r4 \<Rightarrow>
                              (if d = CHR '','' then
                                 map_option (\<lambda>(ms, r5). ((k, v) # ms, r5)) (parse_members f r4)
                               else if d = CHR ''}'' then Some ([(k, v)], r4)
                               else None))))))"

definition fuel_enough :: "string \<Rightarrow> nat" where
  "fuel_enough s = 2 * length s + 1"

definition parse_json :: "string \<Rightarrow> json option" where
  "parse_json s =
     (case parse_value (fuel_enough s) s of
        Some (v, r) \<Rightarrow> if skip_ws r = [] then Some v else None
      | None \<Rightarrow> None)"

section \<open>Reading what was written\<close>

lemma hex_val_hex_char [simp]: "d < 16 \<Longrightarrow> hex_val (hex_char d) = Some d"
  by (auto simp: hex_val_def hex_char_def Let_def)

lemma hex_val_zero [simp]: "hex_val (CHR ''0'') = Some 0"
  by (simp add: hex_val_def)

lemma parse_str_u00:
  assumes "(of_char c :: nat) < 128"
  shows "parse_str (backslash # ''u00'' @ [hex_char (of_char c div 16), hex_char (of_char c mod 16)] @ t) =
    prepend [c] (parse_str t)"
proof -
  have "hex4 (CHR ''0'') (CHR ''0'') (hex_char (of_char c div 16)) (hex_char (of_char c mod 16)) =
      Some (of_char c)"
    using assms by (simp add: hex4_def)
  with assms show ?thesis by (simp add: read_rune_def utf8_encode_def)
qed

lemma parse_str_plain:
  "c \<noteq> quote_char \<Longrightarrow> c \<noteq> backslash \<Longrightarrow> \<not> (of_char c :: nat) < 32 \<Longrightarrow>
   parse_str (c # t) = prepend [c] (parse_str t)"
  by simp

lemma parse_str_unesc:
  "unesc e = Some d \<Longrightarrow> parse_str (backslash # e # t) = prepend [d] (parse_str t)"
  by (auto simp: unesc_def split: if_splits)

lemma parse_str_esc_char: "parse_str (esc_char c @ t) = prepend [c] (parse_str t)"
proof (cases "(of_char c :: nat) < 32 \<or> c = CHR ''<'' \<or> c = CHR ''>'' \<or> c = CHR ''&''")
  case True
  then have "(of_char c :: nat) < 128" by auto
  with True show ?thesis
    using parse_str_u00 [of c t]
    by (auto simp: esc_char_def parse_str_unesc unesc_def simp del: parse_str.simps)
next
  case False
  then show ?thesis
    by (auto simp: esc_char_def parse_str_unesc unesc_def parse_str_plain simp del: parse_str.simps)
qed

lemma parse_str_body:
  "parse_str (concat (map esc_char s) @ quote_char # rest) = Some (s, rest)"
proof (induction s)
  case Nil
  then show ?case by simp
next
  case (Cons c s)
  then show ?case
    using parse_str_esc_char [of c "concat (map esc_char s) @ quote_char # rest"] by simp
qed

text \<open>The trees \<open>Marshal\<close> writes: their numbers are number literals.\<close>

fun json_ok :: "json \<Rightarrow> bool" where
  "json_ok (JNum lit) = (valid_number lit \<and> list_all is_num_char lit)"
| "json_ok (JArr xs) = (\<forall>x \<in> set xs. json_ok x)"
| "json_ok (JObj ms) = (\<forall>e \<in> set ms. json_ok (snd e))"
| "json_ok _ = True"

text \<open>What may follow a value: the end of the text or a byte that ends a token.\<close>

definition value_end :: "string \<Rightarrow> bool" where
  "value_end r = (case r of [] \<Rightarrow> True | c # _ \<Rightarrow> c = CHR '','' \<or> c = CHR '']'' \<or> c = CHR ''}'')"

lemma value_end_simps [simp]:
  "value_end []" "value_end (CHR '','' # r)" "value_end (CHR '']'' # r)" "value_end (CHR ''}'' # r)"
  by (simp_all add: value_end_def)

lemma value_end_num: "value_end r \<Longrightarrow> list_all is_num_char lit \<Longrightarrow>
    takeWhile is_num_char (lit @ r) = lit \<and> dropWhile is_num_char (lit @ r) = r"
  by (cases r) (auto simp: value_end_def is_num_char_def is_digit_def list_all_iff
      takeWhile_append dropWhile_append split: if_splits)

lemma skip_ws_Cons [simp]: "\<not> is_ws c \<Longrightarrow> skip_ws (c # r) = c # r"
  by simp

lemma not_ws [simp]: "\<not> is_ws quote_char" "\<not> is_ws (CHR ''['')" "\<not> is_ws (CHR '']'')"
  "\<not> is_ws (CHR ''{'')" "\<not> is_ws (CHR ''}'')" "\<not> is_ws (CHR '','')" "\<not> is_ws (CHR '':'')"
  by (simp_all add: is_ws_def)

lemma valid_number_head:
  assumes "valid_number lit"
  obtains c r where "lit = c # r" and "is_digit c \<or> c = CHR ''-''"
proof (cases lit)
  case Nil
  with assms show ?thesis by (simp add: valid_number_def)
next
  case (Cons c r)
  moreover have "is_digit (CHR ''0'')" by (simp add: is_digit_def)
  ultimately have "is_digit c \<or> c = CHR ''-''"
    using assms by (auto simp: valid_number_def split: if_splits)
  with Cons that show ?thesis by blast
qed

lemma num_head_facts:
  "is_digit c \<or> c = CHR ''-'' \<Longrightarrow>
   \<not> is_ws c \<and> c \<noteq> quote_char \<and> c \<noteq> CHR ''['' \<and> c \<noteq> CHR ''{'' \<and> c \<noteq> CHR '']'' \<and> c \<noteq> CHR ''}''"
  by (auto simp: is_digit_def is_ws_def)

text \<open>The first byte of a written value never closes an enclosing array or object.\<close>

lemma marshal_head:
  assumes "json_ok v"
  obtains c r where "marshal v = c # r" and "\<not> is_ws c" and "c \<noteq> CHR '']''" and "c \<noteq> CHR ''}''"
proof (cases v)
  case (JNum lit)
  with assms obtain c r where "lit = c # r" "is_digit c \<or> c = CHR ''-''"
    using valid_number_head by auto
  with JNum that num_head_facts show ?thesis by auto
next
  case (JBool b)
  then show ?thesis using that by (cases b) (auto simp: is_ws_def)
qed (use that in \<open>auto simp: is_ws_def quote_def\<close>)

lemma parse_elems_marshal:
  assumes "\<And>x f r. x \<in> set (y # ys) \<Longrightarrow> fuel_enough (marshal x @ r) \<le> f \<Longrightarrow> value_end r \<Longrightarrow>
      parse_value f (marshal x @ r) = Some (x, r)"
    and "Suc (fuel_enough (join '','' (map marshal (y # ys)) @ CHR '']'' # rest)) \<le> f"
  shows "parse_elems f (join '','' (map marshal (y # ys)) @ CHR '']'' # rest) = Some (y # ys, rest)"
  using assms
proof (induction ys arbitrary: y f)
  case Nil
  then obtain g where "f = Suc g" by (cases f) auto
  with Nil show ?case by simp
next
  case (Cons z zs)
  then obtain g where g: "f = Suc g" by (cases f) auto
  let ?r = "join '','' (map marshal (z # zs)) @ CHR '']'' # rest"
  have "parse_value g (marshal y @ CHR '','' # ?r) = Some (y, CHR '','' # ?r)"
    using Cons.prems g by (intro Cons.prems(1)) auto
  moreover have "parse_elems g ?r = Some (z # zs, rest)"
    using Cons.prems g by (intro Cons.IH) (auto simp: fuel_enough_def)
  ultimately show ?case by (simp add: g)
qed

abbreviation member_text :: "string \<times> json \<Rightarrow> string" where
  "member_text \<equiv> \<lambda>(k, v). quote k @ '':'' @ marshal v"

lemma parse_members_marshal:
  assumes "\<And>x f r. x \<in> snd ` set (y # ys) \<Longrightarrow> fuel_enough (marshal x @ r) \<le> f \<Longrightarrow> value_end r \<Longrightarrow>
      parse_value f (marshal x @ r) = Some (x, r)"
    and "fuel_enough (join '','' (map member_text (y # ys)) @ CHR ''}'' # rest) \<le> f"
  shows "parse_members f (join '','' (map member_text (y # ys)) @ CHR ''}'' # rest) =
    Some (y # ys, rest)"
  using assms
proof (induction ys arbitrary: y f)
  case Nil
  then obtain g where g: "f = Suc g" by (cases f) (auto simp: fuel_enough_def)
  obtain k v where y: "y = (k, v)" by (cases y)
  have "parse_value g (marshal v @ CHR ''}'' # rest) = Some (v, CHR ''}'' # rest)"
    using Nil g by (intro Nil(1)) (auto simp: y fuel_enough_def quote_def)
  with g y show ?case by (simp add: quote_def parse_str_body del: parse_str.simps)
next
  case (Cons z zs)
  then obtain g where g: "f = Suc g" by (cases f) (auto simp: fuel_enough_def)
  obtain k v where y: "y = (k, v)" by (cases y)
  let ?r = "join '','' (map member_text (z # zs)) @ CHR ''}'' # rest"
  have "parse_value g (marshal v @ CHR '','' # ?r) = Some (v, CHR '','' # ?r)"
    using Cons.prems g by (intro Cons.prems(1)) (auto simp: y fuel_enough_def quote_def)
  moreover have "parse_members g ?r = Some (z # zs, rest)"
    using Cons.prems g by (intro Cons.IH) (auto simp: y fuel_enough_def)
  ultimately show ?case
    using g y by (simp add: quote_def parse_str_body del: parse_str.simps)
qed

lemma parse_array_marshal:
  assumes "\<And>x f r. x \<in> set xs \<Longrightarrow> fuel_enough (marshal x @ r) \<le> f \<Longrightarrow> value_end r \<Longrightarrow>
      parse_value f (marshal x @ r) = Some (x, r)"
    and "json_ok (JArr xs)" and "fuel_enough (marshal (JArr xs) @ rest) \<le> Suc g"
  shows "parse_value (Suc g) (marshal (JArr xs) @ rest) = Some (JArr xs, rest)"
proof (cases xs)
  case Nil
  then show ?thesis by (simp add: is_digit_def)
next
  case (Cons y ys)
  let ?t = "join '','' (map marshal xs) @ CHR '']'' # rest"
  have "Suc (fuel_enough ?t) \<le> g" using assms(3) by (simp add: Cons fuel_enough_def)
  then have "parse_elems g ?t = Some (xs, rest)"
    using parse_elems_marshal [of y ys rest g] assms(1) unfolding Cons by blast
  moreover obtain c r where "marshal y = c # r" "\<not> is_ws c" "c \<noteq> CHR '']''"
    using marshal_head [of y thesis] assms(2) Cons by auto
  then obtain q where "?t = c # q" "\<not> is_ws c" "c \<noteq> CHR '']''"
    using Cons by (cases ys) auto
  ultimately show ?thesis by simp
qed

lemma parse_object_marshal:
  assumes "\<And>x f r. x \<in> snd ` set ms \<Longrightarrow> fuel_enough (marshal x @ r) \<le> f \<Longrightarrow> value_end r \<Longrightarrow>
      parse_value f (marshal x @ r) = Some (x, r)"
    and "fuel_enough (marshal (JObj ms) @ rest) \<le> Suc g"
  shows "parse_value (Suc g) (marshal (JObj ms) @ rest) = Some (JObj ms, rest)"
proof (cases ms)
  case Nil
  then show ?thesis by simp
next
  case (Cons y ys)
  let ?t = "join '','' (map member_text ms) @ CHR ''}'' # rest"
  have "fuel_enough ?t \<le> g" using assms(2) by (simp add: Cons fuel_enough_def)
  then have "parse_members g ?t = Some (ms, rest)"
    using parse_members_marshal [of y ys rest g] assms(1) unfolding Cons by blast
  moreover obtain r where "?t = quote_char # r"
    using Cons by (cases ys; cases y) (auto simp: quote_def)
  ultimately show ?thesis by simp
qed

lemma parse_value_marshal:
  "json_ok v \<Longrightarrow> fuel_enough (marshal v @ rest) \<le> f \<Longrightarrow> value_end rest \<Longrightarrow>
   parse_value f (marshal v @ rest) = Some (v, rest)"
proof (induction v arbitrary: f rest)
  case JNull
  then show ?case by (cases f) (auto simp: fuel_enough_def is_ws_def is_digit_def)
next
  case (JBool b)
  then show ?case by (cases f) (auto simp: fuel_enough_def is_ws_def is_digit_def)
next
  case (JNum lit)
  then obtain g where f: "f = Suc g" by (cases f) (auto simp: fuel_enough_def)
  obtain c r where c: "lit = c # r" "is_digit c \<or> c = CHR ''-''"
    using JNum valid_number_head by auto
  with f JNum value_end_num [of rest lit] num_head_facts [of c] show ?case
    by (simp add: Let_def del: takeWhile.simps dropWhile.simps)
next
  case (JStr s)
  then obtain g where f: "f = Suc g" by (cases f) (auto simp: fuel_enough_def)
  then show ?case by (simp add: quote_def parse_str_body del: parse_str.simps)
next
  case (JArr xs)
  then obtain g where f: "f = Suc g" by (cases f) (auto simp: fuel_enough_def)
  show ?case
    unfolding f by (rule parse_array_marshal) (use JArr f in auto)
next
  case (JObj ms)
  then obtain g where f: "f = Suc g" by (cases f) (auto simp: fuel_enough_def)
  show ?case
    unfolding f by (rule parse_object_marshal) (use JObj f in \<open>fastforce+\<close>)
qed

lemma parse_json_marshal: "json_ok v \<Longrightarrow> parse_json (marshal v) = Some v"
  using parse_value_marshal [of v "[]" "fuel_enough (marshal v)"] by (simp add: parse_json_def)

section \<open>Fuel\<close>

text \<open>Reading consumes input.\<close>

lemma skip_ws_length: "length (skip_ws s) \<le> length s"
  by (rule length_dropWhile_le)

lemma skip_ws_ConsD: "skip_ws s = c # r \<Longrightarrow> length r < length s"
  using skip_ws_length [of s] by simp

lemma parse_str_length: "parse_str s = Some (t, r) \<Longrightarrow> length r < length s"
proof (induction s arbitrary: t rule: parse_str.induct)
  case 1
  then show ?case by simp
next
  case (2 c s)
  consider "c = quote_char" | "c = backslash" | "c \<noteq> quote_char" "c \<noteq> backslash" by blast
  then show ?case
  proof cases
    case 1
    with "2.prems" show ?thesis by simp
  next
    case bs: 2
    with "2.prems" obtain e r' where s: "s = e # r'" by (cases s) auto
    show ?thesis
    proof (cases "e = CHR ''u''")
      case True
      with "2.prems" bs s obtain n r1 u where r1: "read_rune r' = Some (n, r1)"
          and u: "parse_str r1 = Some (u, r)"
        by (auto split: option.splits)
      have "length r < length r1" using "2.IH"(1) bs s True r1 u by simp
      with read_rune_length [OF r1] s show ?thesis by simp
    next
      case False
      with "2.prems" bs s obtain d u where "unesc e = Some d" and "parse_str r' = Some (u, r)"
        by (auto split: option.splits)
      then have "length r < length r'" using "2.IH"(2) bs s False by simp
      with s show ?thesis by simp
    qed
  next
    case 3
    with "2.prems" obtain u where "parse_str s = Some (u, r)" and "\<not> (of_char c :: nat) < 32"
      by (auto split: if_splits)
    with "2.IH"(3) 3 show ?thesis by fastforce
  qed
qed

lemma match_lit_length: "match_lit p s = Some r \<Longrightarrow> length r \<le> length s"
  by (induction p s rule: match_lit.induct) (auto split: if_splits)

lemma num_literal_length:
  assumes "is_digit c \<or> c = CHR ''-''"
  shows "length (dropWhile is_num_char (c # r)) < length (c # r)"
proof -
  have "is_num_char c" using assms by (auto simp: is_num_char_def)
  then show ?thesis using length_dropWhile_le [of is_num_char r] by (simp add: less_Suc_eq_le)
qed

lemma parse_length:
  "parse_value f s = Some (v, r) \<Longrightarrow> length r < length s"
  "parse_elems f s = Some (xs, r) \<Longrightarrow> length r < length s"
  "parse_members f s = Some (ms, r) \<Longrightarrow> length r < length s"
proof (induction f s and f s and f s arbitrary: v r and xs r and ms r
    rule: parse_value_parse_elems_parse_members.induct)
  case (2 f s)
  then obtain c q where c: "skip_ws s = c # q" by (auto split: list.splits)
  have q: "length q < length s" by (rule skip_ws_ConsD [OF c])
  have less: "length r < length s" if "length r < length q \<or> length r \<le> length q" using that q by auto
  show ?case
    using "2.prems" c q "2.IH"(1) "2.IH"(2) num_literal_length [of c q]
    by (auto simp: Let_def split: if_splits list.splits
        dest!: parse_str_length match_lit_length skip_ws_ConsD intro!: less)
      (use skip_ws_ConsD skip_ws_length in \<open>fastforce\<close>)+
next
  case (4 f s)
  then show ?case
    by (fastforce split: option.splits list.splits if_splits dest: skip_ws_ConsD)
next
  case (6 f s)
  then show ?case
    by (fastforce split: option.splits list.splits if_splits dest: skip_ws_ConsD parse_str_length)
qed auto

text \<open>From \<open>fuel_enough\<close> on, the amount of fuel does not change what is read.\<close>

lemma parse_value_fuel_step:
  assumes "\<And>t. length t < length s \<Longrightarrow> parse_elems f t = parse_elems g t"
    and "\<And>t. length t < length s \<Longrightarrow> parse_members f t = parse_members g t"
  shows "parse_value (Suc f) s = parse_value (Suc g) s"
proof (cases "skip_ws s")
  case Nil
  then show ?thesis by (simp del: dropWhile_eq_Nil_conv)
next
  case (Cons c r)
  have "parse_elems f t = parse_elems g t" and "parse_members f t = parse_members g t"
    if "skip_ws r = t" for t
    using assms [of t] skip_ws_ConsD [OF Cons] skip_ws_length [of r] that by simp_all
  with Cons show ?thesis
    by (cases "skip_ws r") (simp_all del: dropWhile_eq_Nil_conv)
qed

lemma parse_elems_fuel_step:
  assumes "parse_value f s = parse_value g s"
    and "\<And>t. length t < length s \<Longrightarrow> parse_elems f t = parse_elems g t"
  shows "parse_elems (Suc f) s = parse_elems (Suc g) s"
proof (cases "parse_value g s")
  case None
  with assms(1) show ?thesis by simp
next
  case (Some p)
  obtain x r where p: "p = (x, r)" by (cases p)
  have "parse_elems f t = parse_elems g t" if "skip_ws r = c # t" for c t
    using assms(2) [of t] parse_length(1) Some p skip_ws_ConsD [OF that] by fastforce
  with Some p assms(1) show ?thesis by (simp split: list.split del: dropWhile_eq_Nil_conv)
qed

lemma parse_members_fuel_step:
  assumes "\<And>t. length t < length s \<Longrightarrow> parse_value f t = parse_value g t"
    and "\<And>t. length t < length s \<Longrightarrow> parse_members f t = parse_members g t"
  shows "parse_members (Suc f) s = parse_members (Suc g) s"
proof (cases "\<exists>r0 k r1 c r2. skip_ws s = quote_char # r0 \<and> parse_str r0 = Some (k, r1) \<and>
    skip_ws r1 = c # r2")
  case True
  then obtain r0 k r1 c r2 where eqs: "skip_ws s = quote_char # r0" "parse_str r0 = Some (k, r1)"
      "skip_ws r1 = c # r2" by blast
  have r2: "length r2 < length s"
    using skip_ws_ConsD [OF eqs(1)] parse_str_length [OF eqs(2)] skip_ws_ConsD [OF eqs(3)] by simp
  have "parse_members f t = parse_members g t" if "parse_value g r2 = Some (v, r3)"
    "skip_ws r3 = d # t" for v r3 d t
    using assms(2) [of t] parse_length(1) [OF that(1)] skip_ws_ConsD [OF that(2)] r2 by simp
  with eqs assms(1) [OF r2] show ?thesis by (simp split: list.split option.split del: dropWhile_eq_Nil_conv)
next
  case False
  then show ?thesis by (auto split: list.split option.split simp del: dropWhile_eq_Nil_conv)
qed

lemma fuel_irrelevant:
  "(\<forall>f g. fuel_enough s \<le> f \<longrightarrow> fuel_enough s \<le> g \<longrightarrow> parse_value f s = parse_value g s) \<and>
   (\<forall>f g. fuel_enough s < f \<longrightarrow> fuel_enough s < g \<longrightarrow> parse_elems f s = parse_elems g s) \<and>
   (\<forall>f g. fuel_enough s \<le> f \<longrightarrow> fuel_enough s \<le> g \<longrightarrow> parse_members f s = parse_members g s)"
proof (induction "length s" arbitrary: s rule: less_induct)
  case less
  have val: "parse_value f s = parse_value g s" if fg: "fuel_enough s \<le> f" "fuel_enough s \<le> g" for f g
  proof -
    obtain f' g' where eqs: "f = Suc f'" "g = Suc g'"
      using fg by (cases f; cases g) (auto simp: fuel_enough_def)
    show ?thesis
      unfolding eqs using less fg
      by (intro parse_value_fuel_step) (auto simp: eqs fuel_enough_def)
  qed
  have "parse_elems f s = parse_elems g s" if fg: "fuel_enough s < f" "fuel_enough s < g" for f g
  proof -
    obtain f' g' where eqs: "f = Suc f'" "g = Suc g'"
      using fg by (cases f; cases g) (auto simp: fuel_enough_def)
    show ?thesis
      unfolding eqs using less fg val
      by (intro parse_elems_fuel_step) (auto simp: eqs fuel_enough_def)
  qed
  moreover have "parse_members f s = parse_members g s"
    if fg: "fuel_enough s \<le> f" "fuel_enough s \<le> g" for f g
  proof -
    obtain f' g' where eqs: "f = Suc f'" "g = Suc g'"
      using fg by (cases f; cases g) (auto simp: fuel_enough_def)
    show ?thesis
      unfolding eqs using less fg
      by (intro parse_members_fuel_step) (auto simp: eqs fuel_enough_def)
  qed
  ultimately show ?case using val by blast
qed

section \<open>Decoding into Go types\<close>

text \<open>A document up to the way it is written: later duplicates win, numbers stay literals.\<close>

fun canonical :: "json \<Rightarrow> json" where
  "canonical (JArr xs) = JArr (map canonical xs)"
| "canonical (JObj ms) = JObj (gm_of_list (map (\<lambda>(k, v). (k, canonical v)) ms))"
| "canonical v = v"

text \<open>
  The Go value of type \<open>any\<close> of a tree: every object becomes a map, later duplicates
  winning, and every number a \<open>float64\<close>, written here as \<open>Marshal\<close> prints it. There is none
  when a number is out of range.
\<close>

fun decode_any :: "json \<Rightarrow> json option" where
  "decode_any (JNum lit) = map_option JNum (float_text lit)"
| "decode_any (JArr xs) = map_option JArr (those (map decode_any xs))"
| "decode_any (JObj ms) =
     map_option (\<lambda>vs. JObj (gm_of_list (zip (map fst ms) vs)))
       (those (map (\<lambda>m. decode_any (snd m)) ms))"
| "decode_any v = Some v"

text \<open>The trees that are such Go values.\<close>

fun go_value :: "json \<Rightarrow> bool" where
  "go_value (JNum lit) = (valid_number lit \<and> list_all is_num_char lit \<and> float_text lit = Some lit)"
| "go_value (JArr xs) = (\<forall>x \<in> set xs. go_value x)"
| "go_value (JObj ms) = (gm_wf ms \<and> (\<forall>e \<in> set ms. go_value (snd e)))"
| "go_value _ = True"

lemma go_value_json_ok: "go_value v \<Longrightarrow> json_ok v"
  by (induction v) auto

lemma those_map_Some: "(\<And>x. x \<in> set xs \<Longrightarrow> f x = Some (g x)) \<Longrightarrow> those (map f xs) = Some (map g xs)"
  by (induction xs) auto

lemma decode_any_go_value: "go_value v \<Longrightarrow> decode_any v = Some v"
proof (induction v)
  case (JArr xs)
  then show ?case by (simp add: those_map_Some [where g = "\<lambda>x. x"])
next
  case (JObj ms)
  then have "those (map (\<lambda>m. decode_any (snd m)) ms) = Some (map snd ms)"
    by (intro those_map_Some) fastforce
  with JObj.prems show ?case by (simp add: zip_map_fst_snd gm_of_list_id)
qed auto

text \<open>An integer above \<open>2 ^ 53\<close> may come out as another one.\<close>

lemma integer_above_2_53_rounded:
  "decode_any (JNum ''9007199254740993'') = Some (JNum ''9007199254740992'')"
proof -
  have "float_text ''9007199254740993'' = Some ''9007199254740992''" by code_simp
  then show ?thesis by simp
qed

definition unmarshal_error :: goerror where
  "unmarshal_error = Err ''json: cannot unmarshal''"

definition syntax_error :: goerror where
  "syntax_error = Err ''json: invalid syntax''"

text \<open>\<open>json.Unmarshal(data, &m)\<close> for \<open>m\<close> of type \<open>map[string]any\<close>; null is the nil map.\<close>

definition unmarshal_object :: "string \<Rightarrow> (string, json) gomap option res" where
  "unmarshal_object data =
     (case parse_json data of
        None \<Rightarrow> Inl syntax_error
      | Some v \<Rightarrow>
          (case decode_any v of
             Some (JObj ms) \<Rightarrow> Inr (Some ms)
           | Some JNull \<Rightarrow> Inr None
           | _ \<Rightarrow> Inl unmarshal_error))"

text \<open>A \<open>map[string]string\<close>; a null entry is the empty string.\<close>

definition decode_str :: "json \<Rightarrow> string res" where
  "decode_str v = (case v of JStr s \<Rightarrow> Inr s | JNull \<Rightarrow> Inr [] | _ \<Rightarrow> Inl unmarshal_error)"

primrec decode_entries :: "(json \<Rightarrow> 'a res) \<Rightarrow> (string \<times> json) list \<Rightarrow> (string \<times> 'a) list res" where
  "decode_entries dec [] = Inr []"
| "decode_entries dec (m # ms) =
     (case (dec (snd m), decode_entries dec ms) of
        (Inl e, _) \<Rightarrow> Inl e
      | (_, Inl e) \<Rightarrow> Inl e
      | (Inr x, Inr xs) \<Rightarrow> Inr ((fst m, x) # xs))"

definition decode_map :: "(json \<Rightarrow> 'a res) \<Rightarrow> json \<Rightarrow> (string, 'a) gomap option res" where
  "decode_map dec v =
     (case v of
        JNull \<Rightarrow> Inr None
      | JObj ms \<Rightarrow> map_sum id (\<lambda>es. Some (gm_of_list es)) (decode_entries dec ms)
      | _ \<Rightarrow> Inl unmarshal_error)"

text \<open>The text of an object whose entries have a JSON form.\<close>

definition encode_map :: "('a \<Rightarrow> json) \<Rightarrow> (string, 'a) gomap \<Rightarrow> json" where
  "encode_map enc m = JObj (map (\<lambda>(k, v). (k, enc v)) m)"

lemma decode_entries_encode:
  "(\<And>x. x \<in> snd ` set es \<Longrightarrow> dec (enc x) = Inr x) \<Longrightarrow>
   decode_entries dec (map (\<lambda>(k, v). (k, enc v)) es) = Inr es"
  by (induction es) (auto split: sum.splits)

lemma decode_encode_map:
  assumes "gm_wf m" and "\<And>x. x \<in> snd ` set m \<Longrightarrow> dec (enc x) = Inr x"
  shows "decode_map dec (encode_map enc m) = Inr (Some m)"
  using decode_entries_encode [of m dec enc] assms
  by (simp add: decode_map_def encode_map_def gm_of_list_id)

text \<open>An object survives marshalling and unmarshalling.\<close>

lemma unmarshal_marshal_object:
  "go_value (JObj ms) \<Longrightarrow> unmarshal_object (marshal (JObj ms)) = Inr (Some ms)"
  using decode_any_go_value [of "JObj ms"] go_value_json_ok [of "JObj ms"]
  by (simp add: unmarshal_object_def parse_json_marshal del: decode_any.simps json_ok.simps
      go_value.simps marshal.simps)

end
