(* ===== verification/Patcher.thy ===== *)
theory Patcher
  imports Json
begin

text \<open>
  \<open>internal/patcher/patcher.go\<close>: a JSON 6902 patch given as YAML, applied to a JSON
  document. The patch engine (\<open>github.com/evanphx/json-patch/v5\<close>) and the YAML
  converter (\<open>sigs.k8s.io/yaml\<close>) are not part of the repository: their functions are
  the fields of \<open>patch_lib\<close>, and \<open>'p\<close> is the type of a decoded patch.
\<close>

record ApplyOptions =
  EnsurePathExistsOnAdd :: bool
  AllowMissingPathOnRemove :: bool

record 'p patch_lib =
  YAMLToJSON :: "string \<Rightarrow> string res"
  DecodePatch :: "string \<Rightarrow> 'p res"
  ApplyWithOptions :: "'p \<Rightarrow> string \<Rightarrow> ApplyOptions \<Rightarrow> string res"
  JsonEqual :: "string \<Rightarrow> string \<Rightarrow> bool"
  CreateMergePatch :: "string \<Rightarrow> string \<Rightarrow> string res"
  MergePatch :: "string \<Rightarrow> string \<Rightarrow> string res"

record 'p Patcher =
  patcher_patch :: 'p

definition Exec :: "'p patch_lib \<Rightarrow> 'p Patcher \<Rightarrow> string \<Rightarrow> string res" where
  "Exec lib p original =
     ApplyWithOptions lib (patcher_patch p) original
       \<lparr>EnsurePathExistsOnAdd = True, AllowMissingPathOnRemove = True\<rparr>"

definition IsResourceChanged :: "'p patch_lib \<Rightarrow> 'p Patcher \<Rightarrow> string \<Rightarrow> bool res" where
  "IsResourceChanged lib p original =
     (case Exec lib p original of
        Inl e \<Rightarrow> Inl e
      | Inr modified \<Rightarrow> Inr (\<not> JsonEqual lib original modified))"

definition New :: "'p patch_lib \<Rightarrow> string \<Rightarrow> 'p Patcher res" where
  "New lib patchToApply =
     (case YAMLToJSON lib patchToApply of
        Inl e \<Rightarrow> Inl e
      | Inr jsonPatchToApply \<Rightarrow>
          (case DecodePatch lib jsonPatchToApply of
             Inl e \<Rightarrow> Inl e
           | Inr p \<Rightarrow> Inr \<lparr>patcher_patch = p\<rparr>))"

section \<open>Documents\<close>

text \<open>Two texts are the same document when they differ only in the way they are written.\<close>

definition same_doc :: "string \<Rightarrow> string \<Rightarrow> bool" where
  "same_doc a b =
     (case (parse_json a, parse_json b) of
        (Some v, Some w) \<Rightarrow> canonical v = canonical w
      | _ \<Rightarrow> False)"

text \<open>
  The documented contract of the engine at two documents: the merge patch created from
  \<open>a\<close> to \<open>b\<close> turns \<open>a\<close> into a document that is decoded as \<open>b\<close>. (RFC 7396 grants it for
  documents without null members, so it is a hypothesis about the documents at hand.)
\<close>

definition merge_inverts :: "'p patch_lib \<Rightarrow> string \<Rightarrow> string \<Rightarrow> bool" where
  "merge_inverts lib a b =
     (\<forall>p. CreateMergePatch lib a b = Inr p \<longrightarrow>
        (\<exists>c. MergePatch lib a p = Inr c \<and> unmarshal_object c = unmarshal_object b))"

lemma New_Inr_iff:
  "New lib s = Inr p \<longleftrightarrow>
   (\<exists>j. YAMLToJSON lib s = Inr j \<and> DecodePatch lib j = Inr (patcher_patch p))"
  by (cases p) (auto simp: New_def split: sum.splits)

end
