(* ===== verification/Go_Time.thy ===== *)
theory Go_Time
  imports Prelude
begin

text \<open>
  The fragment of Go's \<open>time\<close> package that the scheduler and the secret use: instants
  with a location, 64-bit durations with their wrap-around and saturation, and the
  RFC 3339 text of an instant. Times are read by the wall clock: every comparison of the
  program has at least one operand without a monotonic reading.
\<close>

section \<open>Durations\<close>

text \<open>\<open>time.Duration\<close> is an \<open>int64\<close> of nanoseconds.\<close>

type_synonym i64 = "64 word"
type_synonym duration = i64

definition Second :: duration where
  "Second = 1000000000"

text \<open>\<open>Duration.Milliseconds()\<close>: integer division truncating toward zero.\<close>

definition Milliseconds :: "duration \<Rightarrow> int" where
  "Milliseconds d = sint d sdiv 1000000"

definition max_duration :: int where "max_duration = 9223372036854775807"
definition min_duration :: int where "min_duration = - 9223372036854775808"

lemma sint_of_int_duration:
  "min_duration \<le> i \<Longrightarrow> i \<le> max_duration \<Longrightarrow> sint (word_of_int i :: duration) = i"
  by (simp add: min_duration_def max_duration_def sint_sbintrunc' signed_take_bit_int_eq_self)

section \<open>Instants\<close>

text \<open>
  \<open>time.Time\<close>: the nanoseconds since 1 January of year 1, 00:00:00 UTC (Go's zero time),
  and the location the time is presented in. The location changes how a time is printed
  and what a cron schedule without a time zone makes of it, never how it compares.
\<close>

datatype location = UTC | Local | FixedZone int

record gotime =
  t_ns :: int
  t_loc :: location

definition zero_time :: gotime where
  "zero_time = \<lparr>t_ns = 0, t_loc = UTC\<rparr>"

definition IsZero :: "gotime \<Rightarrow> bool" where
  "IsZero t = (t_ns t = 0)"

definition time_Equal :: "gotime \<Rightarrow> gotime \<Rightarrow> bool" where
  "time_Equal t u = (t_ns t = t_ns u)"

definition time_Before :: "gotime \<Rightarrow> gotime \<Rightarrow> bool" where
  "time_Before t u = (t_ns t < t_ns u)"

definition time_Add :: "gotime \<Rightarrow> duration \<Rightarrow> gotime" where
  "time_Add t d = t\<lparr>t_ns := t_ns t + sint d\<rparr>"

text \<open>\<open>t.Sub(u)\<close> saturates at the ends of the duration range.\<close>

definition time_Sub :: "gotime \<Rightarrow> gotime \<Rightarrow> duration" where
  "time_Sub t u = word_of_int (max min_duration (min max_duration (t_ns t - t_ns u)))"

lemma sint_time_Sub: "sint (time_Sub t u) = max min_duration (min max_duration (t_ns t - t_ns u))"
  unfolding time_Sub_def
  by (rule sint_of_int_duration) (simp_all add: min_duration_def max_duration_def)

section \<open>The civil calendar\<close>

text \<open>
  Days are counted from 1 January of year 1. A date is the year, the month (from 1) and
  the day of the month (from 1), in the proleptic Gregorian calendar.
\<close>

definition is_leap :: "int \<Rightarrow> bool" where
  "is_leap y = (y mod 4 = 0 \<and> (y mod 100 \<noteq> 0 \<or> y mod 400 = 0))"

definition days_before_year :: "int \<Rightarrow> int" where
  "days_before_year y = 365 * (y - 1) + (y - 1) div 4 - (y - 1) div 100 + (y - 1) div 400"

definition month_lengths :: "bool \<Rightarrow> int list" where
  "month_lengths leap = [31, if leap then 29 else 28, 31, 30, 31, 30, 31, 31, 30, 31, 30, 31]"

text \<open>The month that holds a day of the year (counted from 0), and the day in it.\<close>

fun split_yday :: "int list \<Rightarrow> int \<Rightarrow> int \<Rightarrow> int \<times> int" where
  "split_yday [] m d = (m, d + 1)"
| "split_yday (l # ls) m d = (if d < l then (m, d + 1) else split_yday ls (m + 1) (d - l))"

definition civil_of_days :: "int \<Rightarrow> int \<times> int \<times> int" where
  "civil_of_days d =
     (let n400 = d div 146097; r400 = d mod 146097;
          n100 = min 3 (r400 div 36524); r100 = r400 - n100 * 36524;
          n4 = r100 div 1461; r4 = r100 mod 1461;
          n1 = min 3 (r4 div 365); yday = r4 - n1 * 365;
          year = n400 * 400 + n100 * 100 + n4 * 4 + n1 + 1
      in (year, split_yday (month_lengths (is_leap year)) 1 yday))"

definition days_of_civil :: "int \<Rightarrow> int \<Rightarrow> int \<Rightarrow> int" where
  "days_of_civil y m d =
     days_before_year y + sum_list (take (nat (m - 1)) (month_lengths (is_leap y))) + (d - 1)"

lemma split_yday_spec:
  assumes "0 \<le> d" and "d < sum_list ls" and "split_yday ls m d = (m', d')"
  shows "m \<le> m' \<and> m' < m + int (length ls) \<and> 1 \<le> d' \<and> d' \<le> ls ! nat (m' - m) \<and>
    sum_list (take (nat (m' - m)) ls) + (d' - 1) = d"
  using assms
proof (induction ls m d rule: split_yday.induct)
  case (1 m d)
  then show ?case by simp
next
  case (2 l ls m d)
  show ?case
  proof (cases "d < l")
    case True
    with 2 show ?thesis by auto
  next
    case False
    then have "m + 1 \<le> m' \<and> m' < m + 1 + int (length ls) \<and> 1 \<le> d' \<and>
        d' \<le> ls ! nat (m' - (m + 1)) \<and> sum_list (take (nat (m' - (m + 1))) ls) + (d' - 1) = d - l"
      using 2 by simp
    moreover from this have "nat (m' - m) = Suc (nat (m' - (m + 1)))" by linarith
    ultimately show ?thesis by simp
  qed
qed

lemma year_shape:
  fixes a b c e :: int
  assumes "0 \<le> b" "b \<le> 3" "0 \<le> c" "c \<le> 24" "0 \<le> e" "e \<le> 3"
  shows "(400 * a + 100 * b + 4 * c + e) div 4 = 100 * a + 25 * b + c"
    and "(400 * a + 100 * b + 4 * c + e) div 100 = 4 * a + b"
    and "(400 * a + 100 * b + 4 * c + e) div 400 = a"
proof -
  show "(400 * a + 100 * b + 4 * c + e) div 4 = 100 * a + 25 * b + c"
    by (rule int_div_pos_eq [where r = e]) (use assms in simp_all)
  show "(400 * a + 100 * b + 4 * c + e) div 100 = 4 * a + b"
    by (rule int_div_pos_eq [where r = "4 * c + e"]) (use assms in simp_all)
  show "(400 * a + 100 * b + 4 * c + e) div 400 = a"
    by (rule int_div_pos_eq [where r = "100 * b + 4 * c + e"]) (use assms in simp_all)
qed

text \<open>The last year of a cycle of four is a leap year, unless it ends a century that is not a fourth one.\<close>

lemma leap_shape:
  fixes a b c :: int
  assumes "0 \<le> c" and "c \<le> 24" and "c = 24 \<longrightarrow> b = 3"
  shows "is_leap (400 * a + 100 * b + 4 * c + 4)"
proof (cases "c = 24")
  case True
  with assms have "400 * a + 100 * b + 4 * c + 4 = 400 * (a + 1)" by simp
  then show ?thesis unfolding is_leap_def by presburger
next
  case False
  then have "(400 * a + 100 * b + 4 * c + 4) mod 100 = 4 * (c + 1)"
    by (intro int_mod_pos_eq [where q = "4 * a + b"]) (use assms in simp_all)
  moreover have "(400 * a + 100 * b + 4 * c + 4) mod 4 = 0" by presburger
  ultimately show ?thesis using assms False by (simp add: is_leap_def)
qed

lemma civil_of_days_year:
  assumes "civil_of_days n = (y, m, d)"
  shows "\<exists>yday. 0 \<le> yday \<and> yday < (if is_leap y then 366 else 365) \<and>
    n = days_before_year y + yday \<and> split_yday (month_lengths (is_leap y)) 1 yday = (m, d)"
proof -
  define a where "a = n div 146097"
  define r where "r = n mod 146097"
  define b where "b = min 3 (r div 36524)"
  define r1 where "r1 = r - b * 36524"
  define c where "c = r1 div 1461"
  define r2 where "r2 = r1 mod 1461"
  define e where "e = min 3 (r2 div 365)"
  define yday where "yday = r2 - e * 365"
  have y: "y = 400 * a + 100 * b + 4 * c + e + 1"
    and sp: "split_yday (month_lengths (is_leap y)) 1 yday = (m, d)"
    using assms
    unfolding civil_of_days_def Let_def a_def [symmetric] r_def [symmetric] b_def [symmetric]
      r1_def [symmetric] c_def [symmetric] r2_def [symmetric] e_def [symmetric]
      yday_def [symmetric]
    by (auto simp: mult.commute)
  have r: "0 \<le> r" "r < 146097" "n = a * 146097 + r" by (simp_all add: r_def a_def)
  have b: "0 \<le> b" "b \<le> 3" "0 \<le> r1" "b < 3 \<longrightarrow> r1 < 36524" "r1 \<le> 36524"
    using r by (auto simp: b_def r1_def min_def split: if_splits)
  have c: "0 \<le> c" "c \<le> 24" "c = 24 \<longrightarrow> r1 < 36524 \<longrightarrow> r2 < 1460"
    "0 \<le> r2" "r2 < 1461" "r1 = c * 1461 + r2"
    using b by (auto simp: c_def r2_def) presburger+
  have e: "0 \<le> e" "e \<le> 3" "0 \<le> yday" "e < 3 \<longrightarrow> yday < 365" "yday \<le> 365"
    using c by (auto simp: e_def yday_def min_def split: if_splits)
  note shape = year_shape [OF b(1,2) c(1,2) e(1,2), of a]
  have n: "n = days_before_year y + yday"
    using r(3) c(6) shape by (simp add: days_before_year_def y r1_def yday_def algebra_simps)
  have "is_leap y" if "yday = 365"
  proof -
    have "e = 3" and "r2 = 1460" using e that by (auto simp: yday_def)
    with b c have "c = 24 \<longrightarrow> b = 3" by auto
    with leap_shape [OF c(1,2), of b a] show ?thesis using y \<open>e = 3\<close> by (simp add: ac_simps)
  qed
  then have "yday < (if is_leap y then 366 else 365)" using e(5) by (cases "yday = 365") auto
  with n sp e(3) show ?thesis by blast
qed

text \<open>Converting a day number to a date and back is the identity.\<close>

lemma days_of_civil_of_days:
  assumes "civil_of_days n = (y, m, d)"
  shows "days_of_civil y m d = n" and "1 \<le> m" and "m \<le> 12" and "1 \<le> d"
    and "d \<le> month_lengths (is_leap y) ! nat (m - 1)"
proof -
  obtain yday where yd: "0 \<le> yday" "yday < (if is_leap y then 366 else 365)"
      "n = days_before_year y + yday" "split_yday (month_lengths (is_leap y)) 1 yday = (m, d)"
    using civil_of_days_year [OF assms] by blast
  have "yday < sum_list (month_lengths (is_leap y))"
    using yd(2) by (simp add: month_lengths_def split: if_splits)
  from split_yday_spec [OF yd(1) this yd(4)] yd(3)
  show "days_of_civil y m d = n" and "1 \<le> m" and "m \<le> 12" and "1 \<le> d"
    and "d \<le> month_lengths (is_leap y) ! nat (m - 1)"
    by (simp_all add: days_of_civil_def month_lengths_def)
qed

section \<open>RFC 3339\<close>

text \<open>
  \<open>t.Format(time.RFC3339)\<close> and \<open>time.Parse(time.RFC3339, s)\<close>. The offset of \<open>Local\<close>
  from UTC, in seconds, at an instant is a property of the host and of the time zone
  database: the parameter \<open>tz\<close>, over the nanoseconds of the instant.
\<close>

type_synonym tzdata = "int \<Rightarrow> int"

definition pad2 :: "int \<Rightarrow> string" where
  "pad2 n = [digit_char (nat n div 10), digit_char (nat n mod 10)]"

definition pad4 :: "int \<Rightarrow> string" where
  "pad4 n = [digit_char (nat n div 1000), digit_char (nat n div 100 mod 10),
             digit_char (nat n div 10 mod 10), digit_char (nat n mod 10)]"

definition zone_offset :: "tzdata \<Rightarrow> gotime \<Rightarrow> int" where
  "zone_offset tz t = (case t_loc t of UTC \<Rightarrow> 0 | Local \<Rightarrow> tz (t_ns t) | FixedZone off \<Rightarrow> off)"

definition zone_text :: "int \<Rightarrow> string" where
  "zone_text off =
     (if off = 0 then ''Z''
      else let mins = \<bar>off\<bar> div 60 in
        (if off < 0 then CHR ''-'' else CHR ''+'') # pad2 (mins div 60) @ '':'' @ pad2 (mins mod 60))"

text \<open>The text of a time whose local year has four digits.\<close>

definition format_RFC3339 :: "tzdata \<Rightarrow> gotime \<Rightarrow> string" where
  "format_RFC3339 tz t =
     (let off = zone_offset tz t;
          secs = t_ns t div 1000000000 + off;
          (y, m, d) = civil_of_days (secs div 86400);
          s = secs mod 86400
      in pad4 y @ ''-'' @ pad2 m @ ''-'' @ pad2 d @ ''T'' @ pad2 (s div 3600) @ '':'' @
         pad2 (s div 60 mod 60) @ '':'' @ pad2 (s mod 60) @ zone_text off)"

text \<open>A fixed-width decimal field of the text, between two bounds.\<close>

definition parse_uint :: "string \<Rightarrow> int \<Rightarrow> int \<Rightarrow> int option" where
  "parse_uint s lo hi =
     (let n = int (digits_val s) in
      if list_all is_digit s \<and> lo \<le> n \<and> n \<le> hi then Some n else None)"

text \<open>
  The optional fraction of a second: a dot and digits, of which the first nine count; the
  nanoseconds and the rest of the text.
\<close>

definition parse_fraction :: "string \<Rightarrow> int \<times> string" where
  "parse_fraction s =
     (case s of
        c # r \<Rightarrow>
          (let ds = takeWhile is_digit r; f = take 9 ds in
           if c = CHR ''.'' \<and> ds \<noteq> []
           then (int (digits_val f) * 10 ^ (9 - length f), dropWhile is_digit r)
           else (0, s))
      | [] \<Rightarrow> (0, s))"

definition parse_zone :: "tzdata \<Rightarrow> int \<Rightarrow> string \<Rightarrow> gotime option" where
  "parse_zone tz ns z =
     (if z = ''Z'' then Some \<lparr>t_ns = ns, t_loc = UTC\<rparr>
      else case z of
        [sg, h1, h2, c, m1, m2] \<Rightarrow>
          (case (parse_uint [h1, h2] 0 23, parse_uint [m1, m2] 0 59) of
             (Some hr, Some mm) \<Rightarrow>
               if (sg = CHR ''-'' \<or> sg = CHR ''+'') \<and> c = CHR '':'' then
                 (let off = (if sg = CHR ''-'' then - 1 else 1) * ((hr * 60 + mm) * 60);
                      u = ns - off * 1000000000
                  in Some \<lparr>t_ns = u, t_loc = (if tz u = off then Local else FixedZone off)\<rparr>)
               else None
           | _ \<Rightarrow> None)
      | _ \<Rightarrow> None)"

text \<open>
  The strict RFC 3339 parser of the package. Its lenient fallback accepts a few more
  texts (a one-digit hour, a comma before the fraction), which nothing in the program
  writes.
\<close>

definition parse_RFC3339 :: "tzdata \<Rightarrow> string \<Rightarrow> gotime option" where
  "parse_RFC3339 tz s =
     (if length s < 19 then None
      else case (parse_uint (take 4 s) 0 9999, parse_uint (take 2 (drop 5 s)) 1 12) of
        (Some y, Some m) \<Rightarrow>
          (case (parse_uint (take 2 (drop 8 s)) 1 (month_lengths (is_leap y) ! nat (m - 1)),
                 parse_uint (take 2 (drop 11 s)) 0 23, parse_uint (take 2 (drop 14 s)) 0 59,
                 parse_uint (take 2 (drop 17 s)) 0 59) of
             (Some d, Some hh, Some mi, Some ss) \<Rightarrow>
               if s ! 4 = CHR ''-'' \<and> s ! 7 = CHR ''-'' \<and> s ! 10 = CHR ''T'' \<and>
                  s ! 13 = CHR '':'' \<and> s ! 16 = CHR '':''
               then (let (ns, z) = parse_fraction (drop 19 s)
                     in parse_zone tz
                          ((days_of_civil y m d * 86400 + hh * 3600 + mi * 60 + ss) * 1000000000 + ns) z)
               else None
           | _ \<Rightarrow> None)
      | _ \<Rightarrow> None)"

lemma parse_uint_pad2:
  assumes "lo \<le> n" and "n \<le> hi" and "0 \<le> n" and "n < 100"
  shows "parse_uint (pad2 n) lo hi = Some n"
proof -
  have "int (digits_val (pad2 n)) = n"
    using assms by (simp add: pad2_def digits_val_def)
  with assms show ?thesis by (simp add: parse_uint_def Let_def pad2_def)
qed

lemma digits4_sum:
  "k = 10 * a + r0 \<Longrightarrow> a = 10 * b + r1 \<Longrightarrow> b = 10 * c + r2 \<Longrightarrow>
   1000 * c + 100 * r2 + r1 * 10 + r0 = (k :: nat)"
  by simp

lemma clock_sum:
  "s = a * 60 + ss \<Longrightarrow> a = h * 60 + mi \<Longrightarrow> h * 3600 + mi * 60 + ss = (s :: int)"
  by simp

lemma parse_uint_pad4:
  assumes "0 \<le> n" and "n \<le> 9999"
  shows "parse_uint (pad4 n) 0 9999 = Some n"
proof -
  obtain k where k: "n = int k" using assms(1) by (metis nonneg_int_cases)
  have "k div 100 = k div 10 div 10" and "k div 1000 = k div 10 div 10 div 10"
    by (simp_all add: div_mult2_eq [symmetric])
  then have "1000 * (k div 1000) + 100 * (k div 100 mod 10) + k div 10 mod 10 * 10 + k mod 10 = k"
    using digits4_sum [of k "k div 10" "k mod 10" "k div 10 div 10" "k div 10 mod 10"
        "k div 10 div 10 div 10" "k div 10 div 10 mod 10"] by simp
  then have "digits_val (pad4 n) = k"
    using assms(2) k by (simp add: pad4_def digits_val_def)
  with assms k show ?thesis by (simp add: parse_uint_def Let_def pad4_def)
qed

text \<open>The instant a printed time denotes: whole seconds, in the zone that was printed.\<close>

definition truncated :: "tzdata \<Rightarrow> gotime \<Rightarrow> gotime" where
  "truncated tz t =
     (let ns = t_ns t div 1000000000 * 1000000000; off = zone_offset tz t
      in \<lparr>t_ns = ns,
         t_loc = (if off = 0 then UTC else if tz ns = off then Local else FixedZone off)\<rparr>)"

text \<open>
  The times whose text is faithful: a zone of whole minutes less than a day from UTC, and
  a local year between 0 and 9999.
\<close>

definition printable :: "tzdata \<Rightarrow> gotime \<Rightarrow> bool" where
  "printable tz t =
     (let off = zone_offset tz t;
          y = fst (civil_of_days ((t_ns t div 1000000000 + off) div 86400))
      in off mod 60 = 0 \<and> \<bar>off\<bar> < 86400 \<and> 0 \<le> y \<and> y \<le> 9999)"

lemma zone_text_parse:
  assumes "off mod 60 = 0" and "\<bar>off\<bar> < 86400"
  shows "parse_fraction (zone_text off) = (0, zone_text off)"
    and "parse_zone tz ns (zone_text off) =
      Some \<lparr>t_ns = ns - off * 1000000000,
            t_loc = (if off = 0 then UTC
                     else if tz (ns - off * 1000000000) = off then Local else FixedZone off)\<rparr>"
proof -
  define mins where "mins = \<bar>off\<bar> div 60"
  have mins: "0 \<le> mins" "mins < 1440" "off = sgn off * (mins * 60)"
    using assms by (auto simp: mins_def sgn_if abs_if split: if_splits)
  show "parse_fraction (zone_text off) = (0, zone_text off)"
    by (simp add: parse_fraction_def zone_text_def Let_def)
  have hr: "parse_uint (pad2 (mins div 60)) 0 23 = Some (mins div 60)"
    and mm: "parse_uint (pad2 (mins mod 60)) 0 59 = Some (mins mod 60)"
    using mins by (auto intro!: parse_uint_pad2) (simp add: order_less_trans [of _ 60 100])?
  have sum: "(mins div 60 * 60 + mins mod 60) * 60 = mins * 60" by simp
  show "parse_zone tz ns (zone_text off) =
      Some \<lparr>t_ns = ns - off * 1000000000,
            t_loc = (if off = 0 then UTC
                     else if tz (ns - off * 1000000000) = off then Local else FixedZone off)\<rparr>"
  proof (cases "off = 0")
    case True
    then show ?thesis by (simp add: zone_text_def parse_zone_def)
  next
    case False
    then have off: "off = (if off < 0 then - 1 else 1) * (mins * 60)"
      using mins(3) by (auto simp: sgn_if split: if_splits)
    have "parse_zone tz ns (zone_text off) =
        (let o2 = (if off < 0 then - 1 else 1) * (mins * 60); u = ns - o2 * 1000000000
         in Some \<lparr>t_ns = u, t_loc = (if tz u = o2 then Local else FixedZone o2)\<rparr>)"
      using False hr mm sum
      by (simp add: zone_text_def parse_zone_def Let_def mins_def [symmetric] pad2_def)
    with off False show ?thesis by (simp add: Let_def)
  qed
qed

lemma parse_RFC3339_fields:
  assumes "0 \<le> y" "y \<le> 9999" "1 \<le> m" "m \<le> 12"
    and "1 \<le> d" "d \<le> month_lengths (is_leap y) ! nat (m - 1)"
    and "0 \<le> hh" "hh \<le> 23" "0 \<le> mi" "mi \<le> 59" "0 \<le> ss" "ss \<le> 59"
    and zone: "parse_fraction z = (0, z)"
  shows "parse_RFC3339 tz (pad4 y @ ''-'' @ pad2 m @ ''-'' @ pad2 d @ ''T'' @ pad2 hh @ '':'' @
      pad2 mi @ '':'' @ pad2 ss @ z) =
    parse_zone tz ((days_of_civil y m d * 86400 + hh * 3600 + mi * 60 + ss) * 1000000000) z"
proof -
  let ?s = "pad4 y @ ''-'' @ pad2 m @ ''-'' @ pad2 d @ ''T'' @ pad2 hh @ '':'' @
      pad2 mi @ '':'' @ pad2 ss @ z"
  have "month_lengths (is_leap y) ! nat (m - 1) \<in> set (month_lengths (is_leap y))"
    using assms(3,4) by (intro nth_mem) (simp add: month_lengths_def)
  then have d: "d < 100" using assms(6) by (auto simp: month_lengths_def split: if_splits)
  have fields: "take 4 ?s = pad4 y" "take 2 (drop 5 ?s) = pad2 m" "take 2 (drop 8 ?s) = pad2 d"
      "take 2 (drop 11 ?s) = pad2 hh" "take 2 (drop 14 ?s) = pad2 mi" "take 2 (drop 17 ?s) = pad2 ss"
      "drop 19 ?s = z"
    and seps: "?s ! 4 = CHR ''-''" "?s ! 7 = CHR ''-''" "?s ! 10 = CHR ''T''" "?s ! 13 = CHR '':''"
      "?s ! 16 = CHR '':''" and len: "\<not> length ?s < 19"
    by (simp_all add: pad4_def pad2_def)
  have nums: "parse_uint (pad4 y) 0 9999 = Some y" "parse_uint (pad2 m) 1 12 = Some m"
      "parse_uint (pad2 d) 1 (month_lengths (is_leap y) ! nat (m - 1)) = Some d"
      "parse_uint (pad2 hh) 0 23 = Some hh" "parse_uint (pad2 mi) 0 59 = Some mi"
      "parse_uint (pad2 ss) 0 59 = Some ss"
    using assms d by (auto intro!: parse_uint_pad4 parse_uint_pad2)
  show ?thesis
    unfolding parse_RFC3339_def fields using seps len nums zone by simp
qed

text \<open>A printable time is read back as the same instant, cut to whole seconds.\<close>

lemma parse_format_RFC3339:
  assumes "printable tz t"
  shows "parse_RFC3339 tz (format_RFC3339 tz t) = Some (truncated tz t)"
proof -
  define off where "off = zone_offset tz t"
  define secs where "secs = t_ns t div 1000000000 + off"
  define s where "s = secs mod 86400"
  obtain y m d where civil: "civil_of_days (secs div 86400) = (y, m, d)"
    by (metis prod_cases3)
  have off: "off mod 60 = 0" "\<bar>off\<bar> < 86400" and y: "0 \<le> y" "y \<le> 9999"
    using assms civil by (simp_all add: printable_def Let_def off_def [symmetric] secs_def [symmetric])
  note date = days_of_civil_of_days [OF civil]
  have s: "0 \<le> s" "s < 86400" by (simp_all add: s_def)
  have clock: "0 \<le> s div 3600" "s div 3600 \<le> 23" "0 \<le> s div 60 mod 60" "s div 60 mod 60 \<le> 59"
      "0 \<le> s mod 60" "s mod 60 \<le> 59"
    using s by (auto simp: pos_imp_zdiv_nonneg_iff)
  have "s div 3600 = s div 60 div 60" by (simp add: zdiv_zmult2_eq [symmetric])
  then have "s div 3600 * 3600 + s div 60 mod 60 * 60 + s mod 60 = s"
    by (simp only:) (rule clock_sum [of s "s div 60"], simp_all)
  then have total: "days_of_civil y m d * 86400 + s div 3600 * 3600 + s div 60 mod 60 * 60 + s mod 60
      = secs"
    unfolding date(1) using div_mult_mod_eq [of secs 86400, folded s_def] by linarith
  have fmt: "format_RFC3339 tz t = pad4 y @ ''-'' @ pad2 m @ ''-'' @ pad2 d @ ''T'' @
      pad2 (s div 3600) @ '':'' @ pad2 (s div 60 mod 60) @ '':'' @ pad2 (s mod 60) @ zone_text off"
    unfolding format_RFC3339_def Let_def off_def [symmetric] secs_def [symmetric] civil
      s_def [symmetric] prod.case ..
  have "parse_RFC3339 tz (format_RFC3339 tz t) = parse_zone tz (secs * 1000000000) (zone_text off)"
    unfolding fmt parse_RFC3339_fields [OF y date(2-5) clock zone_text_parse(1) [OF off]] total ..
  also have "\<dots> = Some (truncated tz t)"
    unfolding zone_text_parse(2) [OF off]
    by (simp add: truncated_def Let_def off_def [symmetric] secs_def algebra_simps)
  finally show ?thesis .
qed

end
