(* ===== verification/Api_Types.thy ===== *)
theory Api_Types
  imports Patcher Go_Time
begin

text \<open>
  \<open>api/v1alpha1\<close>: the custom resources SleepInfo and SleepInfoExecution, the schedules
  and patches derived from a SleepInfo, and its validation.
\<close>

section \<open>Metadata\<close>

text \<open>The parts of the Kubernetes object metadata that the program reads or writes.\<close>

record OwnerReference =
  or_APIVersion :: string
  or_Kind :: string
  or_Name :: string
  or_UID :: string

record ObjectMeta =
  m_Name :: string
  m_Namespace :: string
  m_UID :: string
  m_ResourceVersion :: string
  m_Labels :: "(string, string) gomap"
  m_OwnerReferences :: "OwnerReference list"

section \<open>Patch targets\<close>

datatype PatchTarget = PatchTarget (pt_Group: string) (pt_Kind: string)

definition target_string :: "PatchTarget \<Rightarrow> string" where
  "target_string p = pt_Kind p @ ''.'' @ pt_Group p"

datatype GroupKind = GroupKind (gk_Group: string) (gk_Kind: string)

definition target_GroupKind :: "PatchTarget \<Rightarrow> GroupKind" where
  "target_GroupKind p = GroupKind (pt_Group p) (pt_Kind p)"

text \<open>Targets are keys of Go maps: ordered by group, then kind.\<close>

instantiation PatchTarget :: linorder
begin

definition less_eq_PatchTarget :: "PatchTarget \<Rightarrow> PatchTarget \<Rightarrow> bool" where
  "less_eq_PatchTarget a b =
     (pt_Group a < pt_Group b \<or> pt_Group a = pt_Group b \<and> pt_Kind a \<le> pt_Kind b)"

definition less_PatchTarget :: "PatchTarget \<Rightarrow> PatchTarget \<Rightarrow> bool" where
  "less_PatchTarget a b =
     (pt_Group a < pt_Group b \<or> pt_Group a = pt_Group b \<and> pt_Kind a < pt_Kind b)"

instance
  by standard
    (auto simp: less_eq_PatchTarget_def less_PatchTarget_def PatchTarget.expand)

end

text \<open>
  The printed form of a target is the key of its restore patches in the secret. It
  determines the target as long as kinds have no dot, as Kubernetes kinds do.
\<close>

lemma target_string_inject:
  assumes "CHR ''.'' \<notin> set (pt_Kind a)" and "CHR ''.'' \<notin> set (pt_Kind b)"
    and "target_string a = target_string b"
  shows "a = b"
proof -
  have "split_on (CHR ''.'') (target_string a) = pt_Kind a # split_on (CHR ''.'') (pt_Group a)"
    and "split_on (CHR ''.'') (target_string b) = pt_Kind b # split_on (CHR ''.'') (pt_Group b)"
    using assms(1,2) by (simp_all add: target_string_def split_on_append)
  with assms(3) have "pt_Kind a = pt_Kind b" by simp
  with assms(3) show ?thesis by (simp add: target_string_def PatchTarget.expand)
qed

section \<open>SleepInfo\<close>

text \<open>
  The labels of a filter are a Go map, given here as its entries in the order in which
  \<open>range\<close> visits them.
\<close>

record FilterRef =
  fr_APIVersion :: string
  fr_Kind :: string
  fr_Name :: string
  fr_MatchLabels :: "(string \<times> string) list"

record Patch =
  p_Target :: PatchTarget
  p_Patch :: string

record SleepInfoSpec =
  Weekdays :: string
  SleepTime :: string
  WakeUpTime :: string
  TimeZone :: string
  ExcludeRef :: "FilterRef list"
  IncludeRef :: "FilterRef list"
  SuspendCronjobs :: bool
  SuspendDeployments :: "bool option"
  SuspendStatefulSets :: "bool option"
  Patches :: "Patch list"

record SleepInfoStatus =
  LastScheduleTime :: gotime
  OperationType :: string

record SleepInfo =
  si_Meta :: ObjectMeta
  si_Spec :: SleepInfoSpec
  si_Status :: SleepInfoStatus

subsection \<open>Schedules\<close>

definition getScheduleFromWeekdayAndTime :: "SleepInfo \<Rightarrow> string \<Rightarrow> string res" where
  "getScheduleFromWeekdayAndTime s hourAndMinute =
     (let weekday = Weekdays (si_Spec s) in
      if weekday = '''' then Inl (Err ''empty weekdays from SleepInfo configuration'')
      else case split_on (CHR '':'') hourAndMinute of
        [hours, minutes] \<Rightarrow>
          (let schedule = minutes @ '' '' @ hours @ '' * * '' @ weekday in
           Inr (if TimeZone (si_Spec s) \<noteq> ''''
                then ''CRON_TZ='' @ TimeZone (si_Spec s) @ '' '' @ schedule
                else schedule))
      | _ \<Rightarrow> Inl (Err (''time should be of format HH:mm, actual: '' @ hourAndMinute)))"

definition GetSleepSchedule :: "SleepInfo \<Rightarrow> string res" where
  "GetSleepSchedule s = getScheduleFromWeekdayAndTime s (SleepTime (si_Spec s))"

definition GetWakeUpSchedule :: "SleepInfo \<Rightarrow> string res" where
  "GetWakeUpSchedule s =
     (if WakeUpTime (si_Spec s) = '''' then Inr ''''
      else getScheduleFromWeekdayAndTime s (WakeUpTime (si_Spec s)))"

definition GetIncludeRef :: "SleepInfo \<Rightarrow> FilterRef list" where
  "GetIncludeRef s = IncludeRef (si_Spec s)"

definition GetExcludeRef :: "SleepInfo \<Rightarrow> FilterRef list" where
  "GetExcludeRef s = ExcludeRef (si_Spec s)"

subsection \<open>Patches\<close>

definition IsCronjobsToSuspend :: "SleepInfo \<Rightarrow> bool" where
  "IsCronjobsToSuspend s = SuspendCronjobs (si_Spec s)"

definition IsDeploymentsToSuspend :: "SleepInfo \<Rightarrow> bool" where
  "IsDeploymentsToSuspend s =
     (case SuspendDeployments (si_Spec s) of None \<Rightarrow> True | Some b \<Rightarrow> b)"

definition IsStatefulSetsToSuspend :: "SleepInfo \<Rightarrow> bool" where
  "IsStatefulSetsToSuspend s =
     (case SuspendStatefulSets (si_Spec s) of None \<Rightarrow> True | Some b \<Rightarrow> b)"

definition DeploymentTarget :: PatchTarget where
  "DeploymentTarget = PatchTarget ''apps'' ''Deployment''"

definition StatefulSetTarget :: PatchTarget where
  "StatefulSetTarget = PatchTarget ''apps'' ''StatefulSet''"

definition CronJobTarget :: PatchTarget where
  "CronJobTarget = PatchTarget ''batch'' ''CronJob''"

abbreviation nl :: char where "nl \<equiv> CHR 0x0A"

definition deploymentPatch :: Patch where
  "deploymentPatch =
     \<lparr>p_Target = DeploymentTarget,
      p_Patch = nl # ''- op: add'' @ nl # ''  path: /spec/replicas'' @ nl # ''  value: 0''\<rparr>"

definition statefulSetPatch :: Patch where
  "statefulSetPatch =
     \<lparr>p_Target = StatefulSetTarget,
      p_Patch = nl # ''- op: add'' @ nl # ''  path: /spec/replicas'' @ nl # ''  value: 0''\<rparr>"

definition cronjobPatch :: Patch where
  "cronjobPatch =
     \<lparr>p_Target = CronJobTarget,
      p_Patch = nl # ''- op: add'' @ nl # ''  path: /spec/suspend'' @ nl # ''  value: true''\<rparr>"

definition GetPatches :: "SleepInfo \<Rightarrow> Patch list" where
  "GetPatches s =
     (let p0 = [];
          p1 = (if IsDeploymentsToSuspend s then p0 @ [deploymentPatch] else p0);
          p2 = (if IsStatefulSetsToSuspend s then p1 @ [statefulSetPatch] else p1);
          p3 = (if IsCronjobsToSuspend s then p2 @ [cronjobPatch] else p2)
      in p3 @ Patches (si_Spec s))"

section \<open>Validation\<close>

text \<open>
  \<open>ParseStandard\<close> of \<open>github.com/robfig/cron/v3\<close> and the REST mapper of the client are
  parameters; \<open>'s\<close> is the type of a parsed cron schedule.
\<close>

fun validatePatches_loop ::
    "(GroupKind \<Rightarrow> goerror option) \<Rightarrow> 'p patch_lib \<Rightarrow> Patch list \<Rightarrow> string list \<Rightarrow> string list res"
where
  "validatePatches_loop rest lib [] warnings = Inr warnings"
| "validatePatches_loop rest lib (p # ps) warnings =
     (let warnings' =
        (case rest (target_GroupKind (p_Target p)) of
           Some e \<Rightarrow> warnings @ [''SleepInfo patch target is invalid: '' @ error_text e]
         | None \<Rightarrow> warnings)
      in case New lib (p_Patch p) of
        Inl e \<Rightarrow>
          Inl (WrapErr (''patch is invalid for target '' @ target_string (p_Target p) @ '': '') e [])
      | Inr _ \<Rightarrow> validatePatches_loop rest lib ps warnings')"

definition validatePatches ::
    "(GroupKind \<Rightarrow> goerror option) \<Rightarrow> 'p patch_lib \<Rightarrow> SleepInfo \<Rightarrow> string list res" where
  "validatePatches rest lib s = validatePatches_loop rest lib (GetPatches s) []"

definition Validate ::
    "(string \<Rightarrow> 's res) \<Rightarrow> (GroupKind \<Rightarrow> goerror option) \<Rightarrow> 'p patch_lib \<Rightarrow> SleepInfo \<Rightarrow>
     string list res" where
  "Validate ParseStandard rest lib s =
     (case GetSleepSchedule s of
        Inl e \<Rightarrow> Inl e
      | Inr schedule \<Rightarrow>
          (case ParseStandard schedule of
             Inl e \<Rightarrow> Inl e
           | Inr _ \<Rightarrow>
               (case GetWakeUpSchedule s of
                  Inl e \<Rightarrow> Inl e
                | Inr wakeUp \<Rightarrow>
                    (case (if wakeUp \<noteq> '''' then map_sum id Some (ParseStandard wakeUp) else Inr None) of
                       Inl e \<Rightarrow> Inl e
                     | Inr _ \<Rightarrow> validatePatches rest lib s))))"

section \<open>SleepInfoExecution\<close>

text \<open>
  \<open>SleepInfoExecutionOperation\<close> and \<open>SleepInfoExecutionPhase\<close> are string types: the API
  server admits the declared values, but the code also handles any other string.
\<close>

definition ExecutionOpSleep :: string where "ExecutionOpSleep = ''SLEEP''"
definition ExecutionOpWake :: string where "ExecutionOpWake = ''WAKE_UP''"

definition ExecutionPhasePending :: string where "ExecutionPhasePending = ''Pending''"
definition ExecutionPhaseSucceeded :: string where "ExecutionPhaseSucceeded = ''Succeeded''"
definition ExecutionPhaseFailed :: string where "ExecutionPhaseFailed = ''Failed''"
definition ExecutionPhaseSkipped :: string where "ExecutionPhaseSkipped = ''Skipped''"

record SleepInfoExecutionSpec =
  SleepInfoName :: string
  Operation :: string

record SleepInfoExecutionStatus =
  Phase :: string
  StartTime :: "gotime option"
  CompletionTime :: "gotime option"
  Message :: string

record SleepInfoExecution =
  ex_Meta :: ObjectMeta
  ex_Spec :: SleepInfoExecutionSpec
  ex_Status :: SleepInfoExecutionStatus

definition IsProcessed :: "SleepInfoExecution \<Rightarrow> bool" where
  "IsProcessed s =
     (Phase (ex_Status s) = ExecutionPhaseSucceeded \<or> Phase (ex_Status s) = ExecutionPhaseFailed \<or>
      Phase (ex_Status s) = ExecutionPhaseSkipped)"

lemmas execution_consts = ExecutionOpSleep_def ExecutionOpWake_def ExecutionPhasePending_def
  ExecutionPhaseSucceeded_def ExecutionPhaseFailed_def ExecutionPhaseSkipped_def

section \<open>Group and version\<close>

definition GroupVersion_String :: string where
  "GroupVersion_String = ''kube-green.com/v1alpha1''"

section \<open>Properties\<close>

lemmas suspend_defs = IsDeploymentsToSuspend_def IsStatefulSetsToSuspend_def IsCronjobsToSuspend_def

lemmas default_targets = DeploymentTarget_def StatefulSetTarget_def CronJobTarget_def

definition schedule_text :: "SleepInfo \<Rightarrow> string \<Rightarrow> string \<Rightarrow> string" where
  "schedule_text s h m =
     (if TimeZone (si_Spec s) = [] then [] else ''CRON_TZ='' @ TimeZone (si_Spec s) @ '' '') @
     m @ '' '' @ h @ '' * * '' @ Weekdays (si_Spec s)"

lemma schedule_split:
  "getScheduleFromWeekdayAndTime s t = Inr sch \<longleftrightarrow>
     Weekdays (si_Spec s) \<noteq> [] \<and>
     (\<exists>h m. split_on (CHR '':'') t = [h, m] \<and> sch = schedule_text s h m)"
  by (auto simp: getScheduleFromWeekdayAndTime_def schedule_text_def Let_def
      split: list.splits if_splits)

lemma time_split:
  "split_on (CHR '':'') t = [h, m] \<longleftrightarrow>
   t = h @ '':'' @ m \<and> CHR '':'' \<notin> set h \<and> CHR '':'' \<notin> set m"
  using split_on_two_iff [of "CHR '':''" t h m] by simp

text \<open>
  C35: a cron schedule is built exactly from a SleepInfo with weekdays and a time with one
  colon: minutes, hours, any day, any month, the weekdays, in the time zone if one is set;
  every other SleepInfo is refused.
\<close>

theorem schedule_iff:
  "getScheduleFromWeekdayAndTime s t = Inr sch \<longleftrightarrow>
     Weekdays (si_Spec s) \<noteq> [] \<and>
     (\<exists>h m. t = h @ '':'' @ m \<and> CHR '':'' \<notin> set h \<and> CHR '':'' \<notin> set m \<and>
        sch = (if TimeZone (si_Spec s) = [] then [] else ''CRON_TZ='' @ TimeZone (si_Spec s) @ '' '') @
              m @ '' '' @ h @ '' * * '' @ Weekdays (si_Spec s))"
  unfolding schedule_split time_split schedule_text_def by (simp only: conj_assoc)

definition example_spec :: SleepInfoSpec where
  "example_spec =
     \<lparr>Weekdays = ''1-5'', SleepTime = ''20:00'', WakeUpTime = ''08:00'', TimeZone = [],
      ExcludeRef = [], IncludeRef = [], SuspendCronjobs = True, SuspendDeployments = None,
      SuspendStatefulSets = Some False, Patches = []\<rparr>"

definition example_meta :: ObjectMeta where
  "example_meta =
     \<lparr>m_Name = ''working-hours'', m_Namespace = ''default'', m_UID = ''uid-1'',
      m_ResourceVersion = ''1'', m_Labels = [], m_OwnerReferences = []\<rparr>"

definition example_sleepinfo :: SleepInfo where
  "example_sleepinfo =
     \<lparr>si_Meta = example_meta, si_Spec = example_spec,
      si_Status = \<lparr>LastScheduleTime = zero_time, OperationType = []\<rparr>\<rparr>"

lemmas example_defs = example_sleepinfo_def example_spec_def example_meta_def

lemma example_schedules:
  "GetSleepSchedule example_sleepinfo = Inr ''00 20 * * 1-5''"
  "GetWakeUpSchedule example_sleepinfo = Inr ''00 08 * * 1-5''"
  by (simp_all add: GetSleepSchedule_def GetWakeUpSchedule_def
      getScheduleFromWeekdayAndTime_def example_defs)

subsection \<open>Validation\<close>

lemma validatePatches_loop_Inr:
  "validatePatches_loop rest lib ps ws = Inr ws' \<longleftrightarrow>
     (\<forall>p \<in> set ps. \<exists>q. New lib (p_Patch p) = Inr q) \<and>
     ws' = ws @ concat (map (\<lambda>p. case rest (target_GroupKind (p_Target p)) of
        None \<Rightarrow> [] | Some e \<Rightarrow> [''SleepInfo patch target is invalid: '' @ error_text e]) ps)"
  by (induction ps arbitrary: ws) (auto simp: Let_def split: sum.splits option.splits)

lemma validatePatches_loop_Inl:
  "validatePatches_loop rest lib ps ws = Inl e \<Longrightarrow>
   \<exists>p \<in> set ps. \<exists>e'. New lib (p_Patch p) = Inl e' \<and>
     e = WrapErr (''patch is invalid for target '' @ target_string (p_Target p) @ '': '') e' []"
  by (induction ps arbitrary: ws) (auto simp: Let_def split: sum.splits option.splits)

text \<open>
  C36: a SleepInfo is admitted exactly when both its schedules parse and every patch it
  applies, the built-in ones included, decodes; the warnings are then one per patch whose
  target the cluster does not know, in order.
\<close>

theorem Validate_iff:
  "Validate parse rest lib s = Inr ws \<longleftrightarrow>
     (\<exists>sch c. GetSleepSchedule s = Inr sch \<and> parse sch = Inr c) \<and>
     (\<exists>wk. GetWakeUpSchedule s = Inr wk \<and> (wk \<noteq> [] \<longrightarrow> (\<exists>c. parse wk = Inr c))) \<and>
     (\<forall>p \<in> set (GetPatches s). \<exists>q. New lib (p_Patch p) = Inr q) \<and>
     ws = concat (map (\<lambda>p. case rest (target_GroupKind (p_Target p)) of
        None \<Rightarrow> [] | Some e \<Rightarrow> [''SleepInfo patch target is invalid: '' @ error_text e]) (GetPatches s))"
proof -
  have "map_sum id Some x = Inr y \<longleftrightarrow> (\<exists>c. x = Inr c \<and> y = Some c)"
    and "map_sum id Some x = Inl e \<longleftrightarrow> x = Inl e" for x :: "'a res" and y e
    by (cases x; auto)+
  then show ?thesis
    by (auto simp: Validate_def validatePatches_def validatePatches_loop_Inr split: sum.splits)
qed

definition accepting_lib :: "string patch_lib" where
  "accepting_lib =
     \<lparr>YAMLToJSON = Inr, DecodePatch = Inr, ApplyWithOptions = (\<lambda>p doc opts. Inr doc),
      JsonEqual = (=), CreateMergePatch = (\<lambda>a b. Inr b), MergePatch = (\<lambda>a p. Inr p)\<rparr>"

theorem Validate_iff_witness:
  "Validate Inr (\<lambda>gk. None) accepting_lib example_sleepinfo = Inr []"
proof -
  have "\<forall>p \<in> set (GetPatches example_sleepinfo). \<exists>q. New accepting_lib (p_Patch p) = Inr q"
    by (simp add: New_def accepting_lib_def)
  then show ?thesis
    using Validate_iff [of Inr "\<lambda>gk. None" accepting_lib example_sleepinfo "[]"] example_schedules by simp
qed

end
