(* ===== verification/Resource_Client.thy ===== *)
theory Resource_Client
  imports Api_Types
begin

text \<open>
  \<open>internal/controller/sleepinfo/resource/resource.go\<close>: the client handle that a group
  of resources works with. The Kubernetes client itself and the accessors of unstructured
  objects belong to \<open>controller-runtime\<close> and \<open>apimachinery\<close>: they are the fields of
  \<open>client\<close> and \<open>unstr_lib\<close>. A call of the client takes the world it runs in (of type
  \<open>'w\<close>) and returns the world after it, so that other actors may change the cluster at
  every call.
\<close>

section \<open>The Kubernetes client\<close>

datatype GVK = GVK (gvk_Group: string) (gvk_Version: string) (gvk_Kind: string)

text \<open>The \<open>Object\<close> map of an \<open>unstructured.Unstructured\<close>.\<close>

type_synonym unstructured = "(string, json) gomap"

text \<open>A parsed selector is the predicate of its \<open>Matches\<close> method.\<close>

type_synonym field_selector = "(string \<Rightarrow> string) \<Rightarrow> bool"
type_synonym label_selector = "(string \<Rightarrow> string option) \<Rightarrow> bool"

record ListOptions =
  lo_Namespace :: string
  lo_Limit :: int
  lo_FieldSelector :: "field_selector option"
  lo_LabelSelector :: "label_selector option"

record Secret =
  sec_Meta :: ObjectMeta
  sec_Data :: "(string, string) gomap option"
  sec_StringData :: "(string, string) gomap option"

record 'w client =
  RESTMapping :: "GroupKind \<Rightarrow> 'w \<Rightarrow> GVK res"
  ListObjects :: "GVK \<Rightarrow> ListOptions \<Rightarrow> 'w \<Rightarrow> (unstructured list \<times> goerror option) \<times> 'w"
  ApplyObject :: "unstructured \<Rightarrow> string \<Rightarrow> 'w \<Rightarrow> goerror option \<times> 'w"
  PatchObject :: "unstructured \<Rightarrow> unstructured \<Rightarrow> 'w \<Rightarrow> goerror option \<times> 'w"
  GetSleepInfo :: "string \<Rightarrow> string \<Rightarrow> 'w \<Rightarrow> SleepInfo res \<times> 'w"
  GetExecution :: "string \<Rightarrow> string \<Rightarrow> 'w \<Rightarrow> SleepInfoExecution res \<times> 'w"
  GetSecret :: "string \<Rightarrow> string \<Rightarrow> 'w \<Rightarrow> Secret res \<times> 'w"
  CreateSecret :: "Secret \<Rightarrow> 'w \<Rightarrow> goerror option \<times> 'w"
  UpdateSecret :: "Secret \<Rightarrow> 'w \<Rightarrow> goerror option \<times> 'w"
  StatusUpdateSleepInfo :: "SleepInfo \<Rightarrow> 'w \<Rightarrow> goerror option \<times> 'w"
  UpdateExecution :: "SleepInfoExecution \<Rightarrow> 'w \<Rightarrow> SleepInfoExecution res \<times> 'w"
  StatusUpdateExecution :: "SleepInfoExecution \<Rightarrow> 'w \<Rightarrow> goerror option \<times> 'w"

text \<open>
  The accessors of \<open>unstructured.Unstructured\<close>; \<open>HasController\<close> tells whether
  \<open>metav1.GetControllerOfNoCopy\<close> finds a controlling owner.
\<close>

record unstr_lib =
  u_GetName :: "unstructured \<Rightarrow> string"
  u_GetNamespace :: "unstructured \<Rightarrow> string"
  u_GroupVersionKind :: "unstructured \<Rightarrow> GVK"
  u_HasController :: "unstructured \<Rightarrow> bool"
  u_SetNestedField :: "unstructured \<Rightarrow> json \<Rightarrow> string \<Rightarrow> unstructured res"
  u_SetGroupVersionKind :: "GVK \<Rightarrow> unstructured \<Rightarrow> unstructured"
  u_SetName :: "string \<Rightarrow> unstructured \<Rightarrow> unstructured"
  u_SetNamespace :: "string \<Rightarrow> unstructured \<Rightarrow> unstructured"
  u_ClearManagedFields :: "unstructured \<Rightarrow> unstructured"
  u_SetResourceVersion :: "string \<Rightarrow> unstructured \<Rightarrow> unstructured"

section \<open>ResourceClient\<close>

text \<open>A nil client or a nil SleepInfo is \<open>None\<close>.\<close>

record 'w ResourceClient =
  rc_Client :: "'w client option"
  rc_SleepInfo :: "SleepInfo option"
  rc_FieldManagerName :: string

definition IsClientValid :: "'w ResourceClient \<Rightarrow> goerror option" where
  "IsClientValid r =
     (if rc_Client r \<noteq> None \<and> rc_SleepInfo r \<noteq> None then None
      else
        (let errStrings0 = [];
             errStrings1 =
               (if rc_Client r = None then errStrings0 @ [''client is empty''] else errStrings0);
             errStrings2 =
               (if rc_SleepInfo r = None then errStrings1 @ [''sleepInfo is nil''] else errStrings1)
         in Some (WrapErr [] (SentinelErr ErrInvalidClient) ('': '' @ join '' and '' errStrings2))))"

definition nil_deref :: goerror where
  "nil_deref = PanicErr ''invalid memory address or nil pointer dereference''"

definition rc_Patch ::
    "'w ResourceClient \<Rightarrow> unstructured \<Rightarrow> unstructured \<Rightarrow> 'w \<Rightarrow> goerror option \<times> 'w" where
  "rc_Patch r oldObj newObj w =
     (case IsClientValid r of
        Some e \<Rightarrow> (Some e, w)
      | None \<Rightarrow>
          (case rc_Client r of
             None \<Rightarrow> (Some nil_deref, w)
           | Some cl \<Rightarrow>
               (case PatchObject cl newObj oldObj w of
                  (Some e, w1) \<Rightarrow> (ignore_not_found e, w1)
                | (None, w1) \<Rightarrow> (None, w1))))"

definition SSAPatch ::
    "unstr_lib \<Rightarrow> 'w ResourceClient \<Rightarrow> unstructured \<Rightarrow> 'w \<Rightarrow> goerror option \<times> 'w" where
  "SSAPatch u r newObj w =
     (case IsClientValid r of
        Some e \<Rightarrow> (Some e, w)
      | None \<Rightarrow>
          (case rc_Client r of
             None \<Rightarrow> (Some nil_deref, w)
           | Some cl \<Rightarrow>
               (let obj = u_SetResourceVersion u [] (u_ClearManagedFields u newObj) in
                case ApplyObject cl obj (rc_FieldManagerName r) w of
                  (Some e, w1) \<Rightarrow> (ignore_not_found e, w1)
                | (None, w1) \<Rightarrow> (None, w1))))"

lemma IsClientValid_None_iff:
  "IsClientValid r = None \<longleftrightarrow> (\<exists>cl si. rc_Client r = Some cl \<and> rc_SleepInfo r = Some si)"
  by (auto simp: IsClientValid_def Let_def)

lemma SSAPatch_valid:
  assumes "rc_Client r = Some cl" and "rc_SleepInfo r = Some si"
  shows "SSAPatch u r obj w =
    (case ApplyObject cl (u_SetResourceVersion u [] (u_ClearManagedFields u obj))
       (rc_FieldManagerName r) w of (err, w1) \<Rightarrow> (Option.bind err ignore_not_found, w1))"
  using assms by (auto simp: SSAPatch_def IsClientValid_def Let_def split: option.splits prod.splits)

lemma rc_Patch_valid:
  assumes "rc_Client r = Some cl" and "rc_SleepInfo r = Some si"
  shows "rc_Patch r oldObj newObj w =
    (case PatchObject cl newObj oldObj w of (err, w1) \<Rightarrow> (Option.bind err ignore_not_found, w1))"
  using assms by (auto simp: rc_Patch_def IsClientValid_def split: option.splits prod.splits)

end
