(* ===== verification/Generic_Resource.thy ===== *)
theory Generic_Resource
  imports Resource_Client
begin

text \<open>
  \<open>internal/controller/sleepinfo/jsonpatch/genericresources.go\<close>: the resources of one
  patch target in a namespace, listed through field and label selectors built from the
  include and exclude filters of the SleepInfo. The selector parsers of \<open>apimachinery\<close>
  are the fields of \<open>selector_lib\<close>.
\<close>

record selector_lib =
  ParseFieldSelector :: "string \<Rightarrow> field_selector res"
  ParseLabelSelector :: "string \<Rightarrow> label_selector res"

type_synonym RestorePatches = "(string, string) gomap option"

record 'w genericResource =
  g_Client :: "'w ResourceClient"
  g_patchData :: Patch
  g_restorePatches :: RestorePatches
  g_data :: "unstructured list"
  g_isCacheInvalid :: bool

definition newGenericResource ::
    "'w ResourceClient \<Rightarrow> Patch \<Rightarrow> RestorePatches \<Rightarrow> 'w genericResource" where
  "newGenericResource res patchData restorePatches =
     \<lparr>g_Client = res, g_patchData = patchData, g_restorePatches = restorePatches,
      g_data = [], g_isCacheInvalid = False\<rparr>"

section \<open>Filters\<close>

definition matchPatchTargetAndFilterRef :: "PatchTarget \<Rightarrow> FilterRef \<Rightarrow> bool" where
  "matchPatchTargetAndFilterRef target filterRef =
     (has_prefix (fr_APIVersion filterRef) (pt_Group target @ ''/'') \<and>
      fr_Kind filterRef = pt_Kind target)"

fun filter_names :: "FilterRef list \<Rightarrow> PatchTarget \<Rightarrow> string list" where
  "filter_names [] target = []"
| "filter_names (f # fs) target =
     (if matchPatchTargetAndFilterRef target f \<and> fr_Name f \<noteq> ''''
      then fr_Name f # filter_names fs target
      else filter_names fs target)"

definition getFieldToExclude :: "FilterRef list \<Rightarrow> PatchTarget \<Rightarrow> string list" where
  "getFieldToExclude excludeRef target =
     map (\<lambda>name. ''metadata.name!='' @ name) (filter_names excludeRef target)"

text \<open>
  The names to include: one name becomes a field selector, several become the set of
  names to keep after listing (the keys of a Go map, \<open>None\<close> for the nil map).
\<close>

definition getFieldToInclude ::
    "FilterRef list \<Rightarrow> PatchTarget \<Rightarrow> string list \<times> string set option" where
  "getFieldToInclude includeRef target =
     (case filter_names includeRef target of
        [] \<Rightarrow> ([], None)
      | [name] \<Rightarrow> ([''metadata.name=='' @ name], None)
      | names \<Rightarrow> ([], Some (set names)))"

fun getLabelsToExclude :: "FilterRef list \<Rightarrow> string list" where
  "getLabelsToExclude [] = []"
| "getLabelsToExclude (f # fs) =
     map (\<lambda>(k, v). k @ ''!='' @ v) (fr_MatchLabels f) @ getLabelsToExclude fs"

fun getLabelsToInclude :: "FilterRef list \<Rightarrow> string list" where
  "getLabelsToInclude [] = []"
| "getLabelsToInclude (f # fs) =
     map (\<lambda>(k, v). k @ ''=='' @ v) (fr_MatchLabels f) @ getLabelsToInclude fs"

definition filterByName ::
    "unstr_lib \<Rightarrow> unstructured list \<Rightarrow> string set option \<Rightarrow> unstructured list" where
  "filterByName u items namesToInclude =
     (case namesToInclude of
        None \<Rightarrow> items
      | Some names \<Rightarrow>
          (if names = {} then items else filter (\<lambda>item. u_GetName u item \<in> names) items))"

section \<open>Listing\<close>

definition getListOptions ::
    "selector_lib \<Rightarrow> SleepInfo \<Rightarrow> string \<Rightarrow> PatchTarget \<Rightarrow> (ListOptions \<times> string set option) res"
where
  "getListOptions sl sleepInfo namespace target =
     (let listOptions = \<lparr>lo_Namespace = namespace, lo_Limit = 500, lo_FieldSelector = None,
                         lo_LabelSelector = None\<rparr>;
          includeRef = GetIncludeRef sleepInfo;
          excludeRef = GetExcludeRef sleepInfo;
          (fieldsToInclude, namesToInclude) = getFieldToInclude includeRef target;
          labelsToInclude = getLabelsToInclude includeRef;
          fieldsToExclude = getFieldToExclude excludeRef target;
          labelsToExclude = getLabelsToExclude excludeRef;
          fieldSelectors = fieldsToInclude @ fieldsToExclude;
          labelSelectors = labelsToInclude @ labelsToExclude
      in
        case (if fieldSelectors \<noteq> []
              then map_sum id (\<lambda>f. listOptions\<lparr>lo_FieldSelector := Some f\<rparr>)
                     (ParseFieldSelector sl (join '','' fieldSelectors))
              else Inr listOptions) of
          Inl e \<Rightarrow> Inl e
        | Inr withFields \<Rightarrow>
            (case (if labelSelectors \<noteq> []
                   then map_sum id (\<lambda>l. withFields\<lparr>lo_LabelSelector := Some l\<rparr>)
                          (ParseLabelSelector sl (join '','' labelSelectors))
                   else Inr withFields) of
               Inl e \<Rightarrow> Inl e
             | Inr options \<Rightarrow> Inr (options, namesToInclude)))"

text \<open>
  The items and the error of a listing. A target unknown to the cluster is an empty list;
  a NotFound of the list call returns what the list holds, without error.
\<close>

definition getListByNamespace ::
    "unstr_lib \<Rightarrow> selector_lib \<Rightarrow> 'w ResourceClient \<Rightarrow> string \<Rightarrow> PatchTarget \<Rightarrow> 'w \<Rightarrow>
     (unstructured list \<times> goerror option) \<times> 'w" where
  "getListByNamespace u sl c namespace target w =
     (case (rc_Client c, rc_SleepInfo c) of
        (Some cl, Some sleepInfo) \<Rightarrow>
          (case RESTMapping cl (target_GroupKind target) w of
             Inl e \<Rightarrow> if is_no_match e then (([], None), w) else (([], Some e), w)
           | Inr gvk \<Rightarrow>
               (case getListOptions sl sleepInfo namespace target of
                  Inl e \<Rightarrow> (([], Some e), w)
                | Inr (listOptions, namesToInclude) \<Rightarrow>
                    (case ListObjects cl gvk listOptions w of
                       ((items, Some e), w1) \<Rightarrow> ((items, ignore_not_found e), w1)
                     | ((items, None), w1) \<Rightarrow> ((filterByName u items namesToInclude, None), w1))))
      | _ \<Rightarrow> (([], Some nil_deref), w))"

section \<open>Properties of the filters\<close>

lemma filter_names_set:
  "set (filter_names fs t) =
   {fr_Name f | f. f \<in> set fs \<and> matchPatchTargetAndFilterRef t f \<and> fr_Name f \<noteq> []}"
  by (induction fs) auto

text \<open>
  The selector syntax the code writes: comma-separated terms \<open>key==value\<close> and
  \<open>key!=value\<close>.
\<close>

datatype sel_term = SelEq string string | SelNe string string

fun term_key :: "sel_term \<Rightarrow> string" where
  "term_key (SelEq k v) = k"
| "term_key (SelNe k v) = k"

fun term_value :: "sel_term \<Rightarrow> string" where
  "term_value (SelEq k v) = v"
| "term_value (SelNe k v) = v"

fun term_text :: "sel_term \<Rightarrow> string" where
  "term_text (SelEq k v) = k @ ''=='' @ v"
| "term_text (SelNe k v) = k @ ''!='' @ v"

text \<open>
  The keys and values that the selector parsers are documented to accept. A label value, and
  the name part of a label key, has at most 63 characters, letters, digits and inner \<open>-\<close>, \<open>_\<close>
  and \<open>.\<close>; a key may have a prefix, a DNS subdomain followed by a slash. The fields of a field
  selector and the names of objects consist of such characters too.
\<close>

definition is_lower :: "char \<Rightarrow> bool" where
  "is_lower c = (97 \<le> (of_char c :: nat) \<and> (of_char c :: nat) \<le> 122)"

definition is_alnum :: "char \<Rightarrow> bool" where
  "is_alnum c = (is_digit c \<or> is_lower c \<or> (65 \<le> (of_char c :: nat) \<and> (of_char c :: nat) \<le> 90))"

definition name_text :: "string \<Rightarrow> bool" where
  "name_text s = (s \<noteq> [] \<and> list_all (\<lambda>c. is_alnum c \<or> c = CHR ''-'' \<or> c = CHR ''_'' \<or> c = CHR ''.'') s)"

definition label_value :: "string \<Rightarrow> bool" where
  "label_value s = (name_text s \<and> length s \<le> 63 \<and> is_alnum (hd s) \<and> is_alnum (last s))"

definition dns_subdomain :: "string \<Rightarrow> bool" where
  "dns_subdomain s =
     (length s \<le> 253 \<and> list_all (\<lambda>c. is_digit c \<or> is_lower c \<or> c = CHR ''-'' \<or> c = CHR ''.'') s \<and>
      list_all (\<lambda>p. p \<noteq> [] \<and> hd p \<noteq> CHR ''-'' \<and> last p \<noteq> CHR ''-'') (split_on (CHR ''.'') s))"

definition label_key :: "string \<Rightarrow> bool" where
  "label_key s =
     (case split_on (CHR ''/'') s of
        [n] \<Rightarrow> label_value n
      | [p, n] \<Rightarrow> dns_subdomain p \<and> label_value n
      | _ \<Rightarrow> False)"

definition field_term :: "sel_term \<Rightarrow> bool" where
  "field_term t = (name_text (term_key t) \<and> name_text (term_value t))"

definition label_term :: "sel_term \<Rightarrow> bool" where
  "label_term t = (label_key (term_key t) \<and> label_value (term_value t))"

fun field_holds :: "(string \<Rightarrow> string) \<Rightarrow> sel_term \<Rightarrow> bool" where
  "field_holds f (SelEq k v) = (f k = v)"
| "field_holds f (SelNe k v) = (f k \<noteq> v)"

fun label_holds :: "(string \<Rightarrow> string option) \<Rightarrow> sel_term \<Rightarrow> bool" where
  "label_holds l (SelEq k v) = (l k = Some v)"
| "label_holds l (SelNe k v) = (l k \<noteq> Some v)"

text \<open>
  The documented meaning of selectors: the terms of a selector are evaluated in AND, and
  \<open>!=\<close> also selects the objects that lack the label.
\<close>

definition selectors_ok :: "selector_lib \<Rightarrow> bool" where
  "selectors_ok sl =
     ((\<forall>ts. ts \<noteq> [] \<and> list_all field_term ts \<longrightarrow>
        ParseFieldSelector sl (join '','' (map term_text ts)) = Inr (\<lambda>f. list_all (field_holds f) ts)) \<and>
      (\<forall>ts. ts \<noteq> [] \<and> list_all label_term ts \<longrightarrow>
        ParseLabelSelector sl (join '','' (map term_text ts)) = Inr (\<lambda>l. list_all (label_holds l) ts)))"

text \<open>The names and labels of the filters are such names and labels.\<close>

definition filters_valid :: "FilterRef list \<Rightarrow> bool" where
  "filters_valid fs =
     list_all (\<lambda>f. (fr_Name f \<noteq> [] \<longrightarrow> name_text (fr_Name f)) \<and>
                   list_all (\<lambda>(k, v). label_key k \<and> label_value v) (fr_MatchLabels f)) fs"

text \<open>
  The reference meaning of the filters for one object, given its name and its labels. An
  object is kept when its name is among the names listed for its target (if any are), is
  not among the excluded ones, and its labels have every included pair and no excluded
  pair.
\<close>

definition selected ::
    "SleepInfo \<Rightarrow> PatchTarget \<Rightarrow> string \<Rightarrow> (string \<Rightarrow> string option) \<Rightarrow> bool" where
  "selected si t name labels =
     (let incl = filter_names (GetIncludeRef si) t in
      (incl = [] \<or> name \<in> set incl) \<and> name \<notin> set (filter_names (GetExcludeRef si) t) \<and>
      (\<forall>f \<in> set (GetIncludeRef si). \<forall>(k, v) \<in> set (fr_MatchLabels f). labels k = Some v) \<and>
      (\<forall>f \<in> set (GetExcludeRef si). \<forall>(k, v) \<in> set (fr_MatchLabels f). labels k \<noteq> Some v))"

definition option_holds :: "('a \<Rightarrow> bool) option \<Rightarrow> 'a \<Rightarrow> bool" where
  "option_holds sel x = (case sel of None \<Rightarrow> True | Some p \<Rightarrow> p x)"

definition field_terms :: "SleepInfo \<Rightarrow> PatchTarget \<Rightarrow> sel_term list" where
  "field_terms si t =
     (case filter_names (GetIncludeRef si) t of
        [name] \<Rightarrow> [SelEq ''metadata.name'' name] | _ \<Rightarrow> []) @
     map (SelNe ''metadata.name'') (filter_names (GetExcludeRef si) t)"

definition label_terms :: "SleepInfo \<Rightarrow> sel_term list" where
  "label_terms si =
     concat (map (\<lambda>f. map (\<lambda>(k, v). SelEq k v) (fr_MatchLabels f)) (GetIncludeRef si)) @
     concat (map (\<lambda>f. map (\<lambda>(k, v). SelNe k v) (fr_MatchLabels f)) (GetExcludeRef si))"

lemma field_terms_text:
  "map term_text (field_terms si t) =
   fst (getFieldToInclude (GetIncludeRef si) t) @ getFieldToExclude (GetExcludeRef si) t"
  by (simp add: field_terms_def getFieldToInclude_def getFieldToExclude_def split: list.split)

lemma label_terms_text:
  "map term_text (label_terms si) =
   getLabelsToInclude (GetIncludeRef si) @ getLabelsToExclude (GetExcludeRef si)"
proof -
  have "map term_text (concat (map (\<lambda>f. map (\<lambda>(k, v). SelEq k v) (fr_MatchLabels f)) fs)) =
      getLabelsToInclude fs"
    and "map term_text (concat (map (\<lambda>f. map (\<lambda>(k, v). SelNe k v) (fr_MatchLabels f)) fs)) =
      getLabelsToExclude fs" for fs
    by (induction fs) auto
  then show ?thesis by (simp only: label_terms_def map_append)
qed

lemma filter_names_valid: "filters_valid fs \<Longrightarrow> n \<in> set (filter_names fs t) \<Longrightarrow> name_text n"
  by (auto simp: filters_valid_def filter_names_set list_all_iff)

lemma field_terms_valid:
  assumes "filters_valid (GetIncludeRef si)" and "filters_valid (GetExcludeRef si)"
  shows "list_all field_term (field_terms si t)"
proof -
  have "name_text ''metadata.name''" by (simp add: name_text_def is_alnum_def is_lower_def is_digit_def)
  moreover have "filter_names (GetIncludeRef si) t = [n] \<Longrightarrow> name_text n" for n
    using filter_names_valid [OF assms(1), of n t] by simp
  ultimately show ?thesis
    using filter_names_valid [OF assms(2)]
    by (auto simp: field_terms_def field_term_def list_all_iff split: list.split)
qed

lemma label_terms_valid:
  "filters_valid (GetIncludeRef si) \<Longrightarrow> filters_valid (GetExcludeRef si) \<Longrightarrow>
   list_all label_term (label_terms si)"
  by (simp add: label_terms_def label_term_def filters_valid_def list_all_iff ball_Un split_beta)

lemma getListOptions_selects:
  assumes "selectors_ok sl"
    and "filters_valid (GetIncludeRef si)" and "filters_valid (GetExcludeRef si)"
  shows "\<exists>opts. getListOptions sl si ns t = Inr (opts, snd (getFieldToInclude (GetIncludeRef si) t)) \<and>
    lo_Namespace opts = ns \<and>
    (\<forall>f. option_holds (lo_FieldSelector opts) f \<longleftrightarrow> list_all (field_holds f) (field_terms si t)) \<and>
    (\<forall>l. option_holds (lo_LabelSelector opts) l \<longleftrightarrow> list_all (label_holds l) (label_terms si))"
proof -
  have F: "field_terms si t \<noteq> [] \<Longrightarrow>
      ParseFieldSelector sl (join '','' (map term_text (field_terms si t))) =
      Inr (\<lambda>f. list_all (field_holds f) (field_terms si t))"
    and L: "label_terms si \<noteq> [] \<Longrightarrow>
      ParseLabelSelector sl (join '','' (map term_text (label_terms si))) =
      Inr (\<lambda>l. list_all (label_holds l) (label_terms si))"
    using assms(1) field_terms_valid [OF assms(2,3), of t] label_terms_valid [OF assms(2,3)]
    by (simp_all add: selectors_ok_def)
  obtain inc names where inc: "getFieldToInclude (GetIncludeRef si) t = (inc, names)"
    by (cases "getFieldToInclude (GetIncludeRef si) t")
  have ft: "inc @ getFieldToExclude (GetExcludeRef si) t = map term_text (field_terms si t)"
    using field_terms_text [of si t] inc by simp
  show ?thesis
    unfolding getListOptions_def Let_def inc prod.case ft label_terms_text [symmetric]
    using F L
    by (cases "field_terms si t = []"; cases "label_terms si = []")
      (simp_all add: option_holds_def)
qed

lemma field_terms_hold:
  assumes "f ''metadata.name'' = name"
  shows "list_all (field_holds f) (field_terms si t) \<longleftrightarrow>
    (\<forall>n. filter_names (GetIncludeRef si) t = [n] \<longrightarrow> name = n) \<and>
    name \<notin> set (filter_names (GetExcludeRef si) t)"
  using assms by (auto simp: field_terms_def list_all_iff ball_Un split: list.split)

lemma label_terms_hold:
  "list_all (label_holds l) (label_terms si) \<longleftrightarrow>
   (\<forall>f \<in> set (GetIncludeRef si). \<forall>(k, v) \<in> set (fr_MatchLabels f). l k = Some v) \<and>
   (\<forall>f \<in> set (GetExcludeRef si). \<forall>(k, v) \<in> set (fr_MatchLabels f). l k \<noteq> Some v)"
  by (simp add: label_terms_def list_all_iff ball_Un split_beta)

lemma names_kept:
  "(case snd (getFieldToInclude inc t) of None \<Rightarrow> True | Some ns \<Rightarrow> ns = {} \<or> name \<in> ns) \<and>
   (\<forall>n. filter_names inc t = [n] \<longrightarrow> name = n) \<longleftrightarrow>
   (filter_names inc t = [] \<or> name \<in> set (filter_names inc t))"
  by (auto simp: getFieldToInclude_def split: list.splits)

text \<open>
  What listing means, for a client in a world: \<open>objs\<close> are the objects of a kind in a
  namespace, \<open>flds\<close> and \<open>labels\<close> what the selectors see of an object; a list call
  returns the objects that match, as long as they fit into one page of \<open>Limit\<close> objects.
\<close>

definition lists_matching ::
    "'w client \<Rightarrow> 'w \<Rightarrow> (GVK \<Rightarrow> string \<Rightarrow> unstructured list) \<Rightarrow>
     (unstructured \<Rightarrow> string \<Rightarrow> string) \<Rightarrow> (unstructured \<Rightarrow> string \<Rightarrow> string option) \<Rightarrow> bool" where
  "lists_matching cl w objs flds labels =
     (\<forall>gvk opts. int (length (objs gvk (lo_Namespace opts))) \<le> lo_Limit opts \<longrightarrow>
        ListObjects cl gvk opts w =
          ((filter (\<lambda>obj. option_holds (lo_FieldSelector opts) (flds obj) \<and>
                          option_holds (lo_LabelSelector opts) (labels obj))
              (objs gvk (lo_Namespace opts)), None), w))"

lemma getListOptions_limit:
  "getListOptions sl si ns t = Inr (opts, names) \<Longrightarrow> lo_Limit opts = 500"
proof -
  have put: "map_sum id g x = Inr y \<Longrightarrow> \<exists>z. x = Inr z \<and> y = g z" for x :: "'b res" and g y
    by (cases x) auto
  show "getListOptions sl si ns t = Inr (opts, names) \<Longrightarrow> lo_Limit opts = 500"
    by (auto simp: getListOptions_def Let_def split: sum.splits if_splits prod.splits dest!: put)
qed

text \<open>
  C19: listing the resources of a target yields, in the order of the cluster, exactly the
  objects that the include and exclude filters of the SleepInfo select: several names for
  one target are alternatives, everything else is a conjunction. The names and labels of
  the filters are valid ones, which the selector parsers are documented to accept, list calls
  are as documented, and the namespace holds at most one page of 500 objects.
\<close>

theorem getListByNamespace_selected:
  assumes "selectors_ok sl"
    and "filters_valid (GetIncludeRef si)" and "filters_valid (GetExcludeRef si)"
    and "rc_Client c = Some cl" and "rc_SleepInfo c = Some si"
    and "RESTMapping cl (target_GroupKind t) w = Inr gvk"
    and "lists_matching cl w objs flds labels"
    and "length (objs gvk ns) \<le> 500"
    and "\<And>obj. flds obj ''metadata.name'' = u_GetName u obj"
  shows "getListByNamespace u sl c ns t w =
    ((filter (\<lambda>obj. selected si t (u_GetName u obj) (labels obj)) (objs gvk ns), None), w)"
proof -
  obtain opts where opts:
      "getListOptions sl si ns t = Inr (opts, snd (getFieldToInclude (GetIncludeRef si) t))"
      "lo_Namespace opts = ns"
      "\<And>f. option_holds (lo_FieldSelector opts) f \<longleftrightarrow> list_all (field_holds f) (field_terms si t)"
      "\<And>l. option_holds (lo_LabelSelector opts) l \<longleftrightarrow> list_all (label_holds l) (label_terms si)"
    using getListOptions_selects [OF assms(1-3), of ns t] by blast
  let ?kept = "\<lambda>obj. case snd (getFieldToInclude (GetIncludeRef si) t) of
      None \<Rightarrow> True | Some ns \<Rightarrow> ns = {} \<or> u_GetName u obj \<in> ns"
  have "ListObjects cl gvk opts w =
      ((filter (\<lambda>obj. list_all (field_holds (flds obj)) (field_terms si t) \<and>
                      list_all (label_holds (labels obj)) (label_terms si)) (objs gvk ns), None), w)"
    using assms(7,8) opts getListOptions_limit [OF opts(1)] by (simp add: lists_matching_def)
  moreover have "filterByName u items (snd (getFieldToInclude (GetIncludeRef si) t)) =
      filter ?kept items" for items
    by (auto simp: filterByName_def split: option.split)
  moreover have "(?kept obj \<and> list_all (field_holds (flds obj)) (field_terms si t) \<and>
      list_all (label_holds (labels obj)) (label_terms si)) \<longleftrightarrow>
      selected si t (u_GetName u obj) (labels obj)" for obj
    using names_kept [where inc = "GetIncludeRef si" and t = t and name = "u_GetName u obj"]
    unfolding field_terms_hold [of "flds obj", OF assms(9)] label_terms_hold selected_def Let_def
    by blast
  ultimately show ?thesis
    using assms(4-6) opts(1) by (simp add: getListByNamespace_def conj_commute)
qed

subsection \<open>A selector parser\<close>

text \<open>
  The hypotheses on selectors can hold: a parser that splits the text at commas and each
  term at its operator satisfies \<open>selectors_ok\<close>.
\<close>

definition key_char :: "char \<Rightarrow> bool" where
  "key_char c = (c \<noteq> CHR ''='' \<and> c \<noteq> CHR ''!'')"

definition parse_term :: "string \<Rightarrow> sel_term" where
  "parse_term s =
     (let k = takeWhile key_char s; r = dropWhile key_char s in
      if take 1 r = ''!'' then SelNe k (drop 2 r) else SelEq k (drop 2 r))"

definition example_selectors :: selector_lib where
  "example_selectors =
     \<lparr>ParseFieldSelector =
        (\<lambda>s. Inr (\<lambda>f. list_all (field_holds f) (map parse_term (split_on (CHR '','') s)))),
      ParseLabelSelector =
        (\<lambda>s. Inr (\<lambda>l. list_all (label_holds l) (map parse_term (split_on (CHR '','') s))))\<rparr>"

text \<open>Texts without the characters of the syntax.\<close>

definition plain :: "string \<Rightarrow> bool" where
  "plain s = list_all (\<lambda>c. c \<noteq> CHR '','' \<and> c \<noteq> CHR ''='' \<and> c \<noteq> CHR ''!'') s"

lemma name_text_plain: "name_text s \<Longrightarrow> plain s"
  by (auto simp: name_text_def plain_def list_all_iff is_alnum_def is_lower_def is_digit_def)

lemma label_value_plain: "label_value s \<Longrightarrow> plain s"
  by (simp add: label_value_def name_text_plain)

lemma dns_subdomain_plain: "dns_subdomain s \<Longrightarrow> plain s"
  by (auto simp: dns_subdomain_def plain_def list_all_iff is_lower_def is_digit_def)

lemma label_key_plain: "label_key k \<Longrightarrow> plain k"
proof -
  have append: "plain p \<Longrightarrow> plain n \<Longrightarrow> plain (p @ CHR ''/'' # n)" for p n by (simp add: plain_def)
  show "label_key k \<Longrightarrow> plain k"
    using join_split_on [of "CHR ''/''" k]
    by (auto simp: label_key_def label_value_plain dns_subdomain_plain append split: list.splits)
qed

lemmas plain_terms = field_term_def label_term_def name_text_plain label_value_plain label_key_plain

lemma parse_term_text: "plain (term_key t) \<Longrightarrow> parse_term (term_text t) = t"
proof -
  have "plain k \<Longrightarrow> takeWhile key_char (k @ c # r) = k \<and> dropWhile key_char (k @ c # r) = c # r"
    if "\<not> key_char c" for k c r
    using that by (auto simp: plain_def key_char_def list_all_iff takeWhile_append dropWhile_append)
  then show "plain (term_key t) \<Longrightarrow> parse_term (term_text t) = t"
    by (cases t) (auto simp: parse_term_def Let_def key_char_def)
qed

lemma term_text_no_comma: "plain (term_key t) \<Longrightarrow> plain (term_value t) \<Longrightarrow> CHR '','' \<notin> set (term_text t)"
  by (cases t) (auto simp: plain_def list_all_iff)

lemma example_selectors_ok: "selectors_ok example_selectors"
proof -
  have parse: "map parse_term (split_on (CHR '','') (join '','' (map term_text ts))) = ts"
    if "ts \<noteq> []" "\<forall>t \<in> set ts. plain (term_key t) \<and> plain (term_value t)" for ts
  proof -
    have "split_on (CHR '','') (join '','' (map term_text ts)) = map term_text ts"
      using that by (intro split_on_join) (auto simp: term_text_no_comma)
    then show ?thesis using that by (simp add: parse_term_text map_idI)
  qed
  have "map parse_term (split_on (CHR '','') (join '','' (map term_text ts))) = ts"
    if "ts \<noteq> []" "list_all field_term ts \<or> list_all label_term ts" for ts
    using that by (intro parse) (auto simp: list_all_iff plain_terms)
  then show ?thesis by (simp add: selectors_ok_def example_selectors_def)
qed

subsection \<open>An example cluster\<close>

text \<open>
  A world whose state is a list of objects. The accessors read the name from
  \<open>metadata.name\<close>; every object of the list is of every kind.
\<close>

definition obj_field :: "string \<Rightarrow> unstructured \<Rightarrow> json option" where
  "obj_field k obj =
     (case gm_get obj ''metadata'' of Some (JObj m) \<Rightarrow> gm_get m k | _ \<Rightarrow> None)"

definition obj_name :: "unstructured \<Rightarrow> string" where
  "obj_name obj = (case obj_field ''name'' obj of Some (JStr s) \<Rightarrow> s | _ \<Rightarrow> [])"

definition obj_label :: "unstructured \<Rightarrow> string \<Rightarrow> string option" where
  "obj_label obj k =
     (case obj_field ''labels'' obj of
        Some (JObj ls) \<Rightarrow> (case gm_get ls k of Some (JStr s) \<Rightarrow> Some s | _ \<Rightarrow> None)
      | _ \<Rightarrow> None)"

definition obj_meta :: "(string, json) gomap \<Rightarrow> unstructured \<Rightarrow> unstructured" where
  "obj_meta kvs obj =
     gm_put ''metadata''
       (JObj (fold (\<lambda>(k, v). gm_put k v) kvs
          (case gm_get obj ''metadata'' of Some (JObj m) \<Rightarrow> m | _ \<Rightarrow> []))) obj"

definition example_unstr :: unstr_lib where
  "example_unstr =
     \<lparr>u_GetName = obj_name, u_GetNamespace = (\<lambda>obj. ''default''),
      u_GroupVersionKind = (\<lambda>obj. GVK ''apps'' ''v1'' ''Deployment''),
      u_HasController = (\<lambda>obj. obj_field ''ownerReferences'' obj \<noteq> None),
      u_SetNestedField = (\<lambda>obj v k. Inr (gm_put k v obj)),
      u_SetGroupVersionKind = (\<lambda>gvk obj. gm_put ''kind'' (JStr (gvk_Kind gvk)) obj),
      u_SetName = (\<lambda>n. obj_meta [(''name'', JStr n)]),
      u_SetNamespace = (\<lambda>n. obj_meta [(''namespace'', JStr n)]),
      u_ClearManagedFields = (\<lambda>obj. obj), u_SetResourceVersion = (\<lambda>v obj. obj)\<rparr>"

definition obj_fields :: "unstructured \<Rightarrow> string \<Rightarrow> string" where
  "obj_fields obj k = (if k = ''metadata.name'' then obj_name obj else [])"

definition example_client :: "unstructured list client" where
  "example_client =
     \<lparr>RESTMapping = (\<lambda>gk w. Inr (GVK (gk_Group gk) ''v1'' (gk_Kind gk))),
      ListObjects = (\<lambda>gvk opts w.
        ((filter (\<lambda>obj. option_holds (lo_FieldSelector opts) (obj_fields obj) \<and>
                        option_holds (lo_LabelSelector opts) (obj_label obj)) w, None), w)),
      ApplyObject = (\<lambda>obj owner w.
        (None, map (\<lambda>x. if obj_name x = obj_name obj then gm_put ''spec'' (the (gm_get obj ''spec'')) x
                        else x) w)),
      PatchObject = (\<lambda>new old w. (None, map (\<lambda>x. if obj_name x = obj_name new then new else x) w)),
      GetSleepInfo = (\<lambda>ns n w. (Inr example_sleepinfo, w)),
      GetExecution = (\<lambda>ns n w. (Inl (NotFoundErr n), w)),
      GetSecret = (\<lambda>ns n w. (Inl (NotFoundErr n), w)),
      CreateSecret = (\<lambda>s w. (None, w)), UpdateSecret = (\<lambda>s w. (None, w)),
      StatusUpdateSleepInfo = (\<lambda>s w. (None, w)),
      UpdateExecution = (\<lambda>e w. (Inr e, w)), StatusUpdateExecution = (\<lambda>e w. (None, w))\<rparr>"

definition example_rc :: "SleepInfo \<Rightarrow> unstructured list ResourceClient" where
  "example_rc si =
     \<lparr>rc_Client = Some example_client, rc_SleepInfo = Some si, rc_FieldManagerName = ''kube-green''\<rparr>"

definition example_obj :: "string \<Rightarrow> string \<Rightarrow> unstructured" where
  "example_obj name replicas =
     [(''metadata'', JObj [(''name'', JStr name)]),
      (''spec'', JObj [(''replicas'', JNum replicas)])]"

text \<open>Two names to include, one name and one label to exclude.\<close>

definition name_ref :: "string \<Rightarrow> FilterRef" where
  "name_ref n =
     \<lparr>fr_APIVersion = ''apps/v1'', fr_Kind = ''Deployment'', fr_Name = n, fr_MatchLabels = []\<rparr>"

definition label_ref :: "string \<Rightarrow> string \<Rightarrow> FilterRef" where
  "label_ref k v = \<lparr>fr_APIVersion = [], fr_Kind = [], fr_Name = [], fr_MatchLabels = [(k, v)]\<rparr>"

definition filtered_sleepinfo :: SleepInfo where
  "filtered_sleepinfo =
     example_sleepinfo\<lparr>si_Spec := example_spec\<lparr>IncludeRef := [name_ref ''a'', name_ref ''b''],
                                               ExcludeRef := [name_ref ''b'', label_ref ''example.com/tier'' ''db'']\<rparr>\<rparr>"

lemma example_lists: "lists_matching example_client w (\<lambda>_ _. w) obj_fields obj_label"
  by (simp add: lists_matching_def example_client_def)

lemma example_label: "label_key ''example.com/tier''" "label_value ''db''"
  by (simp_all add: label_key_def label_value_def dns_subdomain_def name_text_def is_alnum_def is_lower_def is_digit_def)

theorem getListByNamespace_selected_witness:
  "getListByNamespace example_unstr example_selectors (example_rc filtered_sleepinfo) ''default''
     DeploymentTarget [example_obj ''a'' ''1'', example_obj ''b'' ''1'', example_obj ''c'' ''1''] =
   (([example_obj ''a'' ''1''], None),
    [example_obj ''a'' ''1'', example_obj ''b'' ''1'', example_obj ''c'' ''1''])"
proof -
  let ?w = "[example_obj ''a'' ''1'', example_obj ''b'' ''1'', example_obj ''c'' ''1'']"
  have "getListByNamespace example_unstr example_selectors (example_rc filtered_sleepinfo) ''default''
      DeploymentTarget ?w =
    ((filter (\<lambda>obj. selected filtered_sleepinfo DeploymentTarget (u_GetName example_unstr obj)
        (obj_label obj)) ?w, None), ?w)"
    by (rule getListByNamespace_selected [where objs = "\<lambda>_ _. ?w" and flds = obj_fields
          and cl = example_client and gvk = "GVK ''apps'' ''v1'' ''Deployment''"])
      (simp_all add: example_selectors_ok example_lists filters_valid_def example_label
        name_text_def is_alnum_def is_lower_def
        filtered_sleepinfo_def example_defs name_ref_def label_ref_def GetIncludeRef_def GetExcludeRef_def
        example_rc_def obj_fields_def example_unstr_def,
       simp add: example_client_def target_GroupKind_def DeploymentTarget_def)
  then show ?thesis
    by (simp add: selected_def GetIncludeRef_def GetExcludeRef_def filtered_sleepinfo_def example_defs
        name_ref_def label_ref_def obj_label_def matchPatchTargetAndFilterRef_def DeploymentTarget_def example_unstr_def
        obj_name_def obj_field_def example_obj_def)
qed

subsection \<open>Name filters and the core group\<close>

text \<open>
  C39: a name filter applies to a target exactly when its apiVersion is the group of the
  target, a slash and a version, and the kinds agree; so for a target of the core group,
  whose apiVersion is the bare version, no name filter with a plain version ever applies.
\<close>

theorem name_filters_by_group:
  "(matchPatchTargetAndFilterRef t f \<longleftrightarrow>
      (\<exists>version. fr_APIVersion f = pt_Group t @ ''/'' @ version) \<and> fr_Kind f = pt_Kind t) \<and>
   (pt_Group t = [] \<and> (\<forall>f \<in> set fs. CHR ''/'' \<notin> set (fr_APIVersion f)) \<longrightarrow> filter_names fs t = [])"
proof -
  have *: "matchPatchTargetAndFilterRef t f \<longleftrightarrow>
      (\<exists>version. fr_APIVersion f = pt_Group t @ ''/'' @ version) \<and> fr_Kind f = pt_Kind t" for f
    by (auto simp: matchPatchTargetAndFilterRef_def has_prefix_iff)
  moreover have "pt_Group t = [] \<and> (\<forall>f \<in> set fs. CHR ''/'' \<notin> set (fr_APIVersion f)) \<longrightarrow>
      filter_names fs t = []"
    by (induction fs) (auto simp: *)
  ultimately show ?thesis by blast
qed

definition pod_ref :: FilterRef where
  "pod_ref = \<lparr>fr_APIVersion = ''v1'', fr_Kind = ''Pod'', fr_Name = ''keep'', fr_MatchLabels = []\<rparr>"

theorem name_filters_by_group_witness: "filter_names [pod_ref] (PatchTarget [] ''Pod'') = []"
  using name_filters_by_group [where t = "PatchTarget [] ''Pod''" and fs = "[pod_ref]"]
  by (simp add: pod_ref_def)

end
