(* ===== verification/Managed_Resources.thy ===== *)
theory Managed_Resources
  imports Generic_Resource
begin

text \<open>
  \<open>internal/controller/sleepinfo/jsonpatch/jsonpatch.go\<close>: the resources managed by one
  SleepInfo, grouped by patch target; putting them to sleep, waking them up, and the
  restore patches saved in between.
\<close>

record 'p libs =
  l_patch :: "'p patch_lib"
  l_unstr :: unstr_lib
  l_sel :: selector_lib
  l_range :: "PatchTarget list \<Rightarrow> PatchTarget list"

text \<open>
  \<open>l_range\<close> is the order in which a \<open>range\<close> loop visits the keys of a map: Go leaves it
  open, but visits every key once.
\<close>

definition range_ok :: "'p libs \<Rightarrow> bool" where
  "range_ok L = (\<forall>ks. distinct ks \<longrightarrow> distinct (l_range L ks) \<and> set (l_range L ks) = set ks)"

record 'w managedResources =
  resMapping :: "(PatchTarget, 'w genericResource) gomap"
  mr_namespace :: string

section \<open>NewResources\<close>

fun NewResources_loop ::
    "'p libs \<Rightarrow> 'w ResourceClient \<Rightarrow> string \<Rightarrow> (string, RestorePatches) gomap \<Rightarrow> Patch list \<Rightarrow>
     (PatchTarget, 'w genericResource) gomap \<Rightarrow> 'w \<Rightarrow>
     (PatchTarget, 'w genericResource) gomap \<times> 'w" where
  "NewResources_loop L res namespace restorePatches [] mapping w = (mapping, w)"
| "NewResources_loop L res namespace restorePatches (patchData # ps) mapping w =
     (let target = p_Target patchData;
          restorePatch =
            (case gm_get restorePatches (target_string target) of
               Some rp \<Rightarrow> rp
             | None \<Rightarrow> Some []);
          generic = newGenericResource res patchData restorePatch
      in case getListByNamespace (l_unstr L) (l_sel L) res namespace target w of
           ((items, err), w1) \<Rightarrow>
             (if err \<noteq> None then NewResources_loop L res namespace restorePatches ps mapping w1
              else if items = [] then NewResources_loop L res namespace restorePatches ps mapping w1
              else NewResources_loop L res namespace restorePatches ps
                     (gm_put target (generic\<lparr>g_data := items\<rparr>) mapping) w1))"

definition NewResources ::
    "'p libs \<Rightarrow> 'w ResourceClient \<Rightarrow> string \<Rightarrow> (string, RestorePatches) gomap option \<Rightarrow> 'w \<Rightarrow>
     'w managedResources res \<times> 'w" where
  "NewResources L res namespace restorePatches w =
     (case rc_SleepInfo res of
        None \<Rightarrow>
          (Inl (WrapErr [] (SentinelErr ErrJSONPatch) '': sleepInfo is not provided''), w)
      | Some sleepInfo \<Rightarrow>
          (let rps = (case restorePatches of None \<Rightarrow> [] | Some m \<Rightarrow> m) in
           case NewResources_loop L res namespace rps (GetPatches sleepInfo) [] w of
             (mapping, w1) \<Rightarrow> (Inr \<lparr>resMapping = mapping, mr_namespace = namespace\<rparr>, w1)))"

definition HasResource :: "'w managedResources \<Rightarrow> bool" where
  "HasResource g = list_ex (\<lambda>(k, res). g_data res \<noteq> []) (resMapping g)"

section \<open>Sparse objects for server-side apply\<close>

fun set_fields :: "unstr_lib \<Rightarrow> (string \<times> json) list \<Rightarrow> unstructured \<Rightarrow> unstructured res" where
  "set_fields u [] sparse = Inr sparse"
| "set_fields u ((key, value) # fs) sparse =
     (case u_SetNestedField u sparse value key of
        Inl e \<Rightarrow> Inl e
      | Inr sparse1 \<Rightarrow> set_fields u fs sparse1)"

definition buildSparseApplyObject ::
    "unstr_lib \<Rightarrow> unstructured \<Rightarrow> string \<Rightarrow> unstructured res" where
  "buildSparseApplyObject u resource mergePatch =
     (case unmarshal_object mergePatch of
        Inl e \<Rightarrow> Inl e
      | Inr patchMap \<Rightarrow>
          (case set_fields u (case patchMap of None \<Rightarrow> [] | Some m \<Rightarrow> m) [] of
             Inl e \<Rightarrow> Inl e
           | Inr sparse \<Rightarrow>
               Inr (u_SetNamespace u (u_GetNamespace u resource)
                     (u_SetName u (u_GetName u resource)
                       (u_SetGroupVersionKind u (u_GroupVersionKind u resource) sparse)))))"

section \<open>Sleep\<close>

definition nil_map_write :: goerror where
  "nil_map_write = PanicErr ''assignment to entry in nil map''"

abbreviation json_patch_err :: "goerror \<Rightarrow> goerror option" where
  "json_patch_err e \<equiv> Some (wrap_sentinel ErrJSONPatch e)"

text \<open>The loop over the resources of one target.\<close>

fun sleep_items ::
    "'p libs \<Rightarrow> 'p Patcher \<Rightarrow> 'w genericResource \<Rightarrow> unstructured list \<Rightarrow> 'w \<Rightarrow>
     (goerror option \<times> 'w genericResource) \<times> 'w" where
  "sleep_items L patcherFn g [] w = ((None, g), w)"
| "sleep_items L patcherFn g (resource # rs) w =
     (if u_HasController (l_unstr L) resource then sleep_items L patcherFn g rs w
      else
        (let original = marshal (JObj resource) in
         case Exec (l_patch L) patcherFn original of
           Inl _ \<Rightarrow> sleep_items L patcherFn g rs w
         | Inr modified \<Rightarrow>
             (case CreateMergePatch (l_patch L) modified original of
                Inl e \<Rightarrow> ((json_patch_err e, g), w)
              | Inr restorePatch \<Rightarrow>
                  (if restorePatch = ''{}'' then sleep_items L patcherFn g rs w
                   else
                     (case g_restorePatches g of
                        None \<Rightarrow> ((Some nil_map_write, g), w)
                      | Some m \<Rightarrow>
                          (let g1 = g\<lparr>g_restorePatches :=
                                 Some (gm_put (u_GetName (l_unstr L) resource) restorePatch m)\<rparr> in
                           case CreateMergePatch (l_patch L) original modified of
                             Inl e \<Rightarrow> ((json_patch_err e, g1), w)
                           | Inr forwardPatch \<Rightarrow>
                               (case buildSparseApplyObject (l_unstr L) resource forwardPatch of
                                  Inl e \<Rightarrow> ((json_patch_err e, g1), w)
                                | Inr sparseObj \<Rightarrow>
                                    (case SSAPatch (l_unstr L) (g_Client g) sparseObj w of
                                       (Some e, w1) \<Rightarrow> ((json_patch_err e, g1), w1)
                                     | (None, w1) \<Rightarrow>
                                         sleep_items L patcherFn (g1\<lparr>g_isCacheInvalid := True\<rparr>)
                                           rs w1))))))))"

text \<open>One target: the checks before the loop, then the loop.\<close>

definition sleep_target ::
    "'p libs \<Rightarrow> string \<Rightarrow> 'w genericResource \<Rightarrow> 'w \<Rightarrow> (goerror option \<times> 'w genericResource) \<times> 'w"
where
  "sleep_target L namespace g w =
     (if p_Patch (g_patchData g) = '''' then
        ((Some (WrapErr [] (SentinelErr ErrJSONPatch) '': invalid empty patch''), g), w)
      else
        (case New (l_patch L) (p_Patch (g_patchData g)) of
           Inl e \<Rightarrow> ((json_patch_err e, g), w)
         | Inr patcherFn \<Rightarrow>
             (if g_isCacheInvalid g then
                (case getListByNamespace (l_unstr L) (l_sel L) (g_Client g) namespace
                        (p_Target (g_patchData g)) w of
                   ((items, Some e), w1) \<Rightarrow>
                     ((Some (wrap_sentinel ErrListResources e), g\<lparr>g_data := items\<rparr>), w1)
                 | ((items, None), w1) \<Rightarrow>
                     sleep_items L patcherFn (g\<lparr>g_data := items\<rparr>) items w1)
              else sleep_items L patcherFn g (g_data g) w)))"

text \<open>
  The loop over the targets, in the order of \<open>range\<close>. The group of a target is a pointer
  in the map: what a pass changes in it stays changed when the loop stops at an error.
\<close>

fun for_targets ::
    "(string \<Rightarrow> 'w genericResource \<Rightarrow> 'w \<Rightarrow> (goerror option \<times> 'w genericResource) \<times> 'w) \<Rightarrow>
     PatchTarget list \<Rightarrow> 'w managedResources \<Rightarrow> 'w \<Rightarrow> (goerror option \<times> 'w managedResources) \<times> 'w"
where
  "for_targets body [] g w = ((None, g), w)"
| "for_targets body (k # ks) g w =
     (case gm_get (resMapping g) k of
        None \<Rightarrow> for_targets body ks g w
      | Some res \<Rightarrow>
          (case body (mr_namespace g) res w of
             ((err, res1), w1) \<Rightarrow>
               (let g1 = g\<lparr>resMapping := gm_put k res1 (resMapping g)\<rparr> in
                if err \<noteq> None then ((err, g1), w1) else for_targets body ks g1 w1)))"

definition Sleep ::
    "'p libs \<Rightarrow> 'w managedResources \<Rightarrow> 'w \<Rightarrow> (goerror option \<times> 'w managedResources) \<times> 'w" where
  "Sleep L g w = for_targets (sleep_target L) (l_range L (map fst (resMapping g))) g w"

section \<open>WakeUp\<close>

fun wake_items ::
    "'p libs \<Rightarrow> 'p Patcher \<Rightarrow> 'w genericResource \<Rightarrow> unstructured list \<Rightarrow> 'w \<Rightarrow>
     (goerror option \<times> 'w genericResource) \<times> 'w" where
  "wake_items L patcherFn g [] w = ((None, g), w)"
| "wake_items L patcherFn g (resource # rs) w =
     (case (case g_restorePatches g of
              None \<Rightarrow> None
            | Some m \<Rightarrow> gm_get m (u_GetName (l_unstr L) resource)) of
        None \<Rightarrow> wake_items L patcherFn g rs w
      | Some rawPatch \<Rightarrow>
          (let current = marshal (JObj resource) in
           case IsResourceChanged (l_patch L) patcherFn current of
             Inl _ \<Rightarrow> wake_items L patcherFn g rs w
           | Inr isResourceChanged \<Rightarrow>
               (if isResourceChanged then wake_items L patcherFn g rs w
                else
                  (case MergePatch (l_patch L) current rawPatch of
                     Inl e \<Rightarrow> ((json_patch_err e, g), w)
                   | Inr restored \<Rightarrow>
                       (case unmarshal_object restored of
                          Inl e \<Rightarrow> ((json_patch_err e, g), w)
                        | Inr obj \<Rightarrow>
                            (case rc_Patch (g_Client g) resource
                                    (case obj of None \<Rightarrow> [] | Some m \<Rightarrow> m) w of
                               (Some e, w1) \<Rightarrow> ((json_patch_err e, g), w1)
                             | (None, w1) \<Rightarrow>
                                 wake_items L patcherFn (g\<lparr>g_isCacheInvalid := True\<rparr>) rs w1))))))"

definition wake_target ::
    "'p libs \<Rightarrow> string \<Rightarrow> 'w genericResource \<Rightarrow> 'w \<Rightarrow> (goerror option \<times> 'w genericResource) \<times> 'w"
where
  "wake_target L namespace g w =
     (case (if g_isCacheInvalid g
            then getListByNamespace (l_unstr L) (l_sel L) (g_Client g) namespace
                   (p_Target (g_patchData g)) w
            else ((g_data g, None), w)) of
        ((items, Some e), w1) \<Rightarrow>
          ((Some (wrap_sentinel ErrListResources e), g\<lparr>g_data := items\<rparr>), w1)
      | ((items, None), w1) \<Rightarrow>
          (let g1 = g\<lparr>g_data := items\<rparr> in
           case New (l_patch L) (p_Patch (g_patchData g)) of
             Inl e \<Rightarrow> ((json_patch_err e, g1), w1)
           | Inr patcherFn \<Rightarrow> wake_items L patcherFn g1 items w1))"

definition WakeUp ::
    "'p libs \<Rightarrow> 'w managedResources \<Rightarrow> 'w \<Rightarrow> (goerror option \<times> 'w managedResources) \<times> 'w" where
  "WakeUp L g w = for_targets (wake_target L) (l_range L (map fst (resMapping g))) g w"

section \<open>Saving and restoring the original state\<close>

definition rp_empty :: "RestorePatches \<Rightarrow> bool" where
  "rp_empty rp = (case rp of None \<Rightarrow> True | Some m \<Rightarrow> m = [])"

fun data_to_save ::
    "(PatchTarget, 'w genericResource) gomap \<Rightarrow> PatchTarget list \<Rightarrow>
     (string, RestorePatches) gomap \<Rightarrow> (string, RestorePatches) gomap" where
  "data_to_save mapping [] acc = acc"
| "data_to_save mapping (k # ks) acc =
     (case gm_get mapping k of
        None \<Rightarrow> data_to_save mapping ks acc
      | Some res \<Rightarrow>
          (if rp_empty (g_restorePatches res) then data_to_save mapping ks acc
           else data_to_save mapping ks (gm_put (target_string k) (g_restorePatches res) acc)))"

text \<open>The JSON form of a \<open>map[string]RestorePatches\<close>; a nil inner map is null.\<close>

definition encode_patches :: "RestorePatches \<Rightarrow> json" where
  "encode_patches rp = (case rp of None \<Rightarrow> JNull | Some m \<Rightarrow> encode_map JStr m)"

definition encode_restore :: "(string, RestorePatches) gomap \<Rightarrow> json" where
  "encode_restore m = encode_map encode_patches m"

definition GetOriginalInfoToSave :: "'p libs \<Rightarrow> 'w managedResources \<Rightarrow> string option" where
  "GetOriginalInfoToSave L g =
     (if resMapping g = [] then None
      else Some (marshal (encode_restore
             (data_to_save (resMapping g) (l_range L (map fst (resMapping g))) []))))"

definition GetOriginalInfoToRestore ::
    "string option \<Rightarrow> (string, RestorePatches) gomap option res" where
  "GetOriginalInfoToRestore data =
     (case data of
        None \<Rightarrow> Inr None
      | Some d \<Rightarrow>
          (case parse_json d of
             None \<Rightarrow> Inl syntax_error
           | Some v \<Rightarrow> decode_map (decode_map decode_str) v))"

section \<open>What sleeping does to one resource\<close>

text \<open>
  The three outcomes of the loop body: the resource is left alone, the operation stops
  with an error, or a restore patch is recorded and a sparse object is applied.
\<close>

datatype sleep_outcome = Untouched | Broken goerror | Changed string unstructured

definition sleep_outcome :: "'p libs \<Rightarrow> 'p Patcher \<Rightarrow> unstructured \<Rightarrow> sleep_outcome" where
  "sleep_outcome L p d =
     (if u_HasController (l_unstr L) d then Untouched
      else case Exec (l_patch L) p (marshal (JObj d)) of
        Inl _ \<Rightarrow> Untouched
      | Inr modified \<Rightarrow>
          (case CreateMergePatch (l_patch L) modified (marshal (JObj d)) of
             Inl e \<Rightarrow> Broken e
           | Inr restorePatch \<Rightarrow>
               (if restorePatch = ''{}'' then Untouched
                else case CreateMergePatch (l_patch L) (marshal (JObj d)) modified of
                  Inl e \<Rightarrow> Broken e
                | Inr forwardPatch \<Rightarrow>
                    (case buildSparseApplyObject (l_unstr L) d forwardPatch of
                       Inl e \<Rightarrow> Broken e
                     | Inr sparse \<Rightarrow> Changed restorePatch sparse))))"

definition record_restore ::
    "'p libs \<Rightarrow> 'p Patcher \<Rightarrow> unstructured \<Rightarrow> (string, string) gomap \<Rightarrow> (string, string) gomap" where
  "record_restore L p d m =
     (case sleep_outcome L p d of
        Changed rp _ \<Rightarrow> gm_put (u_GetName (l_unstr L) d) rp m
      | _ \<Rightarrow> m)"

definition sparse_objects :: "'p libs \<Rightarrow> 'p Patcher \<Rightarrow> unstructured list \<Rightarrow> unstructured list" where
  "sparse_objects L p rs =
     concat (map (\<lambda>d. case sleep_outcome L p d of Changed _ sp \<Rightarrow> [sp] | _ \<Rightarrow> []) rs)"

text \<open>Applying a list of objects, stopping at the first error.\<close>

fun apply_all ::
    "unstr_lib \<Rightarrow> 'w ResourceClient \<Rightarrow> unstructured list \<Rightarrow> 'w \<Rightarrow> goerror option \<times> 'w" where
  "apply_all u rc [] w = (None, w)"
| "apply_all u rc (x # xs) w =
     (case SSAPatch u rc x w of (Some e, w1) \<Rightarrow> (Some e, w1) | (None, w1) \<Rightarrow> apply_all u rc xs w1)"

lemma sleep_items_Untouched:
  "sleep_outcome L p d = Untouched \<Longrightarrow> sleep_items L p g (d # rs) w = sleep_items L p g rs w"
  by (auto simp: sleep_outcome_def Let_def split: if_splits sum.splits)

lemma sleep_items_Changed:
  assumes "sleep_outcome L p d = Changed rp sp" and "g_restorePatches g = Some m"
  shows "sleep_items L p g (d # rs) w =
    (let g1 = g\<lparr>g_restorePatches := Some (gm_put (u_GetName (l_unstr L) d) rp m)\<rparr> in
     case SSAPatch (l_unstr L) (g_Client g) sp w of
       (Some e, w1) \<Rightarrow> ((json_patch_err e, g1), w1)
     | (None, w1) \<Rightarrow> sleep_items L p (g1\<lparr>g_isCacheInvalid := True\<rparr>) rs w1)"
  using assms by (auto simp: sleep_outcome_def Let_def split: if_splits sum.splits option.split)

lemma sleep_items_Broken:
  assumes "sleep_outcome L p d = Broken e" and "g_restorePatches g = Some m"
  shows "\<exists>g1. sleep_items L p g (d # rs) w = ((json_patch_err e, g1), w)"
  using assms by (auto simp: sleep_outcome_def Let_def split: if_splits sum.splits)

text \<open>
  Sleeping succeeds exactly when no resource is broken and every sparse object is applied;
  then the restore patches are those recorded, in order, on top of the previous ones.
\<close>

lemma sleep_items_success:
  assumes "g_restorePatches g = Some m"
  shows "sleep_items L p g rs w = ((None, g'), w') \<longleftrightarrow>
    (\<forall>d \<in> set rs. \<forall>e. sleep_outcome L p d \<noteq> Broken e) \<and>
    apply_all (l_unstr L) (g_Client g) (sparse_objects L p rs) w = (None, w') \<and>
    g' = g\<lparr>g_restorePatches := Some (fold (record_restore L p) rs m),
           g_isCacheInvalid := g_isCacheInvalid g \<or> sparse_objects L p rs \<noteq> []\<rparr>"
  using assms
proof (induction rs arbitrary: g m w)
  case Nil
  then show ?case by (cases g) (auto simp: sparse_objects_def)
next
  case (Cons d rs)
  show ?case
  proof (cases "sleep_outcome L p d")
    case Untouched
    with Cons.IH [OF Cons.prems] show ?thesis
      by (simp add: sleep_items_Untouched sparse_objects_def record_restore_def
          del: sleep_items.simps)
  next
    case (Broken e)
    with sleep_items_Broken [OF Broken Cons.prems] show ?thesis
      by (metis Pair_inject list.set_intros(1) option.distinct(1))
  next
    case (Changed rp sp)
    obtain err w1 where ssa: "SSAPatch (l_unstr L) (g_Client g) sp w = (err, w1)"
      by (cases "SSAPatch (l_unstr L) (g_Client g) sp w")
    show ?thesis
    proof (cases err)
      case None
      with ssa Changed show ?thesis
        by (simp add: sleep_items_Changed [OF Changed Cons.prems] Let_def Cons.IH
            sparse_objects_def record_restore_def del: sleep_items.simps)
    next
      case (Some e)
      with ssa Changed show ?thesis
        by (simp add: sleep_items_Changed [OF Changed Cons.prems] Let_def sparse_objects_def
            del: sleep_items.simps)
    qed
  qed
qed

lemma record_restore_wf: "gm_wf m \<Longrightarrow> gm_wf (record_restore L p d m)"
  by (simp add: record_restore_def split: sleep_outcome.split)

text \<open>With distinct names every resource has its own entry.\<close>

lemma record_restore_get:
  "gm_get (record_restore L p d m) n =
   (case sleep_outcome L p d of
      Changed rp _ \<Rightarrow> if u_GetName (l_unstr L) d = n then Some rp else gm_get m n
    | _ \<Rightarrow> gm_get m n)"
  by (simp add: record_restore_def split: sleep_outcome.split)

lemma fold_record_other:
  assumes "\<forall>d \<in> set rs. u_GetName (l_unstr L) d = n \<longrightarrow> (\<forall>rp sp. sleep_outcome L p d \<noteq> Changed rp sp)"
  shows "gm_get (fold (record_restore L p) rs m) n = gm_get m n"
  using assms
  by (induction rs arbitrary: m) (auto simp: record_restore_get split: sleep_outcome.split)

lemma fold_record_changed:
  assumes "distinct (map (u_GetName (l_unstr L)) rs)"
    and "d \<in> set rs" and "sleep_outcome L p d = Changed rp sp"
  shows "gm_get (fold (record_restore L p) rs m) (u_GetName (l_unstr L) d) = Some rp"
  using assms
proof (induction rs arbitrary: m)
  case Nil
  then show ?case by simp
next
  case (Cons x rs)
  show ?case
  proof (cases "x = d")
    case True
    have "\<forall>y \<in> set rs. u_GetName (l_unstr L) y \<noteq> u_GetName (l_unstr L) d"
      using Cons.prems(1) True by (auto simp: image_iff)
    then have "gm_get (fold (record_restore L p) rs (record_restore L p d m)) (u_GetName (l_unstr L) d) =
        gm_get (record_restore L p d m) (u_GetName (l_unstr L) d)"
      by (intro fold_record_other) blast
    with True Cons.prems(3) show ?thesis by (simp add: record_restore_get)
  next
    case False
    with Cons show ?thesis by simp
  qed
qed

section \<open>What waking up does to one resource\<close>

datatype wake_outcome = Kept | Failing goerror | Restored unstructured

definition wake_outcome :: "'p libs \<Rightarrow> 'p Patcher \<Rightarrow> RestorePatches \<Rightarrow> unstructured \<Rightarrow> wake_outcome" where
  "wake_outcome L p rp d =
     (case Option.bind rp (\<lambda>m. gm_get m (u_GetName (l_unstr L) d)) of
        None \<Rightarrow> Kept
      | Some raw \<Rightarrow>
          (case IsResourceChanged (l_patch L) p (marshal (JObj d)) of
             Inr False \<Rightarrow>
               (case MergePatch (l_patch L) (marshal (JObj d)) raw of
                  Inl e \<Rightarrow> Failing e
                | Inr restored \<Rightarrow>
                    (case unmarshal_object restored of
                       Inl e \<Rightarrow> Failing e
                     | Inr obj \<Rightarrow> Restored (case obj of None \<Rightarrow> [] | Some m \<Rightarrow> m)))
           | _ \<Rightarrow> Kept))"

definition restored_objects ::
    "'p libs \<Rightarrow> 'p Patcher \<Rightarrow> RestorePatches \<Rightarrow> unstructured list \<Rightarrow> (unstructured \<times> unstructured) list" where
  "restored_objects L p rp rs =
     concat (map (\<lambda>d. case wake_outcome L p rp d of Restored obj \<Rightarrow> [(d, obj)] | _ \<Rightarrow> []) rs)"

text \<open>Patching a list of old and new objects, stopping at the first error.\<close>

fun patch_all ::
    "'w ResourceClient \<Rightarrow> (unstructured \<times> unstructured) list \<Rightarrow> 'w \<Rightarrow> goerror option \<times> 'w" where
  "patch_all rc [] w = (None, w)"
| "patch_all rc ((old, new) # xs) w =
     (case rc_Patch rc old new w of (Some e, w1) \<Rightarrow> (Some e, w1) | (None, w1) \<Rightarrow> patch_all rc xs w1)"

lemma wake_items_step:
  "wake_items L p g (d # rs) w =
   (case wake_outcome L p (g_restorePatches g) d of
      Kept \<Rightarrow> wake_items L p g rs w
    | Failing e \<Rightarrow> ((json_patch_err e, g), w)
    | Restored obj \<Rightarrow>
        (case rc_Patch (g_Client g) d obj w of
           (Some e, w1) \<Rightarrow> ((json_patch_err e, g), w1)
         | (None, w1) \<Rightarrow> wake_items L p (g\<lparr>g_isCacheInvalid := True\<rparr>) rs w1))"
  by (cases "g_restorePatches g")
    (auto simp: wake_outcome_def Let_def split: option.split sum.split bool.split)

lemma wake_items_success:
  "wake_items L p g rs w = ((None, g'), w') \<longleftrightarrow>
    (\<forall>d \<in> set rs. \<forall>e. wake_outcome L p (g_restorePatches g) d \<noteq> Failing e) \<and>
    patch_all (g_Client g) (restored_objects L p (g_restorePatches g) rs) w = (None, w') \<and>
    g' = g\<lparr>g_isCacheInvalid := g_isCacheInvalid g \<or>
             restored_objects L p (g_restorePatches g) rs \<noteq> []\<rparr>"
proof (induction rs arbitrary: g w)
  case Nil
  then show ?case by (cases g) (auto simp: restored_objects_def)
next
  case (Cons d rs)
  show ?case
  proof (cases "wake_outcome L p (g_restorePatches g) d")
    case (Restored obj)
    then show ?thesis
      by (cases "rc_Patch (g_Client g) d obj w"; cases "fst (rc_Patch (g_Client g) d obj w)")
        (auto simp: wake_items_step Cons.IH restored_objects_def simp del: wake_items.simps)
  qed (auto simp: wake_items_step Cons.IH restored_objects_def simp del: wake_items.simps)
qed

section \<open>The loop over the targets\<close>

text \<open>What an operation on one target leaves of the target's group.\<close>

lemma sleep_items_keeps:
  "sleep_items L p g rs w = ((err, g'), w') \<Longrightarrow>
   g_Client g' = g_Client g \<and> g_patchData g' = g_patchData g \<and> g_data g' = g_data g"
  by (induction rs arbitrary: g w)
    (fastforce simp: Let_def split: if_splits sum.splits option.splits prod.splits)+

lemma wake_items_keeps:
  "wake_items L p g rs w = ((err, g'), w') \<Longrightarrow>
   g_Client g' = g_Client g \<and> g_patchData g' = g_patchData g \<and> g_data g' = g_data g \<and>
   g_restorePatches g' = g_restorePatches g"
proof (induction rs arbitrary: g w)
  case (Cons d rs)
  then show ?case
    by (fastforce simp: wake_items_step simp del: wake_items.simps
        split: wake_outcome.splits option.splits prod.splits)
qed simp

lemma sleep_target_keeps:
  assumes "sleep_target L ns g w = ((err, g'), w')"
  shows "g_Client g' = g_Client g \<and> g_patchData g' = g_patchData g \<and>
    (\<not> g_isCacheInvalid g \<longrightarrow> g_data g' = g_data g)"
  using assms
  by (auto simp: sleep_target_def split: if_splits sum.splits option.splits prod.splits
      dest!: sleep_items_keeps)

lemma wake_target_keeps:
  assumes "wake_target L ns g w = ((err, g'), w')"
  shows "g_Client g' = g_Client g \<and> g_patchData g' = g_patchData g \<and>
    (\<not> g_isCacheInvalid g \<longrightarrow> g_data g' = g_data g)"
  using assms
  by (auto simp: wake_target_def Let_def split: if_splits sum.splits option.splits prod.splits
      dest!: wake_items_keeps)

text \<open>
  The contract of an operation on one target: it keeps the client and the patch of the
  group, and the listed resources too unless they have to be listed again.
\<close>

locale target_operation =
  fixes body :: "string \<Rightarrow> 'w genericResource \<Rightarrow> 'w \<Rightarrow> (goerror option \<times> 'w genericResource) \<times> 'w"
  assumes keeps_group: "body ns g w = ((err, g'), w') \<Longrightarrow>
      g_Client g' = g_Client g \<and> g_patchData g' = g_patchData g \<and>
      (\<not> g_isCacheInvalid g \<longrightarrow> g_data g' = g_data g)"
begin

lemma for_targets_Some:
  assumes "gm_get (resMapping g) x = Some res0"
    and "body (mr_namespace g) res0 w = ((e, res1), w1)"
  shows "for_targets body (x # ks) g w =
    (let g1 = g\<lparr>resMapping := gm_put x res1 (resMapping g)\<rparr> in
     case e of Some _ \<Rightarrow> ((e, g1), w1) | None \<Rightarrow> for_targets body ks g1 w1)"
  using assms by (auto simp: Let_def split: option.split)

lemma for_targets_keys:
  assumes "gm_wf (resMapping g)" and "for_targets body ks g w = ((err, g'), w')"
  shows "gm_wf (resMapping g') \<and> map fst (resMapping g') = map fst (resMapping g) \<and>
    mr_namespace g' = mr_namespace g"
  using assms
proof (induction ks arbitrary: g w)
  case Nil
  then show ?case by simp
next
  case (Cons x ks)
  show ?case
  proof (cases "gm_get (resMapping g) x")
    case None
    with Cons show ?thesis by simp
  next
    case (Some res0)
    obtain e res1 w1 where b: "body (mr_namespace g) res0 w = ((e, res1), w1)"
      by (metis surj_pair)
    let ?g1 = "g\<lparr>resMapping := gm_put x res1 (resMapping g)\<rparr>"
    have g1: "gm_wf (resMapping ?g1)" "map fst (resMapping ?g1) = map fst (resMapping g)"
        "mr_namespace ?g1 = mr_namespace g"
      using Cons.prems(1) Some by (simp_all add: gm_put_keys)
    show ?thesis
      using Cons.IH [OF g1(1)] g1 Cons.prems(2) unfolding for_targets_Some [of g x, OF Some b]
      by (cases e) auto
  qed
qed

text \<open>A successful loop runs the operation successfully on every target it visits.\<close>

lemma for_targets_success:
  assumes "for_targets body ks g w = ((None, g'), w')" and "distinct ks"
    and "gm_get (resMapping g) k = Some res"
  shows "if k \<in> set ks
    then \<exists>w1 res1 w2. body (mr_namespace g) res w1 = ((None, res1), w2) \<and>
           gm_get (resMapping g') k = Some res1
    else gm_get (resMapping g') k = Some res"
  using assms
proof (induction ks arbitrary: g w res)
  case Nil
  then show ?case by simp
next
  case (Cons x ks)
  show ?case
  proof (cases "gm_get (resMapping g) x")
    case None
    with Cons.prems have "x \<noteq> k" by auto
    with Cons.IH [of g w res] Cons.prems None show ?thesis by simp
  next
    case (Some res0)
    obtain err res1 w1 where b: "body (mr_namespace g) res0 w = ((err, res1), w1)"
      by (metis surj_pair)
    let ?g1 = "g\<lparr>resMapping := gm_put x res1 (resMapping g)\<rparr>"
    have "err = None \<and> for_targets body ks ?g1 w1 = ((None, g'), w')"
      using Cons.prems(1) unfolding for_targets_Some [of g x, OF Some b] by (cases err) auto
    then have err: "err = None" and run: "for_targets body ks ?g1 w1 = ((None, g'), w')" by blast+
    show ?thesis
    proof (cases "x = k")
      case True
      have "x \<notin> set ks" using Cons.prems(2) by simp
      moreover have "gm_get (resMapping ?g1) x = Some res1" by simp
      ultimately have "gm_get (resMapping g') x = Some res1"
        using Cons.IH [OF run, of res1] Cons.prems(2) True by simp
      with True b err Some Cons.prems(3) show ?thesis by auto
    next
      case False
      then show ?thesis
        using Cons.IH [OF run, of res] Cons.prems(2,3) by (cases "k \<in> set ks") auto
    qed
  qed
qed

end

interpretation sleeping: target_operation "sleep_target L"
  by unfold_locales (rule sleep_target_keeps)

interpretation waking: target_operation "wake_target L"
  by unfold_locales (rule wake_target_keeps)

end
