(* ===== verification/Sleep_Wake.thy ===== *)
theory Sleep_Wake
  imports Managed_Resources
begin

text \<open>
  Properties of \<open>Sleep\<close> and \<open>WakeUp\<close> of \<open>jsonpatch.go\<close>: what a successful sleep records
  and writes, when it writes nothing, how waking up undoes it, and which errors they give.
\<close>

section \<open>An example patch engine\<close>

text \<open>
  An engine in which a patch is the new value of the member \<open>spec\<close>, and merge patches
  work on the members of the document. It satisfies the contracts of \<open>Patcher\<close> on the
  documents of the examples.
\<close>

definition set_spec :: "json \<Rightarrow> string \<Rightarrow> string res" where
  "set_spec v doc =
     (case parse_json doc of
        Some (JObj ms) \<Rightarrow> Inr (marshal (JObj (gm_put ''spec'' v ms)))
      | _ \<Rightarrow> Inl unmarshal_error)"

definition diff_members :: "string \<Rightarrow> string \<Rightarrow> string res" where
  "diff_members a b =
     (case (parse_json a, parse_json b) of
        (Some (JObj x), Some (JObj y)) \<Rightarrow>
          Inr (marshal (JObj (filter (\<lambda>e. gm_get x (fst e) \<noteq> Some (snd e)) y)))
      | _ \<Rightarrow> Inl unmarshal_error)"

definition merge_members :: "string \<Rightarrow> string \<Rightarrow> string res" where
  "merge_members a p =
     (case (parse_json a, parse_json p) of
        (Some (JObj x), Some (JObj y)) \<Rightarrow>
          (let r = JObj (fold (\<lambda>e. gm_put (fst e) (snd e)) y x) in
           if json_ok r then Inr (marshal r) else Inl unmarshal_error)
      | _ \<Rightarrow> Inl unmarshal_error)"

definition no_replicas :: json where
  "no_replicas = JObj [(''replicas'', JNum ''0'')]"

definition example_lib :: "json patch_lib" where
  "example_lib =
     \<lparr>YAMLToJSON = Inr, DecodePatch = (\<lambda>s. Inr no_replicas),
      ApplyWithOptions = (\<lambda>p doc opts. set_spec p doc), JsonEqual = same_doc,
      CreateMergePatch = diff_members, MergePatch = merge_members\<rparr>"

definition example_libs :: "json libs" where
  "example_libs =
     \<lparr>l_patch = example_lib, l_unstr = example_unstr, l_sel = example_selectors, l_range = (\<lambda>ks. ks)\<rparr>"

definition example_group :: "unstructured list \<Rightarrow> unstructured list genericResource" where
  "example_group items =
     \<lparr>g_Client = example_rc example_sleepinfo, g_patchData = deploymentPatch,
      g_restorePatches = Some [], g_data = items, g_isCacheInvalid = False\<rparr>"

definition example_resources :: "unstructured list \<Rightarrow> unstructured list managedResources" where
  "example_resources items =
     \<lparr>resMapping = [(DeploymentTarget, example_group items)], mr_namespace = ''default''\<rparr>"

definition example_patcher :: "json Patcher" where
  "example_patcher = \<lparr>patcher_patch = no_replicas\<rparr>"

lemma example_group_simps [simp]:
  "g_Client (example_group items) = example_rc example_sleepinfo"
  "g_patchData (example_group items) = deploymentPatch"
  "g_restorePatches (example_group items) = Some []"
  "g_data (example_group items) = items"
  "g_isCacheInvalid (example_group items) = False"
  by (simp_all add: example_group_def)

lemma example_range_ok: "range_ok example_libs"
  by (simp add: range_ok_def example_libs_def)

lemma example_New: "New (l_patch example_libs) s = Inr example_patcher"
  by (simp add: New_def example_libs_def example_lib_def example_patcher_def)

lemma example_libs_simps [simp]:
  "l_patch example_libs = example_lib" "l_unstr example_libs = example_unstr"
  "l_sel example_libs = example_selectors" "l_range example_libs ks = ks"
  by (simp_all add: example_libs_def)

definition number_ok :: "string \<Rightarrow> bool" where
  "number_ok n = go_value (JNum n)"

lemma float_text_0: "float_text ''0'' = Some ''0''"
  by code_simp

lemma float_text_3: "float_text ''3'' = Some ''3''"
  by code_simp

lemma float_text_5: "float_text ''5'' = Some ''5''"
  by code_simp

lemma number_ok_digits [simp]: "number_ok ''0''" "number_ok ''3''" "number_ok ''5''"
  by (simp_all add: number_ok_def valid_number_def valid_frac_def valid_exp_def is_digit_def
      is_num_char_def float_text_0 float_text_3 float_text_5)

lemma parse_example_obj [simp]:
  "number_ok n \<Longrightarrow> parse_json (marshal (JObj (example_obj name n))) = Some (JObj (example_obj name n))"
  by (rule parse_json_marshal) (simp add: example_obj_def number_ok_def)

lemma example_name [simp]: "u_GetName example_unstr (example_obj name n) = name"
  by (simp add: example_unstr_def obj_name_def obj_field_def example_obj_def)

lemma example_no_controller [simp]: "\<not> u_HasController example_unstr (example_obj name n)"
  by (simp add: example_unstr_def obj_field_def example_obj_def)

lemma example_Exec:
  assumes "number_ok n"
  shows "Exec example_lib example_patcher (marshal (JObj (example_obj name n))) =
    Inr (marshal (JObj (example_obj name ''0'')))"
proof -
  have "gm_put ''spec'' no_replicas (example_obj name n) = example_obj name ''0''"
    by (simp add: example_obj_def no_replicas_def)
  with assms show ?thesis
    by (simp add: Exec_def example_lib_def example_patcher_def set_spec_def del: marshal.simps)
qed

definition spec_member :: "string \<Rightarrow> (string, json) gomap" where
  "spec_member n = [(''spec'', JObj [(''replicas'', JNum n)])]"

lemma parse_spec_member [simp]:
  "number_ok n \<Longrightarrow> parse_json (marshal (JObj (spec_member n))) = Some (JObj (spec_member n))"
  by (rule parse_json_marshal) (simp add: spec_member_def number_ok_def)

lemma example_diff:
  assumes "number_ok n" and "number_ok k"
  shows "CreateMergePatch example_lib (marshal (JObj (example_obj name n)))
      (marshal (JObj (example_obj name k))) =
    Inr (if n = k then ''{}'' else marshal (JObj (spec_member k)))"
proof -
  have "filter (\<lambda>e. gm_get (example_obj name n) (fst e) \<noteq> Some (snd e)) (example_obj name k) =
      (if n = k then [] else spec_member k)"
    by (simp add: example_obj_def spec_member_def)
  with assms show ?thesis by (simp add: example_lib_def diff_members_def del: marshal.simps) simp
qed

lemma example_merge:
  assumes "number_ok n" and "number_ok k"
  shows "MergePatch example_lib (marshal (JObj (example_obj name n))) (marshal (JObj (spec_member k))) =
    Inr (marshal (JObj (example_obj name k)))"
proof -
  have "fold (\<lambda>e. gm_put (fst e) (snd e)) (spec_member k) (example_obj name n) = example_obj name k"
    by (simp add: example_obj_def spec_member_def)
  moreover have "json_ok (JObj (example_obj name k))"
    using assms(2) by (simp add: example_obj_def number_ok_def)
  ultimately show ?thesis
    using assms by (simp add: example_lib_def merge_members_def del: marshal.simps json_ok.simps)
qed

definition example_sparse :: "string \<Rightarrow> unstructured" where
  "example_sparse name =
     [(''kind'', JStr ''Deployment''),
      (''metadata'', JObj [(''name'', JStr name), (''namespace'', JStr ''default'')]),
      (''spec'', JObj [(''replicas'', JNum ''0'')])]"

lemma example_outcome:
  assumes "number_ok n"
  shows "sleep_outcome example_libs example_patcher (example_obj name n) =
    (if n = ''0'' then Untouched else Changed (marshal (JObj (spec_member n))) (example_sparse name))"
proof -
  have "unmarshal_object (marshal (JObj (spec_member ''0''))) = Inr (Some (spec_member ''0''))"
    by (rule unmarshal_marshal_object)
      (use number_ok_digits(1) in \<open>simp add: spec_member_def gm_wf_def number_ok_def\<close>)
  then have "buildSparseApplyObject example_unstr (example_obj name n) (marshal (JObj (spec_member ''0''))) =
      Inr (example_sparse name)"
    by (simp add: buildSparseApplyObject_def del: marshal.simps)
      (simp add: spec_member_def example_unstr_def example_sparse_def obj_meta_def obj_name_def
        obj_field_def example_obj_def)
  moreover have "marshal (JObj (spec_member n)) \<noteq> ''{}''" by (simp add: spec_member_def quote_def)
  ultimately show ?thesis
    using assms by (simp add: sleep_outcome_def example_Exec example_diff del: marshal.simps)
qed

section \<open>What a successful sleep records\<close>

text \<open>
  The restore patch that sleeping records for a resource, if it records one: nothing for a
  resource with a controller, for one the patch cannot be applied to, and for one that the
  patch leaves as it is.
\<close>

definition recorded_patch :: "'p libs \<Rightarrow> 'p Patcher \<Rightarrow> unstructured \<Rightarrow> string option" where
  "recorded_patch L p d =
     (if u_HasController (l_unstr L) d then None
      else case Exec (l_patch L) p (marshal (JObj d)) of
        Inl _ \<Rightarrow> None
      | Inr modified \<Rightarrow>
          (case CreateMergePatch (l_patch L) modified (marshal (JObj d)) of
             Inl _ \<Rightarrow> None
           | Inr rp \<Rightarrow> if rp = ''{}'' then None else Some rp))"

lemma recorded_patch_outcome:
  "sleep_outcome L p d = Untouched \<Longrightarrow> recorded_patch L p d = None"
  "sleep_outcome L p d = Changed rp sp \<Longrightarrow> recorded_patch L p d = Some rp"
  by (auto simp: sleep_outcome_def recorded_patch_def split: if_splits sum.splits)

text \<open>Groups as \<open>NewResources\<close> makes them: just listed, with a map for restore patches.\<close>

definition fresh_resources :: "'w managedResources \<Rightarrow> bool" where
  "fresh_resources g =
     list_all (\<lambda>(k, res). \<not> g_isCacheInvalid res \<and> g_restorePatches res \<noteq> None) (resMapping g)"

lemma fresh_resourcesD:
  "fresh_resources g \<Longrightarrow> gm_get (resMapping g) k = Some res \<Longrightarrow>
   \<not> g_isCacheInvalid res \<and> (\<exists>m. g_restorePatches res = Some m)"
  by (auto simp: fresh_resources_def list_all_iff dest!: map_of_SomeD)

lemma sleep_target_fresh:
  assumes "\<not> g_isCacheInvalid g" and "g_restorePatches g = Some m"
  shows "sleep_target L ns g w = ((None, g'), w') \<longleftrightarrow>
    p_Patch (g_patchData g) \<noteq> [] \<and>
    (\<exists>p. New (l_patch L) (p_Patch (g_patchData g)) = Inr p \<and>
      (\<forall>d \<in> set (g_data g). \<forall>e. sleep_outcome L p d \<noteq> Broken e) \<and>
      apply_all (l_unstr L) (g_Client g) (sparse_objects L p (g_data g)) w = (None, w') \<and>
      g' = g\<lparr>g_restorePatches := Some (fold (record_restore L p) (g_data g) m),
             g_isCacheInvalid := sparse_objects L p (g_data g) \<noteq> []\<rparr>)"
  using assms by (auto simp: sleep_target_def sleep_items_success split: sum.split)

lemma fold_record_recorded:
  assumes "distinct (map (u_GetName (l_unstr L)) rs)" and "d \<in> set rs"
    and "\<forall>d \<in> set rs. \<forall>e. sleep_outcome L p d \<noteq> Broken e"
  shows "gm_get (fold (record_restore L p) rs m) (u_GetName (l_unstr L) d) =
    (case recorded_patch L p d of
       None \<Rightarrow> gm_get m (u_GetName (l_unstr L) d)
     | Some rp \<Rightarrow> Some rp)"
proof (cases "sleep_outcome L p d")
  case (Broken e)
  with assms(2,3) show ?thesis by blast
next
  case (Changed rp sp)
  with assms show ?thesis by (simp add: fold_record_changed recorded_patch_outcome(2))
next
  case Untouched
  have "d' = d" if "d' \<in> set rs" "u_GetName (l_unstr L) d' = u_GetName (l_unstr L) d" for d'
    using that assms(1,2) by (auto simp: distinct_map inj_on_def)
  with Untouched have "gm_get (fold (record_restore L p) rs m) (u_GetName (l_unstr L) d) =
      gm_get m (u_GetName (l_unstr L) d)"
    by (intro fold_record_other) (metis sleep_outcome.distinct(3))
  with Untouched show ?thesis by (simp add: recorded_patch_outcome(1))
qed

lemma Sleep_targets:
  assumes "range_ok L" and "gm_wf (resMapping g)" and "Sleep L g w = ((None, g'), w')"
    and "gm_get (resMapping g) k = Some res"
  shows "\<exists>w1 res' w2. sleep_target L (mr_namespace g) res w1 = ((None, res'), w2) \<and>
    gm_get (resMapping g') k = Some res'"
proof -
  have ks: "distinct (l_range L (map fst (resMapping g)))"
      "set (l_range L (map fst (resMapping g))) = fst ` set (resMapping g)"
    using assms(1) gm_wf_distinct [OF assms(2)] by (auto simp: range_ok_def)
  have "k \<in> fst ` set (resMapping g)" using assms(4) by (force dest: map_of_SomeD)
  with ks show ?thesis
    using sleeping.for_targets_success [OF assms(3) [unfolded Sleep_def] ks(1) assms(4)] by simp
qed

text \<open>
  C6: after a successful sleep every target keeps its group; the entry of a resource among
  the restore patches is the merge patch from the patched document back to the original
  one when the patch changes it, and what it was before for every other resource (managed
  by a controller, not patchable, or already in its sleep state); names of no listed
  resource keep their entries.
\<close>

theorem Sleep_records:
  assumes "range_ok L" and "gm_wf (resMapping g)" and "fresh_resources g"
    and "Sleep L g w = ((None, g'), w')"
    and "gm_get (resMapping g) k = Some res"
    and "distinct (map (u_GetName (l_unstr L)) (g_data res))"
  shows "\<exists>p m res' m'. New (l_patch L) (p_Patch (g_patchData res)) = Inr p \<and>
    g_restorePatches res = Some m \<and>
    gm_get (resMapping g') k = Some res' \<and> g_data res' = g_data res \<and>
    g_restorePatches res' = Some m' \<and>
    (\<forall>d \<in> set (g_data res). gm_get m' (u_GetName (l_unstr L) d) =
       (case recorded_patch L p d of
          None \<Rightarrow> gm_get m (u_GetName (l_unstr L) d)
        | Some rp \<Rightarrow> Some rp)) \<and>
    (\<forall>n. n \<notin> u_GetName (l_unstr L) ` set (g_data res) \<longrightarrow> gm_get m' n = gm_get m n)"
proof -
  obtain m where fresh: "\<not> g_isCacheInvalid res" "g_restorePatches res = Some m"
    using fresh_resourcesD [OF assms(3,5)] by blast
  obtain w1 res' w2 where run: "sleep_target L (mr_namespace g) res w1 = ((None, res'), w2)"
      and get: "gm_get (resMapping g') k = Some res'"
    using Sleep_targets [OF assms(1,2,4,5)] by blast
  obtain p where p: "New (l_patch L) (p_Patch (g_patchData res)) = Inr p"
      and ok: "\<forall>d \<in> set (g_data res). \<forall>e. sleep_outcome L p d \<noteq> Broken e"
      and res': "res' = res\<lparr>g_restorePatches := Some (fold (record_restore L p) (g_data res) m),
             g_isCacheInvalid := sparse_objects L p (g_data res) \<noteq> []\<rparr>"
    using run unfolding sleep_target_fresh [OF fresh] by blast
  let ?m' = "fold (record_restore L p) (g_data res) m"
  have "\<forall>n. n \<notin> u_GetName (l_unstr L) ` set (g_data res) \<longrightarrow> gm_get ?m' n = gm_get m n"
    by (intro allI impI fold_record_other) auto
  with fold_record_recorded [OF assms(6) _ ok, of _ m] p fresh(2) get res' show ?thesis by auto
qed

lemma example_SSAPatch:
  "SSAPatch example_unstr (example_rc example_sleepinfo) (example_sparse name) w =
   (None, map (\<lambda>x. if obj_name x = name
                   then gm_put ''spec'' (JObj [(''replicas'', JNum ''0'')]) x else x) w)"
  by (simp add: SSAPatch_def IsClientValid_def example_rc_def example_client_def example_unstr_def
      example_sparse_def obj_name_def obj_field_def cong: if_cong)

lemma example_Sleep:
  "Sleep example_libs (example_resources [example_obj ''a'' ''3'']) [example_obj ''a'' ''3''] =
   ((None, \<lparr>resMapping = [(DeploymentTarget,
       (example_group [example_obj ''a'' ''3''])
         \<lparr>g_restorePatches := Some [(''a'', marshal (JObj (spec_member ''3'')))],
          g_isCacheInvalid := True\<rparr>)], mr_namespace = ''default''\<rparr>),
    [example_obj ''a'' ''0''])"
proof -
  have out: "sleep_outcome example_libs example_patcher (example_obj ''a'' ''3'') =
      Changed (marshal (JObj (spec_member ''3''))) (example_sparse ''a'')"
    by (simp add: example_outcome)
  have "sleep_target example_libs ''default'' (example_group [example_obj ''a'' ''3''])
      [example_obj ''a'' ''3''] =
    ((None, (example_group [example_obj ''a'' ''3''])
         \<lparr>g_restorePatches := Some [(''a'', marshal (JObj (spec_member ''3'')))],
          g_isCacheInvalid := True\<rparr>), [example_obj ''a'' ''0''])"
    by (subst sleep_target_fresh [where m = "[]"])
      (simp_all add: example_group_def example_New [unfolded example_libs_simps] sparse_objects_def
        record_restore_def out deploymentPatch_def example_SSAPatch del: marshal.simps,
       simp add: example_obj_def obj_name_def obj_field_def)
  then show ?thesis by (simp add: Sleep_def example_resources_def del: marshal.simps)
qed

lemma example_fresh: "fresh_resources (example_resources items)" "gm_wf (resMapping (example_resources items))"
  by (simp_all add: fresh_resources_def example_resources_def example_group_def gm_wf_def)

theorem Sleep_records_witness:
  "\<exists>p. New example_lib (p_Patch deploymentPatch) = Inr p \<and>
    Some (marshal (JObj (spec_member ''3''))) =
    (case recorded_patch example_libs p (example_obj ''a'' ''3'') of None \<Rightarrow> None | Some rp \<Rightarrow> Some rp)"
proof -
  let ?res = "example_group [example_obj ''a'' ''3'']"
  have "gm_get (resMapping (example_resources [example_obj ''a'' ''3''])) DeploymentTarget = Some ?res"
    by (simp add: example_resources_def)
  from Sleep_records [OF example_range_ok example_fresh(2) example_fresh(1) example_Sleep this]
  obtain p m res' m' where p: "New example_lib (p_Patch deploymentPatch) = Inr p"
    and m: "m = []" "m' = [(''a'', marshal (JObj (spec_member ''3'')))]"
    and entry: "\<forall>d \<in> set (g_data ?res). gm_get m' (u_GetName (l_unstr example_libs) d) =
      (case recorded_patch example_libs p d of
         None \<Rightarrow> gm_get m (u_GetName (l_unstr example_libs) d) | Some rp \<Rightarrow> Some rp)"
    by (auto simp del: marshal.simps)
  have "example_obj ''a'' ''3'' \<in> set (g_data ?res)" by simp
  from bspec [OF entry this] p m show ?thesis by (auto simp del: marshal.simps split: option.splits)
qed

section \<open>When sleeping writes nothing\<close>

text \<open>
  A resource that a sleep leaves alone: it is managed by another controller, the patch
  does not apply to it, or the patch has no effect on it any more.
\<close>

definition left_alone :: "'p libs \<Rightarrow> 'p Patcher \<Rightarrow> unstructured \<Rightarrow> bool" where
  "left_alone L p d =
     (u_HasController (l_unstr L) d \<or>
      (case Exec (l_patch L) p (marshal (JObj d)) of
         Inl _ \<Rightarrow> True
       | Inr modified \<Rightarrow> CreateMergePatch (l_patch L) modified (marshal (JObj d)) = Inr ''{}''))"

lemma left_alone_Untouched: "left_alone L p d \<longleftrightarrow> sleep_outcome L p d = Untouched"
  by (auto simp: left_alone_def sleep_outcome_def split: sum.splits)

lemma sleep_items_all_Untouched:
  "list_all (left_alone L p) rs \<Longrightarrow> sleep_items L p g rs w = ((None, g), w)"
  by (induction rs)
    (simp_all add: left_alone_Untouched sleep_items_Untouched del: sleep_items.simps(2))

lemma for_targets_id:
  assumes "gm_wf (resMapping g)"
    and "\<And>k res. gm_get (resMapping g) k = Some res \<Longrightarrow> body (mr_namespace g) res w = ((None, res), w)"
  shows "for_targets body ks g w = ((None, g), w)"
proof (induction ks)
  case (Cons k ks)
  then show ?case
    using assms by (cases "gm_get (resMapping g) k") (simp_all add: gm_put_same)
qed simp

lemma Sleep_idle:
  assumes "gm_wf (resMapping g)" and "fresh_resources g"
    and "\<And>k res. gm_get (resMapping g) k = Some res \<Longrightarrow>
      p_Patch (g_patchData res) \<noteq> [] \<and>
      (\<exists>p. New (l_patch L) (p_Patch (g_patchData res)) = Inr p \<and> list_all (left_alone L p) (g_data res))"
  shows "Sleep L g w = ((None, g), w)"
  unfolding Sleep_def
proof (rule for_targets_id [OF assms(1)])
  fix k res assume "gm_get (resMapping g) k = Some res"
  with assms(3) [of k res] fresh_resourcesD [OF assms(2)] show
    "sleep_target L (mr_namespace g) res w = ((None, res), w)"
    by (auto simp: sleep_target_def sleep_items_all_Untouched)
qed

text \<open>
  C17: sleeping is a no-op, without any call to the cluster and without touching the restore
  patches, when every listed resource is managed by a controller, cannot be patched or is
  already in its sleep state; so a repeated sleep never overwrites the original state.
\<close>

theorem Sleep_noop:
  assumes "gm_wf (resMapping g)" and "fresh_resources g"
    and "\<And>k res. gm_get (resMapping g) k = Some res \<Longrightarrow>
      p_Patch (g_patchData res) \<noteq> [] \<and>
      (\<exists>p. New (l_patch L) (p_Patch (g_patchData res)) = Inr p \<and> list_all (left_alone L p) (g_data res))"
  shows "Sleep L g w = ((None, g), w)"
  by (rule Sleep_idle [OF assms])

theorem Sleep_noop_witness:
  "Sleep example_libs (example_resources [example_obj ''a'' ''0'']) [example_obj ''a'' ''0''] =
   ((None, example_resources [example_obj ''a'' ''0'']), [example_obj ''a'' ''0''])"
proof (rule Sleep_noop)
  fix k res
  assume "gm_get (resMapping (example_resources [example_obj ''a'' ''0''])) k = Some res"
  then have "res = example_group [example_obj ''a'' ''0'']"
    by (auto simp: example_resources_def split: if_splits)
  moreover have "left_alone example_libs example_patcher (example_obj ''a'' ''0'')"
    by (simp add: left_alone_Untouched example_outcome)
  ultimately show "p_Patch (g_patchData res) \<noteq> [] \<and>
      (\<exists>p. New (l_patch example_libs) (p_Patch (g_patchData res)) = Inr p \<and>
        list_all (left_alone example_libs p) (g_data res))"
    using example_New by (simp add: deploymentPatch_def)
qed (simp_all add: example_fresh)

section \<open>Errors\<close>

lemma sleep_items_error:
  "sleep_items L p g rs w = ((Some e, g'), w') \<Longrightarrow>
   errors_is ErrJSONPatch e \<and> \<not> is_not_found e \<or> e = nil_map_write"
proof (induction rs arbitrary: g w)
  case (Cons d rs)
  from Cons.prems show ?case
    by (auto simp: Let_def split: if_splits sum.splits option.splits prod.splits dest!: Cons.IH)
qed simp

lemma wake_items_error:
  "wake_items L p g rs w = ((Some e, g'), w') \<Longrightarrow> errors_is ErrJSONPatch e \<and> \<not> is_not_found e"
proof (induction rs arbitrary: g w)
  case (Cons d rs)
  from Cons.prems show ?case
    by (auto simp: wake_items_step simp del: wake_items.simps
        split: wake_outcome.splits option.splits prod.splits dest!: Cons.IH)
qed simp

lemma for_targets_error:
  assumes "for_targets body ks g w = ((Some e, g'), w')"
  shows "\<exists>ns res w1 res' w2. body ns res w1 = ((Some e, res'), w2)"
  using assms
proof (induction ks arbitrary: g w)
  case (Cons k ks)
  then show ?case by (auto simp: Let_def split: option.splits prod.splits if_splits) blast+
qed simp

text \<open>
  C20: whatever a sleep or a wake up reports is an \<open>ErrJSONPatch\<close> or an
  \<open>ErrListResources\<close>, and never looks like a NotFound of the API server; the one
  exception is the panic on a nil map of restore patches.
\<close>

theorem operation_errors:
  fixes w :: 'w
  assumes "Sleep L g w = ((Some e, g'), w') \<or> WakeUp L g w = ((Some e, g'), w')"
  shows "(errors_is ErrJSONPatch e \<or> errors_is ErrListResources e) \<and> \<not> is_not_found e \<or>
    e = nil_map_write"
proof -
  obtain ns res w1 res' and w2 :: 'w where
    "sleep_target L ns res w1 = ((Some e, res'), w2) \<or> wake_target L ns res w1 = ((Some e, res'), w2)"
    using assms unfolding Sleep_def WakeUp_def by (blast dest: for_targets_error)
  then show ?thesis
    by (auto simp: sleep_target_def wake_target_def Let_def
        split: if_splits sum.splits option.splits prod.splits
        dest!: sleep_items_error wake_items_error)
qed

definition empty_patch_resources :: "unstructured list managedResources" where
  "empty_patch_resources =
     \<lparr>resMapping = [(DeploymentTarget, (example_group [])\<lparr>g_patchData := deploymentPatch\<lparr>p_Patch := []\<rparr>\<rparr>)],
      mr_namespace = ''default''\<rparr>"

lemma empty_patch_Sleep:
  "Sleep example_libs empty_patch_resources w =
   ((Some (WrapErr [] (SentinelErr ErrJSONPatch) '': invalid empty patch''), empty_patch_resources), w)"
  by (simp add: Sleep_def empty_patch_resources_def sleep_target_def)

theorem operation_errors_witness:
  "let e = WrapErr [] (SentinelErr ErrJSONPatch) '': invalid empty patch'' in
   (errors_is ErrJSONPatch e \<or> errors_is ErrListResources e) \<and> \<not> is_not_found e \<or> e = nil_map_write"
  using operation_errors [OF disjI1 [OF empty_patch_Sleep [of "[]"]]] by (simp add: Let_def)

abbreviation empty_patch_error :: goerror where
  "empty_patch_error \<equiv> WrapErr [] (SentinelErr ErrJSONPatch) '': invalid empty patch''"

text \<open>A SleepInfo with one more patch.\<close>

definition add_patch :: "Patch \<Rightarrow> SleepInfo \<Rightarrow> SleepInfo" where
  "add_patch pd si = si\<lparr>si_Spec := (si_Spec si)\<lparr>Patches := Patches (si_Spec si) @ [pd]\<rparr>\<rparr>"

lemma Validate_add_patch:
  assumes "Validate parse rest lib si = Inr ws" and "New lib (p_Patch pd) = Inr q"
  shows "\<exists>ws'. Validate parse rest lib (add_patch pd si) = Inr ws'"
proof -
  have "GetPatches (add_patch pd si) = GetPatches si @ [pd]"
    by (simp add: GetPatches_def suspend_defs add_patch_def Let_def)
  moreover have "GetSleepSchedule (add_patch pd si) = GetSleepSchedule si"
      "GetWakeUpSchedule (add_patch pd si) = GetWakeUpSchedule si"
    by (simp_all add: GetSleepSchedule_def GetWakeUpSchedule_def getScheduleFromWeekdayAndTime_def add_patch_def Let_def
        split: list.split)
  ultimately show ?thesis
    using assms
    by (auto simp: Validate_def validatePatches_def validatePatches_loop_Inr split: sum.splits)
qed

text \<open>A target whose pass fails without a change keeps its group when the loop stops.\<close>

lemma for_targets_refused:
  assumes "\<And>ns w. body ns res w = ((Some e, res), w)" and "gm_get (resMapping g) k = Some res"
    and "for_targets body ks g w = ((err, g'), w')"
  shows "gm_get (resMapping g') k = Some res"
  using assms(2,3)
proof (induction ks arbitrary: g w)
  case (Cons t ks)
  show ?case
  proof (cases "t = k")
    case True
    with Cons.prems assms(1) show ?thesis by (auto simp: Let_def)
  next
    case False
    then have "gm_get (resMapping (g\<lparr>resMapping := gm_put t x (resMapping g)\<rparr>)) k = Some res" for x
      using Cons.prems(1) by simp
    from Cons.IH [OF this] Cons.IH [OF Cons.prems(1)] Cons.prems False show ?thesis
      by (auto simp: Let_def split: option.splits prod.splits if_splits)
  qed
qed simp

lemma range_single: "range_ok L \<Longrightarrow> l_range L [k] = [k]"
proof -
  assume "range_ok L"
  then have "distinct (l_range L [k])" "set (l_range L [k]) = {k}" by (auto simp: range_ok_def)
  then show ?thesis by (cases "l_range L [k]"; cases "tl (l_range L [k])") auto
qed

text \<open>
  C21: a target with an empty patch never sleeps. When the patch engine decodes the empty
  text, adding such a patch to a SleepInfo that passes validation gives one that passes
  validation too; but every pass over the target fails with the error \<open>invalid empty patch\<close>
  before any write, leaving its group and the cluster as they are; so every sleep fails,
  whatever the order in which the targets are visited, with the group of the target
  unchanged, and nothing at all is written when it is the only target.
\<close>

theorem empty_patch_never_sleeps:
  assumes "range_ok L" and "gm_wf (resMapping g)"
    and "gm_get (resMapping g) k = Some res" and "p_Patch (g_patchData res) = ''''"
    and "New (l_patch L) '''' = Inr q" and "Validate parse rest (l_patch L) si = Inr ws"
  shows "(\<exists>ws'. Validate parse rest (l_patch L) (add_patch (g_patchData res) si) = Inr ws') \<and>
    (\<forall>ns w. sleep_target L ns res w = ((Some empty_patch_error, res), w)) \<and>
    (\<forall>w. \<exists>e g' w'. Sleep L g w = ((Some e, g'), w') \<and> gm_get (resMapping g') k = Some res) \<and>
    (resMapping g = [(k, res)] \<longrightarrow> (\<forall>w. Sleep L g w = ((Some empty_patch_error, g), w)))"
proof (intro conjI allI impI)
  have refused: "sleep_target L ns res w = ((Some empty_patch_error, res), w)" for ns w
    using assms(4) by (simp add: sleep_target_def)
  then show "sleep_target L ns res w = ((Some empty_patch_error, res), w)" for ns w .
  show "\<exists>ws'. Validate parse rest (l_patch L) (add_patch (g_patchData res) si) = Inr ws'"
    using Validate_add_patch [OF assms(6)] assms(4,5) by simp
  show "\<exists>e g' w'. Sleep L g w = ((Some e, g'), w') \<and> gm_get (resMapping g') k = Some res" for w
  proof -
    obtain err g' w' where run: "Sleep L g w = ((err, g'), w')" by (metis surj_pair)
    have "err \<noteq> None"
      using Sleep_targets [OF assms(1,2) _ assms(3), of w g' w'] run refused by (cases err) auto
    with run for_targets_refused [where body = "sleep_target L", OF refused assms(3) run [unfolded Sleep_def]]
    show ?thesis by auto
  qed
  show "Sleep L g w = ((Some empty_patch_error, g), w)" if "resMapping g = [(k, res)]" for w
  proof -
    from that refused show ?thesis by (simp add: Sleep_def range_single [OF assms(1)])
  qed
qed

theorem empty_patch_never_sleeps_witness:
  "(\<exists>ws'. Validate Inr (\<lambda>gk. None) example_lib
      (add_patch (deploymentPatch\<lparr>p_Patch := []\<rparr>) example_sleepinfo) = Inr ws') \<and>
   (\<forall>w. Sleep example_libs empty_patch_resources w = ((Some empty_patch_error, empty_patch_resources), w))"
proof -
  let ?res = "(example_group [])\<lparr>g_patchData := deploymentPatch\<lparr>p_Patch := []\<rparr>\<rparr>"
  have res: "gm_wf (resMapping empty_patch_resources)" "gm_get (resMapping empty_patch_resources) DeploymentTarget = Some ?res"
      "resMapping empty_patch_resources = [(DeploymentTarget, ?res)]" "p_Patch (g_patchData ?res) = ''''"
    by (simp_all add: empty_patch_resources_def gm_wf_def)
  have "\<forall>p \<in> set (GetPatches example_sleepinfo). \<exists>q. New example_lib (p_Patch p) = Inr q"
    using example_New by simp
  then have "\<exists>ws. Validate Inr (\<lambda>gk. None) (l_patch example_libs) example_sleepinfo = Inr ws"
    by (auto simp: Validate_def validatePatches_def validatePatches_loop_Inr example_schedules split: sum.splits)
  then obtain ws where "Validate Inr (\<lambda>gk. None) (l_patch example_libs) example_sleepinfo = Inr ws" by blast
  from empty_patch_never_sleeps [OF example_range_ok res(1,2,4) example_New this] res(3) show ?thesis by simp
qed

section \<open>Waking up restores what was put to sleep\<close>

lemma wake_target_fresh:
  assumes "\<not> g_isCacheInvalid g"
  shows "wake_target L ns g w = ((None, g'), w') \<longleftrightarrow>
    (\<exists>p. New (l_patch L) (p_Patch (g_patchData g)) = Inr p \<and>
      (\<forall>d \<in> set (g_data g). \<forall>e. wake_outcome L p (g_restorePatches g) d \<noteq> Failing e) \<and>
      patch_all (g_Client g) (restored_objects L p (g_restorePatches g) (g_data g)) w = (None, w') \<and>
      g' = g\<lparr>g_isCacheInvalid := restored_objects L p (g_restorePatches g) (g_data g) \<noteq> []\<rparr>)"
  using assms by (auto simp: wake_target_def wake_items_success Let_def split: sum.split)

text \<open>
  The API server changes fields of its own with every write (the resource version, the
  managed fields, the generation), so what waking up gives back is the content of an object:
  \<open>content\<close> is any function that tells the part of an object that matters. The content of a
  text is that of the object it is decoded to.
\<close>

definition doc_content :: "(unstructured \<Rightarrow> 'c) \<Rightarrow> string \<Rightarrow> 'c option" where
  "doc_content content doc =
     (case unmarshal_object doc of Inr (Some obj) \<Rightarrow> Some (content obj) | _ \<Rightarrow> None)"

lemma doc_content_Some_iff:
  "doc_content content doc = Some v \<longleftrightarrow> (\<exists>obj. unmarshal_object doc = Inr (Some obj) \<and> content obj = v)"
  by (auto simp: doc_content_def split: sum.splits option.splits)

text \<open>
  What the cluster holds while asleep: under the same name, an object with the content of
  the patched document; an object for which sleeping recorded nothing may have any content.
\<close>

definition asleep_as ::
    "(unstructured \<Rightarrow> 'c) \<Rightarrow> 'p libs \<Rightarrow> 'p Patcher \<Rightarrow> unstructured \<Rightarrow> unstructured \<Rightarrow> bool" where
  "asleep_as content L p d d' =
     (u_GetName (l_unstr L) d' = u_GetName (l_unstr L) d \<and>
      (recorded_patch L p d \<noteq> None \<longrightarrow>
         (\<exists>modified. Exec (l_patch L) p (marshal (JObj d)) = Inr modified \<and>
            doc_content content modified = Some (content d'))))"

text \<open>
  What is asked of the patch engine at a resource and its sleeping form: the patch finds
  nothing to change in an object that has the content of the patched document; the merge
  patch from the patched document leads back to the original one; and merging it into two
  documents of the same content gives documents of the same content.
\<close>

definition engine_contract ::
    "(unstructured \<Rightarrow> 'c) \<Rightarrow> 'p libs \<Rightarrow> 'p Patcher \<Rightarrow> unstructured \<Rightarrow> unstructured \<Rightarrow> bool" where
  "engine_contract content L p d d' =
     (\<forall>modified. Exec (l_patch L) p (marshal (JObj d)) = Inr modified \<longrightarrow>
        merge_inverts (l_patch L) modified (marshal (JObj d)) \<and>
        (doc_content content modified = Some (content d') \<longrightarrow>
           (\<exists>again. Exec (l_patch L) p (marshal (JObj d')) = Inr again \<and>
              JsonEqual (l_patch L) (marshal (JObj d')) again) \<and>
           (\<forall>rp c. CreateMergePatch (l_patch L) modified (marshal (JObj d)) = Inr rp \<and>
                   MergePatch (l_patch L) modified rp = Inr c \<longrightarrow>
              (\<exists>c'. MergePatch (l_patch L) (marshal (JObj d')) rp = Inr c' \<and>
                 doc_content content c' = doc_content content c))))"

lemma wake_outcome_recorded:
  assumes "recorded_patch L p d = Some rp" and "asleep_as content L p d d'"
    and "engine_contract content L p d d'" and "go_value (JObj d)"
    and "Option.bind rps (\<lambda>m. gm_get m (u_GetName (l_unstr L) d)) = Some rp"
  shows "\<exists>obj. wake_outcome L p rps d' = Restored obj \<and> content obj = content d"
proof -
  obtain modified where ex: "Exec (l_patch L) p (marshal (JObj d)) = Inr modified"
      and rp: "CreateMergePatch (l_patch L) modified (marshal (JObj d)) = Inr rp"
    using assms(1) by (auto simp: recorded_patch_def split: if_splits sum.splits)
  have doc: "doc_content content modified = Some (content d')"
    and name: "u_GetName (l_unstr L) d' = u_GetName (l_unstr L) d"
    using assms(1,2) ex by (auto simp: asleep_as_def)
  have same: "IsResourceChanged (l_patch L) p (marshal (JObj d')) = Inr False"
    using assms(3) ex doc by (auto simp: engine_contract_def IsResourceChanged_def simp del: marshal.simps)
  obtain c where c: "MergePatch (l_patch L) modified rp = Inr c"
      "unmarshal_object c = unmarshal_object (marshal (JObj d))"
    using assms(3) ex rp by (auto simp: engine_contract_def merge_inverts_def simp del: marshal.simps)
  then obtain c' where c': "MergePatch (l_patch L) (marshal (JObj d')) rp = Inr c'"
      "doc_content content c' = doc_content content c"
    using assms(3) ex doc rp by (fastforce simp: engine_contract_def simp del: marshal.simps)
  have "doc_content content c = Some (content d)"
    using c(2) unmarshal_marshal_object [OF assms(4)] by (simp add: doc_content_def del: marshal.simps)
  then obtain obj where "unmarshal_object c' = Inr (Some obj)" "content obj = content d"
    using c'(2) by (metis doc_content_Some_iff)
  with same c'(1) assms(5) name show ?thesis by (simp add: wake_outcome_def del: marshal.simps)
qed

text \<open>The pairs of original and sleeping objects for which a restore patch was recorded.\<close>

definition put_to_sleep ::
    "'p libs \<Rightarrow> 'p Patcher \<Rightarrow> unstructured list \<Rightarrow> unstructured list \<Rightarrow> (unstructured \<times> unstructured) list" where
  "put_to_sleep L p rs items = filter (\<lambda>(d, d'). recorded_patch L p d \<noteq> None) (zip rs items)"

lemma restored_all:
  assumes "distinct (map (u_GetName (l_unstr L)) rs)"
    and "\<forall>d \<in> set rs. gm_get m (u_GetName (l_unstr L) d) = recorded_patch L p d"
    and "list_all2 (asleep_as content L p) rs items" and "list_all2 (engine_contract content L p) rs items"
    and "\<forall>d \<in> set rs. go_value (JObj d)"
  shows "\<exists>objs. map content objs = map (content \<circ> fst) (put_to_sleep L p rs items) \<and>
    restored_objects L p (Some m) items = zip (map snd (put_to_sleep L p rs items)) objs \<and>
    (\<forall>d' \<in> set items. \<forall>e. wake_outcome L p (Some m) d' \<noteq> Failing e)"
  using assms(3,4,1,2,5)
proof (induction rs items rule: list_all2_induct)
  case Nil
  then show ?case by (simp add: restored_objects_def put_to_sleep_def)
next
  case (Cons d rs d' items)
  obtain objs where IH: "map content objs = map (content \<circ> fst) (put_to_sleep L p rs items)"
      "restored_objects L p (Some m) items = zip (map snd (put_to_sleep L p rs items)) objs"
      "\<forall>d' \<in> set items. \<forall>e. wake_outcome L p (Some m) d' \<noteq> Failing e"
    using Cons.IH Cons.prems by (auto simp: comp_def simp del: go_value.simps)
  show ?case
  proof (cases "recorded_patch L p d")
    case None
    have "u_GetName (l_unstr L) d' = u_GetName (l_unstr L) d" using Cons.hyps(1) by (simp add: asleep_as_def)
    with None Cons.prems have "wake_outcome L p (Some m) d' = Kept" by (simp add: wake_outcome_def)
    with None IH show ?thesis by (intro exI [of _ objs]) (simp add: restored_objects_def put_to_sleep_def)
  next
    case (Some rp)
    obtain obj where "wake_outcome L p (Some m) d' = Restored obj" "content obj = content d"
      using wake_outcome_recorded [OF Some Cons.hyps(1), where rps = "Some m"] Some Cons.prems by auto
    with Some IH show ?thesis by (intro exI [of _ "obj # objs"]) (simp add: restored_objects_def put_to_sleep_def)
  qed
qed

lemma wake_after_sleep:
  assumes "\<not> g_isCacheInvalid g" and "g_restorePatches g = Some []"
    and "distinct (map (u_GetName (l_unstr L)) (g_data g))"
    and "\<forall>d \<in> set (g_data g). go_value (JObj d)"
    and "sleep_target L ns g w = ((None, g1), w1)"
    and "New (l_patch L) (p_Patch (g_patchData g)) = Inr p"
    and "list_all2 (asleep_as content L p) (g_data g) items"
    and "list_all2 (engine_contract content L p) (g_data g) items"
  shows "\<exists>objs. map content objs = map (content \<circ> fst) (put_to_sleep L p (g_data g) items) \<and>
    (\<forall>w2 w3. (\<exists>g3. wake_target L ns'
        ((newGenericResource c (g_patchData g) (g_restorePatches g1))\<lparr>g_data := items\<rparr>) w2 = ((None, g3), w3)) \<longleftrightarrow>
      patch_all c (zip (map snd (put_to_sleep L p (g_data g) items)) objs) w2 = (None, w3))"
proof -
  have ok: "\<forall>d \<in> set (g_data g). \<forall>e. sleep_outcome L p d \<noteq> Broken e"
    and g1: "g_restorePatches g1 = Some (fold (record_restore L p) (g_data g) [])"
    using assms(5,6) unfolding sleep_target_fresh [OF assms(1,2)] by auto
  have "\<forall>d \<in> set (g_data g).
      gm_get (fold (record_restore L p) (g_data g) []) (u_GetName (l_unstr L) d) = recorded_patch L p d"
    using fold_record_recorded [OF assms(3) _ ok, of _ "[]"] by (simp split: option.splits)
  from restored_all [OF assms(3) this assms(7,8,4)] obtain objs
    where "map content objs = map (content \<circ> fst) (put_to_sleep L p (g_data g) items)"
      and "restored_objects L p (g_restorePatches g1) items =
        zip (map snd (put_to_sleep L p (g_data g) items)) objs"
      and "\<forall>d' \<in> set items. \<forall>e. wake_outcome L p (g_restorePatches g1) d' \<noteq> Failing e"
    unfolding g1 by blast
  with assms(6) show ?thesis
    by (intro exI [of _ objs]) (simp add: wake_target_fresh newGenericResource_def)
qed

text \<open>
  C5: sleeping and waking up are inverse. When the resources of a target have been put to
  sleep successfully and the cluster holds them with the content of their sleep state,
  waking up with the recorded restore patches gives every one its original content back:
  one patch from the sleeping object to an object with the content of the original one
  for every resource that was changed, in order, and nothing else; it succeeds exactly when
  these writes succeed. The numbers of the originals are \<open>float64\<close> values (\<open>go_value\<close>), since
  the restored object is decoded into such.
\<close>

theorem sleep_wake_round_trip:
  assumes "\<not> g_isCacheInvalid g" and "g_restorePatches g = Some []"
    and "distinct (map (u_GetName (l_unstr L)) (g_data g))"
    and "\<forall>d \<in> set (g_data g). go_value (JObj d)"
    and "sleep_target L ns g w = ((None, g1), w1)"
    and "New (l_patch L) (p_Patch (g_patchData g)) = Inr p"
    and "list_all2 (asleep_as content L p) (g_data g) items"
    and "list_all2 (engine_contract content L p) (g_data g) items"
  shows "\<exists>objs. map content objs = map (content \<circ> fst) (put_to_sleep L p (g_data g) items) \<and>
    (\<forall>w2 w3. (\<exists>g3. wake_target L ns
        ((newGenericResource (g_Client g) (g_patchData g) (g_restorePatches g1))\<lparr>g_data := items\<rparr>) w2 = ((None, g3), w3)) \<longleftrightarrow>
      patch_all (g_Client g) (zip (map snd (put_to_sleep L p (g_data g) items)) objs) w2 = (None, w3))"
  using assms by (rule wake_after_sleep)

lemma same_doc_marshal: "json_ok v \<Longrightarrow> same_doc (marshal v) (marshal v)"
  by (simp add: same_doc_def parse_json_marshal)

lemma example_go_value: "number_ok n \<Longrightarrow> go_value (JObj (example_obj name n))"
  by (simp add: example_obj_def number_ok_def gm_wf_def)

text \<open>The object as an API server gives it back, with a resource version; its content is its name and its spec.\<close>

definition served_obj :: "string \<Rightarrow> string \<Rightarrow> string \<Rightarrow> unstructured" where
  "served_obj version name replicas =
     [(''metadata'', JObj [(''name'', JStr name), (''resourceVersion'', JStr version)]),
      (''spec'', JObj [(''replicas'', JNum replicas)])]"

definition example_content :: "unstructured \<Rightarrow> string \<times> json option" where
  "example_content d = (obj_name d, gm_get d ''spec'')"

lemma example_content_simps [simp]:
  "example_content (example_obj name n) = (name, Some (JObj [(''replicas'', JNum n)]))"
  "example_content (served_obj version name n) = (name, Some (JObj [(''replicas'', JNum n)]))"
  by (simp_all add: example_content_def example_obj_def served_obj_def obj_name_def obj_field_def)

lemma served_go_value: "number_ok n \<Longrightarrow> go_value (JObj (served_obj version name n))"
  by (simp add: served_obj_def number_ok_def gm_wf_def)

lemma parse_served_obj [simp]:
  "number_ok n \<Longrightarrow>
   parse_json (marshal (JObj (served_obj version name n))) = Some (JObj (served_obj version name n))"
  by (intro parse_json_marshal go_value_json_ok served_go_value)

lemma served_name [simp]: "u_GetName example_unstr (served_obj version name n) = name"
  by (simp add: example_unstr_def obj_name_def obj_field_def served_obj_def)

lemma example_doc_content [simp]:
  "number_ok n \<Longrightarrow> doc_content content (marshal (JObj (example_obj name n))) = Some (content (example_obj name n))"
  "number_ok n \<Longrightarrow>
   doc_content content (marshal (JObj (served_obj version name n))) = Some (content (served_obj version name n))"
  using unmarshal_marshal_object [OF example_go_value] unmarshal_marshal_object [OF served_go_value]
  by (simp_all add: doc_content_def del: marshal.simps)

lemma served_unchanged:
  "Exec example_lib example_patcher (marshal (JObj (served_obj version name ''0''))) =
   Inr (marshal (JObj (served_obj version name ''0'')))"
  "JsonEqual example_lib (marshal (JObj (served_obj version name ''0''))) (marshal (JObj (served_obj version name ''0'')))"
proof -
  have "gm_put ''spec'' no_replicas (served_obj version name ''0'') = served_obj version name ''0''"
    by (simp add: served_obj_def no_replicas_def)
  then show "Exec example_lib example_patcher (marshal (JObj (served_obj version name ''0''))) =
      Inr (marshal (JObj (served_obj version name ''0'')))"
    by (simp add: Exec_def example_lib_def example_patcher_def set_spec_def del: marshal.simps)
  show "JsonEqual example_lib (marshal (JObj (served_obj version name ''0''))) (marshal (JObj (served_obj version name ''0'')))"
    using same_doc_marshal [OF go_value_json_ok [OF served_go_value [OF number_ok_digits(1)]]]
    by (simp add: example_lib_def del: marshal.simps)
qed

lemma served_merge:
  assumes "number_ok n" and "number_ok k"
  shows "MergePatch example_lib (marshal (JObj (served_obj version name n))) (marshal (JObj (spec_member k))) =
    Inr (marshal (JObj (served_obj version name k)))"
proof -
  have "fold (\<lambda>e. gm_put (fst e) (snd e)) (spec_member k) (served_obj version name n) = served_obj version name k"
    by (simp add: served_obj_def spec_member_def)
  with go_value_json_ok [OF served_go_value [OF assms(2), of version name]] assms show ?thesis
    by (simp add: example_lib_def merge_members_def del: marshal.simps json_ok.simps)
qed

lemma example_contract:
  assumes "number_ok n" and "n \<noteq> ''0''"
  shows "engine_contract example_content example_libs example_patcher (example_obj name n)
    (served_obj version name ''0'')"
proof -
  have "merge_inverts example_lib (marshal (JObj (example_obj name ''0'')))
      (marshal (JObj (example_obj name n)))"
    using assms by (auto simp: merge_inverts_def example_diff example_merge simp del: marshal.simps)
  then show ?thesis
    using assms
    by (simp add: engine_contract_def example_Exec example_diff example_merge served_merge served_unchanged
        del: marshal.simps)
qed

lemma example_recorded:
  "recorded_patch example_libs example_patcher (example_obj ''a'' ''3'') =
   Some (marshal (JObj (spec_member ''3'')))"
  by (rule recorded_patch_outcome(2)) (simp add: example_outcome del: marshal.simps)

lemma example_asleep:
  "asleep_as example_content example_libs example_patcher (example_obj ''a'' ''3'') (served_obj version ''a'' ''0'')"
  by (simp add: asleep_as_def example_recorded example_Exec del: marshal.simps)

lemma example_sleep_target:
  "sleep_target example_libs ''default'' (example_group [example_obj ''a'' ''3'']) [example_obj ''a'' ''3''] =
   ((None, (example_group [example_obj ''a'' ''3''])
         \<lparr>g_restorePatches := Some [(''a'', marshal (JObj (spec_member ''3'')))],
          g_isCacheInvalid := True\<rparr>), [example_obj ''a'' ''0''])"
  using example_Sleep by (auto simp: Sleep_def example_resources_def Let_def simp del: marshal.simps
      split: prod.splits if_splits)

theorem sleep_wake_round_trip_witness:
  "\<exists>objs. map example_content objs = [(''a'', Some (JObj [(''replicas'', JNum ''3'')]))] \<and>
    (\<forall>w2 w3. (\<exists>g3. wake_target example_libs ''default''
        ((newGenericResource (example_rc example_sleepinfo) deploymentPatch
           (Some [(''a'', marshal (JObj (spec_member ''3'')))]))\<lparr>g_data := [served_obj ''2'' ''a'' ''0'']\<rparr>) w2 =
        ((None, g3), w3)) \<longleftrightarrow>
      patch_all (example_rc example_sleepinfo) (zip [served_obj ''2'' ''a'' ''0''] objs) w2 = (None, w3))"
proof -
  let ?d = "example_obj ''a'' ''3''" and ?d' = "served_obj ''2'' ''a'' ''0''"
  have "list_all2 (asleep_as example_content example_libs example_patcher) (g_data (example_group [?d])) [?d']"
    using example_asleep by simp
  moreover have "list_all2 (engine_contract example_content example_libs example_patcher)
      (g_data (example_group [?d])) [?d']"
    using example_contract [of "''3''" "''a''"] by simp
  moreover have "\<forall>d \<in> set (g_data (example_group [?d])). go_value (JObj d)"
    using example_go_value [of "''3''" "''a''"] by simp
  ultimately show ?thesis
    using sleep_wake_round_trip [OF _ _ _ _ example_sleep_target example_New, of example_content "[?d']"]
    by (simp add: example_recorded put_to_sleep_def del: marshal.simps go_value.simps)
qed

end
