(* ===== verification/Restore_Info.thy ===== *)
theory Restore_Info
  imports Sleep_Wake
begin

text \<open>
  Properties of \<open>NewResources\<close>, \<open>GetOriginalInfoToSave\<close> and \<open>GetOriginalInfoToRestore\<close> of
  \<open>jsonpatch.go\<close>: which groups a SleepInfo manages, and that the restore patches survive
  the way through the secret.
\<close>

section \<open>Codecs\<close>

text \<open>A JSON form of a type and its decoder, inverse on the good values.\<close>

locale codec =
  fixes enc :: "'a \<Rightarrow> json" and dec :: "json \<Rightarrow> 'a res" and good :: "'a \<Rightarrow> bool"
  assumes dec_enc: "good x \<Longrightarrow> dec (enc x) = Inr x"
    and enc_ok: "good x \<Longrightarrow> json_ok (enc x)"
begin

lemma text_round: "good x \<Longrightarrow> map_option dec (parse_json (marshal (enc x))) = Some (Inr x)"
  by (simp add: parse_json_marshal enc_ok dec_enc)

text \<open>A codec of the values gives one of the maps, nil map included.\<close>

lemma codec_map:
  "codec (case_option JNull (encode_map enc)) (decode_map dec)
     (case_option True (\<lambda>m. gm_wf m \<and> list_all good (map snd m)))"
proof
  fix x :: "(string, 'a) gomap option"
  assume x: "case x of None \<Rightarrow> True | Some m \<Rightarrow> gm_wf m \<and> list_all good (map snd m)"
  have "gm_wf m \<Longrightarrow> list_all good (map snd m) \<Longrightarrow> decode_map dec (encode_map enc m) = Inr (Some m)" for m
    by (rule decode_encode_map) (auto simp: list_all_iff intro: dec_enc)
  with x show "decode_map dec (case x of None \<Rightarrow> JNull | Some m \<Rightarrow> encode_map enc m) = Inr x"
    by (auto simp: decode_map_def split: option.split)
  from x show "json_ok (case x of None \<Rightarrow> JNull | Some m \<Rightarrow> encode_map enc m)"
    by (auto simp: encode_map_def enc_ok list_all_iff split: option.splits)
qed

end

interpretation strings: codec JStr decode_str "\<lambda>_. True"
  by unfold_locales (simp_all add: decode_str_def)

definition patches_good :: "RestorePatches \<Rightarrow> bool" where
  "patches_good rp = (case rp of None \<Rightarrow> True | Some m \<Rightarrow> gm_wf m)"

interpretation patches: codec encode_patches "decode_map decode_str" patches_good
proof -
  have "encode_patches = case_option JNull (encode_map JStr)"
    and "patches_good = case_option True (\<lambda>m. gm_wf m \<and> list_all (\<lambda>_. True) (map snd m))"
    by (auto simp: fun_eq_iff encode_patches_def patches_good_def list_all_iff split: option.splits)
  then show "codec encode_patches (decode_map decode_str) patches_good"
    using strings.codec_map by simp
qed

definition restore_good :: "(string, RestorePatches) gomap option \<Rightarrow> bool" where
  "restore_good rps =
     (case rps of None \<Rightarrow> True | Some m \<Rightarrow> gm_wf m \<and> list_all patches_good (map snd m))"

interpretation restore: codec "case_option JNull encode_restore" "decode_map (decode_map decode_str)" restore_good
proof -
  have "case_option JNull encode_restore = case_option JNull (encode_map encode_patches)"
    and "restore_good = case_option True (\<lambda>m. gm_wf m \<and> list_all patches_good (map snd m))"
    by (auto simp: fun_eq_iff encode_restore_def restore_good_def split: option.splits)
  then show "codec (case_option JNull encode_restore) (decode_map (decode_map decode_str)) restore_good"
    using patches.codec_map by simp
qed

lemma GetOriginalInfoToRestore_marshal:
  assumes "restore_good (Some m)"
  shows "GetOriginalInfoToRestore (Some (marshal (encode_restore m))) = Inr (Some m)"
  using restore.text_round [OF assms] by (auto simp: GetOriginalInfoToRestore_def split: option.splits)

section \<open>Saving and restoring\<close>

lemma data_to_save_good:
  assumes "gm_wf acc \<and> list_all patches_good (map snd acc)"
    and "\<And>k res. gm_get mapping k = Some res \<Longrightarrow> patches_good (g_restorePatches res)"
  shows "restore_good (Some (data_to_save mapping ks acc))"
proof -
  have put: "list_all patches_good (map snd (gm_put s v m))"
    if "patches_good v" "list_all patches_good (map snd m)" for s v and m :: "(string, RestorePatches) gomap"
    using that by (induction m) auto
  show ?thesis using assms(1)
  proof (induction ks arbitrary: acc)
    case Nil
    then show ?case by (simp add: restore_good_def)
  next
    case (Cons k ks)
    then show ?case
      by (cases "gm_get mapping k") (simp_all add: put assms(2))
  qed
qed

text \<open>What is saved under a key, when the keys of the visited targets differ.\<close>

lemma data_to_save_get:
  assumes "inj_on target_string (set ks)"
  shows "gm_get (data_to_save mapping ks acc) s =
    (case find (\<lambda>k. target_string k = s) ks of
       None \<Rightarrow> gm_get acc s
     | Some k \<Rightarrow>
         (case gm_get mapping k of
            None \<Rightarrow> gm_get acc s
          | Some res \<Rightarrow> if rp_empty (g_restorePatches res) then gm_get acc s
                        else Some (g_restorePatches res)))"
  using assms
proof (induction ks arbitrary: acc)
  case Nil
  then show ?case by simp
next
  case (Cons k ks)
  show ?case
  proof (cases "target_string k = s")
    case True
    have "find (\<lambda>k. target_string k = s) ks = None \<or> find (\<lambda>k. target_string k = s) ks = Some k"
    proof (cases "find (\<lambda>k. target_string k = s) ks")
      case (Some k')
      then have "k' \<in> set ks" "target_string k' = s"
        by (auto simp: find_Some_iff)
      with Cons.prems True have "k' = k" by (auto simp: inj_on_def)
      with Some show ?thesis by simp
    qed simp
    with True Cons show ?thesis
      by (auto split: option.splits)
  next
    case False
    with Cons show ?thesis by (auto split: option.splits)
  qed
qed

definition plain_kinds :: "'w managedResources \<Rightarrow> bool" where
  "plain_kinds g = list_all (\<lambda>(k, res). CHR ''.'' \<notin> set (pt_Kind k)) (resMapping g)"

lemma plain_kinds_inj: "plain_kinds g \<Longrightarrow> inj_on target_string (fst ` set (resMapping g))"
  by (intro inj_onI target_string_inject) (auto simp: plain_kinds_def list_all_iff)

lemma find_inj:
  assumes "inj_on f (set xs)" and "k \<in> set xs"
  shows "find (\<lambda>x. f x = f k) xs = Some k"
proof (cases "find (\<lambda>x. f x = f k) xs")
  case None
  with assms(2) show ?thesis by (auto simp: find_None_iff)
next
  case (Some y)
  then have "y \<in> set xs" "f y = f k" by (auto simp: find_Some_iff)
  with Some assms show ?thesis by (simp add: inj_onD)
qed

lemma range_keys: "range_ok L \<Longrightarrow> gm_wf (resMapping g) \<Longrightarrow>
    set (l_range L (map fst (resMapping g))) = fst ` set (resMapping g)"
  using gm_wf_distinct [of "resMapping g"] by (auto simp: range_ok_def)

text \<open>What is saved under the name of a managed target.\<close>

lemma saved_entry:
  assumes "range_ok L" and "gm_wf (resMapping g)" and "plain_kinds g" and "gm_get (resMapping g) k = Some res"
  shows "gm_get (data_to_save (resMapping g) (l_range L (map fst (resMapping g))) []) (target_string k) =
    (if rp_empty (g_restorePatches res) then None else Some (g_restorePatches res))"
proof -
  let ?ks = "l_range L (map fst (resMapping g))"
  have inj: "inj_on target_string (set ?ks)"
    using plain_kinds_inj [OF assms(3)] range_keys [OF assms(1,2)] by simp
  have "k \<in> set ?ks" using assms(4) range_keys [OF assms(1,2)] by (force dest: map_of_SomeD)
  from find_inj [OF inj this] assms(4) show ?thesis by (simp add: data_to_save_get [OF inj])
qed

text \<open>
  C7: the restore patches survive the secret: what \<open>GetOriginalInfoToSave\<close> writes is read
  back by \<open>GetOriginalInfoToRestore\<close>, and holds under the name of every managed target
  exactly its restore patches, unless there are none, and nothing else. (Kinds have no dot,
  so the names of two targets differ.)
\<close>

theorem save_restore_round_trip:
  assumes "range_ok L" and "gm_wf (resMapping g)" and "plain_kinds g" and "resMapping g \<noteq> []"
    and "\<And>k res. gm_get (resMapping g) k = Some res \<Longrightarrow> patches_good (g_restorePatches res)"
  shows "\<exists>saved m. GetOriginalInfoToSave L g = Some saved \<and>
    GetOriginalInfoToRestore (Some saved) = Inr (Some m) \<and>
    (\<forall>k res. gm_get (resMapping g) k = Some res \<longrightarrow>
       gm_get m (target_string k) =
         (if rp_empty (g_restorePatches res) then None else Some (g_restorePatches res))) \<and>
    (\<forall>s. s \<notin> target_string ` dom (gm_get (resMapping g)) \<longrightarrow> gm_get m s = None)"
proof -
  let ?ks = "l_range L (map fst (resMapping g))"
  let ?m = "data_to_save (resMapping g) ?ks []"
  have ks: "set ?ks = fst ` set (resMapping g)" using assms(1,2) by (rule range_keys)
  have inj: "inj_on target_string (set ?ks)" using plain_kinds_inj [OF assms(3)] ks by simp
  have "GetOriginalInfoToRestore (Some (marshal (encode_restore ?m))) = Inr (Some ?m)"
    by (intro GetOriginalInfoToRestore_marshal data_to_save_good) (simp_all add: assms(5))
  moreover have "gm_get ?m (target_string k) =
      (if rp_empty (g_restorePatches res) then None else Some (g_restorePatches res))"
    if "gm_get (resMapping g) k = Some res" for k res
    using saved_entry [OF assms(1-3) that] .
  moreover have "gm_get ?m s = None" if "s \<notin> target_string ` dom (gm_get (resMapping g))" for s
  proof -
    have "find (\<lambda>x. target_string x = s) ?ks = None"
      using that ks by (auto simp: find_None_iff dom_map_of_conv_image_fst)
    then show ?thesis by (simp add: data_to_save_get [OF inj])
  qed
  ultimately show ?thesis using assms(4) by (auto simp: GetOriginalInfoToSave_def)
qed

definition slept_resources :: "unstructured list managedResources" where
  "slept_resources =
     \<lparr>resMapping = [(DeploymentTarget, (example_group [])\<lparr>g_restorePatches := Some [(''a'', ''p'')]\<rparr>)],
      mr_namespace = ''default''\<rparr>"

theorem save_restore_round_trip_witness:
  "\<exists>saved m. GetOriginalInfoToSave example_libs slept_resources = Some saved \<and>
    GetOriginalInfoToRestore (Some saved) = Inr (Some m) \<and>
    gm_get m ''Deployment.apps'' = Some (Some [(''a'', ''p'')]) \<and>
    gm_get m ''CronJob.batch'' = None"
proof -
  have group: "gm_get (resMapping slept_resources) DeploymentTarget =
      Some ((example_group [])\<lparr>g_restorePatches := Some [(''a'', ''p'')]\<rparr>)"
    by (simp add: slept_resources_def)
  have keys: "target_string DeploymentTarget = ''Deployment.apps''"
      "''CronJob.batch'' \<notin> target_string ` dom (gm_get (resMapping slept_resources))"
    by (auto simp: slept_resources_def target_string_def DeploymentTarget_def split: if_splits)
  have wf: "gm_wf (resMapping slept_resources)" "plain_kinds slept_resources"
      "resMapping slept_resources \<noteq> []"
    by (simp_all add: slept_resources_def gm_wf_def plain_kinds_def DeploymentTarget_def)
  have good: "gm_get (resMapping slept_resources) k = Some res \<Longrightarrow> patches_good (g_restorePatches res)" for k res
    by (auto simp: slept_resources_def patches_good_def gm_wf_def split: if_splits)
  from save_restore_round_trip [where L = example_libs and g = slept_resources, OF example_range_ok wf]
    good obtain saved m where
      "GetOriginalInfoToSave example_libs slept_resources = Some saved"
      "GetOriginalInfoToRestore (Some saved) = Inr (Some m)"
      "\<forall>k res. gm_get (resMapping slept_resources) k = Some res \<longrightarrow>
         gm_get m (target_string k) =
           (if rp_empty (g_restorePatches res) then None else Some (g_restorePatches res))"
      "\<forall>s. s \<notin> target_string ` dom (gm_get (resMapping slept_resources)) \<longrightarrow> gm_get m s = None"
    by blast
  with group keys show ?thesis by (fastforce simp: rp_empty_def)
qed

section \<open>NewResources\<close>

text \<open>The patch of a target: the last one of the SleepInfo, user patches coming last.\<close>

definition last_patch :: "Patch list \<Rightarrow> PatchTarget \<Rightarrow> Patch option" where
  "last_patch ps t = find (\<lambda>p. p_Target p = t) (rev ps)"

definition new_group ::
    "'w ResourceClient \<Rightarrow> (string, RestorePatches) gomap \<Rightarrow> Patch \<Rightarrow> unstructured list \<Rightarrow>
     'w genericResource" where
  "new_group c rps pd items =
     (newGenericResource c pd
        (case gm_get rps (target_string (p_Target pd)) of None \<Rightarrow> Some [] | Some rp \<Rightarrow> rp))\<lparr>g_data := items\<rparr>"

text \<open>The group that a target gets, if it is managed.\<close>

definition managed_group ::
    "'p libs \<Rightarrow> 'w ResourceClient \<Rightarrow> string \<Rightarrow> (string, RestorePatches) gomap \<Rightarrow> Patch list \<Rightarrow> 'w \<Rightarrow>
     PatchTarget \<Rightarrow> 'w genericResource option" where
  "managed_group L c ns rps ps w t =
     (case (last_patch ps t, fst (getListByNamespace (l_unstr L) (l_sel L) c ns t w)) of
        (Some pd, (items, None)) \<Rightarrow> if items = [] then None else Some (new_group c rps pd items)
      | _ \<Rightarrow> None)"

lemma NewResources_loop_get:
  assumes "\<And>t. snd (getListByNamespace (l_unstr L) (l_sel L) c ns t w) = w"
    and "NewResources_loop L c ns rps ps mapping w = (mapping', w')"
    and "gm_wf mapping"
  shows "w' = w \<and> gm_wf mapping' \<and>
    (\<forall>t. gm_get mapping' t =
      (case managed_group L c ns rps ps w t of None \<Rightarrow> gm_get mapping t | Some g \<Rightarrow> Some g))"
  using assms(2,3)
proof (induction ps arbitrary: mapping)
  case Nil
  then show ?case by (simp add: managed_group_def last_patch_def)
next
  case (Cons pd ps)
  obtain items err where li: "getListByNamespace (l_unstr L) (l_sel L) c ns (p_Target pd) w = ((items, err), w)"
    using assms(1) [of "p_Target pd"] by (metis prod.collapse)
  let ?mapping1 = "if err = None \<and> items \<noteq> [] then gm_put (p_Target pd) (new_group c rps pd items) mapping
    else mapping"
  have run: "NewResources_loop L c ns rps ps ?mapping1 w = (mapping', w')"
    using Cons.prems(1) li
    by (auto simp: new_group_def Let_def split: if_splits option.splits)
  have last: "last_patch (pd # ps) t = (case last_patch ps t of
      None \<Rightarrow> if p_Target pd = t then Some pd else None | Some x \<Rightarrow> Some x)" for t
    by (simp add: last_patch_def find_append split: option.split)
  have "(case managed_group L c ns rps ps w t of None \<Rightarrow> gm_get ?mapping1 t | Some g \<Rightarrow> Some g) =
      (case managed_group L c ns rps (pd # ps) w t of None \<Rightarrow> gm_get mapping t | Some g \<Rightarrow> Some g)" for t
    using li by (cases "p_Target pd = t"; cases "last_patch ps t")
      (auto simp: managed_group_def last split: option.split prod.split)
  with Cons.IH [OF run] Cons.prems(2) show ?case by simp
qed

lemma NewResources_groups:
  assumes "\<And>t. snd (getListByNamespace (l_unstr L) (l_sel L) c ns t w) = w" and "rc_SleepInfo c = Some si"
    and "NewResources L c ns rps w = (Inr g, w')"
  shows "w' = w \<and> gm_wf (resMapping g) \<and> mr_namespace g = ns \<and>
    (\<forall>t. gm_get (resMapping g) t =
      managed_group L c ns (case rps of None \<Rightarrow> [] | Some m \<Rightarrow> m) (GetPatches si) w t)"
proof -
  let ?rps = "case rps of None \<Rightarrow> [] | Some m \<Rightarrow> m"
  obtain mapping w1 where run: "NewResources_loop L c ns ?rps (GetPatches si) [] w = (mapping, w1)"
    by (metis surj_pair)
  have "(case x of None \<Rightarrow> gm_get [] t | Some g \<Rightarrow> Some g) = x" for x :: "'a genericResource option"
      and t :: PatchTarget
    by (cases x) simp_all
  with NewResources_loop_get [OF assms(1) run] assms(2,3) run show ?thesis
    by (auto simp: NewResources_def)
qed

lemma NewResources_total:
  "rc_SleepInfo c = Some si \<Longrightarrow> \<exists>g w'. NewResources L c ns rps w = (Inr g, w')"
  by (auto simp: NewResources_def split: prod.split)

text \<open>
  C18: \<open>NewResources\<close> manages exactly the targets of the SleepInfo's patches for which
  listing gives at least one resource. A target that several patches name is managed with
  the last of them only (a user patch replaces the built-in one); it gets the restore
  patches saved under its name, or an empty map; a target whose listing fails is dropped
  without an error. Listing only reads the cluster.
\<close>

theorem NewResources_manages:
  assumes "rc_SleepInfo c = Some si"
    and "\<And>t. snd (getListByNamespace (l_unstr L) (l_sel L) c ns t w) = w"
  shows "\<exists>g. NewResources L c ns rps w = (Inr g, w) \<and> mr_namespace g = ns \<and> gm_wf (resMapping g) \<and>
    (\<forall>t. gm_get (resMapping g) t =
      managed_group L c ns (case rps of None \<Rightarrow> [] | Some m \<Rightarrow> m) (GetPatches si) w t)"
  using NewResources_total [OF assms(1), of L ns rps w] NewResources_groups [OF assms(2,1)] by metis

lemma example_list:
  "getListByNamespace example_unstr example_selectors (example_rc example_sleepinfo) ''default'' t w =
   ((w, None), w)"
  by (simp add: getListByNamespace_def getListOptions_def example_rc_def example_client_def
      example_defs GetIncludeRef_def GetExcludeRef_def getFieldToInclude_def getFieldToExclude_def
      option_holds_def filterByName_def)

theorem NewResources_manages_witness:
  "\<exists>g. NewResources example_libs (example_rc example_sleepinfo) ''default'' None [example_obj ''a'' ''3''] =
      (Inr g, [example_obj ''a'' ''3'']) \<and>
    gm_get (resMapping g) DeploymentTarget =
      Some (new_group (example_rc example_sleepinfo) [] deploymentPatch [example_obj ''a'' ''3'']) \<and>
    gm_get (resMapping g) StatefulSetTarget = None"
proof -
  let ?c = "example_rc example_sleepinfo" and ?w = "[example_obj ''a'' ''3'']"
  have si: "rc_SleepInfo ?c = Some example_sleepinfo" by (simp add: example_rc_def)
  have "last_patch (GetPatches example_sleepinfo) DeploymentTarget = Some deploymentPatch"
    and "last_patch (GetPatches example_sleepinfo) StatefulSetTarget = None"
    by (simp_all add: last_patch_def GetPatches_def suspend_defs example_defs deploymentPatch_def
        cronjobPatch_def default_targets)
  then have "managed_group example_libs ?c ''default'' [] (GetPatches example_sleepinfo) ?w DeploymentTarget =
      Some (new_group ?c [] deploymentPatch ?w)"
    and "managed_group example_libs ?c ''default'' [] (GetPatches example_sleepinfo) ?w StatefulSetTarget = None"
    by (simp_all add: managed_group_def example_list)
  with NewResources_manages [where L = example_libs and ns = "''default''" and w = ?w and rps = None, OF si]
  show ?thesis by (auto simp: example_list)
qed

text \<open>A target whose listing fails or gives nothing is not managed.\<close>

lemma NewResources_loop_failing:
  assumes "\<And>t w. \<exists>items e w'. getListByNamespace (l_unstr L) (l_sel L) c ns t w = ((items, Some e), w')"
  shows "fst (NewResources_loop L c ns rps ps mapping w) = mapping"
proof (induction ps arbitrary: w)
  case (Cons pd ps)
  obtain items e w' where
    "getListByNamespace (l_unstr L) (l_sel L) c ns (p_Target pd) w = ((items, Some e), w')"
    using assms by blast
  with Cons show ?case by (simp add: Let_def)
qed simp

lemma HasResource_iff:
  assumes "gm_wf (resMapping g)"
  shows "HasResource g \<longleftrightarrow> (\<exists>k res. gm_get (resMapping g) k = Some res \<and> g_data res \<noteq> [])"
  using gm_wf_distinct [OF assms] by (auto simp: HasResource_def list_ex_iff map_of_eq_Some_iff)

end
