(* ===== verification/Legacy.thy ===== *)
theory Legacy
  imports Json
begin

text \<open>
  The secret format of earlier releases: \<open>cronjobs/cronjobs.go\<close> and
  \<open>deployments/deployments.go\<close> turn the saved list of original states into restore
  patches by resource name.
\<close>

section \<open>Decoding lists of structs\<close>

text \<open>Struct fields are matched without regard to case; unknown members are skipped.\<close>

definition field_key :: "string \<Rightarrow> string" where
  "field_key k = map lower_char k"

primrec decode_list :: "(json \<Rightarrow> 'a res) \<Rightarrow> json list \<Rightarrow> 'a list res" where
  "decode_list dec [] = Inr []"
| "decode_list dec (v # vs) =
     (case (dec v, decode_list dec vs) of
        (Inl e, _) \<Rightarrow> Inl e
      | (_, Inl e) \<Rightarrow> Inl e
      | (Inr x, Inr xs) \<Rightarrow> Inr (x # xs))"

definition decode_slice :: "(json \<Rightarrow> 'a res) \<Rightarrow> json \<Rightarrow> 'a list res" where
  "decode_slice dec v =
     (case v of JNull \<Rightarrow> Inr [] | JArr vs \<Rightarrow> decode_list dec vs | _ \<Rightarrow> Inl unmarshal_error)"

fun decode_struct :: "(string \<Rightarrow> json \<Rightarrow> 'a \<Rightarrow> 'a res) \<Rightarrow> (string \<times> json) list \<Rightarrow> 'a \<Rightarrow> 'a res" where
  "decode_struct field [] x = Inr x"
| "decode_struct field ((k, v) # ms) x =
     (case field (field_key k) v x of Inl e \<Rightarrow> Inl e | Inr y \<Rightarrow> decode_struct field ms y)"

text \<open>An \<open>int32\<close> field: an integer literal in range.\<close>

definition decode_int32 :: "json \<Rightarrow> 32 word res" where
  "decode_int32 v =
     (case v of
        JNum lit \<Rightarrow>
          (case int_literal lit of
             Some i \<Rightarrow>
               if - 2147483648 \<le> i \<and> i \<le> 2147483647 then Inr (word_of_int i) else Inl unmarshal_error
           | None \<Rightarrow> Inl unmarshal_error)
      | _ \<Rightarrow> Inl unmarshal_error)"

definition decode_bool :: "json \<Rightarrow> bool res" where
  "decode_bool v = (case v of JBool b \<Rightarrow> Inr b | _ \<Rightarrow> Inl unmarshal_error)"

section \<open>Deployments\<close>

record OriginalReplicas =
  dep_Name :: string
  dep_Replicas :: "32 word"

definition replicas_field :: "string \<Rightarrow> json \<Rightarrow> OriginalReplicas \<Rightarrow> OriginalReplicas res" where
  "replicas_field k v x =
     (if v = JNull then Inr x
      else if k = ''name'' then map_sum id (\<lambda>s. x\<lparr>dep_Name := s\<rparr>) (decode_str v)
      else if k = ''replicas'' then map_sum id (\<lambda>n. x\<lparr>dep_Replicas := n\<rparr>) (decode_int32 v)
      else Inr x)"

definition decode_replicas :: "json \<Rightarrow> OriginalReplicas res" where
  "decode_replicas v =
     (case v of
        JNull \<Rightarrow> Inr \<lparr>dep_Name = [], dep_Replicas = 0\<rparr>
      | JObj ms \<Rightarrow> decode_struct replicas_field ms \<lparr>dep_Name = [], dep_Replicas = 0\<rparr>
      | _ \<Rightarrow> Inl unmarshal_error)"

definition replicas_patch :: "OriginalReplicas \<Rightarrow> string" where
  "replicas_patch r =
     ''{'' @ quote ''spec'' @ '':{'' @ quote ''replicas'' @ '':'' @ int_text (sint (dep_Replicas r)) @ ''}}''"

fun replicas_loop ::
    "OriginalReplicas list \<Rightarrow> (string, string) gomap \<Rightarrow> (string, string) gomap" where
  "replicas_loop [] m = m"
| "replicas_loop (r # rs) m =
     (if dep_Name r \<noteq> '''' then replicas_loop rs (gm_put (dep_Name r) (replicas_patch r) m)
      else replicas_loop rs m)"

definition deployments_GetOriginalInfoToRestore :: "string option \<Rightarrow> (string, string) gomap res" where
  "deployments_GetOriginalInfoToRestore data =
     (case data of
        None \<Rightarrow> Inr []
      | Some d \<Rightarrow>
          (case parse_json d of
             None \<Rightarrow> Inl syntax_error
           | Some v \<Rightarrow>
               (case decode_slice decode_replicas v of
                  Inl e \<Rightarrow> Inl e
                | Inr rs \<Rightarrow> Inr (replicas_loop rs []))))"

section \<open>CronJobs\<close>

record OriginalCronJobStatus =
  cj_Name :: string
  cj_Suspend :: bool

definition cronjob_field :: "string \<Rightarrow> json \<Rightarrow> OriginalCronJobStatus \<Rightarrow> OriginalCronJobStatus res" where
  "cronjob_field k v x =
     (if v = JNull then Inr x
      else if k = ''name'' then map_sum id (\<lambda>s. x\<lparr>cj_Name := s\<rparr>) (decode_str v)
      else if k = ''suspend'' then map_sum id (\<lambda>b. x\<lparr>cj_Suspend := b\<rparr>) (decode_bool v)
      else Inr x)"

definition decode_cronjob :: "json \<Rightarrow> OriginalCronJobStatus res" where
  "decode_cronjob v =
     (case v of
        JNull \<Rightarrow> Inr \<lparr>cj_Name = [], cj_Suspend = False\<rparr>
      | JObj ms \<Rightarrow> decode_struct cronjob_field ms \<lparr>cj_Name = [], cj_Suspend = False\<rparr>
      | _ \<Rightarrow> Inl unmarshal_error)"

definition cronjob_patch_text :: "OriginalCronJobStatus \<Rightarrow> string" where
  "cronjob_patch_text c =
     ''{'' @ quote ''spec'' @ '':{'' @ quote ''suspend'' @ '':'' @
     (if cj_Suspend c then ''true'' else ''false'') @ ''}}''"

fun cronjobs_loop ::
    "OriginalCronJobStatus list \<Rightarrow> (string, string) gomap \<Rightarrow> (string, string) gomap" where
  "cronjobs_loop [] m = m"
| "cronjobs_loop (c # cs) m =
     (if cj_Name c \<noteq> '''' then cronjobs_loop cs (gm_put (cj_Name c) (cronjob_patch_text c) m)
      else cronjobs_loop cs m)"

definition cronjobs_GetOriginalInfoToRestore :: "string option \<Rightarrow> (string, string) gomap res" where
  "cronjobs_GetOriginalInfoToRestore savedData =
     (case savedData of
        None \<Rightarrow> Inr []
      | Some d \<Rightarrow>
          (case parse_json d of
             None \<Rightarrow> Inl syntax_error
           | Some v \<Rightarrow>
               (case decode_slice decode_cronjob v of
                  Inl e \<Rightarrow> Inl e
                | Inr cs \<Rightarrow> Inr (cronjobs_loop cs []))))"

section \<open>What the legacy decoders compute\<close>

text \<open>
  Both formats are lists of named records, turned into a map by a loop that skips the
  records without a name.
\<close>

locale legacy_format =
  fixes name :: "'r \<Rightarrow> string" and patch_of :: "'r \<Rightarrow> string"
    and loop :: "'r list \<Rightarrow> (string, string) gomap \<Rightarrow> (string, string) gomap"
  assumes loop_Nil: "loop [] m = m"
    and loop_Cons: "loop (r # rs) m =
      (if name r \<noteq> [] then loop rs (gm_put (name r) (patch_of r) m) else loop rs m)"
begin

lemma loop_wf: "gm_wf m \<Longrightarrow> gm_wf (loop rs m)"
  by (induction rs arbitrary: m) (simp_all add: loop_Nil loop_Cons)

text \<open>The last record of a name gives its patch.\<close>

lemma loop_get:
  "gm_get (loop rs m) n =
   (if n = [] then gm_get m n
    else case find (\<lambda>r. name r = n) (rev rs) of None \<Rightarrow> gm_get m n | Some r \<Rightarrow> Some (patch_of r))"
proof (induction rs arbitrary: m)
  case (Cons r rs)
  have "find (\<lambda>r. name r = n) (rev (r # rs)) =
      (case find (\<lambda>r. name r = n) (rev rs) of
         None \<Rightarrow> if name r = n then Some r else None | Some x \<Rightarrow> Some x)"
    by (simp add: find_append split: option.split)
  with Cons show ?case by (auto simp: loop_Cons split: option.split)
qed (simp add: loop_Nil)

end

interpretation deployments: legacy_format dep_Name replicas_patch replicas_loop
  by unfold_locales simp_all

interpretation cronjobs: legacy_format cj_Name cronjob_patch_text cronjobs_loop
  by unfold_locales simp_all

section \<open>Integers as JSON numbers\<close>

lemma is_digit_num_char: "is_digit c \<Longrightarrow> is_num_char c"
  by (simp add: is_num_char_def)

lemma dropWhile_all: "list_all P s \<Longrightarrow> dropWhile P s = []"
  by (simp add: list_all_iff)

lemma int_text_number: "json_ok (JNum (int_text i))"
proof -
  have nat: "valid_number (nat_text n) \<and> valid_number (CHR ''-'' # nat_text n) \<and>
      list_all is_num_char (nat_text n)" for n
  proof -
    obtain c r where t: "nat_text n = c # r" by (cases "nat_text n") auto
    with nat_text_digits [of n] have d: "is_digit c" "list_all is_digit r"
      by (auto simp: list_all_iff)
    then have "c \<noteq> CHR ''-''" by (auto simp: is_digit_def)
    moreover have "c = CHR ''0'' \<Longrightarrow> r = []" using nat_text_lead [OF t] .
    ultimately show ?thesis
      using d t by (auto simp: valid_number_def valid_frac_def valid_exp_def dropWhile_all
          is_digit_num_char list_all_iff)
  qed
  then show ?thesis by (auto simp: int_text_def is_num_char_def)
qed

section \<open>Reading the old format\<close>

text \<open>The JSON that earlier releases saved: a list of names with the original setting.\<close>

definition legacy_replicas :: "OriginalReplicas \<Rightarrow> json" where
  "legacy_replicas r =
     JObj [(''name'', JStr (dep_Name r)), (''replicas'', JNum (int_text (sint (dep_Replicas r))))]"

definition legacy_cronjob :: "OriginalCronJobStatus \<Rightarrow> json" where
  "legacy_cronjob c = JObj [(''name'', JStr (cj_Name c)), (''suspend'', JBool (cj_Suspend c))]"

lemma decode_legacy_replicas: "decode_replicas (legacy_replicas r) = Inr r"
proof -
  have "- 2147483648 \<le> sint (dep_Replicas r)" "sint (dep_Replicas r) \<le> 2147483647"
    using sint_greater_eq [of "dep_Replicas r"] sint_less [of "dep_Replicas r"] by simp_all
  moreover have "field_key ''name'' = ''name''" "field_key ''replicas'' = ''replicas''"
    by (simp_all add: field_key_def lower_char_def)
  ultimately show ?thesis
    by (simp add: decode_replicas_def legacy_replicas_def replicas_field_def decode_str_def
        decode_int32_def int_literal_int_text)
qed

lemma decode_legacy_cronjob: "decode_cronjob (legacy_cronjob c) = Inr c"
proof -
  have "field_key ''name'' = ''name''" "field_key ''suspend'' = ''suspend''"
    by (simp_all add: field_key_def lower_char_def)
  then show ?thesis
    by (simp add: decode_cronjob_def legacy_cronjob_def cronjob_field_def decode_str_def decode_bool_def)
qed

lemma decode_list_map: "(\<And>x. dec (enc x) = Inr x) \<Longrightarrow> decode_list dec (map enc xs) = Inr xs"
  by (induction xs) simp_all

lemma replicas_patch_json:
  "replicas_patch r =
   marshal (JObj [(''spec'', JObj [(''replicas'', JNum (int_text (sint (dep_Replicas r))))])])"
  by (simp add: replicas_patch_def)

lemma cronjob_patch_json:
  "cronjob_patch_text c = marshal (JObj [(''spec'', JObj [(''suspend'', JBool (cj_Suspend c))])])"
  by (simp add: cronjob_patch_text_def)

lemma deployments_readable:
  "deployments_GetOriginalInfoToRestore (Some (marshal (JArr (map legacy_replicas rs)))) =
   Inr (replicas_loop rs [])"
proof -
  have "json_ok (JArr (map legacy_replicas rs))"
    using int_text_number by (simp add: legacy_replicas_def)
  then show ?thesis
    by (simp add: deployments_GetOriginalInfoToRestore_def parse_json_marshal decode_slice_def
        decode_list_map [of decode_replicas, OF decode_legacy_replicas] del: marshal.simps json_ok.simps)
qed

lemma cronjobs_readable:
  "cronjobs_GetOriginalInfoToRestore (Some (marshal (JArr (map legacy_cronjob cs)))) =
   Inr (cronjobs_loop cs [])"
proof -
  have "json_ok (JArr (map legacy_cronjob cs))" by (simp add: legacy_cronjob_def)
  then show ?thesis
    by (simp add: cronjobs_GetOriginalInfoToRestore_def parse_json_marshal decode_slice_def
        decode_list_map [of decode_cronjob, OF decode_legacy_cronjob] del: marshal.simps json_ok.simps)
qed

text \<open>
  C37: a secret of an earlier release is still understood: from the saved list of
  deployments every non-empty name gets a merge patch that sets \<open>spec.replicas\<close> to the
  saved number (the last record of a name counts), and nothing else gets one.
\<close>

theorem legacy_deployments_restored:
  "\<exists>m. deployments_GetOriginalInfoToRestore (Some (marshal (JArr (map legacy_replicas rs)))) = Inr m \<and>
    gm_wf m \<and>
    (\<forall>n. gm_get m n =
       (if n = [] then None
        else map_option replicas_patch (find (\<lambda>r. dep_Name r = n) (rev rs)))) \<and>
    (\<forall>r. parse_json (replicas_patch r) =
       Some (JObj [(''spec'', JObj [(''replicas'', JNum (int_text (sint (dep_Replicas r))))])]))"
proof -
  have "parse_json (replicas_patch r) =
      Some (JObj [(''spec'', JObj [(''replicas'', JNum (int_text (sint (dep_Replicas r))))])])" for r
    unfolding replicas_patch_json by (rule parse_json_marshal) (use int_text_number in simp)
  then show ?thesis
    unfolding deployments_readable
    by (auto simp: deployments.loop_wf deployments.loop_get split: option.split)
qed

text \<open>
  The same for CronJobs: every non-empty name gets a merge patch that sets
  \<open>spec.suspend\<close> to the saved value.
\<close>

lemma legacy_cronjobs_restored:
  "\<exists>m. cronjobs_GetOriginalInfoToRestore (Some (marshal (JArr (map legacy_cronjob cs)))) = Inr m \<and>
    gm_wf m \<and>
    (\<forall>n. gm_get m n =
       (if n = [] then None
        else map_option cronjob_patch_text (find (\<lambda>c. cj_Name c = n) (rev cs)))) \<and>
    (\<forall>c. parse_json (cronjob_patch_text c) =
       Some (JObj [(''spec'', JObj [(''suspend'', JBool (cj_Suspend c))])]))"
proof -
  have "parse_json (cronjob_patch_text c) =
      Some (JObj [(''spec'', JObj [(''suspend'', JBool (cj_Suspend c))])])" for c
    unfolding cronjob_patch_json by (rule parse_json_marshal) simp
  then show ?thesis
    unfolding cronjobs_readable
    by (auto simp: cronjobs.loop_wf cronjobs.loop_get split: option.split)
qed

end
