(* ===== verification/Sleepinfo_Data.thy ===== *)
theory Sleepinfo_Data
  imports Restore_Info Legacy
begin

text \<open>
  \<open>internal/controller/sleepinfo/sleepinfodata.go\<close>: what the secret of a SleepInfo says
  about the last operation, and the operation that is due next.
\<close>

definition lastScheduleKey :: string where "lastScheduleKey = ''scheduled-at''"
definition lastOperationKey :: string where "lastOperationKey = ''operation-type''"
definition originalJSONPatchDataKey :: string where
  "originalJSONPatchDataKey = ''original-resource-info''"
definition replicasBeforeSleepKey :: string where "replicasBeforeSleepKey = ''deployment-replicas''"
definition originalCronjobStatusKey :: string where "originalCronjobStatusKey = ''cronjobs-info''"

definition sleepOperation :: string where "sleepOperation = ''SLEEP''"
definition wakeUpOperation :: string where "wakeUpOperation = ''WAKE_UP''"

lemmas secret_keys = lastScheduleKey_def lastOperationKey_def originalJSONPatchDataKey_def
  replicasBeforeSleepKey_def originalCronjobStatusKey_def

lemmas operation_names = sleepOperation_def wakeUpOperation_def

record SleepInfoData =
  LastSchedule :: gotime
  CurrentOperationType :: string
  CurrentOperationSchedule :: string
  NextOperationSchedule :: string
  OriginalGenericResourceInfo :: "(string, RestorePatches) gomap option"

definition IsWakeUpOperation :: "SleepInfoData \<Rightarrow> bool" where
  "IsWakeUpOperation s = (CurrentOperationType s = wakeUpOperation)"

definition IsSleepOperation :: "SleepInfoData \<Rightarrow> bool" where
  "IsSleepOperation s = (CurrentOperationType s = sleepOperation)"

text \<open>\<open>data[key]\<close> read as a string: a missing key is the empty string.\<close>

definition data_string :: "(string, string) gomap \<Rightarrow> string \<Rightarrow> string" where
  "data_string data key = (case gm_get data key of None \<Rightarrow> [] | Some s \<Rightarrow> s)"

definition convertOldSecretDataToNewFormat ::
    "(string, RestorePatches) gomap option \<Rightarrow> (string, string) gomap \<Rightarrow>
     (string, RestorePatches) gomap res" where
  "convertOldSecretDataToNewFormat originalGenericResourceInfo secretData =
     (let info0 = (case originalGenericResourceInfo of None \<Rightarrow> [] | Some m \<Rightarrow> m) in
      case (case gm_get secretData replicasBeforeSleepKey of
              None \<Rightarrow> Inr info0
            | Some replicas \<Rightarrow>
                (case deployments_GetOriginalInfoToRestore (Some replicas) of
                   Inl e \<Rightarrow> Inl (Err (''fails to set original deployment replicas info to restore: '' @
                                    error_text e))
                 | Inr data \<Rightarrow> Inr (gm_put (target_string DeploymentTarget) (Some data) info0))) of
        Inl e \<Rightarrow> Inl e
      | Inr info1 \<Rightarrow>
          (case gm_get secretData originalCronjobStatusKey of
             None \<Rightarrow> Inr info1
           | Some cronjobStatus \<Rightarrow>
               (case cronjobs_GetOriginalInfoToRestore (Some cronjobStatus) of
                  Inl e \<Rightarrow> Inl (Err (''fails to set original cronjob status info to restore: '' @
                                   error_text e))
                | Inr data \<Rightarrow> Inr (gm_put (target_string CronJobTarget) (Some data) info1))))"

definition first_run_data :: "string \<Rightarrow> string \<Rightarrow> SleepInfoData" where
  "first_run_data sleepSchedule wakeUpSchedule =
     \<lparr>LastSchedule = zero_time, CurrentOperationType = sleepOperation,
      CurrentOperationSchedule = sleepSchedule,
      NextOperationSchedule = (if wakeUpSchedule = '''' then sleepSchedule else wakeUpSchedule),
      OriginalGenericResourceInfo = None\<rparr>"

definition getSleepInfoData ::
    "tzdata \<Rightarrow> Secret option \<Rightarrow> SleepInfo \<Rightarrow> SleepInfoData res" where
  "getSleepInfoData tz secret sleepInfo =
     (case GetSleepSchedule sleepInfo of
        Inl e \<Rightarrow> Inl e
      | Inr sleepSchedule \<Rightarrow>
     (case GetWakeUpSchedule sleepInfo of
        Inl e \<Rightarrow> Inl e
      | Inr wakeUpSchedule \<Rightarrow>
     (let sleepInfoData = first_run_data sleepSchedule wakeUpSchedule in
      case (case secret of None \<Rightarrow> None | Some s \<Rightarrow> sec_Data s) of
        None \<Rightarrow> Inr sleepInfoData
      | Some data \<Rightarrow>
     (case GetOriginalInfoToRestore (gm_get data originalJSONPatchDataKey) of
        Inl e \<Rightarrow> Inl (Err (''fails to set original resource info to restore in SleepInfo '' @
                         m_Name (si_Meta sleepInfo) @ '': '' @ error_text e))
      | Inr info0 \<Rightarrow>
     (case convertOldSecretDataToNewFormat info0 data of
        Inl e \<Rightarrow> Inl e
      | Inr info \<Rightarrow>
     (case parse_RFC3339 tz (data_string data lastScheduleKey) of
        None \<Rightarrow> Inl (Err (''fails to parse '' @ lastScheduleKey @ '': parsing time ''))
      | Some lastSchedule \<Rightarrow>
          (let d1 = sleepInfoData\<lparr>OriginalGenericResourceInfo := Some info,
                                  LastSchedule := lastSchedule\<rparr>;
               lastOperation = data_string data lastOperationKey
           in if lastOperation = sleepOperation \<and> wakeUpSchedule \<noteq> ''''
              then Inr (d1\<lparr>CurrentOperationSchedule := wakeUpSchedule,
                           NextOperationSchedule := sleepSchedule,
                           CurrentOperationType := wakeUpOperation\<rparr>)
              else Inr d1)))))))"

definition applyExecutionOverride ::
    "SleepInfoData \<Rightarrow> string \<Rightarrow> SleepInfo \<Rightarrow> SleepInfoData res" where
  "applyExecutionOverride data op sleepInfo =
     (case GetSleepSchedule sleepInfo of
        Inl e \<Rightarrow> Inl e
      | Inr sleepSchedule \<Rightarrow>
     (case GetWakeUpSchedule sleepInfo of
        Inl e \<Rightarrow> Inl e
      | Inr wakeSchedule \<Rightarrow>
          (if op = ExecutionOpSleep then
             Inr (data\<lparr>CurrentOperationType := sleepOperation,
                       CurrentOperationSchedule := sleepSchedule,
                       NextOperationSchedule :=
                         (if wakeSchedule = '''' then sleepSchedule else wakeSchedule)\<rparr>)
           else if op = ExecutionOpWake then
             (if wakeSchedule = '''' then
                Inl (Err (''SleepInfo '' @ quoted (m_Name (si_Meta sleepInfo)) @
                     '' has no wakeUpAt; WAKE_UP is not supported''))
              else
                Inr (data\<lparr>CurrentOperationType := wakeUpOperation,
                          CurrentOperationSchedule := wakeSchedule,
                          NextOperationSchedule := sleepSchedule\<rparr>))
           else Inl (Err (''unknown execution operation '' @ quoted op)))))"

section \<open>The operation that is due\<close>

text \<open>
  A well-formed description of what is due: a sleep at the sleep schedule, followed by a
  wake up if the SleepInfo has one, or a wake up at its schedule, followed by a sleep.
\<close>

definition data_ok :: "SleepInfo \<Rightarrow> SleepInfoData \<Rightarrow> bool" where
  "data_ok si d =
     (case (GetSleepSchedule si, GetWakeUpSchedule si) of
        (Inr sleep, Inr wake) \<Rightarrow>
          (if CurrentOperationType d = sleepOperation
           then CurrentOperationSchedule d = sleep \<and>
                NextOperationSchedule d = (if wake = [] then sleep else wake)
           else CurrentOperationType d = wakeUpOperation \<and> wake \<noteq> [] \<and>
                CurrentOperationSchedule d = wake \<and> NextOperationSchedule d = sleep)
      | _ \<Rightarrow> False)"

lemma sleep_not_wake [simp]: "sleepOperation \<noteq> wakeUpOperation" "wakeUpOperation \<noteq> sleepOperation"
  by (simp_all add: operation_names)

lemma GetWakeUpSchedule_empty:
  "GetWakeUpSchedule si = Inr wake \<Longrightarrow> wake = [] \<longleftrightarrow> WakeUpTime (si_Spec si) = []"
  by (auto simp: GetWakeUpSchedule_def schedule_split schedule_text_def split: if_splits)

text \<open>
  The contract of whatever tells a reconciler what to do: it describes an operation of the
  SleepInfo.
\<close>

locale operation_source =
  fixes produce :: "SleepInfo \<Rightarrow> SleepInfoData res"
  assumes produce_ok: "produce si = Inr d \<Longrightarrow> data_ok si d"
begin

lemma supported: "produce si = Inr d \<Longrightarrow> IsSleepOperation d \<noteq> IsWakeUpOperation d"
  using produce_ok [of si d]
  by (auto simp: data_ok_def IsSleepOperation_def IsWakeUpOperation_def split: sum.splits if_splits)

text \<open>Both schedules of the description are schedules of the SleepInfo.\<close>

lemma schedules:
  "produce si = Inr d \<Longrightarrow>
   (Inr (CurrentOperationSchedule d) = GetSleepSchedule si \<or>
    Inr (CurrentOperationSchedule d) = GetWakeUpSchedule si) \<and>
   (Inr (NextOperationSchedule d) = GetSleepSchedule si \<or>
    Inr (NextOperationSchedule d) = GetWakeUpSchedule si)"
  using produce_ok [of si d] by (auto simp: data_ok_def split: sum.splits if_splits)

end

lemma getSleepInfoData_ok: "getSleepInfoData tz secret si = Inr d \<Longrightarrow> data_ok si d"
  by (auto simp: getSleepInfoData_def first_run_data_def data_ok_def Let_def
      split: sum.splits option.splits if_splits)

lemma applyExecutionOverride_ok: "applyExecutionOverride data op si = Inr d \<Longrightarrow> data_ok si d"
  by (auto simp: applyExecutionOverride_def data_ok_def split: sum.splits if_splits)

interpretation secret_source: operation_source "getSleepInfoData tz secret"
  by unfold_locales (rule getSleepInfoData_ok)

interpretation override_source: operation_source "applyExecutionOverride data op"
  by unfold_locales (rule applyExecutionOverride_ok)

text \<open>The operation that the secret records as the last one.\<close>

definition recorded_operation :: "Secret option \<Rightarrow> string" where
  "recorded_operation secret =
     (case Option.bind secret sec_Data of None \<Rightarrow> [] | Some data \<Rightarrow> data_string data lastOperationKey)"

lemma getSleepInfoData_wake:
  assumes "getSleepInfoData tz secret si = Inr d"
  shows "IsWakeUpOperation d \<longleftrightarrow>
    recorded_operation secret = sleepOperation \<and> WakeUpTime (si_Spec si) \<noteq> []"
  using assms GetWakeUpSchedule_empty [of si]
  by (auto simp: getSleepInfoData_def first_run_data_def Let_def recorded_operation_def
      IsWakeUpOperation_def bind_eq_None_conv bind_eq_Some_conv operation_names
      split: sum.splits option.splits if_splits)

text \<open>
  The operations alternate. What is due is a wake up exactly when the secret records a
  sleep and the SleepInfo has a wake up time, and a sleep otherwise; it is due at its own
  schedule, and the other one follows (or the next sleep, without a wake up time).
\<close>

lemma getSleepInfoData_alternates:
  assumes "getSleepInfoData tz secret si = Inr d"
  shows "data_ok si d \<and>
    (CurrentOperationType d =
       (if recorded_operation secret = sleepOperation \<and> WakeUpTime (si_Spec si) \<noteq> []
        then wakeUpOperation else sleepOperation)) \<and>
    (Option.bind secret sec_Data = None \<longrightarrow>
       LastSchedule d = zero_time \<and> OriginalGenericResourceInfo d = None)"
proof -
  have "Option.bind secret sec_Data = None \<longrightarrow>
      LastSchedule d = zero_time \<and> OriginalGenericResourceInfo d = None"
    using assms by (auto simp: getSleepInfoData_def first_run_data_def Let_def bind_eq_None_conv
        split: sum.splits option.splits)
  with secret_source.supported [OF assms] getSleepInfoData_wake [OF assms] getSleepInfoData_ok [OF assms]
  show ?thesis by (auto simp: IsSleepOperation_def IsWakeUpOperation_def)
qed

lemma example_first_run:
  "getSleepInfoData tz None example_sleepinfo =
   Inr (first_run_data ''00 20 * * 1-5'' ''00 08 * * 1-5'')"
  by (simp add: getSleepInfoData_def example_schedules)

lemma getSleepInfoData_alternates_example:
  "data_ok example_sleepinfo (first_run_data ''00 20 * * 1-5'' ''00 08 * * 1-5'') \<and>
   LastSchedule (first_run_data ''00 20 * * 1-5'' ''00 08 * * 1-5'') = zero_time"
  using getSleepInfoData_alternates [OF example_first_run] by simp

text \<open>
  An execution overrides the operation exactly as its spec says: \<open>SLEEP\<close> is always
  possible, \<open>WAKE_UP\<close> needs a wake up time, any other operation is refused; the result is
  well formed, and the last schedule and the restore patches are kept.
\<close>

lemma applyExecutionOverride_iff:
  assumes "GetSleepSchedule si = Inr sleep" and "GetWakeUpSchedule si = Inr wake"
  shows "if op = ExecutionOpSleep \<or> op = ExecutionOpWake \<and> WakeUpTime (si_Spec si) \<noteq> []
    then \<exists>d'. applyExecutionOverride d op si = Inr d' \<and> data_ok si d' \<and> CurrentOperationType d' = op \<and>
           LastSchedule d' = LastSchedule d \<and>
           OriginalGenericResourceInfo d' = OriginalGenericResourceInfo d
    else \<exists>e. applyExecutionOverride d op si = Inl e"
proof -
  have wake: "wake = [] \<longleftrightarrow> WakeUpTime (si_Spec si) = []" by (rule GetWakeUpSchedule_empty [OF assms(2)])
  have names: "sleepOperation = ExecutionOpSleep" "wakeUpOperation = ExecutionOpWake"
      "ExecutionOpSleep \<noteq> ExecutionOpWake"
    by (simp_all add: operation_names execution_consts)
  have "applyExecutionOverride d op si = Inr d' \<Longrightarrow> CurrentOperationType d' = op \<and>
      LastSchedule d' = LastSchedule d \<and> OriginalGenericResourceInfo d' = OriginalGenericResourceInfo d" for d'
    using assms by (auto simp: applyExecutionOverride_def names split: if_splits)
  moreover have "(\<exists>d'. applyExecutionOverride d op si = Inr d') \<longleftrightarrow>
      op = ExecutionOpSleep \<or> op = ExecutionOpWake \<and> WakeUpTime (si_Spec si) \<noteq> []"
    using assms wake names(3) by (auto simp: applyExecutionOverride_def)
  ultimately show ?thesis
    using applyExecutionOverride_ok [of d op si] by (cases "applyExecutionOverride d op si") auto
qed

lemma applyExecutionOverride_iff_example:
  "\<exists>d'. applyExecutionOverride (first_run_data [] []) ''WAKE_UP'' example_sleepinfo = Inr d' \<and>
     data_ok example_sleepinfo d' \<and> CurrentOperationType d' = ''WAKE_UP''"
  using applyExecutionOverride_iff [OF example_schedules, of "''WAKE_UP''" "first_run_data [] []"]
  by (auto simp: execution_consts example_defs)

section \<open>Secrets of earlier releases\<close>

lemma convertOld_new_format:
  assumes "gm_get data replicasBeforeSleepKey = None" and "gm_get data originalCronjobStatusKey = None"
  shows "convertOldSecretDataToNewFormat info data = Inr (case info of None \<Rightarrow> [] | Some m \<Rightarrow> m)"
  using assms by (simp add: convertOldSecretDataToNewFormat_def)

text \<open>
  C38: the secret of an earlier release is carried over. It may hold the list of deployments,
  the list of CronJobs, both or none. A list that is there becomes the entry of its target,
  with a merge patch to the saved number of replicas, or to the saved suspend flag, for every
  non-empty name of the list (its last record counts) and for no other; the entry of a
  target whose list is not there and the entries of all other targets are those of the
  current format; and a list that is not JSON is an error, never a silent loss.
\<close>

theorem legacy_secret_restored:
  assumes "gm_get data replicasBeforeSleepKey = map_option (\<lambda>rs. marshal (JArr (map legacy_replicas rs))) deps"
    and "gm_get data originalCronjobStatusKey = map_option (\<lambda>cs. marshal (JArr (map legacy_cronjob cs))) jobs"
  shows "(\<exists>m. convertOldSecretDataToNewFormat info data = Inr m \<and>
      (\<forall>t. (t = ''Deployment.apps'' \<longrightarrow> deps = None) \<and> (t = ''CronJob.batch'' \<longrightarrow> jobs = None) \<longrightarrow>
         gm_get m t = gm_get (case info of None \<Rightarrow> [] | Some m \<Rightarrow> m) t) \<and>
      (\<forall>rs. deps = Some rs \<longrightarrow> (\<exists>ds. gm_get m ''Deployment.apps'' = Some (Some ds) \<and>
         (\<forall>n. gm_get ds n =
            (if n = '''' then None else map_option replicas_patch (find (\<lambda>r. dep_Name r = n) (rev rs)))))) \<and>
      (\<forall>cs. jobs = Some cs \<longrightarrow> (\<exists>js. gm_get m ''CronJob.batch'' = Some (Some js) \<and>
         (\<forall>n. gm_get js n =
            (if n = '''' then None else map_option cronjob_patch_text (find (\<lambda>c. cj_Name c = n) (rev cs))))))) \<and>
    (\<forall>x. parse_json x = None \<longrightarrow>
      (\<exists>e. convertOldSecretDataToNewFormat info (gm_put replicasBeforeSleepKey x data) = Inl e) \<and>
      (\<exists>e. convertOldSecretDataToNewFormat info (gm_put originalCronjobStatusKey x data) = Inl e))"
proof (intro conjI allI impI)
  let ?cur = "case info of None \<Rightarrow> [] | Some m \<Rightarrow> m"
  let ?m1 = "case deps of None \<Rightarrow> ?cur | Some rs \<Rightarrow> gm_put ''Deployment.apps'' (Some (replicas_loop rs [])) ?cur"
  let ?m2 = "case jobs of None \<Rightarrow> ?m1 | Some cs \<Rightarrow> gm_put ''CronJob.batch'' (Some (cronjobs_loop cs [])) ?m1"
  have run: "convertOldSecretDataToNewFormat info data = Inr ?m2"
    using assms
    by (cases deps; cases jobs)
      (simp_all add: convertOldSecretDataToNewFormat_def deployments_readable cronjobs_readable
        target_string_def default_targets Let_def del: marshal.simps list.map)
  have names: "gm_get (replicas_loop rs []) n =
        (if n = '''' then None else map_option replicas_patch (find (\<lambda>r. dep_Name r = n) (rev rs)))"
      "gm_get (cronjobs_loop cs []) n =
        (if n = '''' then None else map_option cronjob_patch_text (find (\<lambda>c. cj_Name c = n) (rev cs)))" for rs cs n
    by (auto simp: deployments.loop_get cronjobs.loop_get split: option.split)
  show "\<exists>m. convertOldSecretDataToNewFormat info data = Inr m \<and>
      (\<forall>t. (t = ''Deployment.apps'' \<longrightarrow> deps = None) \<and> (t = ''CronJob.batch'' \<longrightarrow> jobs = None) \<longrightarrow>
         gm_get m t = gm_get ?cur t) \<and>
      (\<forall>rs. deps = Some rs \<longrightarrow> (\<exists>ds. gm_get m ''Deployment.apps'' = Some (Some ds) \<and>
         (\<forall>n. gm_get ds n =
            (if n = '''' then None else map_option replicas_patch (find (\<lambda>r. dep_Name r = n) (rev rs)))))) \<and>
      (\<forall>cs. jobs = Some cs \<longrightarrow> (\<exists>js. gm_get m ''CronJob.batch'' = Some (Some js) \<and>
         (\<forall>n. gm_get js n =
            (if n = '''' then None else map_option cronjob_patch_text (find (\<lambda>c. cj_Name c = n) (rev cs))))))"
    using run names by (cases deps; cases jobs) simp_all
  fix x
  assume "parse_json x = None"
  then have bad: "deployments_GetOriginalInfoToRestore (Some x) = Inl syntax_error"
      "cronjobs_GetOriginalInfoToRestore (Some x) = Inl syntax_error"
    by (simp_all add: deployments_GetOriginalInfoToRestore_def cronjobs_GetOriginalInfoToRestore_def)
  then show "\<exists>e. convertOldSecretDataToNewFormat info (gm_put replicasBeforeSleepKey x data) = Inl e"
    by (simp add: convertOldSecretDataToNewFormat_def Let_def)
  from bad show "\<exists>e. convertOldSecretDataToNewFormat info (gm_put originalCronjobStatusKey x data) = Inl e"
    by (auto simp: convertOldSecretDataToNewFormat_def Let_def split: option.splits sum.splits)
qed

text \<open>Only the CronJobs were saved in the old format.\<close>

definition legacy_data :: "(string, string) gomap" where
  "legacy_data =
     [(originalCronjobStatusKey, marshal (JArr (map legacy_cronjob [\<lparr>cj_Name = ''c'', cj_Suspend = False\<rparr>])))]"

theorem legacy_secret_restored_witness:
  "\<exists>m js. convertOldSecretDataToNewFormat (Some [(''Deployment.apps'', Some [(''a'', ''{}'')])]) legacy_data = Inr m \<and>
    gm_get m ''Deployment.apps'' = Some (Some [(''a'', ''{}'')]) \<and>
    gm_get m ''CronJob.batch'' = Some (Some js) \<and>
    gm_get js ''c'' = Some (cronjob_patch_text \<lparr>cj_Name = ''c'', cj_Suspend = False\<rparr>) \<and> gm_get js ''d'' = None"
proof -
  let ?c = "\<lparr>cj_Name = ''c'', cj_Suspend = False\<rparr>" and ?info = "Some [(''Deployment.apps'', Some [(''a'', ''{}'')])]"
  have "gm_get legacy_data replicasBeforeSleepKey = map_option (\<lambda>rs. marshal (JArr (map legacy_replicas rs))) None"
      "gm_get legacy_data originalCronjobStatusKey = map_option (\<lambda>cs. marshal (JArr (map legacy_cronjob cs))) (Some [?c])"
    by (simp_all add: legacy_data_def secret_keys del: marshal.simps)
  from legacy_secret_restored [OF this, of ?info] show ?thesis by fastforce
qed

end
