(* ===== verification/Schedule.thy ===== *)
theory Schedule
  imports Sleepinfo_Data
begin

text \<open>
  \<open>internal/controller/sleepinfo/schedule.go\<close>: whether the current operation is due, and
  when to look again. The cron library \<open>github.com/robfig/cron/v3\<close> is the parameter
  \<open>cron_lib\<close>; \<open>'s\<close> is the type of a parsed schedule.
\<close>

record 's cron_lib =
  ParseStandard :: "string \<Rightarrow> 's res"
  sched_Next :: "'s \<Rightarrow> gotime \<Rightarrow> gotime"

definition getCronParsed :: "'s cron_lib \<Rightarrow> string \<Rightarrow> 's res" where
  "getCronParsed cron schedule = ParseStandard cron schedule"

definition getRequeueAfter :: "gotime \<Rightarrow> gotime \<Rightarrow> duration" where
  "getRequeueAfter schedule now = time_Sub schedule now"

definition isTimeInDelta :: "gotime \<Rightarrow> gotime \<Rightarrow> duration \<Rightarrow> bool" where
  "isTimeInDelta t1 t2 delta =
     (let diffInMs = (if time_Before t1 t2 then Milliseconds (time_Sub t2 t1)
                      else Milliseconds (time_Sub t1 t2))
      in diffInMs \<le> Milliseconds delta)"

definition getNextSchedule ::
    "'s cron_lib \<Rightarrow> i64 \<Rightarrow> SleepInfoData \<Rightarrow> gotime \<Rightarrow> (bool \<times> gotime \<times> duration) res" where
  "getNextSchedule cron sleepDelta data now =
     (let scheduleDelta = sleepDelta * Second in
      case getCronParsed cron (CurrentOperationSchedule data) of
        Inl e \<Rightarrow> Inl (Err (''current schedule not valid: '' @ error_text e))
      | Inr sched \<Rightarrow>
          (let lastSchedule = LastSchedule data;
               earliestTime =
                 (if \<not> IsZero lastSchedule then lastSchedule else time_Add now (- scheduleDelta));
               nextSchedule0 = sched_Next cron sched earliestTime;
               nextSchedule =
                 (if time_Equal earliestTime lastSchedule \<and> time_Before nextSchedule0 now \<and>
                     \<not> isTimeInDelta nextSchedule0 now scheduleDelta
                  then sched_Next cron sched (time_Add now (- scheduleDelta))
                  else nextSchedule0);
               isToExecute = isTimeInDelta now nextSchedule scheduleDelta
           in if isToExecute then
                (case getCronParsed cron (NextOperationSchedule data) of
                   Inl e \<Rightarrow> Inl (Err (''next op schedule not valid: '' @ error_text e))
                 | Inr nextOpSched \<Rightarrow>
                     (let nextOp = sched_Next cron nextOpSched (time_Add now scheduleDelta)
                      in Inr (True, nextOp, getRequeueAfter nextOp now)))
              else Inr (False, nextSchedule, getRequeueAfter nextSchedule now)))"

section \<open>The window around a tick\<close>

text \<open>
  The delta, in seconds, for which neither the product with \<open>time.Second\<close> nor the sum
  with it overflows: up to 9223372036 seconds, about 292 years.
\<close>

definition delta_ok :: "i64 \<Rightarrow> bool" where
  "delta_ok sleepDelta = (0 \<le> sint sleepDelta \<and> sint sleepDelta \<le> 9223372036)"

lemma sint_mult_Second:
  assumes "- 9223372036 \<le> sint d" and "sint d \<le> 9223372036"
  shows "sint (d * Second) = sint d * 1000000000"
proof -
  have "d * Second = word_of_int (sint d * 1000000000)"
    by (simp add: Second_def)
  with assms show ?thesis
    by (simp only: sint_of_int_duration [of "sint d * 1000000000"] min_duration_def max_duration_def)
qed

lemma sint_delta: "delta_ok d \<Longrightarrow> sint (d * Second) = sint d * 1000000000"
  by (rule sint_mult_Second) (simp_all add: delta_ok_def)

lemma sint_minus_delta: "delta_ok d \<Longrightarrow> sint (- (d * Second)) = - (sint d * 1000000000)"
proof -
  assume d: "delta_ok d"
  have "- (d * Second) = word_of_int (- (sint d * 1000000000))"
    by (simp add: Second_def)
  moreover have "sint (word_of_int (- (sint d * 1000000000)) :: duration) = - (sint d * 1000000000)"
    using d by (intro sint_of_int_duration) (simp_all add: delta_ok_def min_duration_def max_duration_def)
  ultimately show ?thesis by simp
qed

text \<open>Being within the delta of an instant, in exact nanoseconds.\<close>

definition in_window :: "i64 \<Rightarrow> gotime \<Rightarrow> gotime \<Rightarrow> bool" where
  "in_window sleepDelta t u = (\<bar>t_ns t - t_ns u\<bar> < sint sleepDelta * 1000000000 + 1000000)"

lemma isTimeInDelta_window:
  assumes "delta_ok d"
  shows "isTimeInDelta t u (d * Second) = in_window d t u"
proof -
  let ?x = "\<bar>t_ns t - t_ns u\<bar>"
  have "isTimeInDelta t u (d * Second) \<longleftrightarrow> min max_duration ?x sdiv 1000000 \<le> sint d * 1000000000 sdiv 1000000"
    using assms
    by (auto simp: isTimeInDelta_def time_Before_def Milliseconds_def sint_time_Sub sint_delta
        min_duration_def max_duration_def max_def min_def)
  also have "\<dots> \<longleftrightarrow> min max_duration ?x div 1000000 \<le> sint d * 1000"
    using assms by (auto simp: signed_divide_int_def sgn_if delta_ok_def max_duration_def)
  also have "\<dots> \<longleftrightarrow> ?x < sint d * 1000000000 + 1000000"
    using assms by (auto simp: delta_ok_def max_duration_def min_def)
  finally show ?thesis by (simp add: in_window_def)
qed

definition at_ns :: "int \<Rightarrow> gotime" where
  "at_ns n = \<lparr>t_ns = n, t_loc = UTC\<rparr>"

section \<open>Which tick is executed\<close>

text \<open>
  The reference description: the tick to look at is the first one after the last
  schedule, unless there is none or it was missed by more than the delta; then it is the
  first one after now minus the delta.
\<close>

definition due_tick :: "'s cron_lib \<Rightarrow> 's \<Rightarrow> i64 \<Rightarrow> gotime \<Rightarrow> gotime \<Rightarrow> gotime" where
  "due_tick cron sched sleepDelta previous now =
     (let tick = sched_Next cron sched previous in
      if \<not> IsZero previous \<and> (t_ns now \<le> t_ns tick \<or> in_window sleepDelta tick now) then tick
      else sched_Next cron sched (time_Add now (- (sleepDelta * Second))))"

lemma in_window_sym: "in_window d t u = in_window d u t"
  by (simp add: in_window_def abs_minus_commute)

lemma getNextSchedule_tick:
  assumes "delta_ok sleepDelta"
  shows "getNextSchedule cron sleepDelta data now =
    (case ParseStandard cron (CurrentOperationSchedule data) of
       Inl e \<Rightarrow> Inl (Err (''current schedule not valid: '' @ error_text e))
     | Inr sched \<Rightarrow>
         (let tick = due_tick cron sched sleepDelta (LastSchedule data) now in
          if in_window sleepDelta now tick then
            (case ParseStandard cron (NextOperationSchedule data) of
               Inl e \<Rightarrow> Inl (Err (''next op schedule not valid: '' @ error_text e))
             | Inr sched' \<Rightarrow>
                 (let next = sched_Next cron sched' (time_Add now (sleepDelta * Second))
                  in Inr (True, next, time_Sub next now)))
          else Inr (False, tick, time_Sub tick now)))"
proof -
  have eq: "time_Equal t u \<Longrightarrow> IsZero u \<Longrightarrow> IsZero t" for t u
    by (simp add: time_Equal_def IsZero_def)
  have "time_Before t now \<longleftrightarrow> \<not> t_ns now \<le> t_ns t" for t by (auto simp: time_Before_def)
  then show ?thesis
    by (auto simp: getNextSchedule_def getCronParsed_def getRequeueAfter_def isTimeInDelta_window [OF assms]
        due_tick_def Let_def time_Equal_def split: sum.split)
qed

text \<open>
  The documented contract of the cron library at a schedule: the next activation is later
  than the time it is asked for. (A schedule without any activation within five years
  gives the zero time; the hypothesis excludes it.)
\<close>

definition ticks_later :: "'s cron_lib \<Rightarrow> string \<Rightarrow> bool" where
  "ticks_later cron text =
     (\<forall>sched t. ParseStandard cron text = Inr sched \<longrightarrow> t_ns t < t_ns (sched_Next cron sched t))"

definition hourly_cron :: "unit cron_lib" where
  "hourly_cron =
     \<lparr>ParseStandard = (\<lambda>s. Inr ()),
      sched_Next = (\<lambda>s t. t\<lparr>t_ns := (t_ns t div 3600000000000 + 1) * 3600000000000\<rparr>)\<rparr>"

lemma hourly_later: "ticks_later hourly_cron text"
proof -
  have "n < (n div 3600000000000 + 1) * 3600000000000" for n :: int by presburger
  then show ?thesis by (simp add: ticks_later_def hourly_cron_def)
qed

text \<open>
  C14: whether the operation is due is decided exactly, for schedules that parse and every
  delta that fits a duration: the operation is executed exactly when the tick to look at
  lies in the window around now; the answer names the first tick of the next operation
  after now plus the delta, or else the tick itself, and the time until then.
\<close>

theorem getNextSchedule_due_iff:
  assumes "0 \<le> sint sleepDelta" and "sint sleepDelta \<le> 9223372036"
    and "ParseStandard cron (CurrentOperationSchedule data) = Inr sched"
    and "ParseStandard cron (NextOperationSchedule data) = Inr sched'"
  shows "getNextSchedule cron sleepDelta data now =
    (let tick = due_tick cron sched sleepDelta (LastSchedule data) now;
         due = in_window sleepDelta now tick;
         next = (if due then sched_Next cron sched' (time_Add now (sleepDelta * Second)) else tick)
     in Inr (due, next, time_Sub next now))"
  using assms by (simp add: getNextSchedule_tick [of sleepDelta] delta_ok_def Let_def)

lemma minute_delta:
  "sint (60 :: i64) = 60" "sint ((60 :: i64) * Second) = 60000000000"
  "sint (- ((60 :: i64) * Second)) = - 60000000000"
  using sint_delta [of 60] sint_minus_delta [of 60] by (simp_all add: delta_ok_def)

lemma hourly_due_tick:
  "due_tick hourly_cron () 60 zero_time (at_ns n) =
   at_ns (((n - 60000000000) div 3600000000000 + 1) * 3600000000000)"
  by (simp only: due_tick_def Let_def hourly_cron_def at_ns_def IsZero_def zero_time_def time_Add_def
      minute_delta) simp

lemma hourly_next:
  "sched_Next hourly_cron () (time_Add (at_ns n) (60 * Second)) =
   at_ns (((n + 60000000000) div 3600000000000 + 1) * 3600000000000)"
  by (simp only: hourly_cron_def at_ns_def time_Add_def minute_delta) simp

theorem getNextSchedule_due_iff_witness:
  "getNextSchedule hourly_cron 60 (first_run_data ''a'' ''b'') (at_ns 7199000000000) =
   Inr (True, at_ns 10800000000000, time_Sub (at_ns 10800000000000) (at_ns 7199000000000))"
proof -
  have "due_tick hourly_cron () 60 zero_time (at_ns 7199000000000) = at_ns 7200000000000"
    and "sched_Next hourly_cron () (time_Add (at_ns 7199000000000) (60 * Second)) = at_ns 10800000000000"
    unfolding hourly_due_tick hourly_next by simp_all
  moreover have "in_window 60 (at_ns 7199000000000) (at_ns 7200000000000)"
    by (simp add: in_window_def at_ns_def)
  moreover have "ParseStandard hourly_cron x = Inr ()" for x by (simp add: hourly_cron_def)
  ultimately show ?thesis
    using getNextSchedule_due_iff [of 60 hourly_cron "first_run_data ''a'' ''b''" "()" "()" "at_ns 7199000000000"]
    by (simp add: first_run_data_def Let_def)
qed

lemma due_tick_later:
  assumes "delta_ok sleepDelta" and "\<And>t. t_ns t < t_ns (sched_Next cron sched t)"
    and "\<not> in_window sleepDelta now (due_tick cron sched sleepDelta previous now)"
  shows "t_ns now + sint sleepDelta * 1000000000 < t_ns (due_tick cron sched sleepDelta previous now)"
proof -
  let ?from = "time_Add now (- (sleepDelta * Second))"
  let ?tick = "due_tick cron sched sleepDelta previous now"
  have pos: "0 \<le> sint sleepDelta" using assms(1) by (simp add: delta_ok_def)
  have "t_ns now - sint sleepDelta * 1000000000 < t_ns (sched_Next cron sched ?from)"
    using assms(2) [of ?from] by (simp add: time_Add_def sint_minus_delta [OF assms(1)])
  moreover have "?tick = sched_Next cron sched ?from \<or> t_ns now \<le> t_ns ?tick"
    using assms(3) unfolding due_tick_def Let_def in_window_sym [of sleepDelta now]
    by (auto split: if_splits)
  ultimately have "t_ns now - sint sleepDelta * 1000000000 - 1000000 < t_ns ?tick" using pos by auto
  with assms(3) show ?thesis unfolding in_window_def by linarith
qed

lemma sint_time_Sub_pos:
  assumes "t_ns u + d < t_ns t" and "0 \<le> d" and "d < max_duration"
  shows "d < sint (time_Sub t u)"
  using assms by (simp add: sint_time_Sub max_duration_def min_duration_def)

lemma getNextSchedule_later:
  assumes d: "delta_ok sleepDelta"
    and "ticks_later cron (CurrentOperationSchedule data)"
    and "ticks_later cron (NextOperationSchedule data)"
    and "getNextSchedule cron sleepDelta data now = Inr (isToExecute, next, requeueAfter)"
  shows "t_ns now + sint sleepDelta * 1000000000 < t_ns next \<and>
    sint sleepDelta * 1000000000 < sint requeueAfter"
proof -
  have "t_ns now + sint sleepDelta * 1000000000 < t_ns next \<and> requeueAfter = time_Sub next now"
  proof (cases isToExecute)
    case True
    then obtain sched' where "ParseStandard cron (NextOperationSchedule data) = Inr sched'"
        "next = sched_Next cron sched' (time_Add now (sleepDelta * Second))" "requeueAfter = time_Sub next now"
      using assms(4) by (auto simp: getNextSchedule_tick [OF d] Let_def split: sum.splits if_splits)
    moreover have "t_ns (time_Add now (sleepDelta * Second)) = t_ns now + sint sleepDelta * 1000000000"
      by (simp add: time_Add_def sint_delta [OF d])
    ultimately show ?thesis using assms(3) unfolding ticks_later_def by metis
  next
    case False
    then obtain sched where sched: "ParseStandard cron (CurrentOperationSchedule data) = Inr sched"
        "next = due_tick cron sched sleepDelta (LastSchedule data) now"
        "\<not> in_window sleepDelta now next" "requeueAfter = time_Sub next now"
      using assms(4) by (auto simp: getNextSchedule_tick [OF d] Let_def split: sum.splits if_splits)
    then have "t_ns t < t_ns (sched_Next cron sched t)" for t
      using assms(2) by (auto simp: ticks_later_def)
    from due_tick_later [OF d this] sched show ?thesis by simp
  qed
  with sint_time_Sub_pos [of now "sint sleepDelta * 1000000000" "next"] d show ?thesis
    by (simp add: max_duration_def delta_ok_def)
qed

text \<open>
  C13: the controller always looks ahead: whatever it decides, the tick it names lies more
  than the delta after now, and the time until it is called again is longer than the
  delta, hence positive. The requeue never asks for an immediate call.
\<close>

theorem getNextSchedule_next_positive:
  assumes "0 \<le> sint sleepDelta" and "sint sleepDelta \<le> 9223372036"
    and "ticks_later cron (CurrentOperationSchedule data)"
    and "ticks_later cron (NextOperationSchedule data)"
    and "getNextSchedule cron sleepDelta data now = Inr (isToExecute, next, requeueAfter)"
  shows "t_ns now + sint sleepDelta * 1000000000 < t_ns next \<and>
    sint sleepDelta * 1000000000 < sint requeueAfter"
  using assms by (intro getNextSchedule_later) (simp_all add: delta_ok_def)

lemma example_next:
  "getNextSchedule hourly_cron 60 (first_run_data ''a'' ''b'') (at_ns 0) =
   Inr (True, at_ns 3600000000000, time_Sub (at_ns 3600000000000) (at_ns 0))"
proof -
  have "due_tick hourly_cron () 60 zero_time (at_ns 0) = at_ns 0"
    and "sched_Next hourly_cron () (time_Add (at_ns 0) (60 * Second)) = at_ns 3600000000000"
    unfolding hourly_due_tick hourly_next by simp_all
  moreover have "in_window 60 (at_ns 0) (at_ns 0)" by (simp add: in_window_def)
  moreover have "ParseStandard hourly_cron x = Inr ()" for x by (simp add: hourly_cron_def)
  ultimately show ?thesis
    by (subst getNextSchedule_tick) (simp_all add: delta_ok_def first_run_data_def Let_def)
qed

theorem getNextSchedule_next_positive_witness:
  "t_ns (at_ns 0) + 60000000000 < t_ns (at_ns 3600000000000) \<and>
   60000000000 < sint (time_Sub (at_ns 3600000000000) (at_ns 0))"
  using getNextSchedule_next_positive [OF _ _ hourly_later hourly_later example_next] by simp

text \<open>
  C15: a tick missed by more than the delta is not made up for: the decision is then the
  one of a SleepInfo that has never run.
\<close>

theorem getNextSchedule_skips_missed:
  assumes "0 \<le> sint sleepDelta" and "sint sleepDelta \<le> 9223372036"
    and "ParseStandard cron (CurrentOperationSchedule data) = Inr sched"
    and "t_ns (sched_Next cron sched (LastSchedule data)) + sint sleepDelta * 1000000000 + 1000000 \<le> t_ns now"
  shows "getNextSchedule cron sleepDelta data now =
    getNextSchedule cron sleepDelta (data\<lparr>LastSchedule := zero_time\<rparr>) now"
proof -
  have d: "delta_ok sleepDelta" using assms(1,2) by (simp add: delta_ok_def)
  have "due_tick cron sched sleepDelta (LastSchedule data) now = due_tick cron sched sleepDelta zero_time now"
    using assms(1,4) by (auto simp: due_tick_def Let_def in_window_def IsZero_def zero_time_def)
  then show ?thesis using assms(3) by (simp add: getNextSchedule_tick [OF d] Let_def)
qed

theorem getNextSchedule_skips_missed_witness:
  "getNextSchedule hourly_cron 60 ((first_run_data ''a'' ''b'')\<lparr>LastSchedule := at_ns 1\<rparr>) (at_ns 9000000000000) =
   getNextSchedule hourly_cron 60 (first_run_data ''a'' ''b'') (at_ns 9000000000000)"
  using getNextSchedule_skips_missed [of 60 hourly_cron
      "(first_run_data ''a'' ''b'')\<lparr>LastSchedule := at_ns 1\<rparr>" "()" "at_ns 9000000000000"]
  by (simp add: hourly_cron_def at_ns_def first_run_data_def)

end
