(* ===== verification/Webhook.thy ===== *)
theory Webhook
  imports Schedule
begin

text \<open>
  \<open>internal/webhook/v1alpha1/sleepinfo_webhook.go\<close>: the validating admission webhook of
  SleepInfo. The object of an admission request may be of another type.
\<close>

datatype 'o admission_object = AdmSleepInfo SleepInfo | AdmOther 'o

definition decode_failure :: goerror where
  "decode_failure = Err ''fails to decode SleepInfo''"

text \<open>The REST mapper of the client, as validation sees it: the error of a mapping.\<close>

definition rest_error :: "'w client \<Rightarrow> 'w \<Rightarrow> GroupKind \<Rightarrow> goerror option" where
  "rest_error cl w gk = (case RESTMapping cl gk w of Inl e \<Rightarrow> Some e | Inr _ \<Rightarrow> None)"

definition ValidateCreate ::
    "'s cron_lib \<Rightarrow> 'p patch_lib \<Rightarrow> 'w client \<Rightarrow> 'w \<Rightarrow> 'o admission_object \<Rightarrow> string list res" where
  "ValidateCreate cron lib cl w obj =
     (case obj of
        AdmOther _ \<Rightarrow> Inl decode_failure
      | AdmSleepInfo s \<Rightarrow> Validate (ParseStandard cron) (rest_error cl w) lib s)"

definition ValidateUpdate ::
    "'s cron_lib \<Rightarrow> 'p patch_lib \<Rightarrow> 'w client \<Rightarrow> 'w \<Rightarrow> 'o admission_object \<Rightarrow>
     'o admission_object \<Rightarrow> string list res" where
  "ValidateUpdate cron lib cl w old new =
     (case new of
        AdmOther _ \<Rightarrow> Inl decode_failure
      | AdmSleepInfo s \<Rightarrow> Validate (ParseStandard cron) (rest_error cl w) lib s)"

definition ValidateDelete :: "'o admission_object \<Rightarrow> string list res" where
  "ValidateDelete obj =
     (case obj of
        AdmOther _ \<Rightarrow> Inl decode_failure
      | AdmSleepInfo s \<Rightarrow> Inr [])"

text \<open>
  An object is admitted on creation or on an update: both validate the new object, and the
  old one plays no role.
\<close>

definition admitted ::
    "'s cron_lib \<Rightarrow> 'p patch_lib \<Rightarrow> 'w client \<Rightarrow> 'w \<Rightarrow> 'o admission_object \<Rightarrow> bool" where
  "admitted cron lib cl w obj =
     ((\<exists>ws. ValidateCreate cron lib cl w obj = Inr ws) \<or> (\<exists>old ws. ValidateUpdate cron lib cl w old obj = Inr ws))"

lemma admitted_iff:
  "admitted cron lib cl w (AdmSleepInfo s) \<longleftrightarrow>
   (\<exists>ws. Validate (ParseStandard cron) (rest_error cl w) lib s = Inr ws)"
  by (auto simp: admitted_def ValidateCreate_def ValidateUpdate_def)

lemma admitted_schedules:
  assumes "admitted cron lib cl w (AdmSleepInfo s)"
  shows "\<exists>sleep sched wake. GetSleepSchedule s = Inr sleep \<and> ParseStandard cron sleep = Inr sched \<and>
    GetWakeUpSchedule s = Inr wake \<and> (wake = [] \<or> (\<exists>sched'. ParseStandard cron wake = Inr sched'))"
proof -
  obtain ws where ws: "Validate (ParseStandard cron) (rest_error cl w) lib s = Inr ws"
    using assms by (auto simp: admitted_iff)
  obtain sleep sched wake where "GetSleepSchedule s = Inr sleep" "ParseStandard cron sleep = Inr sched"
      "GetWakeUpSchedule s = Inr wake"
    using ws by (auto simp: Validate_def split: sum.splits)
  moreover from this have "wake = [] \<or> (\<exists>sched'. ParseStandard cron wake = Inr sched')"
    using ws by (cases "ParseStandard cron wake") (auto simp: Validate_def split: if_splits)
  ultimately show ?thesis by blast
qed

end
