(* ===== verification/Go_Memory.thy ===== *)
theory Go_Memory
  imports Api_Types
begin

text \<open>
  The memory in which the values of \<open>api/v1alpha1\<close> live, as far as copying them is
  concerned: slices, pointers and maps are references into it. The locale \<open>copying\<close> is
  the contract of a deep copy; slices and pointers of copyable elements are copyable
  again, which is proved once for all element types.
\<close>

section \<open>Values in memory\<close>

type_synonym addr = nat

text \<open>A slice is a window of a backing array, a pointer an element of one; \<open>None\<close> is nil.\<close>

record slice =
  sl_array :: addr
  sl_off :: nat
  sl_len :: nat

record ptr =
  pt_array :: addr
  pt_index :: nat

record FilterRef_mem =
  frm_APIVersion :: string
  frm_Kind :: string
  frm_Name :: string
  frm_MatchLabels :: "addr option"

record SleepInfoSpec_mem =
  sm_Weekdays :: string
  sm_SleepTime :: string
  sm_WakeUpTime :: string
  sm_TimeZone :: string
  sm_ExcludeRef :: "slice option"
  sm_IncludeRef :: "slice option"
  sm_SuspendCronjobs :: bool
  sm_SuspendDeployments :: "ptr option"
  sm_SuspendStatefulSets :: "ptr option"
  sm_Patches :: "slice option"

record TypeMeta =
  tm_Kind :: string
  tm_APIVersion :: string

text \<open>\<open>'m\<close> and \<open>'l\<close> are the metadata of objects and of lists, which belong to \<open>apimachinery\<close>.\<close>

record 'm SleepInfo_mem =
  sim_TypeMeta :: TypeMeta
  sim_ObjectMeta :: 'm
  sim_Spec :: SleepInfoSpec_mem
  sim_Status :: SleepInfoStatus

record SleepInfoExecutionStatus_mem =
  esm_Phase :: string
  esm_StartTime :: "ptr option"
  esm_CompletionTime :: "ptr option"
  esm_Message :: string

record 'm SleepInfoExecution_mem =
  exm_TypeMeta :: TypeMeta
  exm_ObjectMeta :: 'm
  exm_Spec :: SleepInfoExecutionSpec
  exm_Status :: SleepInfoExecutionStatus_mem

record 'l List_mem =
  lm_TypeMeta :: TypeMeta
  lm_ListMeta :: 'l
  lm_Items :: "slice option"

text \<open>
  A cell holds a map or an array of one element type; a struct that was allocated with
  \<open>new\<close> is an array of one element. \<open>'x\<close> are the cells that only the metadata use.
\<close>

datatype ('m, 'l, 'x) cell =
    Labels "(string, string) gomap"
  | Bools (bools: "bool list")
  | Times (times: "gotime list")
  | FilterRefs (filter_refs: "FilterRef_mem list")
  | PatchTargets (patch_targets: "PatchTarget list")
  | PatchArr (patches: "Patch list")
  | Specs (specs: "SleepInfoSpec_mem list")
  | Statuses (statuses: "SleepInfoStatus list")
  | SleepInfos (sleep_infos: "'m SleepInfo_mem list")
  | ExecSpecs (exec_specs: "SleepInfoExecutionSpec list")
  | ExecStatuses (exec_statuses: "SleepInfoExecutionStatus_mem list")
  | Executions (executions: "'m SleepInfoExecution_mem list")
  | InfoLists (info_lists: "'l List_mem list")
  | ExecLists (exec_lists: "'l List_mem list")
  | Foreign 'x

record ('m, 'l, 'x) goheap =
  h_next :: addr
  h_cell :: "addr \<Rightarrow> ('m, 'l, 'x) cell option"

text \<open>Allocation takes the next address; nothing is ever freed while a reference exists.\<close>

definition alloc :: "('m, 'l, 'x) cell \<Rightarrow> ('m, 'l, 'x) goheap \<Rightarrow> addr \<times> ('m, 'l, 'x) goheap" where
  "alloc c h = (h_next h, \<lparr>h_next = Suc (h_next h), h_cell = (h_cell h)(h_next h := Some c)\<rparr>)"

definition heap_ok :: "('m, 'l, 'x) goheap \<Rightarrow> bool" where
  "heap_ok h = (\<forall>a. h_next h \<le> a \<longrightarrow> h_cell h a = None)"

text \<open>A later heap: everything that was allocated is unchanged.\<close>

definition extends :: "('m, 'l, 'x) goheap \<Rightarrow> ('m, 'l, 'x) goheap \<Rightarrow> bool" where
  "extends h h' =
     (heap_ok h' \<and> h_next h \<le> h_next h' \<and> (\<forall>a < h_next h. h_cell h' a = h_cell h a))"

lemma heap_ok_allocated: "heap_ok h \<Longrightarrow> h_cell h a \<noteq> None \<Longrightarrow> a < h_next h"
  by (metis heap_ok_def not_le)

lemma extends_refl: "heap_ok h \<Longrightarrow> extends h h"
  by (simp add: extends_def)

lemma extends_trans: "extends h h1 \<Longrightarrow> extends h1 h2 \<Longrightarrow> extends h h2"
  by (auto simp: extends_def)

lemma extends_ok: "extends h h' \<Longrightarrow> heap_ok h'"
  by (simp add: extends_def)

lemma extends_next: "extends h h' \<Longrightarrow> h_next h \<le> h_next h'"
  by (simp add: extends_def)

lemma extends_alloc: "heap_ok h \<Longrightarrow> alloc c h = (a, h') \<Longrightarrow> extends h h'"
  by (auto simp: alloc_def extends_def heap_ok_def)

lemma alloc_cell: "alloc c h = (a, h') \<Longrightarrow> h_cell h' a = Some c \<and> a = h_next h \<and> h_next h' = Suc a"
  by (auto simp: alloc_def)

section \<open>The contract of a deep copy\<close>

text \<open>
  What a value in memory stands for, if all its references lead somewhere, and the cells
  it is made of: the meaning depends on these cells only.
\<close>

locale representing =
  fixes val :: "('m, 'l, 'x) goheap \<Rightarrow> 'a \<Rightarrow> 'v option"
    and cells :: "('m, 'l, 'x) goheap \<Rightarrow> 'a \<Rightarrow> addr set"
  assumes local: "(\<And>a. a \<in> cells h x \<Longrightarrow> h_cell h' a = h_cell h a) \<Longrightarrow>
      val h' x = val h x \<and> cells h' x = cells h x"
    and allocated: "val h x = Some v \<Longrightarrow> a \<in> cells h x \<Longrightarrow> h_cell h a \<noteq> None"
begin

lemma kept:
  assumes "heap_ok h" and "extends h h'" and "val h x = Some v"
  shows "val h' x = Some v" and "cells h' x = cells h x"
proof -
  have "\<And>a. a \<in> cells h x \<Longrightarrow> h_cell h' a = h_cell h a"
    using allocated [OF assms(3)] heap_ok_allocated [OF assms(1)] assms(2) by (auto simp: extends_def)
  from local [OF this] assms(3) show "val h' x = Some v" and "cells h' x = cells h x" by simp_all
qed

lemma below:
  assumes "heap_ok h" and "val h x = Some v"
  shows "cells h x \<subseteq> {..< h_next h}"
  using allocated [OF assms(2)] heap_ok_allocated [OF assms(1)] by auto

end

text \<open>
  A deep copy stands for the same value and is made of new cells only; it changes nothing
  that was there before.
\<close>

locale copying = representing val cells
  for val :: "('m, 'l, 'x) goheap \<Rightarrow> 'a \<Rightarrow> 'v option"
    and cells :: "('m, 'l, 'x) goheap \<Rightarrow> 'a \<Rightarrow> addr set" +
  fixes copy :: "'a \<Rightarrow> ('m, 'l, 'x) goheap \<Rightarrow> 'a \<times> ('m, 'l, 'x) goheap"
  assumes copies: "heap_ok h \<Longrightarrow> val h x = Some v \<Longrightarrow> copy x h = (y, h') \<Longrightarrow>
      extends h h' \<and> val h' y = Some v \<and> cells h' y \<subseteq> {h_next h ..< h_next h'}"
begin

text \<open>What holds of a copy still holds in every later heap.\<close>

lemma copies_later:
  assumes "heap_ok h" and "val h x = Some v" and "copy x h = (y, h')" and "extends h' h''"
  shows "extends h h''" and "val h'' y = Some v" and "cells h'' y \<subseteq> {h_next h ..< h_next h'}"
proof -
  have c: "extends h h'" "val h' y = Some v" "cells h' y \<subseteq> {h_next h ..< h_next h'}"
    using copies [OF assms(1-3)] by simp_all
  show "extends h h''" using c(1) assms(4) by (rule extends_trans)
  show "val h'' y = Some v" using kept(1) [OF extends_ok [OF c(1)] assms(4) c(2)] .
  show "cells h'' y \<subseteq> {h_next h ..< h_next h'}"
    using kept(2) [OF extends_ok [OF c(1)] assms(4) c(2)] c(3) by simp
qed

text \<open>
  The point of a deep copy: whatever is written through one of the two, the other one
  keeps its value.
\<close>

lemma independent:
  assumes "heap_ok h" and "val h x = Some v" and "copy x h = (y, h')"
  shows "val h' x = Some v" and "val h' y = Some v" and "cells h' x \<inter> cells h' y = {}"
    and "(\<And>a. a \<notin> cells h' y \<Longrightarrow> h_cell h'' a = h_cell h' a) \<Longrightarrow> val h'' x = Some v"
    and "(\<And>a. a \<notin> cells h' x \<Longrightarrow> h_cell h'' a = h_cell h' a) \<Longrightarrow> val h'' y = Some v"
proof -
  have c: "extends h h'" "val h' y = Some v" "cells h' y \<subseteq> {h_next h ..< h_next h'}"
    using copies [OF assms] by simp_all
  show x: "val h' x = Some v" and "val h' y = Some v"
    using kept(1) [OF assms(1) c(1) assms(2)] c(2) by simp_all
  have "cells h' x \<subseteq> {..< h_next h}"
    using kept(2) [OF assms(1) c(1) assms(2)] below [OF assms(1,2)] by simp
  with c(3) show disj: "cells h' x \<inter> cells h' y = {}" by fastforce
  show "val h'' x = Some v" if "\<And>a. a \<notin> cells h' y \<Longrightarrow> h_cell h'' a = h_cell h' a"
    using local [of h' x h''] that disj x by (metis disjoint_iff)
  show "val h'' y = Some v" if "\<And>a. a \<notin> cells h' x \<Longrightarrow> h_cell h'' a = h_cell h' a"
    using local [of h' y h''] that disj c(2) by (metis disjoint_iff)
qed

end

section \<open>Values without references\<close>

definition plain_val :: "('m, 'l, 'x) goheap \<Rightarrow> 'a \<Rightarrow> 'a option" where
  "plain_val h x = Some x"

definition no_cells :: "('m, 'l, 'x) goheap \<Rightarrow> 'a \<Rightarrow> addr set" where
  "no_cells h x = {}"

text \<open>The assignment \<open>*out = *in\<close>.\<close>

definition assign :: "'a \<Rightarrow> ('m, 'l, 'x) goheap \<Rightarrow> 'a \<times> ('m, 'l, 'x) goheap" where
  "assign x h = (x, h)"

interpretation plain: copying plain_val no_cells assign
  by unfold_locales (auto simp: plain_val_def no_cells_def assign_def extends_refl)

section \<open>Slices and pointers\<close>

text \<open>
  A kind of cell is given by its constructor and a partial selector. Reading outside the
  array, which the Go runtime excludes, has no result.
\<close>

definition slice_elems ::
    "(('m, 'l, 'x) cell \<Rightarrow> 'a list option) \<Rightarrow> ('m, 'l, 'x) goheap \<Rightarrow> slice \<Rightarrow> 'a list option" where
  "slice_elems sel h s =
     (case Option.bind (h_cell h (sl_array s)) sel of
        None \<Rightarrow> None
      | Some xs \<Rightarrow>
          (if sl_off s + sl_len s \<le> length xs then Some (take (sl_len s) (drop (sl_off s) xs)) else None))"

definition deref ::
    "(('m, 'l, 'x) cell \<Rightarrow> 'a list option) \<Rightarrow> ('m, 'l, 'x) goheap \<Rightarrow> ptr \<Rightarrow> 'a option" where
  "deref sel h p =
     (case Option.bind (h_cell h (pt_array p)) sel of
        None \<Rightarrow> None
      | Some xs \<Rightarrow> (if pt_index p < length xs then Some (xs ! pt_index p) else None))"

text \<open>The loop \<open>for i := range *in { (*in)[i].DeepCopyInto(&(*out)[i]) }\<close>.\<close>

fun copy_elems ::
    "('a \<Rightarrow> ('m, 'l, 'x) goheap \<Rightarrow> 'a \<times> ('m, 'l, 'x) goheap) \<Rightarrow> 'a list \<Rightarrow> ('m, 'l, 'x) goheap \<Rightarrow>
     'a list \<times> ('m, 'l, 'x) goheap" where
  "copy_elems copy [] h = ([], h)"
| "copy_elems copy (x # xs) h =
     (case copy x h of (y, h1) \<Rightarrow> case copy_elems copy xs h1 of (ys, h2) \<Rightarrow> (y # ys, h2))"

text \<open>
  \<open>if in != nil { *out = make([]T, len(*in)); ... }\<close>: the new array holds the copies of
  the elements, which overwrite the zero values that \<open>make\<close> puts there.
\<close>

definition slice_copy ::
    "('a list \<Rightarrow> ('m, 'l, 'x) cell) \<Rightarrow> (('m, 'l, 'x) cell \<Rightarrow> 'a list option) \<Rightarrow>
     ('a \<Rightarrow> ('m, 'l, 'x) goheap \<Rightarrow> 'a \<times> ('m, 'l, 'x) goheap) \<Rightarrow>
     slice option \<Rightarrow> ('m, 'l, 'x) goheap \<Rightarrow> slice option \<times> ('m, 'l, 'x) goheap" where
  "slice_copy con sel copy s h =
     (case Option.bind s (slice_elems sel h) of
        None \<Rightarrow> (s, h)
      | Some xs \<Rightarrow>
          (case copy_elems copy xs h of
             (ys, h1) \<Rightarrow>
               (case alloc (con ys) h1 of
                  (a, h2) \<Rightarrow> (Some \<lparr>sl_array = a, sl_off = 0, sl_len = length ys\<rparr>, h2))))"

text \<open>\<open>if in == nil { return nil }; out := new(T); in.DeepCopyInto(out); return out\<close>.\<close>

definition new_copy ::
    "('a list \<Rightarrow> ('m, 'l, 'x) cell) \<Rightarrow> (('m, 'l, 'x) cell \<Rightarrow> 'a list option) \<Rightarrow>
     ('a \<Rightarrow> ('m, 'l, 'x) goheap \<Rightarrow> 'a \<times> ('m, 'l, 'x) goheap) \<Rightarrow>
     ptr option \<Rightarrow> ('m, 'l, 'x) goheap \<Rightarrow> ptr option \<times> ('m, 'l, 'x) goheap" where
  "new_copy con sel copy p h =
     (case Option.bind p (deref sel h) of
        None \<Rightarrow> (p, h)
      | Some x \<Rightarrow>
          (case copy x h of
             (y, h1) \<Rightarrow>
               (case alloc (con [y]) h1 of (a, h2) \<Rightarrow> (Some \<lparr>pt_array = a, pt_index = 0\<rparr>, h2))))"

definition slice_val ::
    "(('m, 'l, 'x) cell \<Rightarrow> 'a list option) \<Rightarrow> (('m, 'l, 'x) goheap \<Rightarrow> 'a \<Rightarrow> 'v option) \<Rightarrow>
     ('m, 'l, 'x) goheap \<Rightarrow> slice option \<Rightarrow> 'v list option" where
  "slice_val sel val h s =
     (case s of
        None \<Rightarrow> Some []
      | Some s' \<Rightarrow> (case slice_elems sel h s' of None \<Rightarrow> None | Some xs \<Rightarrow> those (map (val h) xs)))"

definition slice_cells ::
    "(('m, 'l, 'x) cell \<Rightarrow> 'a list option) \<Rightarrow> (('m, 'l, 'x) goheap \<Rightarrow> 'a \<Rightarrow> addr set) \<Rightarrow>
     ('m, 'l, 'x) goheap \<Rightarrow> slice option \<Rightarrow> addr set" where
  "slice_cells sel cells h s =
     (case s of
        None \<Rightarrow> {}
      | Some s' \<Rightarrow>
          insert (sl_array s')
            (case slice_elems sel h s' of None \<Rightarrow> {} | Some xs \<Rightarrow> \<Union> (set (map (cells h) xs))))"

definition ptr_val ::
    "(('m, 'l, 'x) cell \<Rightarrow> 'a list option) \<Rightarrow> (('m, 'l, 'x) goheap \<Rightarrow> 'a \<Rightarrow> 'v option) \<Rightarrow>
     ('m, 'l, 'x) goheap \<Rightarrow> ptr option \<Rightarrow> 'v option option" where
  "ptr_val sel val h p =
     (case p of
        None \<Rightarrow> Some None
      | Some p' \<Rightarrow> (case deref sel h p' of None \<Rightarrow> None | Some x \<Rightarrow> map_option Some (val h x)))"

definition ptr_cells ::
    "(('m, 'l, 'x) cell \<Rightarrow> 'a list option) \<Rightarrow> (('m, 'l, 'x) goheap \<Rightarrow> 'a \<Rightarrow> addr set) \<Rightarrow>
     ('m, 'l, 'x) goheap \<Rightarrow> ptr option \<Rightarrow> addr set" where
  "ptr_cells sel cells h p =
     (case p of
        None \<Rightarrow> {}
      | Some p' \<Rightarrow>
          insert (pt_array p') (case deref sel h p' of None \<Rightarrow> {} | Some x \<Rightarrow> cells h x))"

lemma those_Some_iff: "those xs = Some ys \<longleftrightarrow> xs = map Some ys"
  by (induction xs arbitrary: ys) (auto split: option.splits)

lemma slice_elems_cong:
  "h_cell h' (sl_array s) = h_cell h (sl_array s) \<Longrightarrow> slice_elems sel h' s = slice_elems sel h s"
  by (simp add: slice_elems_def)

lemma deref_cong:
  "h_cell h' (pt_array p) = h_cell h (pt_array p) \<Longrightarrow> deref sel h' p = deref sel h p"
  by (simp add: deref_def)

locale copying_kind = copying val cells copy
  for val :: "('m, 'l, 'x) goheap \<Rightarrow> 'a \<Rightarrow> 'v option"
    and cells :: "('m, 'l, 'x) goheap \<Rightarrow> 'a \<Rightarrow> addr set"
    and copy :: "'a \<Rightarrow> ('m, 'l, 'x) goheap \<Rightarrow> 'a \<times> ('m, 'l, 'x) goheap" +
  fixes con :: "'a list \<Rightarrow> ('m, 'l, 'x) cell"
    and sel :: "('m, 'l, 'x) cell \<Rightarrow> 'a list option"
  assumes sel_con: "sel (con xs) = Some xs"
begin

lemma copy_elems_copies:
  assumes "heap_ok h" and "map (val h) xs = map Some vs" and "copy_elems copy xs h = (ys, h')"
  shows "extends h h' \<and> map (val h') ys = map Some vs \<and>
    (\<forall>y \<in> set ys. cells h' y \<subseteq> {h_next h ..< h_next h'})"
  using assms
proof (induction xs arbitrary: vs ys h)
  case Nil
  then show ?case by (simp add: extends_refl)
next
  case (Cons x xs)
  from Cons.prems(2) obtain v vs' where vs: "vs = v # vs'" "val h x = Some v"
      "map (val h) xs = map Some vs'" by (cases vs) auto
  obtain y h1 where y: "copy x h = (y, h1)" by fastforce
  obtain ys' where ys: "copy_elems copy xs h1 = (ys', h')" "ys = y # ys'"
    using Cons.prems(3) y by (auto split: prod.splits)
  have h1: "extends h h1" using copies [OF Cons.prems(1) vs(2) y] by simp
  have "val h1 x' = val h x'" if "x' \<in> set xs" for x'
  proof -
    from that vs(3) obtain v' where "val h x' = Some v'" by (metis in_set_conv_nth length_map nth_map)
    with kept(1) [OF Cons.prems(1) h1 this] show ?thesis by simp
  qed
  then have "map (val h1) xs = map Some vs'" using vs(3) by (simp cong: map_cong)
  from Cons.IH [OF extends_ok [OF h1] this ys(1)]
  have IH: "extends h1 h'" "map (val h') ys' = map Some vs'"
      "\<forall>y \<in> set ys'. cells h' y \<subseteq> {h_next h1 ..< h_next h'}" by simp_all
  have "{h_next h1 ..< h_next h'} \<subseteq> {h_next h ..< h_next h'}"
    and "{h_next h ..< h_next h1} \<subseteq> {h_next h ..< h_next h'}"
    using extends_next [OF h1] extends_next [OF IH(1)] by auto
  with copies_later [OF Cons.prems(1) vs(2) y IH(1)] IH(2,3) show ?case
    unfolding ys(2) vs(1) by (simp, meson subset_trans)
qed

lemma slice_local:
  assumes same: "\<And>a. a \<in> slice_cells sel cells h s \<Longrightarrow> h_cell h' a = h_cell h a"
  shows "slice_val sel val h' s = slice_val sel val h s \<and> slice_cells sel cells h' s = slice_cells sel cells h s"
proof (cases s)
  case None
  then show ?thesis by (simp add: slice_val_def slice_cells_def)
next
  case (Some s')
  have e: "slice_elems sel h' s' = slice_elems sel h s'"
    using same [of "sl_array s'"] Some by (intro slice_elems_cong) (simp add: slice_cells_def)
  show ?thesis
  proof (cases "slice_elems sel h s'")
    case None
    then show ?thesis using e Some by (simp add: slice_val_def slice_cells_def)
  next
    case elems: (Some xs)
    have "val h' x = val h x \<and> cells h' x = cells h x" if "x \<in> set xs" for x
      by (rule local) (use same that Some elems in \<open>auto simp: slice_cells_def\<close>)
    then have "map (val h') xs = map (val h) xs" and "map (cells h') xs = map (cells h) xs" by simp_all
    then show ?thesis using e Some elems by (simp add: slice_val_def slice_cells_def del: map_eq_conv)
  qed
qed

lemma slice_allocated:
  assumes "slice_val sel val h s = Some vs" and "a \<in> slice_cells sel cells h s"
  shows "h_cell h a \<noteq> None"
proof -
  obtain s' xs where s: "s = Some s'" "slice_elems sel h s' = Some xs" "map (val h) xs = map Some vs"
    using assms by (auto simp: slice_val_def slice_cells_def those_Some_iff split: option.splits)
  consider "a = sl_array s'" | x where "x \<in> set xs" "a \<in> cells h x"
    using assms(2) s(1,2) by (auto simp: slice_cells_def)
  then show ?thesis
  proof cases
    case 1
    then show ?thesis using s(2) by (auto simp: slice_elems_def bind_eq_Some_conv split: option.splits)
  next
    case 2
    then obtain v where "val h x = Some v" using s(3) by (metis in_set_conv_nth length_map nth_map)
    then show ?thesis using 2(2) by (rule allocated)
  qed
qed

lemma slice_copies:
  assumes "heap_ok h" and "slice_val sel val h s = Some vs" and "slice_copy con sel copy s h = (t, h')"
  shows "extends h h' \<and> slice_val sel val h' t = Some vs \<and>
    slice_cells sel cells h' t \<subseteq> {h_next h ..< h_next h'}"
proof (cases s)
  case None
  then show ?thesis using assms
    by (auto simp: slice_copy_def slice_val_def slice_cells_def extends_refl)
next
  case (Some s')
  then obtain xs where xs: "slice_elems sel h s' = Some xs" "map (val h) xs = map Some vs"
    using assms(2) by (auto simp: slice_val_def those_Some_iff split: option.splits)
  obtain ys h1 where ys: "copy_elems copy xs h = (ys, h1)" by fastforce
  have t: "t = Some \<lparr>sl_array = h_next h1, sl_off = 0, sl_len = length ys\<rparr>" "alloc (con ys) h1 = (h_next h1, h')"
    using assms(3) Some xs(1) ys by (auto simp: slice_copy_def alloc_def)
  have c: "extends h h1" "map (val h1) ys = map Some vs" "\<forall>y \<in> set ys. cells h1 y \<subseteq> {h_next h ..< h_next h1}"
    using copy_elems_copies [OF assms(1) xs(2) ys] by simp_all
  have h': "extends h1 h'" "h_cell h' (h_next h1) = Some (con ys)" "h_next h' = Suc (h_next h1)"
    using extends_alloc [OF extends_ok [OF c(1)] t(2)] alloc_cell [OF t(2)] by simp_all
  have elems: "slice_elems sel h' \<lparr>sl_array = h_next h1, sl_off = 0, sl_len = length ys\<rparr> = Some ys"
    by (simp add: slice_elems_def h'(2) sel_con)
  have "val h' y = val h1 y \<and> cells h' y = cells h1 y" if "y \<in> set ys" for y
  proof -
    from that c(2) obtain v where "val h1 y = Some v" by (metis in_set_conv_nth length_map nth_map)
    with kept [OF extends_ok [OF c(1)] h'(1) this] show ?thesis by simp
  qed
  then have "map (val h') ys = map Some vs" and "\<forall>y \<in> set ys. cells h' y \<subseteq> {h_next h ..< h_next h'}"
    using c(2,3) h'(3) by (simp_all cong: map_cong) (metis atLeastLessThan_iff less_SucI subset_iff)
  then show ?thesis
    using extends_trans [OF c(1) h'(1)] extends_next [OF c(1)] h'(3)
    by (auto simp: t(1) slice_val_def slice_cells_def elems those_Some_iff)
qed

lemma ptr_local:
  assumes same: "\<And>a. a \<in> ptr_cells sel cells h p \<Longrightarrow> h_cell h' a = h_cell h a"
  shows "ptr_val sel val h' p = ptr_val sel val h p \<and> ptr_cells sel cells h' p = ptr_cells sel cells h p"
proof (cases p)
  case None
  then show ?thesis by (simp add: ptr_val_def ptr_cells_def)
next
  case (Some q)
  have e: "deref sel h' q = deref sel h q"
    using same [of "pt_array q"] Some by (intro deref_cong) (simp add: ptr_cells_def)
  have "val h' x = val h x \<and> cells h' x = cells h x" if "deref sel h q = Some x" for x
    by (rule local) (use same that Some in \<open>auto simp: ptr_cells_def\<close>)
  then show ?thesis using Some by (simp add: ptr_val_def ptr_cells_def e split: option.split)
qed

lemma ptr_allocated:
  assumes "ptr_val sel val h p = Some v" and "a \<in> ptr_cells sel cells h p"
  shows "h_cell h a \<noteq> None"
proof -
  obtain q x w where q: "p = Some q" "deref sel h q = Some x" "val h x = Some w"
    using assms by (auto simp: ptr_val_def ptr_cells_def split: option.splits)
  have "h_cell h (pt_array q) \<noteq> None" using q(2) by (auto simp: deref_def bind_eq_Some_conv split: option.splits)
  with assms(2) allocated [OF q(3)] show ?thesis by (auto simp: ptr_cells_def q(1,2))
qed

lemma ptr_copies:
  assumes "heap_ok h" and "ptr_val sel val h p = Some v" and "new_copy con sel copy p h = (q, h')"
  shows "extends h h' \<and> ptr_val sel val h' q = Some v \<and>
    ptr_cells sel cells h' q \<subseteq> {h_next h ..< h_next h'}"
proof (cases p)
  case None
  then show ?thesis using assms
    by (auto simp: new_copy_def ptr_val_def ptr_cells_def extends_refl)
next
  case (Some p')
  then obtain x u where x: "deref sel h p' = Some x" "val h x = Some u" "v = Some u"
    using assms(2) by (auto simp: ptr_val_def split: option.splits)
  obtain y h1 where y: "copy x h = (y, h1)" by fastforce
  have q: "q = Some \<lparr>pt_array = h_next h1, pt_index = 0\<rparr>" "alloc (con [y]) h1 = (h_next h1, h')"
    using assms(3) Some x(1) y by (auto simp: new_copy_def alloc_def)
  have h1: "extends h h1" using copies [OF assms(1) x(2) y] by simp
  have h': "extends h1 h'" "h_cell h' (h_next h1) = Some (con [y])" "h_next h' = Suc (h_next h1)"
    using extends_alloc [OF extends_ok [OF h1] q(2)] alloc_cell [OF q(2)] by simp_all
  have "deref sel h' \<lparr>pt_array = h_next h1, pt_index = 0\<rparr> = Some y"
    by (simp add: deref_def h'(2) sel_con)
  then show ?thesis
    using copies_later [OF assms(1) x(2) y h'(1)] extends_next [OF h1] h'(3)
    by (auto simp: q(1) x(3) ptr_val_def ptr_cells_def)
qed

end

sublocale copying_kind \<subseteq> slices: copying "slice_val sel val" "slice_cells sel cells" "slice_copy con sel copy"
  by unfold_locales (fact slice_local slice_allocated slice_copies)+

sublocale copying_kind \<subseteq> pointers: copying "ptr_val sel val" "ptr_cells sel cells" "new_copy con sel copy"
  by unfold_locales (fact ptr_local ptr_allocated ptr_copies)+

section \<open>Structs\<close>

text \<open>Two components copied one after the other.\<close>

definition pair_copy ::
    "('a \<Rightarrow> ('m, 'l, 'x) goheap \<Rightarrow> 'a \<times> ('m, 'l, 'x) goheap) \<Rightarrow>
     ('b \<Rightarrow> ('m, 'l, 'x) goheap \<Rightarrow> 'b \<times> ('m, 'l, 'x) goheap) \<Rightarrow>
     'a \<times> 'b \<Rightarrow> ('m, 'l, 'x) goheap \<Rightarrow> ('a \<times> 'b) \<times> ('m, 'l, 'x) goheap" where
  "pair_copy f g z h = (case f (fst z) h of (x, h1) \<Rightarrow> case g (snd z) h1 of (y, h2) \<Rightarrow> ((x, y), h2))"

definition pair_val ::
    "(('m, 'l, 'x) goheap \<Rightarrow> 'a \<Rightarrow> 'v option) \<Rightarrow> (('m, 'l, 'x) goheap \<Rightarrow> 'b \<Rightarrow> 'w option) \<Rightarrow>
     ('m, 'l, 'x) goheap \<Rightarrow> 'a \<times> 'b \<Rightarrow> ('v \<times> 'w) option" where
  "pair_val f g h z =
     (case f h (fst z) of None \<Rightarrow> None | Some v \<Rightarrow> map_option (Pair v) (g h (snd z)))"

definition pair_cells ::
    "(('m, 'l, 'x) goheap \<Rightarrow> 'a \<Rightarrow> addr set) \<Rightarrow> (('m, 'l, 'x) goheap \<Rightarrow> 'b \<Rightarrow> addr set) \<Rightarrow>
     ('m, 'l, 'x) goheap \<Rightarrow> 'a \<times> 'b \<Rightarrow> addr set" where
  "pair_cells f g h z = f h (fst z) \<union> g h (snd z)"

locale copying_pair = one: copying val1 cells1 copy1 + two: copying val2 cells2 copy2
  for val1 :: "('m, 'l, 'x) goheap \<Rightarrow> 'a \<Rightarrow> 'v option" and cells1 and copy1
    and val2 :: "('m, 'l, 'x) goheap \<Rightarrow> 'b \<Rightarrow> 'w option" and cells2 and copy2
begin

lemma pair_local:
  assumes "\<And>a. a \<in> pair_cells cells1 cells2 h z \<Longrightarrow> h_cell h' a = h_cell h a"
  shows "pair_val val1 val2 h' z = pair_val val1 val2 h z \<and>
    pair_cells cells1 cells2 h' z = pair_cells cells1 cells2 h z"
  using one.local [of h "fst z" h'] two.local [of h "snd z" h'] assms
  by (simp add: pair_val_def pair_cells_def split: option.split)

lemma pair_allocated:
  assumes "pair_val val1 val2 h z = Some v" and "a \<in> pair_cells cells1 cells2 h z"
  shows "h_cell h a \<noteq> None"
  using assms one.allocated [of h "fst z"] two.allocated [of h "snd z"]
  by (auto simp: pair_val_def pair_cells_def split: option.splits)

lemma pair_copies:
  assumes "heap_ok h" and "pair_val val1 val2 h z = Some v" and "pair_copy copy1 copy2 z h = (z', h')"
  shows "extends h h' \<and> pair_val val1 val2 h' z' = Some v \<and>
    pair_cells cells1 cells2 h' z' \<subseteq> {h_next h ..< h_next h'}"
proof -
  obtain u w where v: "val1 h (fst z) = Some u" "val2 h (snd z) = Some w" "v = (u, w)"
    using assms(2) by (auto simp: pair_val_def split: option.splits)
  obtain x h1 y where xy: "copy1 (fst z) h = (x, h1)" "copy2 (snd z) h1 = (y, h')" "z' = (x, y)"
    using assms(3) by (auto simp: pair_copy_def split: prod.splits)
  have h1: "extends h h1" using one.copies [OF assms(1) v(1) xy(1)] by simp
  have c2: "extends h1 h'" "val2 h' y = Some w" "cells2 h' y \<subseteq> {h_next h1 ..< h_next h'}"
    using two.copies [OF extends_ok [OF h1] two.kept(1) [OF assms(1) h1 v(2)] xy(2)] by simp_all
  show ?thesis
    using one.copies_later [OF assms(1) v(1) xy(1) c2(1)] c2 extends_next [OF h1] extends_next [OF c2(1)]
    by (fastforce simp: pair_val_def pair_cells_def v(3) xy(3))
qed

end

sublocale copying_pair \<subseteq> pairs: copying "pair_val val1 val2" "pair_cells cells1 cells2" "pair_copy copy1 copy2"
  by unfold_locales (fact pair_local pair_allocated pair_copies)+

text \<open>
  A struct whose references are all in the part \<open>get\<close>: copying it copies this part and
  assigns the rest.
\<close>

locale copying_struct = part: copying val cells copy
  for val :: "('m, 'l, 'x) goheap \<Rightarrow> 'a \<Rightarrow> 'v option" and cells and copy +
  fixes get :: "'s \<Rightarrow> 'a" and put :: "'a \<Rightarrow> 's \<Rightarrow> 's" and mk :: "'s \<Rightarrow> 'v \<Rightarrow> 'u"
  assumes get_put: "get (put x s) = x" and mk_put: "mk (put x s) = mk s"

definition struct_val ::
    "(('m, 'l, 'x) goheap \<Rightarrow> 'a \<Rightarrow> 'v option) \<Rightarrow> ('s \<Rightarrow> 'a) \<Rightarrow> ('s \<Rightarrow> 'v \<Rightarrow> 'u) \<Rightarrow>
     ('m, 'l, 'x) goheap \<Rightarrow> 's \<Rightarrow> 'u option" where
  "struct_val val get mk h s = map_option (mk s) (val h (get s))"

definition struct_cells ::
    "(('m, 'l, 'x) goheap \<Rightarrow> 'a \<Rightarrow> addr set) \<Rightarrow> ('s \<Rightarrow> 'a) \<Rightarrow> ('m, 'l, 'x) goheap \<Rightarrow> 's \<Rightarrow> addr set" where
  "struct_cells cells get h s = cells h (get s)"

definition struct_copy ::
    "('a \<Rightarrow> ('m, 'l, 'x) goheap \<Rightarrow> 'a \<times> ('m, 'l, 'x) goheap) \<Rightarrow> ('s \<Rightarrow> 'a) \<Rightarrow> ('a \<Rightarrow> 's \<Rightarrow> 's) \<Rightarrow>
     's \<Rightarrow> ('m, 'l, 'x) goheap \<Rightarrow> 's \<times> ('m, 'l, 'x) goheap" where
  "struct_copy copy get put s h = (case copy (get s) h of (x, h') \<Rightarrow> (put x s, h'))"

sublocale copying_struct \<subseteq> structs: copying "struct_val val get mk" "struct_cells cells get" "struct_copy copy get put"
proof
  show "struct_val val get mk h' s = struct_val val get mk h s \<and>
      struct_cells cells get h' s = struct_cells cells get h s"
    if "\<And>a. a \<in> struct_cells cells get h s \<Longrightarrow> h_cell h' a = h_cell h a" for h h' s
    using part.local [of h "get s" h'] that by (simp add: struct_val_def struct_cells_def)
  show "h_cell h a \<noteq> None" if "struct_val val get mk h s = Some v" and "a \<in> struct_cells cells get h s" for h s v a
    using part.allocated that by (fastforce simp: struct_val_def struct_cells_def)
  show "extends h h' \<and> struct_val val get mk h' t = Some v \<and>
      struct_cells cells get h' t \<subseteq> {h_next h ..< h_next h'}"
    if h: "heap_ok h" and v: "struct_val val get mk h s = Some v" and t: "struct_copy copy get put s h = (t, h')"
    for h h' s t v
  proof -
    obtain u where u: "val h (get s) = Some u" "v = mk s u" using v by (auto simp: struct_val_def)
    obtain x where x: "copy (get s) h = (x, h')" "t = put x s"
      using t by (auto simp: struct_copy_def split: prod.splits)
    from part.copies [OF h u(1) x(1)] show ?thesis
      by (simp add: struct_val_def struct_cells_def get_put mk_put u(2) x(2))
  qed
qed

end
