(* ===== verification/Deep_Copy.thy ===== *)
theory Deep_Copy
  imports Go_Memory
begin

text \<open>
  \<open>api/v1alpha1/zz_generated.deepcopy.go\<close>: the deep copies of the custom resources, on
  the memory of \<open>Go_Memory\<close>. \<open>DeepCopyInto\<close> is given by the value it leaves in
  \<open>*out\<close>. The copies of \<open>ObjectMeta\<close>, \<open>ListMeta\<close> and \<open>Time\<close> belong to \<open>apimachinery\<close>:
  they are the fields of \<open>meta_lib\<close>, and the locale \<open>metadata\<close> states that they are deep
  copies.
\<close>

type_synonym ('m, 'l, 'x, 'a) copier = "'a \<Rightarrow> ('m, 'l, 'x) goheap \<Rightarrow> 'a \<times> ('m, 'l, 'x) goheap"

record ('m, 'l, 'x) meta_lib =
  ObjectMeta_DeepCopyInto :: "('m, 'l, 'x, 'm) copier"
  ListMeta_DeepCopyInto :: "('m, 'l, 'x, 'l) copier"
  Time_DeepCopyInto :: "('m, 'l, 'x, gotime) copier"
  Time_DeepCopy :: "('m, 'l, 'x, ptr option) copier"

text \<open>The elements of a cell, if it is of the kind at hand.\<close>

definition kind ::
    "(('m, 'l, 'x) cell \<Rightarrow> bool) \<Rightarrow> (('m, 'l, 'x) cell \<Rightarrow> 'a list) \<Rightarrow> ('m, 'l, 'x) cell \<Rightarrow> 'a list option" where
  "kind is_kind elems c = (if is_kind c then Some (elems c) else None)"

section \<open>FilterRef\<close>

text \<open>\<open>make(map[string]string)\<close>, then one write for each entry that \<open>range\<close> visits.\<close>

definition labels_copy :: "('m, 'l, 'x, addr option) copier" where
  "labels_copy p h =
     (case Option.bind p (h_cell h) of
        Some (Labels m) \<Rightarrow>
          (case alloc (Labels (fold (\<lambda>(k, v). gm_put k v) m [])) h of (a, h') \<Rightarrow> (Some a, h'))
      | _ \<Rightarrow> (p, h))"

definition FilterRef_DeepCopyInto :: "('m, 'l, 'x, FilterRef_mem) copier" where
  "FilterRef_DeepCopyInto inp h =
     (let out = inp in
      case labels_copy (frm_MatchLabels inp) h of
        (labels, h1) \<Rightarrow> (out\<lparr>frm_MatchLabels := labels\<rparr>, h1))"

definition FilterRef_DeepCopy :: "('m, 'l, 'x, ptr option) copier" where
  "FilterRef_DeepCopy = new_copy FilterRefs (kind is_FilterRefs filter_refs) FilterRef_DeepCopyInto"

section \<open>Patch and PatchTarget\<close>

definition PatchTarget_DeepCopyInto :: "('m, 'l, 'x, PatchTarget) copier" where
  "PatchTarget_DeepCopyInto inp h = (inp, h)"

definition PatchTarget_DeepCopy :: "('m, 'l, 'x, ptr option) copier" where
  "PatchTarget_DeepCopy = new_copy PatchTargets (kind is_PatchTargets patch_targets) PatchTarget_DeepCopyInto"

definition Patch_DeepCopyInto :: "('m, 'l, 'x, Patch) copier" where
  "Patch_DeepCopyInto inp h = (let out = inp in (out\<lparr>p_Target := p_Target inp\<rparr>, h))"

definition Patch_DeepCopy :: "('m, 'l, 'x, ptr option) copier" where
  "Patch_DeepCopy = new_copy PatchArr (kind is_PatchArr patches) Patch_DeepCopyInto"

section \<open>SleepInfo\<close>

definition SleepInfoSpec_DeepCopyInto :: "('m, 'l, 'x, SleepInfoSpec_mem) copier" where
  "SleepInfoSpec_DeepCopyInto inp h =
     (let out = inp;
          filters = slice_copy FilterRefs (kind is_FilterRefs filter_refs) FilterRef_DeepCopyInto;
          bool_ptr = new_copy Bools (kind is_Bools bools) assign
      in
      case filters (sm_ExcludeRef inp) h of (excludeRef, h1) \<Rightarrow>
      case filters (sm_IncludeRef inp) h1 of (includeRef, h2) \<Rightarrow>
      case bool_ptr (sm_SuspendDeployments inp) h2 of (suspendDeployments, h3) \<Rightarrow>
      case bool_ptr (sm_SuspendStatefulSets inp) h3 of (suspendStatefulSets, h4) \<Rightarrow>
      case slice_copy PatchArr (kind is_PatchArr patches) assign (sm_Patches inp) h4 of (ps, h5) \<Rightarrow>
        (out\<lparr>sm_ExcludeRef := excludeRef, sm_IncludeRef := includeRef,
             sm_SuspendDeployments := suspendDeployments,
             sm_SuspendStatefulSets := suspendStatefulSets, sm_Patches := ps\<rparr>, h5))"

definition SleepInfoSpec_DeepCopy :: "('m, 'l, 'x, ptr option) copier" where
  "SleepInfoSpec_DeepCopy = new_copy Specs (kind is_Specs specs) SleepInfoSpec_DeepCopyInto"

definition SleepInfoStatus_DeepCopyInto ::
    "('m, 'l, 'x) meta_lib \<Rightarrow> ('m, 'l, 'x, SleepInfoStatus) copier" where
  "SleepInfoStatus_DeepCopyInto M inp h =
     (let out = inp in
      case Time_DeepCopyInto M (LastScheduleTime inp) h of
        (t, h1) \<Rightarrow> (out\<lparr>LastScheduleTime := t\<rparr>, h1))"

definition SleepInfoStatus_DeepCopy :: "('m, 'l, 'x) meta_lib \<Rightarrow> ('m, 'l, 'x, ptr option) copier" where
  "SleepInfoStatus_DeepCopy M = new_copy Statuses (kind is_Statuses statuses) (SleepInfoStatus_DeepCopyInto M)"

definition SleepInfo_DeepCopyInto ::
    "('m, 'l, 'x) meta_lib \<Rightarrow> ('m, 'l, 'x, 'm SleepInfo_mem) copier" where
  "SleepInfo_DeepCopyInto M inp h =
     (let out = inp\<lparr>sim_TypeMeta := sim_TypeMeta inp\<rparr> in
      case ObjectMeta_DeepCopyInto M (sim_ObjectMeta inp) h of (meta, h1) \<Rightarrow>
      case SleepInfoSpec_DeepCopyInto (sim_Spec inp) h1 of (spec, h2) \<Rightarrow>
      case SleepInfoStatus_DeepCopyInto M (sim_Status inp) h2 of (status, h3) \<Rightarrow>
        (out\<lparr>sim_ObjectMeta := meta, sim_Spec := spec, sim_Status := status\<rparr>, h3))"

definition SleepInfo_DeepCopy :: "('m, 'l, 'x) meta_lib \<Rightarrow> ('m, 'l, 'x, ptr option) copier" where
  "SleepInfo_DeepCopy M = new_copy SleepInfos (kind is_SleepInfos sleep_infos) (SleepInfo_DeepCopyInto M)"

text \<open>
  A \<open>runtime.Object\<close> is nil or a pointer together with its dynamic type; a nil pointer in
  an interface is not a nil interface.
\<close>

datatype runtime_object =
    SleepInfoObject "ptr option"
  | SleepInfoListObject "ptr option"
  | ExecutionObject "ptr option"
  | ExecutionListObject "ptr option"

definition SleepInfo_DeepCopyObject ::
    "('m, 'l, 'x) meta_lib \<Rightarrow> ptr option \<Rightarrow> ('m, 'l, 'x) goheap \<Rightarrow>
     runtime_object option \<times> ('m, 'l, 'x) goheap" where
  "SleepInfo_DeepCopyObject M inp h =
     (case SleepInfo_DeepCopy M inp h of
        (c, h1) \<Rightarrow> (if c \<noteq> None then Some (SleepInfoObject c) else None, h1))"

definition SleepInfoList_DeepCopyInto :: "('m, 'l, 'x) meta_lib \<Rightarrow> ('m, 'l, 'x, 'l List_mem) copier" where
  "SleepInfoList_DeepCopyInto M inp h =
     (let out = inp\<lparr>lm_TypeMeta := lm_TypeMeta inp\<rparr> in
      case ListMeta_DeepCopyInto M (lm_ListMeta inp) h of (meta, h1) \<Rightarrow>
      case slice_copy SleepInfos (kind is_SleepInfos sleep_infos) (SleepInfo_DeepCopyInto M) (lm_Items inp) h1 of
        (items, h2) \<Rightarrow> (out\<lparr>lm_ListMeta := meta, lm_Items := items\<rparr>, h2))"

definition SleepInfoList_DeepCopy :: "('m, 'l, 'x) meta_lib \<Rightarrow> ('m, 'l, 'x, ptr option) copier" where
  "SleepInfoList_DeepCopy M = new_copy InfoLists (kind is_InfoLists info_lists) (SleepInfoList_DeepCopyInto M)"

definition SleepInfoList_DeepCopyObject ::
    "('m, 'l, 'x) meta_lib \<Rightarrow> ptr option \<Rightarrow> ('m, 'l, 'x) goheap \<Rightarrow>
     runtime_object option \<times> ('m, 'l, 'x) goheap" where
  "SleepInfoList_DeepCopyObject M inp h =
     (case SleepInfoList_DeepCopy M inp h of
        (c, h1) \<Rightarrow> (if c \<noteq> None then Some (SleepInfoListObject c) else None, h1))"

section \<open>SleepInfoExecution\<close>

definition SleepInfoExecutionSpec_DeepCopyInto :: "('m, 'l, 'x, SleepInfoExecutionSpec) copier" where
  "SleepInfoExecutionSpec_DeepCopyInto inp h = (inp, h)"

definition SleepInfoExecutionSpec_DeepCopy :: "('m, 'l, 'x, ptr option) copier" where
  "SleepInfoExecutionSpec_DeepCopy =
     new_copy ExecSpecs (kind is_ExecSpecs exec_specs) SleepInfoExecutionSpec_DeepCopyInto"

definition SleepInfoExecutionStatus_DeepCopyInto ::
    "('m, 'l, 'x) meta_lib \<Rightarrow> ('m, 'l, 'x, SleepInfoExecutionStatus_mem) copier" where
  "SleepInfoExecutionStatus_DeepCopyInto M inp h =
     (let out = inp in
      case (if esm_StartTime inp \<noteq> None then Time_DeepCopy M (esm_StartTime inp) h
            else (esm_StartTime out, h)) of (start, h1) \<Rightarrow>
      case (if esm_CompletionTime inp \<noteq> None then Time_DeepCopy M (esm_CompletionTime inp) h1
            else (esm_CompletionTime out, h1)) of (completion, h2) \<Rightarrow>
        (out\<lparr>esm_StartTime := start, esm_CompletionTime := completion\<rparr>, h2))"

definition SleepInfoExecutionStatus_DeepCopy ::
    "('m, 'l, 'x) meta_lib \<Rightarrow> ('m, 'l, 'x, ptr option) copier" where
  "SleepInfoExecutionStatus_DeepCopy M =
     new_copy ExecStatuses (kind is_ExecStatuses exec_statuses) (SleepInfoExecutionStatus_DeepCopyInto M)"

definition SleepInfoExecution_DeepCopyInto ::
    "('m, 'l, 'x) meta_lib \<Rightarrow> ('m, 'l, 'x, 'm SleepInfoExecution_mem) copier" where
  "SleepInfoExecution_DeepCopyInto M inp h =
     (let out = inp\<lparr>exm_TypeMeta := exm_TypeMeta inp\<rparr> in
      case ObjectMeta_DeepCopyInto M (exm_ObjectMeta inp) h of (meta, h1) \<Rightarrow>
      let out = out\<lparr>exm_Spec := exm_Spec inp\<rparr> in
      case SleepInfoExecutionStatus_DeepCopyInto M (exm_Status inp) h1 of (status, h2) \<Rightarrow>
        (out\<lparr>exm_ObjectMeta := meta, exm_Status := status\<rparr>, h2))"

definition SleepInfoExecution_DeepCopy :: "('m, 'l, 'x) meta_lib \<Rightarrow> ('m, 'l, 'x, ptr option) copier" where
  "SleepInfoExecution_DeepCopy M =
     new_copy Executions (kind is_Executions executions) (SleepInfoExecution_DeepCopyInto M)"

definition SleepInfoExecution_DeepCopyObject ::
    "('m, 'l, 'x) meta_lib \<Rightarrow> ptr option \<Rightarrow> ('m, 'l, 'x) goheap \<Rightarrow>
     runtime_object option \<times> ('m, 'l, 'x) goheap" where
  "SleepInfoExecution_DeepCopyObject M inp h =
     (case SleepInfoExecution_DeepCopy M inp h of
        (c, h1) \<Rightarrow> (if c \<noteq> None then Some (ExecutionObject c) else None, h1))"

definition SleepInfoExecutionList_DeepCopyInto ::
    "('m, 'l, 'x) meta_lib \<Rightarrow> ('m, 'l, 'x, 'l List_mem) copier" where
  "SleepInfoExecutionList_DeepCopyInto M inp h =
     (let out = inp\<lparr>lm_TypeMeta := lm_TypeMeta inp\<rparr> in
      case ListMeta_DeepCopyInto M (lm_ListMeta inp) h of (meta, h1) \<Rightarrow>
      case slice_copy Executions (kind is_Executions executions) (SleepInfoExecution_DeepCopyInto M)
             (lm_Items inp) h1 of
        (items, h2) \<Rightarrow> (out\<lparr>lm_ListMeta := meta, lm_Items := items\<rparr>, h2))"

definition SleepInfoExecutionList_DeepCopy ::
    "('m, 'l, 'x) meta_lib \<Rightarrow> ('m, 'l, 'x, ptr option) copier" where
  "SleepInfoExecutionList_DeepCopy M =
     new_copy ExecLists (kind is_ExecLists exec_lists) (SleepInfoExecutionList_DeepCopyInto M)"

definition SleepInfoExecutionList_DeepCopyObject ::
    "('m, 'l, 'x) meta_lib \<Rightarrow> ptr option \<Rightarrow> ('m, 'l, 'x) goheap \<Rightarrow>
     runtime_object option \<times> ('m, 'l, 'x) goheap" where
  "SleepInfoExecutionList_DeepCopyObject M inp h =
     (case SleepInfoExecutionList_DeepCopy M inp h of
        (c, h1) \<Rightarrow> (if c \<noteq> None then Some (ExecutionListObject c) else None, h1))"

section \<open>What the values in memory stand for\<close>

definition labels_val :: "('m, 'l, 'x) goheap \<Rightarrow> addr option \<Rightarrow> (string, string) gomap option" where
  "labels_val h p =
     (case p of
        None \<Rightarrow> Some []
      | Some a \<Rightarrow> (case h_cell h a of Some (Labels m) \<Rightarrow> (if gm_wf m then Some m else None) | _ \<Rightarrow> None))"

definition labels_cells :: "('m, 'l, 'x) goheap \<Rightarrow> addr option \<Rightarrow> addr set" where
  "labels_cells h p = set_option p"

definition filter_value :: "FilterRef_mem \<Rightarrow> (string, string) gomap \<Rightarrow> FilterRef" where
  "filter_value f labels =
     \<lparr>fr_APIVersion = frm_APIVersion f, fr_Kind = frm_Kind f, fr_Name = frm_Name f, fr_MatchLabels = labels\<rparr>"

definition filter_val :: "('m, 'l, 'x) goheap \<Rightarrow> FilterRef_mem \<Rightarrow> FilterRef option" where
  "filter_val = struct_val labels_val frm_MatchLabels filter_value"

definition filter_cells :: "('m, 'l, 'x) goheap \<Rightarrow> FilterRef_mem \<Rightarrow> addr set" where
  "filter_cells = struct_cells labels_cells frm_MatchLabels"

text \<open>The order in which \<open>range\<close> visits the entries of a map does not matter.\<close>

lemma labels_order:
  assumes "gm_wf m" and "distinct (map fst es)" and "set es = set m"
  shows "fold (\<lambda>(k, v). gm_put k v) es [] = m"
proof -
  have "gm_get (rev es) = gm_get m"
    using assms(2,3) gm_wf_distinct [OF assms(1)]
    by (subst map_of_inject_set) (simp_all add: distinct_rev flip: rev_map)
  then have "gm_of_list es = m"
    using assms(1) by (intro gm_eqI) (simp_all add: gm_of_list_get)
  then show ?thesis by (simp add: gm_of_list_def)
qed

interpretation labels: copying labels_val labels_cells labels_copy
proof
  show "labels_val h' p = labels_val h p \<and> labels_cells h' p = labels_cells h p"
    if "\<And>a. a \<in> labels_cells h p \<Longrightarrow> h_cell h' a = h_cell h a"
    for h h' :: "('m, 'l, 'x) goheap" and p
    using that by (cases p) (simp_all add: labels_val_def labels_cells_def)
  show "h_cell h a \<noteq> None" if "labels_val h p = Some v" and "a \<in> labels_cells h p"
    for h :: "('m, 'l, 'x) goheap" and p v a
    using that by (cases p) (auto simp: labels_val_def labels_cells_def split: option.splits)
  show "extends h h' \<and> labels_val h' q = Some v \<and> labels_cells h' q \<subseteq> {h_next h ..< h_next h'}"
    if h: "heap_ok h" and v: "labels_val h p = Some v" and q: "labels_copy p h = (q, h')"
    for h h' :: "('m, 'l, 'x) goheap" and p q v
  proof (cases p)
    case None
    then show ?thesis
      using h v q by (auto simp: labels_copy_def labels_val_def labels_cells_def extends_refl)
  next
    case (Some a)
    then have a: "h_cell h a = Some (Labels v)" "gm_wf v"
      using v by (auto simp: labels_val_def split: option.splits cell.splits if_splits)
    then have "fold (\<lambda>(k, v). gm_put k v) v [] = v" by (intro labels_order) (simp_all add: gm_wf_distinct)
    then have q': "q = Some (h_next h)" "alloc (Labels v) h = (h_next h, h')"
      using q Some a(1) by (auto simp: labels_copy_def alloc_def)
    then show ?thesis
      using extends_alloc [OF h q'(2)] alloc_cell [OF q'(2)] a(2) by (simp add: labels_val_def labels_cells_def)
  qed
qed

lemma kind_con:
  "kind is_Bools bools (Bools a) = Some a" "kind is_Times times (Times b) = Some b"
  "kind is_FilterRefs filter_refs (FilterRefs c) = Some c"
  "kind is_PatchTargets patch_targets (PatchTargets d) = Some d" "kind is_PatchArr patches (PatchArr e) = Some e"
  "kind is_Specs specs (Specs f) = Some f" "kind is_Statuses statuses (Statuses g) = Some g"
  "kind is_SleepInfos sleep_infos (SleepInfos i) = Some i"
  "kind is_ExecSpecs exec_specs (ExecSpecs j) = Some j"
  "kind is_ExecStatuses exec_statuses (ExecStatuses k) = Some k"
  "kind is_Executions executions (Executions l) = Some l"
  "kind is_InfoLists info_lists (InfoLists m) = Some m" "kind is_ExecLists exec_lists (ExecLists n) = Some n"
  by (simp_all add: kind_def)

interpretation filter_struct: copying_struct labels_val labels_cells labels_copy frm_MatchLabels
  "\<lambda>l f. f\<lparr>frm_MatchLabels := l\<rparr>" filter_value
  by unfold_locales (simp_all add: filter_value_def fun_eq_iff)

lemma FilterRef_DeepCopyInto_struct:
  "FilterRef_DeepCopyInto = struct_copy labels_copy frm_MatchLabels (\<lambda>l f. f\<lparr>frm_MatchLabels := l\<rparr>)"
  by (simp add: FilterRef_DeepCopyInto_def struct_copy_def fun_eq_iff)

lemma FilterRef_copying: "copying filter_val filter_cells FilterRef_DeepCopyInto"
  unfolding filter_val_def filter_cells_def FilterRef_DeepCopyInto_struct
  by (rule filter_struct.structs.copying_axioms)

lemma copying_kindI:
  "copying val cells copy \<Longrightarrow> (\<And>xs. sel (con xs) = Some xs) \<Longrightarrow> copying_kind val cells copy con sel"
  by (simp add: copying_kind_def copying_kind_axioms_def)

interpretation filter_kind: copying_kind filter_val filter_cells FilterRef_DeepCopyInto FilterRefs
  "kind is_FilterRefs filter_refs"
  by (rule copying_kindI [OF FilterRef_copying kind_con(3)])

interpretation bool_kind: copying_kind plain_val no_cells assign Bools "kind is_Bools bools"
  by (rule copying_kindI [OF plain.copying_axioms kind_con(1)])

interpretation patch_kind: copying_kind plain_val no_cells assign PatchArr "kind is_PatchArr patches"
  by (rule copying_kindI [OF plain.copying_axioms kind_con(5)])

section \<open>The copies of a SleepInfo\<close>

abbreviation filters_val :: "('m, 'l, 'x) goheap \<Rightarrow> slice option \<Rightarrow> FilterRef list option" where
  "filters_val \<equiv> slice_val (kind is_FilterRefs filter_refs) filter_val"

abbreviation filters_cells :: "('m, 'l, 'x) goheap \<Rightarrow> slice option \<Rightarrow> addr set" where
  "filters_cells \<equiv> slice_cells (kind is_FilterRefs filter_refs) filter_cells"

abbreviation bool_val :: "('m, 'l, 'x) goheap \<Rightarrow> ptr option \<Rightarrow> bool option option" where
  "bool_val \<equiv> ptr_val (kind is_Bools bools) plain_val"

abbreviation bool_cells :: "('m, 'l, 'x) goheap \<Rightarrow> ptr option \<Rightarrow> addr set" where
  "bool_cells \<equiv> ptr_cells (kind is_Bools bools) no_cells"

abbreviation patches_val :: "('m, 'l, 'x) goheap \<Rightarrow> slice option \<Rightarrow> Patch list option" where
  "patches_val \<equiv> slice_val (kind is_PatchArr patches) plain_val"

abbreviation patches_cells :: "('m, 'l, 'x) goheap \<Rightarrow> slice option \<Rightarrow> addr set" where
  "patches_cells \<equiv> slice_cells (kind is_PatchArr patches) no_cells"

text \<open>The references of a spec, in the order in which they are copied.\<close>

type_synonym spec_refs = "slice option \<times> slice option \<times> ptr option \<times> ptr option \<times> slice option"

definition spec_refs :: "SleepInfoSpec_mem \<Rightarrow> spec_refs" where
  "spec_refs s = (sm_ExcludeRef s, sm_IncludeRef s, sm_SuspendDeployments s, sm_SuspendStatefulSets s, sm_Patches s)"

fun put_spec_refs :: "spec_refs \<Rightarrow> SleepInfoSpec_mem \<Rightarrow> SleepInfoSpec_mem" where
  "put_spec_refs (ex, inc, dep, sts, ps) s =
     s\<lparr>sm_ExcludeRef := ex, sm_IncludeRef := inc, sm_SuspendDeployments := dep,
       sm_SuspendStatefulSets := sts, sm_Patches := ps\<rparr>"

fun spec_value ::
    "SleepInfoSpec_mem \<Rightarrow> FilterRef list \<times> FilterRef list \<times> bool option \<times> bool option \<times> Patch list \<Rightarrow>
     SleepInfoSpec" where
  "spec_value s (ex, inc, dep, sts, ps) =
     \<lparr>Weekdays = sm_Weekdays s, SleepTime = sm_SleepTime s, WakeUpTime = sm_WakeUpTime s,
      TimeZone = sm_TimeZone s, ExcludeRef = ex, IncludeRef = inc, SuspendCronjobs = sm_SuspendCronjobs s,
      SuspendDeployments = dep, SuspendStatefulSets = sts, Patches = ps\<rparr>"

definition spec_val :: "('m, 'l, 'x) goheap \<Rightarrow> SleepInfoSpec_mem \<Rightarrow> SleepInfoSpec option" where
  "spec_val = struct_val
     (pair_val filters_val (pair_val filters_val (pair_val bool_val (pair_val bool_val patches_val))))
     spec_refs spec_value"

definition spec_cells :: "('m, 'l, 'x) goheap \<Rightarrow> SleepInfoSpec_mem \<Rightarrow> addr set" where
  "spec_cells = struct_cells
     (pair_cells filters_cells (pair_cells filters_cells (pair_cells bool_cells (pair_cells bool_cells patches_cells))))
     spec_refs"

abbreviation filters_copy :: "('m, 'l, 'x, slice option) copier" where
  "filters_copy \<equiv> slice_copy FilterRefs (kind is_FilterRefs filter_refs) FilterRef_DeepCopyInto"

abbreviation bool_copy :: "('m, 'l, 'x, ptr option) copier" where
  "bool_copy \<equiv> new_copy Bools (kind is_Bools bools) assign"

abbreviation patches_copy :: "('m, 'l, 'x, slice option) copier" where
  "patches_copy \<equiv> slice_copy PatchArr (kind is_PatchArr patches) assign"

interpretation spec4: copying_pair bool_val bool_cells bool_copy patches_val patches_cells patches_copy
  by unfold_locales

interpretation spec3: copying_pair bool_val bool_cells bool_copy
  "pair_val bool_val patches_val" "pair_cells bool_cells patches_cells" "pair_copy bool_copy patches_copy"
  by unfold_locales

interpretation spec2: copying_pair filters_val filters_cells filters_copy
  "pair_val bool_val (pair_val bool_val patches_val)" "pair_cells bool_cells (pair_cells bool_cells patches_cells)"
  "pair_copy bool_copy (pair_copy bool_copy patches_copy)"
  by unfold_locales

interpretation spec1: copying_pair filters_val filters_cells filters_copy
  "pair_val filters_val (pair_val bool_val (pair_val bool_val patches_val))"
  "pair_cells filters_cells (pair_cells bool_cells (pair_cells bool_cells patches_cells))"
  "pair_copy filters_copy (pair_copy bool_copy (pair_copy bool_copy patches_copy))"
  by unfold_locales

interpretation spec_struct: copying_struct
  "pair_val filters_val (pair_val filters_val (pair_val bool_val (pair_val bool_val patches_val)))"
  "pair_cells filters_cells (pair_cells filters_cells (pair_cells bool_cells (pair_cells bool_cells patches_cells)))"
  "pair_copy filters_copy (pair_copy filters_copy (pair_copy bool_copy (pair_copy bool_copy patches_copy)))"
  spec_refs put_spec_refs spec_value
  by unfold_locales (auto simp: spec_refs_def fun_eq_iff)

lemma SleepInfoSpec_DeepCopyInto_struct:
  "SleepInfoSpec_DeepCopyInto =
   struct_copy (pair_copy filters_copy (pair_copy filters_copy (pair_copy bool_copy (pair_copy bool_copy patches_copy))))
     spec_refs put_spec_refs"
  by (simp add: SleepInfoSpec_DeepCopyInto_def struct_copy_def pair_copy_def spec_refs_def fun_eq_iff Let_def
      split: prod.split)

lemma SleepInfoSpec_copying: "copying spec_val spec_cells SleepInfoSpec_DeepCopyInto"
  unfolding spec_val_def spec_cells_def SleepInfoSpec_DeepCopyInto_struct
  by (rule spec_struct.structs.copying_axioms)

interpretation spec: copying_kind spec_val spec_cells SleepInfoSpec_DeepCopyInto Specs "kind is_Specs specs"
  by (rule copying_kindI [OF SleepInfoSpec_copying kind_con(6)])

section \<open>Copies that rely on the metadata\<close>

text \<open>
  What \<open>apimachinery\<close> promises: the copies of \<open>ObjectMeta\<close> and \<open>ListMeta\<close> are deep copies,
  and a \<open>Time\<close>, which has no references of its own, is copied as a value.
\<close>

locale metadata =
  om: copying meta_val meta_cells "ObjectMeta_DeepCopyInto M" +
  lm: copying list_val list_cells "ListMeta_DeepCopyInto M" +
  tm: copying plain_val no_cells "Time_DeepCopyInto M" +
  tp: copying "ptr_val (kind is_Times times) plain_val" "ptr_cells (kind is_Times times) no_cells" "Time_DeepCopy M"
  for meta_val :: "('m, 'l, 'x) goheap \<Rightarrow> 'm \<Rightarrow> ObjectMeta option" and meta_cells
    and list_val :: "('m, 'l, 'x) goheap \<Rightarrow> 'l \<Rightarrow> 'v option" and list_cells
    and M :: "('m, 'l, 'x) meta_lib"

definition status_val :: "('m, 'l, 'x) goheap \<Rightarrow> SleepInfoStatus \<Rightarrow> SleepInfoStatus option" where
  "status_val = struct_val plain_val LastScheduleTime (\<lambda>s t. s\<lparr>LastScheduleTime := t\<rparr>)"

definition status_cells :: "('m, 'l, 'x) goheap \<Rightarrow> SleepInfoStatus \<Rightarrow> addr set" where
  "status_cells = struct_cells no_cells LastScheduleTime"

fun sleepinfo_value :: "'m SleepInfo_mem \<Rightarrow> ObjectMeta \<times> SleepInfoSpec \<times> SleepInfoStatus \<Rightarrow> TypeMeta \<times> SleepInfo" where
  "sleepinfo_value s (meta, spec, status) =
     (sim_TypeMeta s, \<lparr>si_Meta = meta, si_Spec = spec, si_Status = status\<rparr>)"

definition sleepinfo_val ::
    "(('m, 'l, 'x) goheap \<Rightarrow> 'm \<Rightarrow> ObjectMeta option) \<Rightarrow> ('m, 'l, 'x) goheap \<Rightarrow> 'm SleepInfo_mem \<Rightarrow>
     (TypeMeta \<times> SleepInfo) option" where
  "sleepinfo_val meta_val = struct_val (pair_val meta_val (pair_val spec_val status_val))
     (\<lambda>s. (sim_ObjectMeta s, sim_Spec s, sim_Status s)) sleepinfo_value"

definition sleepinfo_cells ::
    "(('m, 'l, 'x) goheap \<Rightarrow> 'm \<Rightarrow> addr set) \<Rightarrow> ('m, 'l, 'x) goheap \<Rightarrow> 'm SleepInfo_mem \<Rightarrow> addr set" where
  "sleepinfo_cells meta_cells = struct_cells (pair_cells meta_cells (pair_cells spec_cells status_cells))
     (\<lambda>s. (sim_ObjectMeta s, sim_Spec s, sim_Status s))"

text \<open>The meaning of a list: its metadata and its items.\<close>

definition listing_val ::
    "(('m, 'l, 'x) goheap \<Rightarrow> 'l \<Rightarrow> 'v option) \<Rightarrow> (('m, 'l, 'x) goheap \<Rightarrow> slice option \<Rightarrow> 'w option) \<Rightarrow>
     ('m, 'l, 'x) goheap \<Rightarrow> 'l List_mem \<Rightarrow> (TypeMeta \<times> 'v \<times> 'w) option" where
  "listing_val list_val items_val =
     struct_val (pair_val list_val items_val) (\<lambda>s. (lm_ListMeta s, lm_Items s)) (\<lambda>s v. (lm_TypeMeta s, v))"

definition listing_cells ::
    "(('m, 'l, 'x) goheap \<Rightarrow> 'l \<Rightarrow> addr set) \<Rightarrow> (('m, 'l, 'x) goheap \<Rightarrow> slice option \<Rightarrow> addr set) \<Rightarrow>
     ('m, 'l, 'x) goheap \<Rightarrow> 'l List_mem \<Rightarrow> addr set" where
  "listing_cells list_cells items_cells =
     struct_cells (pair_cells list_cells items_cells) (\<lambda>s. (lm_ListMeta s, lm_Items s))"

fun put_listing :: "'l \<times> slice option \<Rightarrow> 'l List_mem \<Rightarrow> 'l List_mem" where
  "put_listing (meta, items) s = s\<lparr>lm_ListMeta := meta, lm_Items := items\<rparr>"

definition times_val :: "('m, 'l, 'x) goheap \<Rightarrow> ptr option \<Rightarrow> gotime option option" where
  "times_val = ptr_val (kind is_Times times) plain_val"

definition times_cells :: "('m, 'l, 'x) goheap \<Rightarrow> ptr option \<Rightarrow> addr set" where
  "times_cells = ptr_cells (kind is_Times times) no_cells"

fun exec_status_value ::
    "SleepInfoExecutionStatus_mem \<Rightarrow> gotime option \<times> gotime option \<Rightarrow> SleepInfoExecutionStatus" where
  "exec_status_value s (start, completion) =
     \<lparr>Phase = esm_Phase s, StartTime = start, CompletionTime = completion, Message = esm_Message s\<rparr>"

definition exec_status_val ::
    "('m, 'l, 'x) goheap \<Rightarrow> SleepInfoExecutionStatus_mem \<Rightarrow> SleepInfoExecutionStatus option" where
  "exec_status_val = struct_val (pair_val times_val times_val) (\<lambda>s. (esm_StartTime s, esm_CompletionTime s))
     exec_status_value"

definition exec_status_cells :: "('m, 'l, 'x) goheap \<Rightarrow> SleepInfoExecutionStatus_mem \<Rightarrow> addr set" where
  "exec_status_cells = struct_cells (pair_cells times_cells times_cells) (\<lambda>s. (esm_StartTime s, esm_CompletionTime s))"

fun execution_value ::
    "'m SleepInfoExecution_mem \<Rightarrow> ObjectMeta \<times> SleepInfoExecutionStatus \<Rightarrow> TypeMeta \<times> SleepInfoExecution" where
  "execution_value s (meta, status) =
     (exm_TypeMeta s, \<lparr>ex_Meta = meta, ex_Spec = exm_Spec s, ex_Status = status\<rparr>)"

definition execution_val ::
    "(('m, 'l, 'x) goheap \<Rightarrow> 'm \<Rightarrow> ObjectMeta option) \<Rightarrow> ('m, 'l, 'x) goheap \<Rightarrow> 'm SleepInfoExecution_mem \<Rightarrow>
     (TypeMeta \<times> SleepInfoExecution) option" where
  "execution_val meta_val = struct_val (pair_val meta_val exec_status_val)
     (\<lambda>s. (exm_ObjectMeta s, exm_Status s)) execution_value"

definition execution_cells ::
    "(('m, 'l, 'x) goheap \<Rightarrow> 'm \<Rightarrow> addr set) \<Rightarrow> ('m, 'l, 'x) goheap \<Rightarrow> 'm SleepInfoExecution_mem \<Rightarrow> addr set" where
  "execution_cells meta_cells = struct_cells (pair_cells meta_cells exec_status_cells)
     (\<lambda>s. (exm_ObjectMeta s, exm_Status s))"

text \<open>\<open>if in != nil { *out = (*in).DeepCopy() }\<close>.\<close>

definition guarded :: "('m, 'l, 'x, ptr option) copier \<Rightarrow> ('m, 'l, 'x, ptr option) copier" where
  "guarded copy p h = (if p \<noteq> None then copy p h else (p, h))"

context metadata
begin

lemma guarded_copying: "copying times_val times_cells (guarded (Time_DeepCopy M))"
proof -
  have "representing (times_val :: ('m, 'l, 'x) goheap \<Rightarrow> ptr option \<Rightarrow> gotime option option) times_cells"
    unfolding times_val_def times_cells_def by (rule tp.representing_axioms)
  moreover have "copying_axioms times_val times_cells (guarded (Time_DeepCopy M))"
  proof
    fix h h' p q v
    assume "heap_ok h" and "times_val h p = Some v" and "guarded (Time_DeepCopy M) p h = (q, h')"
    then show "extends h h' \<and> times_val h' q = Some v \<and> times_cells h' q \<subseteq> {h_next h ..< h_next h'}"
      using tp.copies [of h p v q h']
      by (cases p) (auto simp: guarded_def times_val_def times_cells_def ptr_cells_def extends_refl)
  qed
  ultimately show ?thesis by (simp add: copying_def)
qed

end

sublocale metadata \<subseteq> status_struct: copying_struct plain_val no_cells "Time_DeepCopyInto M" LastScheduleTime
  "\<lambda>t s. s\<lparr>LastScheduleTime := t\<rparr>" "\<lambda>s t. s\<lparr>LastScheduleTime := t\<rparr>"
  by unfold_locales (simp_all add: fun_eq_iff)

context metadata
begin

lemma status_copying: "copying status_val status_cells (SleepInfoStatus_DeepCopyInto M)"
proof -
  have "SleepInfoStatus_DeepCopyInto M =
      struct_copy (Time_DeepCopyInto M) LastScheduleTime (\<lambda>t s. s\<lparr>LastScheduleTime := t\<rparr>)"
    by (simp add: SleepInfoStatus_DeepCopyInto_def struct_copy_def fun_eq_iff)
  then show ?thesis
    unfolding status_val_def status_cells_def by (simp add: status_struct.structs.copying_axioms)
qed

end

sublocale metadata \<subseteq> status: copying_kind status_val status_cells "SleepInfoStatus_DeepCopyInto M" Statuses
  "kind is_Statuses statuses"
  by (rule copying_kindI [OF status_copying kind_con(7)])

sublocale metadata \<subseteq> info_pair2: copying_pair spec_val spec_cells SleepInfoSpec_DeepCopyInto
  status_val status_cells "SleepInfoStatus_DeepCopyInto M"
  by unfold_locales

sublocale metadata \<subseteq> info_pair1: copying_pair meta_val meta_cells "ObjectMeta_DeepCopyInto M"
  "pair_val spec_val status_val" "pair_cells spec_cells status_cells"
  "pair_copy SleepInfoSpec_DeepCopyInto (SleepInfoStatus_DeepCopyInto M)"
  by unfold_locales

fun put_sleepinfo :: "'m \<times> SleepInfoSpec_mem \<times> SleepInfoStatus \<Rightarrow> 'm SleepInfo_mem \<Rightarrow> 'm SleepInfo_mem" where
  "put_sleepinfo (meta, spec, status) s = s\<lparr>sim_ObjectMeta := meta, sim_Spec := spec, sim_Status := status\<rparr>"

sublocale metadata \<subseteq> info_struct: copying_struct "pair_val meta_val (pair_val spec_val status_val)"
  "pair_cells meta_cells (pair_cells spec_cells status_cells)"
  "pair_copy (ObjectMeta_DeepCopyInto M) (pair_copy SleepInfoSpec_DeepCopyInto (SleepInfoStatus_DeepCopyInto M))"
  "\<lambda>s. (sim_ObjectMeta s, sim_Spec s, sim_Status s)" put_sleepinfo sleepinfo_value
  by unfold_locales (auto simp: fun_eq_iff)

context metadata
begin

lemma SleepInfo_copying:
  "copying (sleepinfo_val meta_val) (sleepinfo_cells meta_cells) (SleepInfo_DeepCopyInto M)"
proof -
  have "SleepInfo_DeepCopyInto M = struct_copy
      (pair_copy (ObjectMeta_DeepCopyInto M) (pair_copy SleepInfoSpec_DeepCopyInto (SleepInfoStatus_DeepCopyInto M)))
      (\<lambda>s. (sim_ObjectMeta s, sim_Spec s, sim_Status s)) put_sleepinfo"
    by (simp add: SleepInfo_DeepCopyInto_def struct_copy_def pair_copy_def fun_eq_iff Let_def split: prod.split)
  then show ?thesis
    unfolding sleepinfo_val_def sleepinfo_cells_def by (simp add: info_struct.structs.copying_axioms)
qed

end

sublocale metadata \<subseteq> info: copying_kind "sleepinfo_val meta_val" "sleepinfo_cells meta_cells" "SleepInfo_DeepCopyInto M"
  SleepInfos "kind is_SleepInfos sleep_infos"
  by (rule copying_kindI [OF SleepInfo_copying kind_con(8)])

section \<open>Executions and lists\<close>

sublocale metadata \<subseteq> exec_times: copying_pair times_val times_cells "guarded (Time_DeepCopy M)"
  times_val times_cells "guarded (Time_DeepCopy M)"
  by (simp add: copying_pair_def guarded_copying)

fun put_exec_times ::
    "ptr option \<times> ptr option \<Rightarrow> SleepInfoExecutionStatus_mem \<Rightarrow> SleepInfoExecutionStatus_mem" where
  "put_exec_times (start, completion) s = s\<lparr>esm_StartTime := start, esm_CompletionTime := completion\<rparr>"

sublocale metadata \<subseteq> exec_status_struct: copying_struct "pair_val times_val times_val" "pair_cells times_cells times_cells"
  "pair_copy (guarded (Time_DeepCopy M)) (guarded (Time_DeepCopy M))"
  "\<lambda>s. (esm_StartTime s, esm_CompletionTime s)" put_exec_times exec_status_value
  by unfold_locales (auto simp: fun_eq_iff)

context metadata
begin

lemma exec_status_copying:
  "copying exec_status_val exec_status_cells (SleepInfoExecutionStatus_DeepCopyInto M)"
proof -
  have "SleepInfoExecutionStatus_DeepCopyInto M = struct_copy
      (pair_copy (guarded (Time_DeepCopy M)) (guarded (Time_DeepCopy M)))
      (\<lambda>s. (esm_StartTime s, esm_CompletionTime s)) put_exec_times"
    by (simp add: SleepInfoExecutionStatus_DeepCopyInto_def struct_copy_def pair_copy_def guarded_def fun_eq_iff
        split: prod.split)
  then show ?thesis
    unfolding exec_status_val_def exec_status_cells_def by (simp add: exec_status_struct.structs.copying_axioms)
qed

end

sublocale metadata \<subseteq> execution_pair: copying_pair meta_val meta_cells "ObjectMeta_DeepCopyInto M"
  exec_status_val exec_status_cells "SleepInfoExecutionStatus_DeepCopyInto M"
  by (simp add: copying_pair_def om.copying_axioms exec_status_copying)

fun put_execution ::
    "'m \<times> SleepInfoExecutionStatus_mem \<Rightarrow> 'm SleepInfoExecution_mem \<Rightarrow> 'm SleepInfoExecution_mem" where
  "put_execution (meta, status) s = s\<lparr>exm_ObjectMeta := meta, exm_Status := status\<rparr>"

sublocale metadata \<subseteq> execution_struct: copying_struct "pair_val meta_val exec_status_val"
  "pair_cells meta_cells exec_status_cells"
  "pair_copy (ObjectMeta_DeepCopyInto M) (SleepInfoExecutionStatus_DeepCopyInto M)"
  "\<lambda>s. (exm_ObjectMeta s, exm_Status s)" put_execution execution_value
  by unfold_locales (auto simp: fun_eq_iff)

context metadata
begin

lemma execution_copying:
  "copying (execution_val meta_val) (execution_cells meta_cells) (SleepInfoExecution_DeepCopyInto M)"
proof -
  have "SleepInfoExecution_DeepCopyInto M = struct_copy
      (pair_copy (ObjectMeta_DeepCopyInto M) (SleepInfoExecutionStatus_DeepCopyInto M))
      (\<lambda>s. (exm_ObjectMeta s, exm_Status s)) put_execution"
    by (simp add: SleepInfoExecution_DeepCopyInto_def struct_copy_def pair_copy_def fun_eq_iff Let_def
        split: prod.split)
  then show ?thesis
    unfolding execution_val_def execution_cells_def by (simp add: execution_struct.structs.copying_axioms)
qed

end

sublocale metadata \<subseteq> execution: copying_kind "execution_val meta_val" "execution_cells meta_cells"
  "SleepInfoExecution_DeepCopyInto M" Executions "kind is_Executions executions"
  by (rule copying_kindI [OF execution_copying kind_con(11)])

text \<open>A list of either kind copies its metadata and its items.\<close>

locale listing = lm: copying list_val list_cells list_copy + items: copying items_val items_cells items_copy
  for list_val :: "('m, 'l, 'x) goheap \<Rightarrow> 'l \<Rightarrow> 'v option" and list_cells and list_copy
    and items_val :: "('m, 'l, 'x) goheap \<Rightarrow> slice option \<Rightarrow> 'w option" and items_cells and items_copy

sublocale listing \<subseteq> parts: copying_pair list_val list_cells list_copy items_val items_cells items_copy
  by unfold_locales

sublocale listing \<subseteq> struct: copying_struct "pair_val list_val items_val" "pair_cells list_cells items_cells"
  "pair_copy list_copy items_copy" "\<lambda>s. (lm_ListMeta s, lm_Items s)" put_listing "\<lambda>s v. (lm_TypeMeta s, v)"
  by unfold_locales (auto simp: fun_eq_iff)

context listing
begin

lemma listing_copying:
  assumes "\<And>s h. copy s h =
    (let out = s\<lparr>lm_TypeMeta := lm_TypeMeta s\<rparr> in
     case list_copy (lm_ListMeta s) h of (meta, h1) \<Rightarrow>
     case items_copy (lm_Items s) h1 of (items, h2) \<Rightarrow> (out\<lparr>lm_ListMeta := meta, lm_Items := items\<rparr>, h2))"
  shows "copying (listing_val list_val items_val) (listing_cells list_cells items_cells) copy"
proof -
  have "copy = struct_copy (pair_copy list_copy items_copy) (\<lambda>s. (lm_ListMeta s, lm_Items s)) put_listing"
    by (simp add: assms struct_copy_def pair_copy_def fun_eq_iff split: prod.split)
  then show ?thesis
    unfolding listing_val_def listing_cells_def by (simp add: struct.structs.copying_axioms)
qed

end

sublocale metadata \<subseteq> infos: listing list_val list_cells "ListMeta_DeepCopyInto M"
  "slice_val (kind is_SleepInfos sleep_infos) (sleepinfo_val meta_val)"
  "slice_cells (kind is_SleepInfos sleep_infos) (sleepinfo_cells meta_cells)"
  "slice_copy SleepInfos (kind is_SleepInfos sleep_infos) (SleepInfo_DeepCopyInto M)"
  by unfold_locales

sublocale metadata \<subseteq> executions: listing list_val list_cells "ListMeta_DeepCopyInto M"
  "slice_val (kind is_Executions executions) (execution_val meta_val)"
  "slice_cells (kind is_Executions executions) (execution_cells meta_cells)"
  "slice_copy Executions (kind is_Executions executions) (SleepInfoExecution_DeepCopyInto M)"
  by unfold_locales

definition infos_val ::
    "(('m, 'l, 'x) goheap \<Rightarrow> 'm \<Rightarrow> ObjectMeta option) \<Rightarrow> (('m, 'l, 'x) goheap \<Rightarrow> 'l \<Rightarrow> 'v option) \<Rightarrow>
     ('m, 'l, 'x) goheap \<Rightarrow> 'l List_mem \<Rightarrow> (TypeMeta \<times> 'v \<times> (TypeMeta \<times> SleepInfo) list) option" where
  "infos_val meta_val list_val =
     listing_val list_val (slice_val (kind is_SleepInfos sleep_infos) (sleepinfo_val meta_val))"

definition infos_cells ::
    "(('m, 'l, 'x) goheap \<Rightarrow> 'm \<Rightarrow> addr set) \<Rightarrow> (('m, 'l, 'x) goheap \<Rightarrow> 'l \<Rightarrow> addr set) \<Rightarrow>
     ('m, 'l, 'x) goheap \<Rightarrow> 'l List_mem \<Rightarrow> addr set" where
  "infos_cells meta_cells list_cells =
     listing_cells list_cells (slice_cells (kind is_SleepInfos sleep_infos) (sleepinfo_cells meta_cells))"

definition executions_val ::
    "(('m, 'l, 'x) goheap \<Rightarrow> 'm \<Rightarrow> ObjectMeta option) \<Rightarrow> (('m, 'l, 'x) goheap \<Rightarrow> 'l \<Rightarrow> 'v option) \<Rightarrow>
     ('m, 'l, 'x) goheap \<Rightarrow> 'l List_mem \<Rightarrow> (TypeMeta \<times> 'v \<times> (TypeMeta \<times> SleepInfoExecution) list) option" where
  "executions_val meta_val list_val =
     listing_val list_val (slice_val (kind is_Executions executions) (execution_val meta_val))"

definition executions_cells ::
    "(('m, 'l, 'x) goheap \<Rightarrow> 'm \<Rightarrow> addr set) \<Rightarrow> (('m, 'l, 'x) goheap \<Rightarrow> 'l \<Rightarrow> addr set) \<Rightarrow>
     ('m, 'l, 'x) goheap \<Rightarrow> 'l List_mem \<Rightarrow> addr set" where
  "executions_cells meta_cells list_cells =
     listing_cells list_cells (slice_cells (kind is_Executions executions) (execution_cells meta_cells))"

context metadata
begin

lemma SleepInfoList_copying:
  "copying (infos_val meta_val list_val) (infos_cells meta_cells list_cells) (SleepInfoList_DeepCopyInto M)"
  unfolding infos_val_def infos_cells_def
  by (rule infos.listing_copying) (simp add: SleepInfoList_DeepCopyInto_def)

lemma SleepInfoExecutionList_copying:
  "copying (executions_val meta_val list_val) (executions_cells meta_cells list_cells)
     (SleepInfoExecutionList_DeepCopyInto M)"
  unfolding executions_val_def executions_cells_def
  by (rule executions.listing_copying) (simp add: SleepInfoExecutionList_DeepCopyInto_def)

end

sublocale metadata \<subseteq> info_lists: copying_kind "infos_val meta_val list_val" "infos_cells meta_cells list_cells"
  "SleepInfoList_DeepCopyInto M" InfoLists "kind is_InfoLists info_lists"
  by (rule copying_kindI [OF SleepInfoList_copying kind_con(12)])

sublocale metadata \<subseteq> exec_lists: copying_kind "executions_val meta_val list_val"
  "executions_cells meta_cells list_cells" "SleepInfoExecutionList_DeepCopyInto M" ExecLists "kind is_ExecLists exec_lists"
  by (rule copying_kindI [OF SleepInfoExecutionList_copying kind_con(13)])

section \<open>Properties\<close>

text \<open>
  The copy at \<open>q\<close> of what \<open>p\<close> points to: both stand for the value \<open>v\<close>, they share no cell,
  and whatever is written to the cells of one of them, the other one keeps its value.
\<close>

definition independent_copy ::
    "(('m, 'l, 'x) goheap \<Rightarrow> ptr option \<Rightarrow> 'v option) \<Rightarrow> (('m, 'l, 'x) goheap \<Rightarrow> ptr option \<Rightarrow> addr set) \<Rightarrow>
     'v \<Rightarrow> ptr option \<Rightarrow> ptr option \<Rightarrow> ('m, 'l, 'x) goheap \<Rightarrow> bool" where
  "independent_copy val cells v p q h =
     (val h p = Some v \<and> val h q = Some v \<and> cells h p \<inter> cells h q = {} \<and>
      (\<forall>h'. (\<forall>a. a \<notin> cells h q \<longrightarrow> h_cell h' a = h_cell h a) \<longrightarrow> val h' p = Some v) \<and>
      (\<forall>h'. (\<forall>a. a \<notin> cells h p \<longrightarrow> h_cell h' a = h_cell h a) \<longrightarrow> val h' q = Some v))"

context copying_kind
begin

lemma new_copy_independent:
  assumes "heap_ok h" and "ptr_val sel val h p = Some v" and "new_copy con sel copy p h = (q, h')"
  shows "independent_copy (ptr_val sel val) (ptr_cells sel cells) v p q h' \<and> (q = None \<longleftrightarrow> p = None) \<and> extends h h'"
proof (intro conjI)
  show "independent_copy (ptr_val sel val) (ptr_cells sel cells) v p q h'"
    unfolding independent_copy_def using pointers.independent [OF assms] by blast
  show "q = None \<longleftrightarrow> p = None"
    using assms(2,3) by (auto simp: new_copy_def ptr_val_def split: option.splits prod.splits)
  show "extends h h'" using pointers.copies [OF assms] by blast
qed

end

definition sleepinfo_at ::
    "(('m, 'l, 'x) goheap \<Rightarrow> 'm \<Rightarrow> ObjectMeta option) \<Rightarrow> ('m, 'l, 'x) goheap \<Rightarrow> ptr option \<Rightarrow>
     (TypeMeta \<times> SleepInfo) option option" where
  "sleepinfo_at meta_val = ptr_val (kind is_SleepInfos sleep_infos) (sleepinfo_val meta_val)"

definition sleepinfo_at_cells ::
    "(('m, 'l, 'x) goheap \<Rightarrow> 'm \<Rightarrow> addr set) \<Rightarrow> ('m, 'l, 'x) goheap \<Rightarrow> ptr option \<Rightarrow> addr set" where
  "sleepinfo_at_cells meta_cells = ptr_cells (kind is_SleepInfos sleep_infos) (sleepinfo_cells meta_cells)"

definition info_list_at ::
    "(('m, 'l, 'x) goheap \<Rightarrow> 'm \<Rightarrow> ObjectMeta option) \<Rightarrow> (('m, 'l, 'x) goheap \<Rightarrow> 'l \<Rightarrow> 'v option) \<Rightarrow>
     ('m, 'l, 'x) goheap \<Rightarrow> ptr option \<Rightarrow> (TypeMeta \<times> 'v \<times> (TypeMeta \<times> SleepInfo) list) option option" where
  "info_list_at meta_val list_val = ptr_val (kind is_InfoLists info_lists) (infos_val meta_val list_val)"

definition info_list_at_cells ::
    "(('m, 'l, 'x) goheap \<Rightarrow> 'm \<Rightarrow> addr set) \<Rightarrow> (('m, 'l, 'x) goheap \<Rightarrow> 'l \<Rightarrow> addr set) \<Rightarrow>
     ('m, 'l, 'x) goheap \<Rightarrow> ptr option \<Rightarrow> addr set" where
  "info_list_at_cells meta_cells list_cells =
     ptr_cells (kind is_InfoLists info_lists) (infos_cells meta_cells list_cells)"

definition execution_list_at ::
    "(('m, 'l, 'x) goheap \<Rightarrow> 'm \<Rightarrow> ObjectMeta option) \<Rightarrow> (('m, 'l, 'x) goheap \<Rightarrow> 'l \<Rightarrow> 'v option) \<Rightarrow>
     ('m, 'l, 'x) goheap \<Rightarrow> ptr option \<Rightarrow> (TypeMeta \<times> 'v \<times> (TypeMeta \<times> SleepInfoExecution) list) option option" where
  "execution_list_at meta_val list_val = ptr_val (kind is_ExecLists exec_lists) (executions_val meta_val list_val)"

definition execution_list_at_cells ::
    "(('m, 'l, 'x) goheap \<Rightarrow> 'm \<Rightarrow> addr set) \<Rightarrow> (('m, 'l, 'x) goheap \<Rightarrow> 'l \<Rightarrow> addr set) \<Rightarrow>
     ('m, 'l, 'x) goheap \<Rightarrow> ptr option \<Rightarrow> addr set" where
  "execution_list_at_cells meta_cells list_cells =
     ptr_cells (kind is_ExecLists exec_lists) (executions_cells meta_cells list_cells)"

context metadata
begin

lemma SleepInfo_copy_independent:
  assumes "heap_ok h" and "sleepinfo_at meta_val h p = Some v" and "SleepInfo_DeepCopy M p h = (q, h')"
  shows "independent_copy (sleepinfo_at meta_val) (sleepinfo_at_cells meta_cells) v p q h' \<and>
    (q = None \<longleftrightarrow> p = None) \<and> extends h h'"
  using assms info.new_copy_independent [of h p v q h']
  by (simp add: sleepinfo_at_def sleepinfo_at_cells_def SleepInfo_DeepCopy_def)

lemma info_list_copy_independent:
  assumes "heap_ok h" and "info_list_at meta_val list_val h p = Some v"
    and "SleepInfoList_DeepCopyObject M p h = (obj, h')"
  shows "\<exists>q. obj = map_option (\<lambda>_. SleepInfoListObject q) p \<and> (q = None \<longleftrightarrow> p = None) \<and>
    independent_copy (info_list_at meta_val list_val) (info_list_at_cells meta_cells list_cells) v p q h'"
proof -
  obtain q where q: "SleepInfoList_DeepCopy M p h = (q, h')"
      "obj = (if q \<noteq> None then Some (SleepInfoListObject q) else None)"
    using assms(3) by (auto simp: SleepInfoList_DeepCopyObject_def split: prod.splits)
  with assms(1,2) info_lists.new_copy_independent [of h p v q h'] show ?thesis
    by (cases p) (auto simp: info_list_at_def info_list_at_cells_def SleepInfoList_DeepCopy_def)
qed

lemma execution_list_copy_independent:
  assumes "heap_ok h" and "execution_list_at meta_val list_val h p = Some v"
    and "SleepInfoExecutionList_DeepCopyObject M p h = (obj, h')"
  shows "\<exists>q. obj = map_option (\<lambda>_. ExecutionListObject q) p \<and> (q = None \<longleftrightarrow> p = None) \<and>
    independent_copy (execution_list_at meta_val list_val) (execution_list_at_cells meta_cells list_cells) v p q h'"
proof -
  obtain q where q: "SleepInfoExecutionList_DeepCopy M p h = (q, h')"
      "obj = (if q \<noteq> None then Some (ExecutionListObject q) else None)"
    using assms(3) by (auto simp: SleepInfoExecutionList_DeepCopyObject_def split: prod.splits)
  with assms(1,2) exec_lists.new_copy_independent [of h p v q h'] show ?thesis
    by (cases p) (auto simp: execution_list_at_def execution_list_at_cells_def SleepInfoExecutionList_DeepCopy_def)
qed

end

text \<open>
  C29: \<open>SleepInfo.DeepCopy\<close> is a deep copy: it returns nil exactly for nil, the copy stands
  for the same SleepInfo, shares no slice, map or pointer with the original, and writing
  to either leaves the other as it is; nothing allocated before is changed. That the
  copies of the metadata are deep is taken from \<open>apimachinery\<close>.
\<close>

theorem SleepInfo_DeepCopy_independent:
  assumes "metadata meta_val meta_cells list_val list_cells M" and "heap_ok h"
    and "sleepinfo_at meta_val h p = Some v" and "SleepInfo_DeepCopy M p h = (q, h')"
  shows "independent_copy (sleepinfo_at meta_val) (sleepinfo_at_cells meta_cells) v p q h' \<and>
    (q = None \<longleftrightarrow> p = None) \<and> extends h h'"
  by (rule metadata.SleepInfo_copy_independent [OF assms])

text \<open>
  Metadata as the other theories model them: values without references, which an
  assignment copies.
\<close>

definition value_meta :: "(ObjectMeta, unit, unit) meta_lib" where
  "value_meta =
     \<lparr>ObjectMeta_DeepCopyInto = assign, ListMeta_DeepCopyInto = assign, Time_DeepCopyInto = assign,
      Time_DeepCopy = new_copy Times (kind is_Times times) assign\<rparr>"

interpretation time_kind: copying_kind plain_val no_cells assign Times "kind is_Times times"
  by (rule copying_kindI [OF plain.copying_axioms kind_con(2)])

interpretation value_meta: metadata plain_val no_cells plain_val no_cells value_meta
  by (simp add: metadata_def value_meta_def plain.copying_axioms time_kind.pointers.copying_axioms)

text \<open>A SleepInfo with one filter by label in memory.\<close>

definition example_info_mem :: "ObjectMeta SleepInfo_mem" where
  "example_info_mem =
     \<lparr>sim_TypeMeta = \<lparr>tm_Kind = ''SleepInfo'', tm_APIVersion = ''kube-green.com/v1alpha1''\<rparr>,
      sim_ObjectMeta = example_meta,
      sim_Spec =
        \<lparr>sm_Weekdays = ''1-5'', sm_SleepTime = ''20:00'', sm_WakeUpTime = ''08:00'', sm_TimeZone = [],
         sm_ExcludeRef = Some \<lparr>sl_array = 1, sl_off = 0, sl_len = 1\<rparr>, sm_IncludeRef = None,
         sm_SuspendCronjobs = True, sm_SuspendDeployments = None, sm_SuspendStatefulSets = None,
         sm_Patches = None\<rparr>,
      sim_Status = \<lparr>LastScheduleTime = zero_time, OperationType = []\<rparr>\<rparr>"

definition example_heap :: "(ObjectMeta, unit, unit) goheap" where
  "example_heap =
     \<lparr>h_next = 3,
      h_cell = [0 \<mapsto> Labels [(''app'', ''db'')],
                1 \<mapsto> FilterRefs [\<lparr>frm_APIVersion = [], frm_Kind = [], frm_Name = [], frm_MatchLabels = Some 0\<rparr>],
                2 \<mapsto> SleepInfos [example_info_mem]]\<rparr>"

definition example_excluding :: SleepInfo where
  "example_excluding = example_sleepinfo\<lparr>si_Spec := example_spec\<lparr>
     ExcludeRef := [\<lparr>fr_APIVersion = [], fr_Kind = [], fr_Name = [], fr_MatchLabels = [(''app'', ''db'')]\<rparr>],
     SuspendStatefulSets := None\<rparr>\<rparr>"

lemma example_heap_ok: "heap_ok example_heap"
  by (simp add: heap_ok_def example_heap_def)

lemma example_heap_value:
  "sleepinfo_at plain_val example_heap (Some \<lparr>pt_array = 2, pt_index = 0\<rparr>) =
   Some (Some (sim_TypeMeta example_info_mem, example_excluding))"
  by (simp add: sleepinfo_at_def ptr_val_def deref_def example_heap_def kind_def sleepinfo_val_def struct_val_def
      pair_val_def plain_val_def spec_val_def spec_refs_def status_val_def slice_val_def slice_elems_def
      filter_val_def filter_value_def labels_val_def gm_wf_def example_info_mem_def example_excluding_def example_defs)

theorem SleepInfo_DeepCopy_independent_witness:
  "\<exists>q h'. SleepInfo_DeepCopy value_meta (Some \<lparr>pt_array = 2, pt_index = 0\<rparr>) example_heap = (q, h') \<and> q \<noteq> None \<and>
     sleepinfo_at plain_val h' q = Some (Some (sim_TypeMeta example_info_mem, example_excluding))"
proof -
  obtain q h' where c: "SleepInfo_DeepCopy value_meta (Some \<lparr>pt_array = 2, pt_index = 0\<rparr>) example_heap = (q, h')"
    by fastforce
  from SleepInfo_DeepCopy_independent [OF value_meta.metadata_axioms example_heap_ok example_heap_value c] c
  show ?thesis by (auto simp: independent_copy_def)
qed

text \<open>
  \<open>DeepCopyObject\<close> of the two list types returns a nil interface exactly for a nil
  list, and otherwise a new list of the same type whose items are deep copies: it stands
  for the same list and writing to either leaves the other as it is.
\<close>

lemma lists_DeepCopyObject_independent:
  assumes "metadata meta_val meta_cells list_val list_cells M" and "heap_ok h"
    and "info_list_at meta_val list_val h p1 = Some v1" and "SleepInfoList_DeepCopyObject M p1 h = (obj1, h1)"
    and "execution_list_at meta_val list_val h p2 = Some v2"
    and "SleepInfoExecutionList_DeepCopyObject M p2 h = (obj2, h2)"
  shows "(\<exists>q. obj1 = map_option (\<lambda>_. SleepInfoListObject q) p1 \<and> (q = None \<longleftrightarrow> p1 = None) \<and>
      independent_copy (info_list_at meta_val list_val) (info_list_at_cells meta_cells list_cells) v1 p1 q h1) \<and>
    (\<exists>q. obj2 = map_option (\<lambda>_. ExecutionListObject q) p2 \<and> (q = None \<longleftrightarrow> p2 = None) \<and>
      independent_copy (execution_list_at meta_val list_val) (execution_list_at_cells meta_cells list_cells) v2 p2 q h2)"
  using metadata.info_list_copy_independent [OF assms(1-4)]
    metadata.execution_list_copy_independent [OF assms(1,2,5,6)]
  by (rule conjI)

text \<open>A list of SleepInfos without items, and a list of one execution that has started.\<close>

definition no_type :: TypeMeta where
  "no_type = \<lparr>tm_Kind = [], tm_APIVersion = []\<rparr>"

definition example_lists_heap :: "(ObjectMeta, unit, unit) goheap" where
  "example_lists_heap =
     \<lparr>h_next = 4,
      h_cell = [0 \<mapsto> Times [zero_time],
                1 \<mapsto> Executions
                  [\<lparr>exm_TypeMeta = no_type, exm_ObjectMeta = example_meta,
                    exm_Spec = \<lparr>SleepInfoName = ''working-hours'', Operation = ExecutionOpSleep\<rparr>,
                    exm_Status = \<lparr>esm_Phase = [], esm_StartTime = Some \<lparr>pt_array = 0, pt_index = 0\<rparr>,
                      esm_CompletionTime = None, esm_Message = []\<rparr>\<rparr>],
                2 \<mapsto> ExecLists
                  [\<lparr>lm_TypeMeta = no_type, lm_ListMeta = (),
                    lm_Items = Some \<lparr>sl_array = 1, sl_off = 0, sl_len = 1\<rparr>\<rparr>],
                3 \<mapsto> InfoLists [\<lparr>lm_TypeMeta = no_type, lm_ListMeta = (), lm_Items = None\<rparr>]]\<rparr>"

definition example_running :: SleepInfoExecution where
  "example_running =
     \<lparr>ex_Meta = example_meta, ex_Spec = \<lparr>SleepInfoName = ''working-hours'', Operation = ExecutionOpSleep\<rparr>,
      ex_Status = \<lparr>Phase = [], StartTime = Some zero_time, CompletionTime = None, Message = []\<rparr>\<rparr>"

lemma example_lists_value:
  "heap_ok example_lists_heap"
  "info_list_at plain_val plain_val example_lists_heap (Some \<lparr>pt_array = 3, pt_index = 0\<rparr>) =
   Some (Some (no_type, (), []))"
  "execution_list_at plain_val plain_val example_lists_heap (Some \<lparr>pt_array = 2, pt_index = 0\<rparr>) =
   Some (Some (no_type, (), [(no_type, example_running)]))"
  by (simp_all add: heap_ok_def info_list_at_def infos_val_def execution_list_at_def ptr_val_def deref_def
      example_lists_heap_def kind_def executions_val_def listing_val_def struct_val_def pair_val_def plain_val_def
      slice_val_def slice_elems_def execution_val_def exec_status_val_def times_val_def example_running_def)

lemma lists_DeepCopyObject_independent_example:
  "(\<exists>q h'. SleepInfoList_DeepCopyObject value_meta (Some \<lparr>pt_array = 3, pt_index = 0\<rparr>) example_lists_heap =
      (Some (SleepInfoListObject q), h') \<and> info_list_at plain_val plain_val h' q = Some (Some (no_type, (), []))) \<and>
   (\<exists>q h'. SleepInfoExecutionList_DeepCopyObject value_meta (Some \<lparr>pt_array = 2, pt_index = 0\<rparr>) example_lists_heap =
      (Some (ExecutionListObject q), h') \<and>
     execution_list_at plain_val plain_val h' q = Some (Some (no_type, (), [(no_type, example_running)])))"
proof -
  obtain obj1 h1 where c1: "SleepInfoList_DeepCopyObject value_meta (Some \<lparr>pt_array = 3, pt_index = 0\<rparr>)
      example_lists_heap = (obj1, h1)" by fastforce
  obtain obj2 h2 where c2: "SleepInfoExecutionList_DeepCopyObject value_meta (Some \<lparr>pt_array = 2, pt_index = 0\<rparr>)
      example_lists_heap = (obj2, h2)" by fastforce
  from lists_DeepCopyObject_independent [OF value_meta.metadata_axioms example_lists_value(1,2) c1
      example_lists_value(3) c2] c1 c2
  show ?thesis by (fastforce simp: independent_copy_def)
qed

end
