(* ===== verification/Secrets.thy ===== *)
theory Secrets
  imports Schedule
begin

text \<open>
  \<open>internal/controller/sleepinfo/secrets.go\<close>: the secret in which the controller keeps
  the last operation of a SleepInfo and the restore patches; and, from
  \<open>internal/testutil/fakeclient.go\<close>, how a write merges \<open>StringData\<close> into \<open>Data\<close>.
\<close>

section \<open>The reconciler's dependencies\<close>

text \<open>
  The fields of \<open>SleepInfoReconciler\<close>: the client, the clock, the metrics gauge (its two
  operations, by name and namespace), the flags, and the libraries. \<open>MaxConcurrentReconciles\<close>
  configures the controller runtime only.
\<close>

record ('w, 's, 'p) SleepInfoReconciler =
  r_Client :: "'w client"
  r_Now :: "'w \<Rightarrow> gotime"
  r_MetricSet :: "string \<Rightarrow> string \<Rightarrow> int \<Rightarrow> 'w \<Rightarrow> 'w"
  r_MetricDelete :: "string \<Rightarrow> string \<Rightarrow> 'w \<Rightarrow> 'w"
  r_SleepDelta :: i64
  r_ManagerName :: string
  r_cron :: "'s cron_lib"
  r_libs :: "'p libs"
  r_tz :: tzdata
  r_SetOwnerReference :: "SleepInfo \<Rightarrow> OwnerReference list \<Rightarrow> OwnerReference list res"

section \<open>Secrets\<close>

definition getSecretName :: "string \<Rightarrow> string" where
  "getSecretName name = ''sleepinfo-'' @ name"

definition getSecret ::
    "('w, 's, 'p) SleepInfoReconciler \<Rightarrow> string \<Rightarrow> string \<Rightarrow> 'w \<Rightarrow> Secret res \<times> 'w" where
  "getSecret r secretName namespaceName w = GetSecret (r_Client r) namespaceName secretName w"

text \<open>The secret that \<open>upsertSecret\<close> writes, before \<open>Data\<close> is filled.\<close>

definition base_secret ::
    "('w, 's, 'p) SleepInfoReconciler \<Rightarrow> string \<Rightarrow> string \<Rightarrow> SleepInfo \<Rightarrow> Secret" where
  "base_secret r secretName namespace sleepInfo =
     \<lparr>sec_Meta =
        \<lparr>m_Name = secretName, m_Namespace = namespace, m_UID = [], m_ResourceVersion = [],
         m_Labels = [(''app.kubernetes.io/managed-by'', r_ManagerName r)],
         m_OwnerReferences =
           [\<lparr>or_APIVersion = GroupVersion_String, or_Kind = ''SleepInfo'',
             or_Name = m_Name (si_Meta sleepInfo), or_UID = m_UID (si_Meta sleepInfo)\<rparr>]\<rparr>,
      sec_Data = Some [], sec_StringData = Some []\<rparr>"

definition put_string :: "string \<Rightarrow> string \<Rightarrow> Secret \<Rightarrow> Secret" where
  "put_string k v s =
     s\<lparr>sec_StringData := map_option (gm_put k v) (sec_StringData s)\<rparr>"

definition new_secret ::
    "('w, 's, 'p) SleepInfoReconciler \<Rightarrow> gotime \<Rightarrow> string \<Rightarrow> string \<Rightarrow> SleepInfo \<Rightarrow> SleepInfoData \<Rightarrow>
     'w managedResources \<Rightarrow> Secret" where
  "new_secret r now secretName namespace sleepInfo sleepInfoData resources =
     (let s0 = base_secret r secretName namespace sleepInfo;
          s1 = put_string lastScheduleKey (format_RFC3339 (r_tz r) now) s0;
          s2 = (if HasResource resources
                then put_string lastOperationKey (CurrentOperationType sleepInfoData) s1 else s1)
      in if HasResource resources \<and> IsSleepOperation sleepInfoData
         then s2\<lparr>sec_Data :=
                Some [(originalJSONPatchDataKey,
                       case GetOriginalInfoToSave (r_libs r) resources of None \<Rightarrow> [] | Some d \<Rightarrow> d)]\<rparr>
         else s2)"

definition upsertSecret ::
    "('w, 's, 'p) SleepInfoReconciler \<Rightarrow> gotime \<Rightarrow> string \<Rightarrow> string \<Rightarrow> SleepInfo \<Rightarrow> Secret option \<Rightarrow>
     SleepInfoData \<Rightarrow> 'w managedResources \<Rightarrow> 'w \<Rightarrow> goerror option \<times> 'w" where
  "upsertSecret r now secretName namespace sleepInfo secret sleepInfoData resources w =
     (let newSecret = new_secret r now secretName namespace sleepInfo sleepInfoData resources in
      if secret = None then CreateSecret (r_Client r) newSecret w
      else UpdateSecret (r_Client r) newSecret w)"

section \<open>What the API server stores\<close>

text \<open>
  \<open>convertSecretStringData\<close>: on a write the entries of \<open>StringData\<close> overwrite those of
  \<open>Data\<close>, and \<open>StringData\<close> itself is not kept.
\<close>

definition convertSecretStringData :: "Secret \<Rightarrow> Secret" where
  "convertSecretStringData secret =
     (case sec_StringData secret of
        None \<Rightarrow> secret\<lparr>sec_StringData := None\<rparr>
      | Some sd \<Rightarrow>
          secret\<lparr>sec_Data := Some (fold (\<lambda>(k, v). gm_put k v) sd
                   (case sec_Data secret of None \<Rightarrow> [] | Some d \<Rightarrow> d)),
                 sec_StringData := None\<rparr>)"

section \<open>What the next reconcile reads\<close>

text \<open>The stored form of the secret that a run writes.\<close>

definition stored_secret ::
    "('w, 's, 'p) SleepInfoReconciler \<Rightarrow> gotime \<Rightarrow> string \<Rightarrow> string \<Rightarrow> SleepInfo \<Rightarrow> SleepInfoData \<Rightarrow>
     'w managedResources \<Rightarrow> Secret" where
  "stored_secret r now secretName namespace si data resources =
     convertSecretStringData (new_secret r now secretName namespace si data resources)"

lemma stored_secret_data:
  "\<exists>D. sec_Data (stored_secret r now secretName namespace si data g) = Some D \<and>
    gm_get D lastScheduleKey = Some (format_RFC3339 (r_tz r) now) \<and>
    gm_get D lastOperationKey = (if HasResource g then Some (CurrentOperationType data) else None) \<and>
    gm_get D originalJSONPatchDataKey =
      (if HasResource g \<and> IsSleepOperation data
       then Some (case GetOriginalInfoToSave (r_libs r) g of None \<Rightarrow> [] | Some d \<Rightarrow> d) else None) \<and>
    gm_get D replicasBeforeSleepKey = None \<and> gm_get D originalCronjobStatusKey = None"
  by (simp add: stored_secret_def new_secret_def convertSecretStringData_def base_secret_def
      put_string_def Let_def secret_keys)

lemma recorded_stored:
  "recorded_operation (Some (stored_secret r now secretName namespace si data g)) =
   (if HasResource g then CurrentOperationType data else [])"
  using stored_secret_data [of r now secretName namespace si data g]
  by (auto simp: recorded_operation_def data_string_def)

text \<open>The restore patches that a run leaves for the next one.\<close>

definition saved_patches ::
    "('w, 's, 'p) SleepInfoReconciler \<Rightarrow> SleepInfoData \<Rightarrow> 'w managedResources \<Rightarrow>
     (string, RestorePatches) gomap" where
  "saved_patches r data g =
     (if HasResource g \<and> IsSleepOperation data
      then data_to_save (resMapping g) (l_range (r_libs r) (map fst (resMapping g))) [] else [])"

definition savable :: "'w managedResources \<Rightarrow> bool" where
  "savable g = (gm_wf (resMapping g) \<and> list_all (\<lambda>(k, res). patches_good (g_restorePatches res)) (resMapping g))"

lemma savable_good: "savable g \<Longrightarrow> restore_good (Some (saved_patches r data g))"
proof -
  assume "savable g"
  then have "gm_get (resMapping g) k = Some res \<Longrightarrow> patches_good (g_restorePatches res)" for k res
    by (auto simp: savable_def list_all_iff dest!: map_of_SomeD)
  from data_to_save_good [OF _ this] show ?thesis
    by (simp add: saved_patches_def restore_good_def)
qed

lemma HasResource_nonempty: "HasResource g \<Longrightarrow> resMapping g \<noteq> []"
  by (auto simp: HasResource_def)

lemma getSleepInfoData_stored:
  assumes "printable (r_tz r) now" and "savable g"
    and "GetSleepSchedule si = Inr sleep" and "GetWakeUpSchedule si = Inr wake"
  shows "\<exists>d. getSleepInfoData (r_tz r) (Some (stored_secret r now secretName namespace si' data g)) si = Inr d \<and>
    LastSchedule d = truncated (r_tz r) now \<and>
    OriginalGenericResourceInfo d = Some (saved_patches r data g)"
proof -
  obtain D where D: "sec_Data (stored_secret r now secretName namespace si' data g) = Some D"
      "gm_get D lastScheduleKey = Some (format_RFC3339 (r_tz r) now)"
      "gm_get D originalJSONPatchDataKey =
        (if HasResource g \<and> IsSleepOperation data
         then Some (case GetOriginalInfoToSave (r_libs r) g of None \<Rightarrow> [] | Some d \<Rightarrow> d) else None)"
      "gm_get D replicasBeforeSleepKey = None" "gm_get D originalCronjobStatusKey = None"
    using stored_secret_data [of r now secretName namespace si' data g] by blast
  have info: "\<exists>info. GetOriginalInfoToRestore (gm_get D originalJSONPatchDataKey) = Inr info \<and>
      (case info of None \<Rightarrow> [] | Some m \<Rightarrow> m) = saved_patches r data g"
  proof (cases "HasResource g \<and> IsSleepOperation data")
    case True
    with GetOriginalInfoToRestore_marshal [OF savable_good [OF assms(2), of r data]] show ?thesis
      by (simp add: D(3) saved_patches_def GetOriginalInfoToSave_def HasResource_nonempty)
  next
    case False
    then show ?thesis by (auto simp: D(3) saved_patches_def GetOriginalInfoToRestore_def)
  qed
  then obtain info where info: "GetOriginalInfoToRestore (gm_get D originalJSONPatchDataKey) = Inr info"
      "(case info of None \<Rightarrow> [] | Some m \<Rightarrow> m) = saved_patches r data g" by blast
  have "convertOldSecretDataToNewFormat info D = Inr (saved_patches r data g)"
    using convertOld_new_format [OF D(4,5), of info] info(2) by simp
  then show ?thesis
    using info(1) D(1,2) assms(3,4) parse_format_RFC3339 [OF assms(1)]
    by (simp add: getSleepInfoData_def data_string_def Let_def)
qed

text \<open>
  C8: what a run writes is what the next one reads. The secret written after an operation,
  sleep or wake up, and merged by the API server records that operation when there were
  resources to manage and none otherwise; read again it gives the time of the run (to the
  second), the restore patches of all targets after a sleep of some resources and none
  otherwise, and as the operation due, with its schedule, the wake up after such a sleep if
  the SleepInfo has a wake up time, and the sleep in every other case.
\<close>

theorem secret_round_trip:
  assumes "printable (r_tz r) now" and "savable g"
    and "GetSleepSchedule si = Inr sleep" and "GetWakeUpSchedule si = Inr wake"
  shows "\<exists>d. getSleepInfoData (r_tz r)
        (Some (convertSecretStringData (new_secret r now secretName namespace si' data g))) si = Inr d \<and>
    recorded_operation (Some (convertSecretStringData (new_secret r now secretName namespace si' data g))) =
      (if HasResource g then CurrentOperationType data else '''') \<and>
    LastSchedule d = truncated (r_tz r) now \<and>
    OriginalGenericResourceInfo d =
      Some (if HasResource g \<and> IsSleepOperation data
            then data_to_save (resMapping g) (l_range (r_libs r) (map fst (resMapping g))) [] else []) \<and>
    (if HasResource g \<and> IsSleepOperation data \<and> WakeUpTime (si_Spec si) \<noteq> ''''
     then CurrentOperationType d = wakeUpOperation \<and> CurrentOperationSchedule d = wake
     else CurrentOperationType d = sleepOperation \<and> CurrentOperationSchedule d = sleep)"
proof -
  obtain d where d: "getSleepInfoData (r_tz r)
        (Some (stored_secret r now secretName namespace si' data g)) si = Inr d"
      "LastSchedule d = truncated (r_tz r) now" "OriginalGenericResourceInfo d = Some (saved_patches r data g)"
    using getSleepInfoData_stored [OF assms(1-4)] by blast
  have "IsWakeUpOperation d \<longleftrightarrow> HasResource g \<and> IsSleepOperation data \<and> WakeUpTime (si_Spec si) \<noteq> []"
    using getSleepInfoData_wake [OF d(1)] by (auto simp: recorded_stored IsSleepOperation_def operation_names)
  moreover have "data_ok si d" by (rule getSleepInfoData_ok [OF d(1)])
  ultimately show ?thesis
    using d recorded_stored [of r now secretName namespace si' data g] assms(3,4)
    by (auto simp: saved_patches_def stored_secret_def data_ok_def IsWakeUpOperation_def IsSleepOperation_def
        operation_names split: if_splits)
qed

section \<open>An example cluster with a secret\<close>

text \<open>
  A world that holds the deployments of a namespace, one SleepInfo, its secret and one
  execution; list calls may be made to fail, and every write is stored as the API server
  does it.
\<close>

record example_world =
  ew_objs :: "unstructured list"
  ew_list_error :: "goerror option"
  ew_info :: "SleepInfo option"
  ew_secret :: "Secret option"
  ew_execution :: "SleepInfoExecution option"
  ew_now :: gotime

definition found :: "string \<Rightarrow> 'a option \<Rightarrow> 'a res" where
  "found name x = (case x of None \<Rightarrow> Inl (NotFoundErr name) | Some v \<Rightarrow> Inr v)"

definition world_client :: "example_world client" where
  "world_client =
     \<lparr>RESTMapping = (\<lambda>gk w. Inr (GVK (gk_Group gk) ''v1'' (gk_Kind gk))),
      ListObjects = (\<lambda>gvk opts w.
        ((if gvk_Group gvk = ''apps'' \<and> gvk_Kind gvk = ''Deployment'' then ew_objs w else [], ew_list_error w), w)),
      ApplyObject = (\<lambda>obj owner w. (None, w\<lparr>ew_objs :=
        map (\<lambda>x. if obj_name x = obj_name obj then gm_put ''spec'' (the (gm_get obj ''spec'')) x else x)
          (ew_objs w)\<rparr>)),
      PatchObject = (\<lambda>new old w. (None, w\<lparr>ew_objs :=
        map (\<lambda>x. if obj_name x = obj_name new then new else x) (ew_objs w)\<rparr>)),
      GetSleepInfo = (\<lambda>ns n w. (found n (ew_info w), w)),
      GetExecution = (\<lambda>ns n w. (found n (ew_execution w), w)),
      GetSecret = (\<lambda>ns n w. (found n (ew_secret w), w)),
      CreateSecret = (\<lambda>s w. (None, w\<lparr>ew_secret := Some (convertSecretStringData s)\<rparr>)),
      UpdateSecret = (\<lambda>s w. (None, w\<lparr>ew_secret := Some (convertSecretStringData s)\<rparr>)),
      StatusUpdateSleepInfo = (\<lambda>s w. (None, w\<lparr>ew_info := Some s\<rparr>)),
      UpdateExecution = (\<lambda>e w. (Inr e, w\<lparr>ew_execution := Some e\<rparr>)),
      StatusUpdateExecution = (\<lambda>e w. (None, w\<lparr>ew_execution := Some e\<rparr>))\<rparr>"

definition example_reconciler :: "(example_world, unit, json) SleepInfoReconciler" where
  "example_reconciler =
     \<lparr>r_Client = world_client, r_Now = ew_now, r_MetricSet = (\<lambda>name ns v w. w),
      r_MetricDelete = (\<lambda>name ns w. w), r_SleepDelta = 60, r_ManagerName = ''kube-green'',
      r_cron = hourly_cron, r_libs = example_libs, r_tz = (\<lambda>t. 0),
      r_SetOwnerReference = (\<lambda>si refs. Inr refs)\<rparr>"

lemma example_reconciler_simps [simp]:
  "r_Client example_reconciler = world_client" "r_Now example_reconciler = ew_now"
  "r_MetricSet example_reconciler name ns v w = w" "r_MetricDelete example_reconciler name ns w = w"
  "r_SleepDelta example_reconciler = 60" "r_cron example_reconciler = hourly_cron"
  "r_libs example_reconciler = example_libs" "r_tz example_reconciler = (\<lambda>t. 0)"
  by (simp_all add: example_reconciler_def)

definition world_group :: "SleepInfo \<Rightarrow> unstructured list \<Rightarrow> example_world genericResource" where
  "world_group si items =
     \<lparr>g_Client = \<lparr>rc_Client = Some world_client, rc_SleepInfo = Some si, rc_FieldManagerName = ''kube-green''\<rparr>,
      g_patchData = deploymentPatch, g_restorePatches = Some [], g_data = items, g_isCacheInvalid = False\<rparr>"

definition world_resources :: "unstructured list \<Rightarrow> example_world managedResources" where
  "world_resources items =
     \<lparr>resMapping = [(DeploymentTarget, world_group example_sleepinfo items)], mr_namespace = ''default''\<rparr>"

lemma printable_start: "printable (\<lambda>t. 0) (at_ns 0)"
  by (simp add: printable_def Let_def zone_offset_def at_ns_def, code_simp)

text \<open>A deployment that was put to sleep, and the data of a wake up.\<close>

definition slept_group_resources :: "example_world managedResources" where
  "slept_group_resources =
     \<lparr>resMapping = [(DeploymentTarget, (world_group example_sleepinfo [example_obj ''a'' ''3''])
        \<lparr>g_restorePatches := Some [(''a'', ''{}'')]\<rparr>)], mr_namespace = ''default''\<rparr>"

definition wake_up_data :: SleepInfoData where
  "wake_up_data = (first_run_data ''a'' ''b'')\<lparr>CurrentOperationType := wakeUpOperation\<rparr>"

theorem secret_round_trip_witness:
  "(\<exists>d. getSleepInfoData (\<lambda>t. 0)
        (Some (convertSecretStringData (new_secret example_reconciler (at_ns 0) ''sleepinfo-a'' ''default''
           example_sleepinfo (first_run_data ''a'' ''b'') slept_group_resources))) example_sleepinfo = Inr d \<and>
      OriginalGenericResourceInfo d = Some [(''Deployment.apps'', Some [(''a'', ''{}'')])] \<and>
      CurrentOperationType d = wakeUpOperation) \<and>
   (\<exists>d. getSleepInfoData (\<lambda>t. 0)
        (Some (convertSecretStringData (new_secret example_reconciler (at_ns 0) ''sleepinfo-a'' ''default''
           example_sleepinfo wake_up_data slept_group_resources))) example_sleepinfo = Inr d \<and>
      OriginalGenericResourceInfo d = Some [] \<and> CurrentOperationType d = sleepOperation)"
proof -
  let ?g = slept_group_resources
  have now: "printable (r_tz example_reconciler) (at_ns 0)" using printable_start by simp
  have g: "savable ?g" by (simp add: savable_def slept_group_resources_def patches_good_def gm_wf_def)
  have facts: "HasResource ?g" "IsSleepOperation (first_run_data ''a'' ''b'')" "\<not> IsSleepOperation wake_up_data"
      "WakeUpTime (si_Spec example_sleepinfo) \<noteq> ''''"
      "data_to_save (resMapping ?g) (map fst (resMapping ?g)) [] = [(''Deployment.apps'', Some [(''a'', ''{}'')])]"
    by (simp_all add: HasResource_def slept_group_resources_def world_group_def IsSleepOperation_def first_run_data_def
        wake_up_data_def example_defs rp_empty_def target_string_def DeploymentTarget_def operation_names)
  note trip = secret_round_trip [OF now g example_schedules, of "''sleepinfo-a''" "''default''" example_sleepinfo,
      unfolded example_reconciler_simps example_libs_simps]
  from trip [of "first_run_data ''a'' ''b''"] trip [of wake_up_data] show ?thesis
    unfolding facts by (auto simp: facts)
qed

end
