(* ===== verification/Sleepinfo_Controller.thy ===== *)
theory Sleepinfo_Controller
  imports Secrets
begin

text \<open>
  \<open>internal/controller/sleepinfo/sleepinfo_controller.go\<close>: the reconciler of SleepInfo.
  Log calls are left out; the clock read that only feeds a log line is left out too.
\<close>

record Request =
  req_Namespace :: string
  req_Name :: string

record Result =
  Requeue :: bool
  RequeueAfter :: duration

definition empty_result :: Result where
  "empty_result = \<lparr>Requeue = False, RequeueAfter = 0\<rparr>"

definition requeue_result :: Result where
  "requeue_result = \<lparr>Requeue = True, RequeueAfter = 0\<rparr>"

definition after_result :: "duration \<Rightarrow> Result" where
  "after_result d = \<lparr>Requeue = False, RequeueAfter = d\<rparr>"

definition getSleepInfo ::
    "('w, 's, 'p) SleepInfoReconciler \<Rightarrow> Request \<Rightarrow> 'w \<Rightarrow> SleepInfo res \<times> 'w" where
  "getSleepInfo r req w = GetSleepInfo (r_Client r) (req_Namespace req) (req_Name req) w"

definition skipWakeUpIfSleepNotPerformed ::
    "'s cron_lib \<Rightarrow> string \<Rightarrow> gotime \<Rightarrow> gotime \<Rightarrow> duration res" where
  "skipWakeUpIfSleepNotPerformed cron currentOperationCronSchedule nextSchedule now =
     (case getCronParsed cron currentOperationCronSchedule of
        Inl e \<Rightarrow> Inl (Err (''fails to parse cron current schedule: '' @ error_text e))
      | Inr nextOpSched \<Rightarrow> Inr (getRequeueAfter (sched_Next cron nextOpSched nextSchedule) now))"

definition handleSleepInfoStatus ::
    "('w, 's, 'p) SleepInfoReconciler \<Rightarrow> gotime \<Rightarrow> SleepInfo \<Rightarrow> string \<Rightarrow> 'w managedResources \<Rightarrow>
     'w \<Rightarrow> goerror option \<times> 'w" where
  "handleSleepInfoStatus r now currentSleepInfo currentOperationType resources w =
     StatusUpdateSleepInfo (r_Client r)
       (currentSleepInfo\<lparr>si_Status :=
          \<lparr>LastScheduleTime = now,
           OperationType = (if HasResource resources then currentOperationType else '''')\<rparr>\<rparr>) w"

definition resource_client ::
    "('w, 's, 'p) SleepInfoReconciler \<Rightarrow> SleepInfo \<Rightarrow> 'w ResourceClient" where
  "resource_client r sleepInfo =
     \<lparr>rc_Client = Some (r_Client r), rc_SleepInfo = Some sleepInfo,
      rc_FieldManagerName = r_ManagerName r\<rparr>"

text \<open>
  The handler after \<open>NewResources\<close>: status, the branch without resources, the operation,
  the secret.
\<close>

definition reconcile_resources ::
    "('w, 's, 'p) SleepInfoReconciler \<Rightarrow> Request \<Rightarrow> SleepInfo \<Rightarrow> Secret option \<Rightarrow> SleepInfoData \<Rightarrow>
     gotime \<Rightarrow> gotime \<Rightarrow> duration \<Rightarrow> 'w managedResources \<Rightarrow> 'w \<Rightarrow> (Result \<times> goerror option) \<times> 'w"
where
  "reconcile_resources r req sleepInfo secret sleepInfoData now nextSchedule requeueAfter resources w =
     (let secretName = getSecretName (req_Name req);
          save = upsertSecret r now secretName (req_Namespace req) sleepInfo secret sleepInfoData
      in
      case handleSleepInfoStatus r now sleepInfo (CurrentOperationType sleepInfoData) resources w of
        (Some e, w1) \<Rightarrow> ((empty_result, Some e), w1)
      | (None, w1) \<Rightarrow>
     (if \<not> HasResource resources then
        (case save resources w1 of
           (Some e, w2) \<Rightarrow> ((requeue_result, None), w2)
         | (None, w2) \<Rightarrow>
             (if IsSleepOperation sleepInfoData then
                (case skipWakeUpIfSleepNotPerformed (r_cron r)
                        (CurrentOperationSchedule sleepInfoData) nextSchedule now of
                   Inl e \<Rightarrow> ((empty_result, None), w2)
                 | Inr d \<Rightarrow> ((after_result d, None), w2))
              else ((after_result requeueAfter, None), w2)))
      else if \<not> IsSleepOperation sleepInfoData \<and> \<not> IsWakeUpOperation sleepInfoData then
        ((empty_result,
          Some (Err (''operation '' @ CurrentOperationType sleepInfoData @ '' not supported''))), w1)
      else
        (case (if IsSleepOperation sleepInfoData then Sleep (r_libs r) resources w1
               else WakeUp (r_libs r) resources w1) of
           ((Some e, resources1), w2) \<Rightarrow> ((requeue_result, Some e), w2)
         | ((None, resources1), w2) \<Rightarrow>
             (case save resources1 w2 of
                (Some e, w3) \<Rightarrow> ((requeue_result, None), w3)
              | (None, w3) \<Rightarrow> ((after_result requeueAfter, None), w3)))))"

definition Reconcile ::
    "('w, 's, 'p) SleepInfoReconciler \<Rightarrow> Request \<Rightarrow> 'w \<Rightarrow> (Result \<times> goerror option) \<times> 'w" where
  "Reconcile r req w0 =
     (case getSleepInfo r req w0 of
        (Inl e, w1) \<Rightarrow>
          (let w2 = (if is_not_found e
                     then r_MetricDelete r (req_Name req) (req_Namespace req) w1 else w1)
           in ((empty_result, ignore_not_found e), w2))
      | (Inr sleepInfo, w1) \<Rightarrow>
     (let w2 = r_MetricSet r (req_Name req) (req_Namespace req) 1 w1 in
      case getSecret r (getSecretName (req_Name req)) (req_Namespace req) w2 of
        (secretRes, w3) \<Rightarrow>
     (case (case secretRes of Inl e \<Rightarrow> ignore_not_found e | Inr _ \<Rightarrow> None) of
        Some e \<Rightarrow> ((empty_result, Some e), w3)
      | None \<Rightarrow>
     (let secret = (case secretRes of Inl _ \<Rightarrow> None | Inr s \<Rightarrow> Some s) in
      case getSleepInfoData (r_tz r) secret sleepInfo of
        Inl e \<Rightarrow> ((empty_result, Some e), w3)
      | Inr sleepInfoData \<Rightarrow>
     (let now = r_Now r w3 in
      case getNextSchedule (r_cron r) (r_SleepDelta r) sleepInfoData now of
        Inl e \<Rightarrow> ((empty_result, Some e), w3)
      | Inr (isToExecute, nextSchedule, requeueAfter) \<Rightarrow>
     (if \<not> isToExecute then ((after_result requeueAfter, None), w3)
      else
     (case NewResources (r_libs r) (resource_client r sleepInfo) (req_Namespace req)
             (OriginalGenericResourceInfo sleepInfoData) w3 of
        (Inl e, w4) \<Rightarrow> ((empty_result, Some e), w4)
      | (Inr resources, w4) \<Rightarrow>
          reconcile_resources r req sleepInfo secret sleepInfoData now nextSchedule requeueAfter
            resources w4)))))))"

end
