(* ===== verification/Secret_Cycle.thy ===== *)
theory Secret_Cycle
  imports Sleepinfo_Controller
begin

text \<open>
  The life of a secret: the states that runs of the controllers can leave it in, an
  invariant of all of them, and the two-state machine that they refine.
\<close>

section \<open>Groups with a live map of restore patches\<close>

definition patches_live :: "RestorePatches \<Rightarrow> bool" where
  "patches_live rp = (case rp of None \<Rightarrow> False | Some m \<Rightarrow> gm_wf m)"

definition restore_live :: "(string, RestorePatches) gomap option \<Rightarrow> bool" where
  "restore_live rps = (case rps of None \<Rightarrow> True | Some m \<Rightarrow> all_values patches_live m)"

definition live_resources :: "'w managedResources \<Rightarrow> bool" where
  "live_resources g = all_values (\<lambda>res. patches_live (g_restorePatches res)) (resMapping g)"

lemma live_savable: "live_resources g \<Longrightarrow> savable g"
  by (auto simp: live_resources_def savable_def all_values_def patches_live_def patches_good_def
      list_all_iff split: option.splits)

lemma NewResources_loop_live:
  assumes "all_values patches_live rps"
    and "all_values (\<lambda>res. patches_live (g_restorePatches res)) mapping"
  shows "all_values (\<lambda>res. patches_live (g_restorePatches res)) (fst (NewResources_loop L c ns rps ps mapping w))"
  using assms(2)
proof (induction ps arbitrary: mapping w)
  case (Cons pd ps)
  have live: "patches_live (case gm_get rps s of None \<Rightarrow> Some [] | Some rp \<Rightarrow> rp)" for s
    using all_values_get [OF assms(1), of s]
    by (cases "gm_get rps s") (simp_all, simp add: patches_live_def)
  obtain items err w1 where
    "getListByNamespace (l_unstr L) (l_sel L) c ns (p_Target pd) w = ((items, err), w1)"
    by (metis surj_pair)
  with live [of "target_string (p_Target pd)"] Cons show ?case
    by (simp add: Let_def newGenericResource_def all_values_put)
qed simp

lemma NewResources_live:
  assumes "restore_live rps" and "NewResources L c ns rps w = (Inr g, w')"
  shows "live_resources g"
proof -
  let ?rps = "case rps of None \<Rightarrow> [] | Some m \<Rightarrow> m"
  have "all_values patches_live ?rps"
    using assms(1) by (auto simp: restore_live_def split: option.splits)
  then have "all_values (\<lambda>res. patches_live (g_restorePatches res))
      (fst (NewResources_loop L c ns ?rps ps [] w))" for ps
    by (rule NewResources_loop_live) simp
  moreover obtain si where "NewResources_loop L c ns ?rps (GetPatches si) [] w = (resMapping g, w')"
    using assms(2) by (auto simp: NewResources_def split: option.splits prod.splits)
  ultimately show ?thesis unfolding live_resources_def by (metis fst_conv)
qed

text \<open>What one target keeps, all targets keep.\<close>

lemma for_targets_keep:
  assumes "\<And>ns res w err res' w'. P res \<Longrightarrow> body ns res w = ((err, res'), w') \<Longrightarrow> P res'"
    and "all_values P (resMapping g)"
    and "for_targets body ks g w = ((err, g'), w')"
  shows "all_values P (resMapping g')"
  using assms(2,3)
proof (induction ks arbitrary: g w)
  case (Cons k ks)
  show ?case
  proof (cases "gm_get (resMapping g) k")
    case None
    with Cons show ?thesis by simp
  next
    case (Some res)
    obtain e res1 w1 where b: "body (mr_namespace g) res w = ((e, res1), w1)" by (metis surj_pair)
    let ?g1 = "g\<lparr>resMapping := gm_put k res1 (resMapping g)\<rparr>"
    have "P res1" using assms(1) [OF _ b] all_values_get [OF Cons.prems(1) Some] by simp
    then have g1: "all_values P (resMapping ?g1)" using Cons.prems(1) by (simp add: all_values_put)
    show ?thesis
    proof (cases "e = None")
      case True
      then have "for_targets body ks ?g1 w1 = ((err, g'), w')" using Cons.prems(2) Some b by simp
      from Cons.IH [OF g1 this] show ?thesis .
    next
      case False
      then show ?thesis using Cons.prems(2) Some b g1 by auto
    qed
  qed
qed simp

lemma sleep_items_live:
  "patches_live (g_restorePatches g) \<Longrightarrow> sleep_items L p g rs w = ((err, g'), w') \<Longrightarrow>
   patches_live (g_restorePatches g')"
proof (induction rs arbitrary: g w)
  case (Cons d rs)
  obtain m where m: "g_restorePatches g = Some m" "gm_wf m"
    using Cons.prems(1) by (auto simp: patches_live_def split: option.splits)
  show ?case
  proof (cases "sleep_outcome L p d")
    case Untouched
    with Cons show ?thesis by (simp add: sleep_items_Untouched del: sleep_items.simps)
  next
    case (Changed rp sp)
    let ?g1 = "g\<lparr>g_restorePatches := Some (gm_put (u_GetName (l_unstr L) d) rp m)\<rparr>"
    have "patches_live (g_restorePatches ?g1)" using m by (simp add: patches_live_def)
    with Cons.IH [of "?g1\<lparr>g_isCacheInvalid := True\<rparr>"] Cons.prems(2) show ?thesis
      unfolding sleep_items_Changed [OF Changed m(1)] by (auto simp: Let_def split: prod.splits option.splits)
  next
    case (Broken e)
    with Cons.prems(2) m show ?thesis
      by (auto simp: sleep_outcome_def patches_live_def Let_def split: if_splits sum.splits)
  qed
qed simp

lemma sleep_target_live:
  "patches_live (g_restorePatches g) \<Longrightarrow> sleep_target L ns g w = ((err, g'), w') \<Longrightarrow>
   patches_live (g_restorePatches g')"
  by (auto simp: sleep_target_def split: if_splits sum.splits prod.splits option.splits
      dest: sleep_items_live [rotated])

lemma wake_target_live:
  "patches_live (g_restorePatches g) \<Longrightarrow> wake_target L ns g w = ((err, g'), w') \<Longrightarrow>
   patches_live (g_restorePatches g')"
  by (auto simp: wake_target_def Let_def split: if_splits sum.splits prod.splits option.splits
      dest!: wake_items_keeps)

lemma for_targets_live:
  assumes "live_resources g" and "for_targets body ks g w = ((err, g'), w')"
    and "\<And>ns res w err res' w'. patches_live (g_restorePatches res) \<Longrightarrow>
      body ns res w = ((err, res'), w') \<Longrightarrow> patches_live (g_restorePatches res')"
  shows "live_resources g'"
  using for_targets_keep [of "\<lambda>res. patches_live (g_restorePatches res)" body g ks w err g' w'] assms
  unfolding live_resources_def by simp

lemma operation_live:
  assumes "live_resources g" and "Sleep L g w = ((err, g'), w') \<or> WakeUp L g w = ((err, g'), w')"
  shows "live_resources g'"
  using assms(2)
proof
  assume "Sleep L g w = ((err, g'), w')"
  with assms(1) show ?thesis unfolding Sleep_def by (rule for_targets_live) (rule sleep_target_live)
next
  assume "WakeUp L g w = ((err, g'), w')"
  with assms(1) show ?thesis unfolding WakeUp_def by (rule for_targets_live) (rule wake_target_live)
qed

section \<open>Reachable secrets\<close>

text \<open>
  One run of a controller on the stored secret: the operation comes from the secret, or
  from an execution that overrides it; the resources are listed and, if there are any, the
  operation is performed; the secret is written when it succeeds. The cluster may do
  anything in between: the worlds are arbitrary.
\<close>

definition perform ::
    "'p libs \<Rightarrow> SleepInfoData \<Rightarrow> 'w managedResources \<Rightarrow> 'w \<Rightarrow>
     (goerror option \<times> 'w managedResources) \<times> 'w" where
  "perform L data g w =
     (if \<not> HasResource g then ((None, g), w)
      else if IsSleepOperation data then Sleep L g w else WakeUp L g w)"

inductive reachable_secret ::
    "('w, 's, 'p) SleepInfoReconciler \<Rightarrow> Secret option \<Rightarrow> bool" for r where
  start: "reachable_secret r None"
| run: "reachable_secret r secret \<Longrightarrow>
    getSleepInfoData (r_tz r) secret si = Inr data0 \<Longrightarrow>
    data = data0 \<or> applyExecutionOverride data0 op si = Inr data \<Longrightarrow>
    NewResources (r_libs r) (resource_client r si) ns (OriginalGenericResourceInfo data) w = (Inr g, w1) \<Longrightarrow>
    perform (r_libs r) data g w1 = ((None, g'), w2) \<Longrightarrow>
    printable (r_tz r) now \<Longrightarrow>
    reachable_secret r (Some (convertSecretStringData (new_secret r now name ns si data g')))"

inductive_cases reachable_secretE: "reachable_secret r (Some s)"

definition secret_readable :: "('w, 's, 'p) SleepInfoReconciler \<Rightarrow> Secret option \<Rightarrow> bool" where
  "secret_readable r secret =
     (\<forall>si sleep wake. GetSleepSchedule si = Inr sleep \<and> GetWakeUpSchedule si = Inr wake \<longrightarrow>
        (\<exists>d. getSleepInfoData (r_tz r) secret si = Inr d \<and> restore_live (OriginalGenericResourceInfo d)))"

lemma override_info:
  "applyExecutionOverride d op si = Inr d' \<Longrightarrow>
   OriginalGenericResourceInfo d' = OriginalGenericResourceInfo d"
  by (auto simp: applyExecutionOverride_def split: sum.splits if_splits)

lemma data_to_save_live:
  assumes "all_values (\<lambda>res. patches_live (g_restorePatches res)) mapping"
    and "all_values patches_live acc"
  shows "all_values patches_live (data_to_save mapping ks acc)"
  using assms(2)
proof (induction ks arbitrary: acc)
  case (Cons k ks)
  show ?case
  proof (cases "gm_get mapping k")
    case None
    with Cons show ?thesis by simp
  next
    case (Some res)
    from all_values_get [OF assms(1) Some] Cons Some show ?thesis by (simp add: all_values_put)
  qed
qed simp

lemma perform_live: "live_resources g \<Longrightarrow> perform L data g w = ((err, g'), w') \<Longrightarrow> live_resources g'"
  using operation_live [of g L w err g' w'] by (auto simp: perform_def split: if_splits)

lemma run_readable:
  assumes "live_resources g" and "printable (r_tz r) now"
  shows "secret_readable r (Some (convertSecretStringData (new_secret r now name ns si data g)))"
proof -
  have "restore_live (Some (saved_patches r data g))"
    using assms(1) by (simp add: saved_patches_def live_resources_def restore_live_def data_to_save_live)
  then show ?thesis
    unfolding secret_readable_def
    using getSleepInfoData_stored [OF assms(2) live_savable [OF assms(1)]]
    by (metis stored_secret_def)
qed

lemma reachable_readable: "reachable_secret r secret \<Longrightarrow> secret_readable r secret"
proof (induction rule: reachable_secret.induct)
  case start
  then show ?case
    by (auto simp: secret_readable_def getSleepInfoData_def first_run_data_def restore_live_def)
next
  case (run secret si data0 data op ns w g w1 g' w2 now name)
  obtain sleep wake where "GetSleepSchedule si = Inr sleep" "GetWakeUpSchedule si = Inr wake"
    using getSleepInfoData_ok [OF run.hyps(2)] by (auto simp: data_ok_def split: sum.splits)
  with run.IH run.hyps(2) have "restore_live (OriginalGenericResourceInfo data0)"
    by (fastforce simp: secret_readable_def)
  with run.hyps(3) have "restore_live (OriginalGenericResourceInfo data)"
    using override_info by (metis (no_types))
  then have "live_resources g'"
    using NewResources_live [OF _ run.hyps(4)] perform_live [OF _ run.hyps(5)] by blast
  then show ?case using run_readable run.hyps(6) by blast
qed

lemma recorded_new_secret:
  "recorded_operation (Some (convertSecretStringData (new_secret r now name ns si data g))) =
   (if HasResource g then CurrentOperationType data else [])"
  using recorded_stored [of r now name ns si data g] by (simp add: stored_secret_def)

lemma reachable_recorded:
  "reachable_secret r secret \<Longrightarrow> recorded_operation secret \<in> {[], sleepOperation, wakeUpOperation}"
proof (induction rule: reachable_secret.induct)
  case start
  then show ?case by (simp add: recorded_operation_def)
next
  case (run secret si data0 data op ns w g w1 g' w2 now name)
  have "data_ok si data"
    using run.hyps(2,3) getSleepInfoData_ok applyExecutionOverride_ok by (metis (no_types))
  then show ?case
    by (auto simp: recorded_new_secret data_ok_def split: sum.splits if_splits)
qed

text \<open>
  C9: whatever sequence of scheduled runs and executions has happened, with whatever
  resources and whatever the cluster did in between, the controller can read the secret it
  left: the schedule time parses, the restore patches decode to maps that a sleep can
  extend, the recorded operation is one of the two or none, and what is due next is a
  well-formed operation of the SleepInfo.
\<close>

theorem reachable_secret_readable:
  assumes "reachable_secret r secret"
    and "GetSleepSchedule si = Inr sleep" and "GetWakeUpSchedule si = Inr wake"
  shows "(\<exists>d. getSleepInfoData (r_tz r) secret si = Inr d \<and> data_ok si d \<and>
      restore_live (OriginalGenericResourceInfo d)) \<and>
    recorded_operation secret \<in> {[], sleepOperation, wakeUpOperation}"
  using reachable_readable [OF assms(1)] reachable_recorded [OF assms(1)] assms(2,3) getSleepInfoData_ok
  unfolding secret_readable_def by metis

section \<open>An example run\<close>

definition start_world :: example_world where
  "start_world =
     \<lparr>ew_objs = [example_obj ''a'' ''3''], ew_list_error = None, ew_info = Some example_sleepinfo,
      ew_secret = None, ew_execution = None, ew_now = at_ns 0\<rparr>"

definition slept_group :: "example_world genericResource" where
  "slept_group = (world_group example_sleepinfo [example_obj ''a'' ''3''])
     \<lparr>g_restorePatches := Some [(''a'', marshal (JObj (spec_member ''3'')))], g_isCacheInvalid := True\<rparr>"

definition slept_world_resources :: "example_world managedResources" where
  "slept_world_resources = \<lparr>resMapping = [(DeploymentTarget, slept_group)], mr_namespace = ''default''\<rparr>"

lemma world_list:
  assumes "IncludeRef (si_Spec si) = []" and "ExcludeRef (si_Spec si) = []"
  shows "getListByNamespace example_unstr example_selectors (resource_client example_reconciler si) ns t w =
   ((if t = DeploymentTarget then ew_objs w else [], Option.bind (ew_list_error w) ignore_not_found), w)"
  using assms
  by (cases t; cases "ew_list_error w")
    (simp_all add: DeploymentTarget_def getListByNamespace_def getListOptions_def resource_client_def world_client_def
      GetIncludeRef_def GetExcludeRef_def getFieldToInclude_def getFieldToExclude_def
      filterByName_def target_GroupKind_def)

lemma example_no_filters: "IncludeRef (si_Spec example_sleepinfo) = []" "ExcludeRef (si_Spec example_sleepinfo) = []"
  by (simp_all add: example_defs)

lemma world_client_record:
  "resource_client example_reconciler example_sleepinfo =
   \<lparr>rc_Client = Some world_client, rc_SleepInfo = Some example_sleepinfo, rc_FieldManagerName = ''kube-green''\<rparr>"
  by (simp add: resource_client_def example_reconciler_def)

lemma example_patches: "GetPatches example_sleepinfo = [deploymentPatch, cronjobPatch]"
  by (simp add: GetPatches_def suspend_defs example_defs)

lemma patch_targets: "p_Target deploymentPatch = DeploymentTarget" "p_Target cronjobPatch = CronJobTarget"
  by (simp_all add: deploymentPatch_def cronjobPatch_def)

lemma world_NewResources_objs:
  assumes "ew_objs w \<noteq> []" and "ew_list_error w = None"
  shows "NewResources example_libs (resource_client example_reconciler example_sleepinfo) ''default'' None w =
   (Inr (world_resources (ew_objs w)), w)"
proof -
  have "rc_SleepInfo (resource_client example_reconciler example_sleepinfo) = Some example_sleepinfo"
    by (simp add: resource_client_def)
  then show ?thesis
    using assms
    by (simp add: NewResources_def example_patches patch_targets world_list [OF example_no_filters] Let_def
        world_resources_def default_targets)
      (simp add: world_group_def newGenericResource_def world_client_record)
qed

lemma world_NewResources:
  "NewResources example_libs (resource_client example_reconciler example_sleepinfo) ''default'' None start_world =
   (Inr (world_resources [example_obj ''a'' ''3'']), start_world)"
  using world_NewResources_objs [of start_world] by (simp add: start_world_def)

lemma world_SSAPatch:
  "SSAPatch example_unstr (g_Client (world_group si items)) (example_sparse name) w =
   (None, w\<lparr>ew_objs := map (\<lambda>x. if obj_name x = name
        then gm_put ''spec'' (JObj [(''replicas'', JNum ''0'')]) x else x) (ew_objs w)\<rparr>)"
  by (simp add: SSAPatch_def IsClientValid_def world_group_def world_client_def example_unstr_def
      example_sparse_def obj_name_def obj_field_def cong: if_cong)

lemma world_Sleep:
  assumes w: "ew_objs w = [example_obj ''a'' ''3'']"
  shows "Sleep example_libs (world_resources [example_obj ''a'' ''3'']) w =
   ((None, slept_world_resources), w\<lparr>ew_objs := [example_obj ''a'' ''0'']\<rparr>)"
proof -
  let ?g = "world_group example_sleepinfo [example_obj ''a'' ''3'']"
  have out: "sleep_outcome example_libs example_patcher (example_obj ''a'' ''3'') =
      Changed (marshal (JObj (spec_member ''3''))) (example_sparse ''a'')"
    by (simp add: example_outcome)
  have g: "g_restorePatches ?g = Some []" "\<not> g_isCacheInvalid ?g" "g_data ?g = [example_obj ''a'' ''3'']"
      "p_Patch (g_patchData ?g) \<noteq> []"
    by (simp_all add: world_group_def deploymentPatch_def)
  have "gm_put ''spec'' (JObj [(''replicas'', JNum ''0'')]) (example_obj ''a'' ''3'') = example_obj ''a'' ''0''"
      "obj_name (example_obj ''a'' ''3'') = ''a''"
    by (simp_all add: example_obj_def obj_name_def obj_field_def)
  then have "sleep_target example_libs ''default'' ?g w =
      ((None, slept_group), w\<lparr>ew_objs := [example_obj ''a'' ''0'']\<rparr>)"
    unfolding sleep_target_fresh [OF g(2,1)] using g(4) example_New
    by (simp add: g(3) sparse_objects_def record_restore_def out world_SSAPatch slept_group_def
        w del: marshal.simps)
  then show ?thesis
    by (simp add: Sleep_def world_resources_def slept_world_resources_def del: marshal.simps)
qed

lemma world_HasResource: "HasResource (world_resources [example_obj ''a'' ''3''])" "HasResource slept_world_resources"
  by (simp_all add: HasResource_def world_resources_def slept_world_resources_def slept_group_def world_group_def)

definition first_secret :: Secret where
  "first_secret =
     convertSecretStringData (new_secret example_reconciler (at_ns 0) ''sleepinfo-working-hours'' ''default''
       example_sleepinfo (first_run_data ''00 20 * * 1-5'' ''00 08 * * 1-5'') slept_world_resources)"

lemma first_secret_reachable: "reachable_secret example_reconciler (Some first_secret)"
proof -
  let ?data = "first_run_data ''00 20 * * 1-5'' ''00 08 * * 1-5''"
  have "getSleepInfoData (r_tz example_reconciler) None example_sleepinfo = Inr ?data"
    by (simp add: example_first_run)
  moreover have "NewResources (r_libs example_reconciler) (resource_client example_reconciler example_sleepinfo)
      ''default'' (OriginalGenericResourceInfo ?data) start_world =
      (Inr (world_resources [example_obj ''a'' ''3'']), start_world)"
    using world_NewResources by (simp add: first_run_data_def)
  moreover have "perform (r_libs example_reconciler) ?data (world_resources [example_obj ''a'' ''3'']) start_world =
      ((None, slept_world_resources), start_world\<lparr>ew_objs := [example_obj ''a'' ''0'']\<rparr>)"
    using world_Sleep [of start_world] world_HasResource
    by (simp add: perform_def IsSleepOperation_def first_run_data_def start_world_def)
  ultimately show ?thesis
    unfolding first_secret_def using printable_start
    by (intro reachable_secret.run [OF reachable_secret.start _ disjI1 [OF refl]]) simp_all
qed

theorem reachable_secret_readable_witness:
  "(\<exists>d. getSleepInfoData (\<lambda>t. 0) (Some first_secret) example_sleepinfo = Inr d \<and>
      data_ok example_sleepinfo d) \<and>
   recorded_operation (Some first_secret) \<in> {[], sleepOperation, wakeUpOperation}"
  using reachable_secret_readable [OF first_secret_reachable example_schedules] by auto

section \<open>No panic on own secrets\<close>

lemma for_targets_error_keep:
  assumes "\<And>ns res w err res' w'. P res \<Longrightarrow> body ns res w = ((err, res'), w') \<Longrightarrow> P res'"
    and "all_values P (resMapping g)"
    and "for_targets body ks g w = ((Some e, g'), w')"
  shows "\<exists>ns res w1 res' w2. P res \<and> body ns res w1 = ((Some e, res'), w2)"
  using assms(2,3)
proof (induction ks arbitrary: g w)
  case (Cons k ks)
  show ?case
  proof (cases "gm_get (resMapping g) k")
    case None
    with Cons show ?thesis by simp
  next
    case (Some res)
    obtain err res1 w1 where b: "body (mr_namespace g) res w = ((err, res1), w1)" by (metis surj_pair)
    have res: "P res" using all_values_get [OF Cons.prems(1) Some] .
    show ?thesis
    proof (cases "err = None")
      case True
      let ?g1 = "g\<lparr>resMapping := gm_put k res1 (resMapping g)\<rparr>"
      have "all_values P (resMapping ?g1)"
        using assms(1) [OF res b] Cons.prems(1) by (simp add: all_values_put)
      moreover have "for_targets body ks ?g1 w1 = ((Some e, g'), w')"
        using Cons.prems(2) Some b True by simp
      ultimately show ?thesis by (rule Cons.IH)
    next
      case False
      then have "err = Some e" using Cons.prems(2) Some b by (auto simp: Let_def split: if_splits)
      with b res show ?thesis by blast
    qed
  qed
qed simp

lemma sleep_items_no_panic:
  "patches_live (g_restorePatches g) \<Longrightarrow> sleep_items L p g rs w = ((Some e, g'), w') \<Longrightarrow> e \<noteq> nil_map_write"
proof (induction rs arbitrary: g w)
  case (Cons d rs)
  obtain m where m: "g_restorePatches g = Some m" "gm_wf m"
    using Cons.prems(1) by (auto simp: patches_live_def split: option.splits)
  have wrapped: "wrap_sentinel x y \<noteq> nil_map_write" for x y
    by (simp add: wrap_sentinel_def nil_map_write_def)
  show ?case
  proof (cases "sleep_outcome L p d")
    case Untouched
    with Cons show ?thesis by (simp add: sleep_items_Untouched del: sleep_items.simps)
  next
    case (Changed rp sp)
    let ?g1 = "g\<lparr>g_restorePatches := Some (gm_put (u_GetName (l_unstr L) d) rp m)\<rparr>"
    have "patches_live (g_restorePatches ?g1)" using m by (simp add: patches_live_def)
    with Cons.IH [of "?g1\<lparr>g_isCacheInvalid := True\<rparr>"] Cons.prems(2) wrapped show ?thesis
      unfolding sleep_items_Changed [OF Changed m(1)] by (auto simp: Let_def split: prod.splits option.splits)
  next
    case (Broken e)
    from sleep_items_Broken [OF Broken m(1)] Cons.prems(2) wrapped show ?thesis
      by (metis option.inject prod.inject)
  qed
qed simp

lemma sleep_target_no_panic:
  "patches_live (g_restorePatches g) \<Longrightarrow> sleep_target L ns g w = ((Some e, g'), w') \<Longrightarrow> e \<noteq> nil_map_write"
  by (auto simp: sleep_target_def wrap_sentinel_def nil_map_write_def
      split: if_splits sum.splits prod.splits option.splits)
     (auto dest: sleep_items_no_panic [rotated] simp: nil_map_write_def)

lemma reachable_live:
  assumes "reachable_secret r secret" and "getSleepInfoData (r_tz r) secret si = Inr data"
    and "NewResources (r_libs r) c ns (OriginalGenericResourceInfo data) w = (Inr g, w1)"
  shows "live_resources g"
proof -
  obtain sleep wake where "GetSleepSchedule si = Inr sleep" "GetWakeUpSchedule si = Inr wake"
    using getSleepInfoData_ok [OF assms(2)] by (auto simp: data_ok_def split: sum.splits)
  with reachable_readable [OF assms(1)] assms(2) have "restore_live (OriginalGenericResourceInfo data)"
    by (fastforce simp: secret_readable_def)
  then show ?thesis using NewResources_live [OF _ assms(3)] by blast
qed

lemma wake_target_no_panic: "wake_target L ns g w = ((Some e, g'), w') \<Longrightarrow> e \<noteq> nil_map_write"
  by (auto simp: wake_target_def wrap_sentinel_def nil_map_write_def Let_def
      split: if_splits sum.splits prod.splits option.splits dest!: wake_items_error)

lemma operation_no_panic:
  fixes w :: 'w
  assumes "live_resources g" and "Sleep L g w = ((Some e, g'), w') \<or> WakeUp L g w = ((Some e, g'), w')"
  shows "e \<noteq> nil_map_write"
proof -
  let ?P = "\<lambda>res. patches_live (g_restorePatches res)"
  have g: "all_values ?P (resMapping g)" using assms(1) by (simp add: live_resources_def)
  from assms(2) show ?thesis
  proof
    assume "Sleep L g w = ((Some e, g'), w')"
    then have "\<exists>ns' res w3 res' w4. ?P res \<and> sleep_target L ns' res w3 = ((Some e, res'), w4 :: 'w)"
      unfolding Sleep_def by (rule for_targets_error_keep [where P = ?P, OF _ g, rotated]) (rule sleep_target_live)
    then show ?thesis by (elim exE conjE) (rule sleep_target_no_panic)
  next
    assume "WakeUp L g w = ((Some e, g'), w')"
    then have "\<exists>ns' res w3 res' w4. ?P res \<and> wake_target L ns' res w3 = ((Some e, res'), w4 :: 'w)"
      unfolding WakeUp_def by (rule for_targets_error_keep [where P = ?P, OF _ g, rotated]) (rule wake_target_live)
    then show ?thesis by (elim exE conjE) (rule wake_target_no_panic)
  qed
qed

lemma live_restore_map:
  "live_resources g \<Longrightarrow> gm_get (resMapping g) k = Some res \<Longrightarrow> g_restorePatches res \<noteq> None"
  unfolding live_resources_def by (drule (1) all_values_get) (auto simp: patches_live_def split: option.splits)

text \<open>
  C10: with a secret that the controller has written, every group of resources that a run
  manages has a map for its restore patches, before the operation and after it, so neither
  \<open>Sleep\<close> nor \<open>WakeUp\<close> runs into a write to a nil map.
\<close>

theorem reachable_no_panic:
  assumes "reachable_secret r secret" and "getSleepInfoData (r_tz r) secret si = Inr data"
    and "NewResources (r_libs r) c ns (OriginalGenericResourceInfo data) w = (Inr g, w1)"
  shows "(\<forall>k res. gm_get (resMapping g) k = Some res \<longrightarrow> g_restorePatches res \<noteq> None) \<and>
    (\<forall>w2 err g' w3.
       Sleep (r_libs r) g w2 = ((err, g'), w3) \<or> WakeUp (r_libs r) g w2 = ((err, g'), w3) \<longrightarrow>
       err \<noteq> Some nil_map_write \<and>
       (\<forall>k res. gm_get (resMapping g') k = Some res \<longrightarrow> g_restorePatches res \<noteq> None))"
proof -
  have live: "live_resources g" by (rule reachable_live [OF assms])
  moreover have "live_resources g'" if "Sleep (r_libs r) g w2 = ((err, g'), w3) \<or>
      WakeUp (r_libs r) g w2 = ((err, g'), w3)" for w2 err g' w3
    by (rule operation_live [OF live that])
  ultimately show ?thesis using live_restore_map operation_no_panic [OF live] by metis
qed

text \<open>A SleepInfo with an empty patch, for the examples of failing operations.\<close>

definition empty_patch_info :: SleepInfo where
  "empty_patch_info =
     example_sleepinfo\<lparr>si_Spec := example_spec\<lparr>SuspendCronjobs := False,
       Patches := [\<lparr>p_Target = DeploymentTarget, p_Patch = []\<rparr>]\<rparr>\<rparr>"

definition empty_patch_world_resources :: "example_world managedResources" where
  "empty_patch_world_resources =
     \<lparr>resMapping = [(DeploymentTarget, new_group (resource_client example_reconciler empty_patch_info) []
        \<lparr>p_Target = DeploymentTarget, p_Patch = []\<rparr> [example_obj ''a'' ''3''])], mr_namespace = ''default''\<rparr>"

lemma empty_patch_data:
  "getSleepInfoData tz None empty_patch_info = Inr (first_run_data ''00 20 * * 1-5'' ''00 08 * * 1-5'')"
  by (simp add: getSleepInfoData_def GetSleepSchedule_def GetWakeUpSchedule_def
      getScheduleFromWeekdayAndTime_def empty_patch_info_def example_defs)

lemma empty_patch_New:
  assumes "ew_objs w = [example_obj ''a'' ''3'']" and "ew_list_error w = None"
  shows "NewResources example_libs (resource_client example_reconciler empty_patch_info) ''default'' None w =
    (Inr empty_patch_world_resources, w)"
proof -
  have spec: "IncludeRef (si_Spec empty_patch_info) = []" "ExcludeRef (si_Spec empty_patch_info) = []"
    by (simp_all add: empty_patch_info_def example_defs)
  have "rc_SleepInfo (resource_client example_reconciler empty_patch_info) = Some empty_patch_info"
    by (simp add: resource_client_def)
  moreover have "GetPatches empty_patch_info =
      [deploymentPatch, \<lparr>p_Target = DeploymentTarget, p_Patch = []\<rparr>]"
    by (simp add: GetPatches_def suspend_defs empty_patch_info_def example_defs)
  ultimately show ?thesis
    using assms by (simp add: NewResources_def patch_targets world_list [OF spec] Let_def)
      (simp add: default_targets new_group_def empty_patch_world_resources_def)
qed

lemma empty_patch_world_Sleep:
  "Sleep example_libs empty_patch_world_resources w =
   ((Some (WrapErr [] (SentinelErr ErrJSONPatch) '': invalid empty patch''), empty_patch_world_resources), w)"
  by (simp add: Sleep_def sleep_target_def new_group_def newGenericResource_def empty_patch_world_resources_def)

text \<open>The morning after the first night: the secret records the sleep, the deployment sleeps.\<close>

theorem reachable_no_panic_witness:
  "\<exists>d g res m. getSleepInfoData (\<lambda>t. 0) (Some first_secret) example_sleepinfo = Inr d \<and>
     NewResources example_libs (resource_client example_reconciler example_sleepinfo) ''default''
       (OriginalGenericResourceInfo d) (start_world\<lparr>ew_objs := [example_obj ''a'' ''0'']\<rparr>) =
       (Inr g, start_world\<lparr>ew_objs := [example_obj ''a'' ''0'']\<rparr>) \<and>
     gm_get (resMapping g) DeploymentTarget = Some res \<and> g_data res = [example_obj ''a'' ''0''] \<and>
     g_restorePatches res = Some m \<and>
     (\<forall>w2 err g' w3. Sleep example_libs g w2 = ((err, g'), w3) \<or> WakeUp example_libs g w2 = ((err, g'), w3) \<longrightarrow>
        err \<noteq> Some nil_map_write)"
proof -
  let ?w = "start_world\<lparr>ew_objs := [example_obj ''a'' ''0'']\<rparr>" and ?c = "resource_client example_reconciler example_sleepinfo"
  obtain d where d: "getSleepInfoData (r_tz example_reconciler) (Some first_secret) example_sleepinfo = Inr d"
    using reachable_readable [OF first_secret_reachable] example_schedules by (auto simp: secret_readable_def)
  have c: "rc_SleepInfo ?c = Some example_sleepinfo" by (simp add: resource_client_def)
  obtain g w1 where new: "NewResources (r_libs example_reconciler) ?c ''default'' (OriginalGenericResourceInfo d) ?w = (Inr g, w1)"
    using NewResources_total [OF c] by blast
  have "w1 = ?w" and "\<exists>res. gm_get (resMapping g) DeploymentTarget = Some res \<and> g_data res = [example_obj ''a'' ''0'']"
    using NewResources_groups [OF _ c new] world_list [OF example_no_filters, of "''default''" _ ?w]
    by (auto simp: managed_group_def last_patch_def example_patches patch_targets default_targets start_world_def new_group_def)
  with reachable_no_panic [OF first_secret_reachable d new] d new show ?thesis by auto
qed

section \<open>The abstract machine\<close>

text \<open>
  Seen from outside, a namespace is awake or asleep. A scheduled run with resources
  switches between the two, or stays asleep without a wake up time; without resources
  there is nothing asleep.
\<close>

datatype mode = Awake | Asleep

definition mode_of :: "Secret option \<Rightarrow> mode" where
  "mode_of secret = (if recorded_operation secret = sleepOperation then Asleep else Awake)"

definition mode_step :: "bool \<Rightarrow> bool \<Rightarrow> mode \<Rightarrow> mode" where
  "mode_step has_wake_up has_resources m =
     (if \<not> has_resources then Awake else if m = Asleep \<and> has_wake_up then Awake else Asleep)"

text \<open>
  C12: the secret refines the abstract machine: after a scheduled run its mode is the
  machine's step from its mode before, so sleeping and waking up alternate.
\<close>

theorem mode_alternates:
  assumes "getSleepInfoData (r_tz r) secret si = Inr data"
  shows "mode_of (Some (convertSecretStringData (new_secret r now name ns si data g))) =
    mode_step (WakeUpTime (si_Spec si) \<noteq> []) (HasResource g) (mode_of secret)"
  using getSleepInfoData_wake [OF assms] secret_source.supported [OF assms]
  by (auto simp: mode_of_def mode_step_def recorded_new_secret IsWakeUpOperation_def IsSleepOperation_def
      operation_names)

theorem mode_alternates_witness:
  "mode_of (Some first_secret) = mode_step True (HasResource slept_world_resources) (mode_of None)"
proof -
  have "WakeUpTime (si_Spec example_sleepinfo) \<noteq> []" by (simp add: example_defs)
  moreover have "getSleepInfoData (r_tz example_reconciler) None example_sleepinfo =
      Inr (first_run_data ''00 20 * * 1-5'' ''00 08 * * 1-5'')"
    by (simp add: example_first_run)
  from mode_alternates [OF this] calculation show ?thesis by (simp add: first_secret_def)
qed

end
