(* ===== verification/Status_Memory.thy ===== *)
theory Status_Memory
  imports Deep_Copy Secret_Cycle
begin

text \<open>
  \<open>handleSleepInfoStatus\<close> of \<open>internal/controller/sleepinfo/sleepinfo_controller.go\<close> in
  memory. The SleepInfo of a reconcile is shared with the rest of the handler, and the
  handler writes the new status to a deep copy of it. The theory shows that this refines
  the pure record update of \<open>Sleepinfo_Controller\<close>.
\<close>

text \<open>The assignment to fields of the struct that a pointer leads to.\<close>

definition write_struct ::
    "('a list \<Rightarrow> ('m, 'l, 'x) cell) \<Rightarrow> (('m, 'l, 'x) cell \<Rightarrow> 'a list option) \<Rightarrow> ptr option \<Rightarrow> ('a \<Rightarrow> 'a) \<Rightarrow>
     ('m, 'l, 'x) goheap \<Rightarrow> ('m, 'l, 'x) goheap" where
  "write_struct con sel p f h =
     (case p of
        None \<Rightarrow> h
      | Some q \<Rightarrow>
          (case Option.bind (h_cell h (pt_array q)) sel of
             None \<Rightarrow> h
           | Some xs \<Rightarrow>
               h\<lparr>h_cell := (h_cell h)(pt_array q \<mapsto> con (xs[pt_index q := f (xs ! pt_index q)]))\<rparr>))"

abbreviation write_sleepinfo ::
    "ptr option \<Rightarrow> ('m SleepInfo_mem \<Rightarrow> 'm SleepInfo_mem) \<Rightarrow> ('m, 'l, 'x) goheap \<Rightarrow> ('m, 'l, 'x) goheap" where
  "write_sleepinfo \<equiv> write_struct SleepInfos (kind is_SleepInfos sleep_infos)"

text \<open>The object that is sent to the API server, and the memory then.\<close>

definition status_object ::
    "('m, 'l, 'x) meta_lib \<Rightarrow> gotime \<Rightarrow> ptr option \<Rightarrow> string \<Rightarrow> 'w managedResources \<Rightarrow>
     ('m, 'l, 'x) goheap \<Rightarrow> ptr option \<times> ('m, 'l, 'x) goheap" where
  "status_object M now currentSleepInfo currentOperationType resources h =
     (case SleepInfo_DeepCopy M currentSleepInfo h of
        (sleepInfo, h1) \<Rightarrow>
          (let h2 = write_sleepinfo sleepInfo
                 (\<lambda>s. s\<lparr>sim_Status := (sim_Status s)\<lparr>LastScheduleTime := now\<rparr>\<rparr>) h1;
               h3 = write_sleepinfo sleepInfo
                 (\<lambda>s. s\<lparr>sim_Status := (sim_Status s)\<lparr>OperationType := currentOperationType\<rparr>\<rparr>) h2;
               h4 = (if \<not> HasResource resources
                     then write_sleepinfo sleepInfo
                       (\<lambda>s. s\<lparr>sim_Status := (sim_Status s)\<lparr>OperationType := []\<rparr>\<rparr>) h3
                     else h3)
           in (sleepInfo, h4)))"

context copying_kind
begin

text \<open>A copied struct is not one of the cells it refers to.\<close>

lemma new_copy_struct:
  assumes "heap_ok h" and "ptr_val sel val h (Some p) = Some v" and "new_copy con sel copy (Some p) h = (q, h')"
  shows "\<exists>y a u. q = Some \<lparr>pt_array = a, pt_index = 0\<rparr> \<and> h_cell h' a = Some (con [y]) \<and>
    val h' y = Some u \<and> v = Some u \<and> a \<notin> cells h' y \<and> h_next h \<le> a"
proof -
  obtain x u where x: "deref sel h p = Some x" "val h x = Some u" "v = Some u"
    using assms(2) by (auto simp: ptr_val_def split: option.splits)
  obtain y h1 where y: "copy x h = (y, h1)" by fastforce
  have q: "q = Some \<lparr>pt_array = h_next h1, pt_index = 0\<rparr>" "alloc (con [y]) h1 = (h_next h1, h')"
    using assms(3) x(1) y by (auto simp: new_copy_def alloc_def)
  have h1: "extends h h1" using copies [OF assms(1) x(2) y] by simp
  have "extends h1 h'" using extends_alloc [OF extends_ok [OF h1] q(2)] .
  from copies_later [OF assms(1) x(2) y this] extends_next [OF h1] alloc_cell [OF q(2)] q(1) x(3)
  show ?thesis by fastforce
qed

lemma write_twice:
  assumes "h_cell h a = Some (con [y])"
  shows "write_struct con sel (Some \<lparr>pt_array = a, pt_index = 0\<rparr>) f h =
    h\<lparr>h_cell := (h_cell h)(a \<mapsto> con [f y])\<rparr>"
  using assms by (simp add: write_struct_def sel_con)

end

lemma status_fields:
  "(s :: SleepInfoStatus)\<lparr>LastScheduleTime := now, OperationType := op\<rparr> = \<lparr>LastScheduleTime = now, OperationType = op\<rparr>"
  by (cases s) simp

lemma sleepinfo_val_status:
  assumes "sleepinfo_val meta_val h s = Some (t, si)"
  shows "sleepinfo_val meta_val h (s\<lparr>sim_Status := st\<rparr>) = Some (t, si\<lparr>si_Status := st\<rparr>)"
  using assms
  by (auto simp: sleepinfo_val_def struct_val_def pair_val_def status_val_def plain_val_def split: option.splits)

context metadata
begin

lemma status_object_correct:
  assumes "heap_ok h" and "sleepinfo_at meta_val h (Some p) = Some (Some (t, si))"
    and "status_object M now (Some p) op resources h = (q, h')"
  shows "sleepinfo_at meta_val h' q = Some (Some (t, si\<lparr>si_Status :=
      \<lparr>LastScheduleTime = now, OperationType = (if HasResource resources then op else [])\<rparr>\<rparr>)) \<and>
    sleepinfo_at meta_val h' (Some p) = Some (Some (t, si))"
proof -
  let ?sel = "kind is_SleepInfos sleep_infos"
  define st where "st = \<lparr>LastScheduleTime = now, OperationType = (if HasResource resources then op else [])\<rparr>"
  obtain q1 h1 where c: "SleepInfo_DeepCopy M (Some p) h = (q1, h1)" by fastforce
  obtain y a where y: "q1 = Some \<lparr>pt_array = a, pt_index = 0\<rparr>" "h_cell h1 a = Some (SleepInfos [y])"
      "sleepinfo_val meta_val h1 y = Some (t, si)" "a \<notin> sleepinfo_cells meta_cells h1 y"
    using info.new_copy_struct [of h p "Some (t, si)" q1 h1] assms(1,2) c
    by (auto simp: sleepinfo_at_def SleepInfo_DeepCopy_def)
  have h': "q = q1" "h_cell h' = (h_cell h1)(a \<mapsto> SleepInfos [y\<lparr>sim_Status := st\<rparr>])"
    using assms(3) c y(1,2) by (auto simp: status_object_def st_def info.write_twice status_fields Let_def split: if_splits)
  have "h_cell h' b = h_cell h1 b" if "b \<in> sleepinfo_cells meta_cells h1 y" for b
    using that y(4) by (auto simp: h'(2))
  from info.local [OF this] y(3) have "sleepinfo_val meta_val h' y = Some (t, si)" by simp
  then have "sleepinfo_val meta_val h' (y\<lparr>sim_Status := st\<rparr>) = Some (t, si\<lparr>si_Status := st\<rparr>)"
    by (rule sleepinfo_val_status)
  then have "sleepinfo_at meta_val h' q = Some (Some (t, si\<lparr>si_Status := st\<rparr>))"
    by (simp add: sleepinfo_at_def ptr_val_def deref_def h' y(1) kind_con)
  moreover have "sleepinfo_at meta_val h' (Some p) = Some (Some (t, si))"
  proof -
    have "a \<in> sleepinfo_at_cells meta_cells h1 q1" by (simp add: sleepinfo_at_cells_def ptr_cells_def y(1))
    then have "\<forall>b. b \<notin> sleepinfo_at_cells meta_cells h1 q1 \<longrightarrow> h_cell h' b = h_cell h1 b" by (auto simp: h'(2))
    with SleepInfo_copy_independent [OF assms(1,2) c] show ?thesis by (simp add: independent_copy_def)
  qed
  ultimately show ?thesis by (simp add: st_def)
qed

end

text \<open>
  C30: the status is written without touching the SleepInfo that the handler holds: the
  object sent to the API server is exactly the one of the pure model, the SleepInfo with
  the new schedule time and the operation, or no operation when there are no resources;
  and the SleepInfo of the handler is unchanged afterwards.
\<close>

theorem handleSleepInfoStatus_refines:
  assumes "metadata meta_val meta_cells list_val list_cells M" and "heap_ok h"
    and "sleepinfo_at meta_val h (Some p) = Some (Some (t, si))"
    and "status_object M now (Some p) op resources h = (q, h')"
  shows "\<exists>sent. sleepinfo_at meta_val h' q = Some (Some (t, sent)) \<and>
    handleSleepInfoStatus r now si op resources w = StatusUpdateSleepInfo (r_Client r) sent w \<and>
    sleepinfo_at meta_val h' (Some p) = Some (Some (t, si))"
  using metadata.status_object_correct [OF assms] by (simp add: handleSleepInfoStatus_def)

theorem handleSleepInfoStatus_refines_witness:
  "\<exists>q h' sent. status_object value_meta (at_ns 5) (Some \<lparr>pt_array = 2, pt_index = 0\<rparr>) sleepOperation
      (\<lparr>resMapping = [], mr_namespace = ''default''\<rparr> :: example_world managedResources) example_heap = (q, h') \<and>
     sleepinfo_at plain_val h' q = Some (Some (sim_TypeMeta example_info_mem, sent)) \<and>
     handleSleepInfoStatus example_reconciler (at_ns 5) example_excluding sleepOperation
       \<lparr>resMapping = [], mr_namespace = ''default''\<rparr> start_world = StatusUpdateSleepInfo world_client sent start_world"
proof -
  obtain q h' where c: "status_object value_meta (at_ns 5) (Some \<lparr>pt_array = 2, pt_index = 0\<rparr>) sleepOperation
      (\<lparr>resMapping = [], mr_namespace = ''default''\<rparr> :: example_world managedResources) example_heap = (q, h')" by fastforce
  from handleSleepInfoStatus_refines [OF value_meta.metadata_axioms example_heap_ok example_heap_value c,
      of example_reconciler start_world] c
  show ?thesis by auto
qed

end
