(* ===== verification/Controller_Properties.thy ===== *)
theory Controller_Properties
  imports Secret_Cycle
begin

text \<open>
  Properties of the SleepInfo reconciler: when it does nothing, what it does when an
  operation is due, and how it reports errors.
\<close>

section \<open>The handler against its reference description\<close>

text \<open>
  The part of the handler after the resources are listed, for an operation that is one of
  the two: write the status, perform the operation on the resources there are, save the
  secret; a failing operation is returned, a failing save is only requeued.
\<close>

definition requeue_after ::
    "'s cron_lib \<Rightarrow> SleepInfoData \<Rightarrow> bool \<Rightarrow> gotime \<Rightarrow> gotime \<Rightarrow> duration \<Rightarrow> Result" where
  "requeue_after cron data has_resources nextSchedule now requeueAfter =
     (if has_resources \<or> \<not> IsSleepOperation data then after_result requeueAfter
      else case ParseStandard cron (CurrentOperationSchedule data) of
        Inl _ \<Rightarrow> empty_result
      | Inr sched \<Rightarrow> after_result (time_Sub (sched_Next cron sched nextSchedule) now))"

definition run_operation ::
    "('w, 's, 'p) SleepInfoReconciler \<Rightarrow> Request \<Rightarrow> SleepInfo \<Rightarrow> Secret option \<Rightarrow> SleepInfoData \<Rightarrow>
     gotime \<Rightarrow> gotime \<Rightarrow> duration \<Rightarrow> 'w managedResources \<Rightarrow> 'w \<Rightarrow> (Result \<times> goerror option) \<times> 'w"
where
  "run_operation r req si secret data now nextSchedule requeueAfter g w =
     (case handleSleepInfoStatus r now si (CurrentOperationType data) g w of
        (Some e, w1) \<Rightarrow> ((empty_result, Some e), w1)
      | (None, w1) \<Rightarrow>
          (case perform (r_libs r) data g w1 of
             ((Some e, g1), w2) \<Rightarrow> ((requeue_result, Some e), w2)
           | ((None, g1), w2) \<Rightarrow>
               (case upsertSecret r now (getSecretName (req_Name req)) (req_Namespace req) si secret data g1 w2 of
                  (Some e, w3) \<Rightarrow> ((requeue_result, None), w3)
                | (None, w3) \<Rightarrow>
                    ((requeue_after (r_cron r) data (HasResource g) nextSchedule now requeueAfter, None), w3))))"

lemma skipWakeUp_cases:
  "(case skipWakeUpIfSleepNotPerformed cron s nextSchedule now of
      Inl e \<Rightarrow> ((empty_result, None), w) | Inr d \<Rightarrow> ((after_result d, None), w)) =
   ((case ParseStandard cron s of
       Inl _ \<Rightarrow> empty_result
     | Inr sched \<Rightarrow> after_result (time_Sub (sched_Next cron sched nextSchedule) now), None), w)"
  by (simp add: skipWakeUpIfSleepNotPerformed_def getCronParsed_def getRequeueAfter_def split: sum.split)

lemma reconcile_resources_run:
  assumes "IsSleepOperation data \<noteq> IsWakeUpOperation data"
  shows "reconcile_resources r req si secret data now nextSchedule requeueAfter g w =
    run_operation r req si secret data now nextSchedule requeueAfter g w"
proof (cases "HasResource g")
  case True
  with assms show ?thesis
    by (auto simp: reconcile_resources_def run_operation_def perform_def requeue_after_def Let_def
        split: option.split prod.split)
next
  case False
  then show ?thesis
    by (auto simp: reconcile_resources_def run_operation_def perform_def requeue_after_def Let_def
        skipWakeUp_cases split: option.split prod.split)
qed

context operation_source
begin

lemma reconcile_runs:
  "produce si = Inr data \<Longrightarrow>
   reconcile_resources r req si secret data now nextSchedule requeueAfter g w =
   run_operation r req si secret data now nextSchedule requeueAfter g w"
  by (rule reconcile_resources_run) (rule supported)

end

definition example_request :: Request where
  "example_request = \<lparr>req_Namespace = ''default'', req_Name = ''working-hours''\<rparr>"

section \<open>Reconcile\<close>

text \<open>What the handler has read when it decides: the SleepInfo, the secret and the operation.\<close>

definition reads ::
    "('w, 's, 'p) SleepInfoReconciler \<Rightarrow> Request \<Rightarrow> 'w \<Rightarrow> SleepInfo \<Rightarrow> Secret option \<Rightarrow> SleepInfoData \<Rightarrow> 'w \<Rightarrow> bool"
where
  "reads r req w si secret data w' =
     (\<exists>w1 sres. GetSleepInfo (r_Client r) (req_Namespace req) (req_Name req) w = (Inr si, w1) \<and>
        GetSecret (r_Client r) (req_Namespace req) (''sleepinfo-'' @ req_Name req)
          (r_MetricSet r (req_Name req) (req_Namespace req) 1 w1) = (sres, w') \<and>
        (case sres of Inl e \<Rightarrow> is_not_found e \<and> secret = None | Inr s \<Rightarrow> secret = Some s) \<and>
        getSleepInfoData (r_tz r) secret si = Inr data)"

lemma Reconcile_reads:
  assumes "reads r req w si secret data w'"
  shows "Reconcile r req w =
    (case getNextSchedule (r_cron r) (r_SleepDelta r) data (r_Now r w') of
       Inl e \<Rightarrow> ((empty_result, Some e), w')
     | Inr (isToExecute, nextSchedule, requeueAfter) \<Rightarrow>
         (if \<not> isToExecute then ((after_result requeueAfter, None), w')
          else case NewResources (r_libs r) (resource_client r si) (req_Namespace req)
                  (OriginalGenericResourceInfo data) w' of
            (Inl e, w2) \<Rightarrow> ((empty_result, Some e), w2)
          | (Inr g, w2) \<Rightarrow>
              run_operation r req si secret data (r_Now r w') nextSchedule requeueAfter g w2))"
proof -
  obtain w1 sres where
      si: "GetSleepInfo (r_Client r) (req_Namespace req) (req_Name req) w = (Inr si, w1)"
      and sec: "GetSecret (r_Client r) (req_Namespace req) (''sleepinfo-'' @ req_Name req)
        (r_MetricSet r (req_Name req) (req_Namespace req) 1 w1) = (sres, w')"
      and sres: "case sres of Inl e \<Rightarrow> is_not_found e \<and> secret = None | Inr s \<Rightarrow> secret = Some s"
      and data: "getSleepInfoData (r_tz r) secret si = Inr data"
    using assms by (auto simp: reads_def)
  have "(case sres of Inl e \<Rightarrow> ignore_not_found e | Inr _ \<Rightarrow> None) = None"
    and "(case sres of Inl _ \<Rightarrow> None | Inr s \<Rightarrow> Some s) = secret"
    using sres by (auto split: sum.splits)
  with si sec data show ?thesis
    by (simp add: Reconcile_def getSleepInfo_def getSecret_def getSecretName_def Let_def
        secret_source.reconcile_runs [OF data] split: sum.split prod.split)
qed

text \<open>
  C22: a reconcile when nothing is due writes nothing: the world it leaves is the one after
  reading the SleepInfo and the secret and setting the gauge, and it asks to be called
  again when the tick comes, which is more than the delta away.
\<close>

theorem Reconcile_not_due:
  assumes "reads r req w si secret data w'"
    and "getNextSchedule (r_cron r) (r_SleepDelta r) data (r_Now r w') = Inr (False, nextSchedule, requeueAfter)"
    and "0 \<le> sint (r_SleepDelta r)" and "sint (r_SleepDelta r) \<le> 9223372036"
    and "ticks_later (r_cron r) (CurrentOperationSchedule data)"
    and "ticks_later (r_cron r) (NextOperationSchedule data)"
  shows "Reconcile r req w = ((\<lparr>Requeue = False, RequeueAfter = requeueAfter\<rparr>, None), w') \<and>
    sint (r_SleepDelta r) * 1000000000 < sint requeueAfter"
proof -
  have "delta_ok (r_SleepDelta r)" using assms(3,4) by (simp add: delta_ok_def)
  from getNextSchedule_later [OF this assms(5,6,2)] show ?thesis
    by (simp add: Reconcile_reads [OF assms(1)] assms(2) after_result_def)
qed

lemma world_reads:
  assumes "ew_info w = Some si" and "getSleepInfoData (\<lambda>t. 0) (ew_secret w) si = Inr data"
  shows "reads example_reconciler req w si (ew_secret w) data w"
  using assms by (auto simp: reads_def world_client_def found_def split: option.split)

abbreviation example_data :: SleepInfoData where
  "example_data \<equiv> first_run_data ''00 20 * * 1-5'' ''00 08 * * 1-5''"

definition idle_world :: example_world where
  "idle_world = start_world\<lparr>ew_now := at_ns 1800000000000\<rparr>"

lemma idle_reads: "reads example_reconciler example_request idle_world example_sleepinfo None example_data idle_world"
  using world_reads [of idle_world example_sleepinfo example_data example_request]
  by (simp add: idle_world_def start_world_def example_first_run)

lemma example_idle:
  "getNextSchedule hourly_cron 60 example_data (at_ns 1800000000000) =
   Inr (False, at_ns 3600000000000, time_Sub (at_ns 3600000000000) (at_ns 1800000000000))"
proof -
  have "due_tick hourly_cron () 60 zero_time (at_ns 1800000000000) = at_ns 3600000000000"
    unfolding hourly_due_tick by simp
  moreover have "\<not> in_window 60 (at_ns 1800000000000) (at_ns 3600000000000)"
    by (simp add: in_window_def at_ns_def)
  moreover have "ParseStandard hourly_cron x = Inr ()" for x by (simp add: hourly_cron_def)
  ultimately show ?thesis
    by (subst getNextSchedule_tick) (simp_all add: delta_ok_def first_run_data_def Let_def)
qed

theorem Reconcile_not_due_witness:
  "Reconcile example_reconciler example_request idle_world =
   ((\<lparr>Requeue = False, RequeueAfter = time_Sub (at_ns 3600000000000) (at_ns 1800000000000)\<rparr>, None), idle_world)"
proof -
  have "getNextSchedule (r_cron example_reconciler) (r_SleepDelta example_reconciler) example_data
      (r_Now example_reconciler idle_world) =
      Inr (False, at_ns 3600000000000, time_Sub (at_ns 3600000000000) (at_ns 1800000000000))"
    using example_idle by (simp add: idle_world_def)
  from Reconcile_not_due [OF idle_reads this] hourly_later show ?thesis by simp
qed

text \<open>
  When an operation is due and its resources are listed, the handler stores the status,
  performs the operation and stores the secret of the operation; it succeeds and is called
  again at the next operation. The secret is the one for the resources after the
  operation, with the time at which the run began.
\<close>

lemma Reconcile_writes_secret:
  assumes "reads r req w si secret data w'"
    and "getNextSchedule (r_cron r) (r_SleepDelta r) data (r_Now r w') = Inr (True, nextSchedule, requeueAfter)"
    and "NewResources (r_libs r) (resource_client r si) (req_Namespace req)
      (OriginalGenericResourceInfo data) w' = (Inr g, w1)"
    and "HasResource g"
    and "StatusUpdateSleepInfo (r_Client r)
      (si\<lparr>si_Status := \<lparr>LastScheduleTime = r_Now r w', OperationType = CurrentOperationType data\<rparr>\<rparr>) w1 = (None, w2)"
    and "(if IsWakeUpOperation data then WakeUp (r_libs r) g w2 else Sleep (r_libs r) g w2) = ((None, g1), w3)"
    and "(if secret = None then CreateSecret (r_Client r) else UpdateSecret (r_Client r))
      (new_secret r (r_Now r w') (''sleepinfo-'' @ req_Name req) (req_Namespace req) si data g1) w3 = (None, w4)"
  shows "Reconcile r req w = ((\<lparr>Requeue = False, RequeueAfter = requeueAfter\<rparr>, None), w4)"
proof -
  have "IsSleepOperation data \<noteq> IsWakeUpOperation data"
    using assms(1) secret_source.supported by (auto simp: reads_def)
  then show ?thesis
    using assms(2-7)
    by (auto simp: Reconcile_reads [OF assms(1)] run_operation_def handleSleepInfoStatus_def perform_def
        upsertSecret_def getSecretName_def requeue_after_def after_result_def Let_def split: if_splits)
qed

lemma start_reads: "reads example_reconciler example_request start_world example_sleepinfo None example_data start_world"
  using world_reads [of start_world example_sleepinfo example_data example_request]
  by (simp add: start_world_def example_first_run)

lemma start_due:
  "getNextSchedule (r_cron example_reconciler) (r_SleepDelta example_reconciler) example_data
     (r_Now example_reconciler start_world) =
   Inr (True, at_ns 3600000000000, time_Sub (at_ns 3600000000000) (at_ns 0))"
proof -
  have "due_tick hourly_cron () 60 zero_time (at_ns 0) = at_ns 0"
    and "sched_Next hourly_cron () (time_Add (at_ns 0) (60 * Second)) = at_ns 3600000000000"
    unfolding hourly_due_tick hourly_next by simp_all
  moreover have "in_window 60 (at_ns 0) (at_ns 0)" by (simp add: in_window_def)
  moreover have "ParseStandard hourly_cron x = Inr ()" for x by (simp add: hourly_cron_def)
  ultimately have "getNextSchedule hourly_cron 60 example_data (at_ns 0) =
      Inr (True, at_ns 3600000000000, time_Sub (at_ns 3600000000000) (at_ns 0))"
    by (subst getNextSchedule_tick) (simp_all add: delta_ok_def first_run_data_def Let_def)
  then show ?thesis by (simp add: start_world_def)
qed

lemma Reconcile_writes_secret_example:
  "\<exists>w. Reconcile example_reconciler example_request start_world =
      ((\<lparr>Requeue = False, RequeueAfter = time_Sub (at_ns 3600000000000) (at_ns 0)\<rparr>, None), w) \<and>
    ew_objs w = [example_obj ''a'' ''0''] \<and> ew_secret w = Some first_secret"
proof -
  let ?r = example_reconciler and ?g = "world_resources [example_obj ''a'' ''3'']"
  let ?si = "example_sleepinfo\<lparr>si_Status :=
    \<lparr>LastScheduleTime = r_Now ?r start_world, OperationType = CurrentOperationType example_data\<rparr>\<rparr>"
  let ?w2 = "start_world\<lparr>ew_info := Some ?si\<rparr>"
  let ?w3 = "?w2\<lparr>ew_objs := [example_obj ''a'' ''0'']\<rparr>"
  have new: "NewResources (r_libs ?r) (resource_client ?r example_sleepinfo) (req_Namespace example_request)
      (OriginalGenericResourceInfo example_data) start_world = (Inr ?g, start_world)"
    using world_NewResources by (simp add: first_run_data_def example_request_def)
  have status: "StatusUpdateSleepInfo (r_Client ?r) ?si start_world = (None, ?w2)"
    by (simp add: world_client_def)
  have op: "(if IsWakeUpOperation example_data then WakeUp (r_libs ?r) ?g ?w2 else Sleep (r_libs ?r) ?g ?w2) =
      ((None, slept_world_resources), ?w3)"
    using world_Sleep [of ?w2] by (simp add: IsWakeUpOperation_def first_run_data_def start_world_def)
  have save: "(if None = (None :: Secret option) then CreateSecret (r_Client ?r) else UpdateSecret (r_Client ?r))
      (new_secret ?r (r_Now ?r start_world) (''sleepinfo-'' @ req_Name example_request)
        (req_Namespace example_request) example_sleepinfo example_data slept_world_resources) ?w3 =
      (None, ?w3\<lparr>ew_secret := Some first_secret\<rparr>)"
    by (simp add: world_client_def first_secret_def example_request_def start_world_def)
  from Reconcile_writes_secret [OF start_reads start_due new world_HasResource(1) status op save]
  show ?thesis by (simp add: start_world_def)
qed

text \<open>
  C23: a failing sleep or wake up is returned with the request to try again, and the secret
  is not written: the world is the one the failed operation left.
\<close>

theorem Reconcile_failed_operation:
  assumes "reads r req w si secret data w'"
    and "getNextSchedule (r_cron r) (r_SleepDelta r) data (r_Now r w') = Inr (True, nextSchedule, requeueAfter)"
    and "NewResources (r_libs r) (resource_client r si) (req_Namespace req)
      (OriginalGenericResourceInfo data) w' = (Inr g, w1)"
    and "HasResource g"
    and "handleSleepInfoStatus r (r_Now r w') si (CurrentOperationType data) g w1 = (None, w2)"
    and "(if IsWakeUpOperation data then WakeUp (r_libs r) g w2 else Sleep (r_libs r) g w2) = ((Some e, g1), w3)"
  shows "Reconcile r req w = ((\<lparr>Requeue = True, RequeueAfter = 0\<rparr>, Some e), w3)"
proof -
  have "IsSleepOperation data \<noteq> IsWakeUpOperation data"
    using assms(1) secret_source.supported by (auto simp: reads_def)
  then show ?thesis
    using assms(2-6)
    by (auto simp: Reconcile_reads [OF assms(1)] run_operation_def perform_def requeue_result_def
        split: if_splits)
qed

theorem Reconcile_failed_operation_witness:
  "\<exists>w. Reconcile example_reconciler example_request (start_world\<lparr>ew_info := Some empty_patch_info\<rparr>) =
    ((\<lparr>Requeue = True, RequeueAfter = 0\<rparr>,
      Some (WrapErr [] (SentinelErr ErrJSONPatch) '': invalid empty patch'')), w) \<and> ew_secret w = None"
proof -
  let ?r = example_reconciler and ?w = "start_world\<lparr>ew_info := Some empty_patch_info\<rparr>"
  let ?g = empty_patch_world_resources
  have reads: "reads ?r example_request ?w empty_patch_info None example_data ?w"
    using world_reads [of ?w empty_patch_info example_data] by (simp add: start_world_def empty_patch_data)
  have due: "getNextSchedule (r_cron ?r) (r_SleepDelta ?r) example_data (r_Now ?r ?w) =
      Inr (True, at_ns 3600000000000, time_Sub (at_ns 3600000000000) (at_ns 0))"
    using start_due by (simp add: start_world_def)
  have new: "NewResources (r_libs ?r) (resource_client ?r empty_patch_info) (req_Namespace example_request)
      (OriginalGenericResourceInfo example_data) ?w = (Inr ?g, ?w)"
    using empty_patch_New [of ?w] by (simp add: start_world_def first_run_data_def example_request_def)
  have has: "HasResource ?g"
    by (simp add: HasResource_def empty_patch_world_resources_def new_group_def)
  obtain w2 where status: "handleSleepInfoStatus ?r (r_Now ?r ?w) empty_patch_info
      (CurrentOperationType example_data) ?g ?w = (None, w2)" and w2: "ew_secret w2 = None"
    by (auto simp: handleSleepInfoStatus_def world_client_def start_world_def)
  have "(if IsWakeUpOperation example_data then WakeUp (r_libs ?r) ?g w2 else Sleep (r_libs ?r) ?g w2) =
      ((Some (WrapErr [] (SentinelErr ErrJSONPatch) '': invalid empty patch''), ?g), w2)"
    by (simp add: empty_patch_world_Sleep IsWakeUpOperation_def first_run_data_def)
  from Reconcile_failed_operation [OF reads due new has status this] w2 show ?thesis by blast
qed

section \<open>A failing list call at the wake up tick\<close>

text \<open>
  C24: when a wake up is due and every list call of the run fails, the handler takes the
  namespace for empty: it replaces the secret by one without operation and restore
  patches, reports no error, and what it will find due next is a sleep with nothing to
  restore.
\<close>

theorem wake_list_failure_loses_restore_info:
  fixes w :: 'w
  assumes "reads r req w si (Some s) data w'" and "IsWakeUpOperation data"
    and "getNextSchedule (r_cron r) (r_SleepDelta r) data (r_Now r w') = Inr (True, nextSchedule, requeueAfter)"
    and "\<And>t w. \<exists>items e w'. getListByNamespace (l_unstr (r_libs r)) (l_sel (r_libs r)) (resource_client r si)
      (req_Namespace req) t w = ((items, Some e), w')"
    and "\<And>x w. \<exists>w'. StatusUpdateSleepInfo (r_Client r) x w = (None, w')"
    and "\<And>x w. \<exists>w'. UpdateSecret (r_Client r) x w = (None, w')"
    and "printable (r_tz r) (r_Now r w')"
  shows "\<exists>s' w1 w2 d. Reconcile r req w = ((\<lparr>Requeue = False, RequeueAfter = requeueAfter\<rparr>, None), w2) \<and>
    UpdateSecret (r_Client r) s' w1 = (None, w2) \<and>
    getSleepInfoData (r_tz r) (Some (convertSecretStringData s')) si = Inr d \<and>
    CurrentOperationType d = sleepOperation \<and> OriginalGenericResourceInfo d = Some []"
proof -
  have data: "getSleepInfoData (r_tz r) (Some s) si = Inr data" using assms(1) by (auto simp: reads_def)
  let ?g = "\<lparr>resMapping = [], mr_namespace = req_Namespace req\<rparr> :: 'w managedResources"
  let ?s' = "new_secret r (r_Now r w') (''sleepinfo-'' @ req_Name req) (req_Namespace req) si data ?g"
  have empty: "\<not> HasResource ?g" "savable ?g" "resMapping ?g = []" by (simp_all add: HasResource_def savable_def)
  obtain w0 where new: "NewResources (r_libs r) (resource_client r si) (req_Namespace req)
      (OriginalGenericResourceInfo data) w' = (Inr ?g, w0)"
  proof -
    let ?rps = "case OriginalGenericResourceInfo data of None \<Rightarrow> [] | Some m \<Rightarrow> m"
    obtain m w0 where "NewResources_loop (r_libs r) (resource_client r si) (req_Namespace req) ?rps
        (GetPatches si) [] w' = (m, w0)" by (metis surj_pair)
    with NewResources_loop_failing [OF assms(4), of ?rps "GetPatches si" "[]" w'] that show ?thesis
      by (simp add: NewResources_def resource_client_def)
  qed
  obtain w1 where status: "handleSleepInfoStatus r (r_Now r w') si (CurrentOperationType data) ?g w0 = (None, w1)"
    unfolding handleSleepInfoStatus_def using assms(5) by blast
  obtain w2 where save: "UpdateSecret (r_Client r) ?s' w1 = (None, w2)" using assms(6) by blast
  have "Reconcile r req w = ((\<lparr>Requeue = False, RequeueAfter = requeueAfter\<rparr>, None), w2)"
    using assms(2,3) new status save empty(1)
    by (simp add: Reconcile_reads [OF assms(1)] run_operation_def perform_def upsertSecret_def
        getSecretName_def requeue_after_def after_result_def IsSleepOperation_def IsWakeUpOperation_def)
  moreover obtain sleep wake where "GetSleepSchedule si = Inr sleep" "GetWakeUpSchedule si = Inr wake"
    using getSleepInfoData_ok [OF data] by (auto simp: data_ok_def split: sum.splits)
  then obtain d where d: "getSleepInfoData (r_tz r) (Some (convertSecretStringData ?s')) si = Inr d"
      "OriginalGenericResourceInfo d = Some []"
    using getSleepInfoData_stored [OF assms(7) empty(2)] empty(1)
    by (fastforce simp: stored_secret_def saved_patches_def)
  moreover have "CurrentOperationType d = sleepOperation"
    using getSleepInfoData_wake [OF d(1)] secret_source.supported [OF d(1)] empty(1)
    by (simp add: recorded_new_secret IsSleepOperation_def operation_names)
  ultimately show ?thesis using save by blast
qed

definition failing_reconciler :: "(example_world, unit, json) SleepInfoReconciler" where
  "failing_reconciler = example_reconciler
     \<lparr>r_Client := world_client\<lparr>ListObjects := (\<lambda>gvk opts w. (([], Some (Err ''timeout'')), w))\<rparr>\<rparr>"

definition slept_world :: example_world where
  "slept_world = start_world
     \<lparr>ew_objs := [example_obj ''a'' ''0''], ew_secret := Some first_secret, ew_now := at_ns 3600000000000\<rparr>"

lemma failing_list:
  "\<exists>items e w'. getListByNamespace (l_unstr (r_libs failing_reconciler)) (l_sel (r_libs failing_reconciler))
     (resource_client failing_reconciler example_sleepinfo) ns t w = ((items, Some e), w')"
  by (simp add: getListByNamespace_def getListOptions_def resource_client_def failing_reconciler_def
      world_client_def GetIncludeRef_def GetExcludeRef_def getFieldToInclude_def getFieldToExclude_def
      example_no_filters)

lemma first_secret_data:
  obtains d where "getSleepInfoData (\<lambda>t. 0) (Some first_secret) example_sleepinfo = Inr d"
    and "IsWakeUpOperation d" and "LastSchedule d = zero_time"
proof -
  have p: "printable (r_tz example_reconciler) (at_ns 0)" using printable_start by simp
  have s: "savable slept_world_resources"
    by (simp add: savable_def slept_world_resources_def slept_group_def patches_good_def gm_wf_def)
  obtain d where d: "getSleepInfoData (\<lambda>t. 0) (Some first_secret) example_sleepinfo = Inr d"
      "LastSchedule d = truncated (\<lambda>t. 0) (at_ns 0)"
    using getSleepInfoData_stored [OF p s example_schedules, of "''sleepinfo-working-hours''" "''default''"
        example_sleepinfo example_data]
    by (auto simp: stored_secret_def first_secret_def)
  moreover have "truncated (\<lambda>t. 0) (at_ns 0) = zero_time"
    by (simp add: truncated_def zone_offset_def at_ns_def zero_time_def)
  moreover have "WakeUpTime (si_Spec example_sleepinfo) \<noteq> []" by (simp add: example_defs)
  then have "IsWakeUpOperation d"
    using getSleepInfoData_wake [OF d(1)] world_HasResource(2)
    by (simp add: first_secret_def recorded_new_secret first_run_data_def)
  ultimately show ?thesis using that by simp
qed

theorem wake_list_failure_loses_restore_info_witness:
  "\<exists>s' w1 w2 d. Reconcile failing_reconciler example_request slept_world =
      ((\<lparr>Requeue = False, RequeueAfter = time_Sub (at_ns 7200000000000) (at_ns 3600000000000)\<rparr>, None), w2) \<and>
    UpdateSecret (r_Client failing_reconciler) s' w1 = (None, w2) \<and>
    getSleepInfoData (\<lambda>t. 0) (Some (convertSecretStringData s')) example_sleepinfo = Inr d \<and>
    CurrentOperationType d = sleepOperation \<and> OriginalGenericResourceInfo d = Some []"
proof -
  let ?r = failing_reconciler
  obtain d where d: "getSleepInfoData (\<lambda>t. 0) (Some first_secret) example_sleepinfo = Inr d"
      "IsWakeUpOperation d" "LastSchedule d = zero_time"
    by (rule first_secret_data)
  have r: "r_tz ?r = (\<lambda>t. 0)" "r_Now ?r = ew_now" "r_cron ?r = hourly_cron" "r_SleepDelta ?r = 60"
    by (simp_all add: failing_reconciler_def)
  have reads: "reads ?r example_request slept_world example_sleepinfo (Some first_secret) d slept_world"
    using d(1) by (simp add: reads_def failing_reconciler_def world_client_def found_def slept_world_def
        start_world_def)
  have "due_tick hourly_cron () 60 zero_time (at_ns 3600000000000) = at_ns 3600000000000"
    and "sched_Next hourly_cron () (time_Add (at_ns 3600000000000) (60 * Second)) = at_ns 7200000000000"
    unfolding hourly_due_tick hourly_next by simp_all
  moreover have "in_window 60 t t" for t by (simp add: in_window_def)
  moreover have "ParseStandard hourly_cron x = Inr ()" for x by (simp add: hourly_cron_def)
  ultimately have due: "getNextSchedule (r_cron ?r) (r_SleepDelta ?r) d (r_Now ?r slept_world) =
      Inr (True, at_ns 7200000000000, time_Sub (at_ns 7200000000000) (at_ns 3600000000000))"
    unfolding r by (subst getNextSchedule_tick) (simp_all add: delta_ok_def d(3) Let_def slept_world_def)
  have print: "printable (r_tz ?r) (r_Now ?r slept_world)"
    unfolding r slept_world_def by (simp add: printable_def Let_def zone_offset_def at_ns_def, code_simp)
  have "\<And>x w. \<exists>w'. StatusUpdateSleepInfo (r_Client ?r) x w = (None, w')"
    and "\<And>x w. \<exists>w'. UpdateSecret (r_Client ?r) x w = (None, w')"
    by (simp_all add: failing_reconciler_def world_client_def)
  from wake_list_failure_loses_restore_info [OF reads d(2) due failing_list this print]
  show ?thesis unfolding r .
qed

end
