(* ===== verification/Execution_Controller.thy ===== *)
theory Execution_Controller
  imports Controller_Properties
begin

text \<open>
  \<open>internal/controller/sleepinfo/sleepinfoexecution_controller.go\<close>: the reconciler of
  SleepInfoExecution, which runs a sleep or a wake up on demand.
\<close>

definition setOwnerReference ::
    "('w, 's, 'p) SleepInfoReconciler \<Rightarrow> SleepInfoExecution \<Rightarrow> SleepInfo \<Rightarrow> 'w \<Rightarrow>
     SleepInfoExecution res \<times> 'w" where
  "setOwnerReference r execution sleepInfo w =
     (let ownerReferencesCount = length (m_OwnerReferences (ex_Meta execution)) in
      case r_SetOwnerReference r sleepInfo (m_OwnerReferences (ex_Meta execution)) of
        Inl e \<Rightarrow> (Inl e, w)
      | Inr refs \<Rightarrow>
          (let execution1 =
                 execution\<lparr>ex_Meta := (ex_Meta execution)\<lparr>m_OwnerReferences := refs\<rparr>\<rparr>
           in if length refs = ownerReferencesCount then (Inr execution1, w)
              else UpdateExecution (r_Client r) execution1 w))"

definition finished_execution ::
    "SleepInfoExecution \<Rightarrow> gotime \<Rightarrow> string \<Rightarrow> string \<Rightarrow> SleepInfoExecution" where
  "finished_execution execution now phase message =
     execution\<lparr>ex_Status :=
       \<lparr>Phase = phase,
        StartTime = (case StartTime (ex_Status execution) of None \<Rightarrow> Some now | Some t \<Rightarrow> Some t),
        CompletionTime = Some now, Message = message\<rparr>\<rparr>"

definition updateExecutionStatus ::
    "('w, 's, 'p) SleepInfoReconciler \<Rightarrow> SleepInfoExecution \<Rightarrow> gotime \<Rightarrow> string \<Rightarrow> string \<Rightarrow> 'w \<Rightarrow>
     goerror option \<times> 'w" where
  "updateExecutionStatus r execution now phase message w =
     StatusUpdateExecution (r_Client r) (finished_execution execution now phase message) w"

definition finish ::
    "('w, 's, 'p) SleepInfoReconciler \<Rightarrow> SleepInfoExecution \<Rightarrow> gotime \<Rightarrow> string \<Rightarrow> string \<Rightarrow> 'w \<Rightarrow>
     (Result \<times> goerror option) \<times> 'w" where
  "finish r execution now phase message w =
     (case updateExecutionStatus r execution now phase message w of
        (err, w1) \<Rightarrow> ((empty_result, err), w1))"

text \<open>The handler from \<open>NewResources\<close> on.\<close>

definition run_execution ::
    "('w, 's, 'p) SleepInfoReconciler \<Rightarrow> Request \<Rightarrow> SleepInfoExecution \<Rightarrow> gotime \<Rightarrow> SleepInfo \<Rightarrow>
     Secret option \<Rightarrow> SleepInfoData \<Rightarrow> 'w \<Rightarrow> (Result \<times> goerror option) \<times> 'w" where
  "run_execution r req execution now sleepInfo secret sleepInfoData w =
     (case NewResources (r_libs r) (resource_client r sleepInfo) (req_Namespace req)
             (OriginalGenericResourceInfo sleepInfoData) w of
        (Inl e, w1) \<Rightarrow> ((empty_result, Some e), w1)
      | (Inr resources, w1) \<Rightarrow>
     (if \<not> HasResource resources then
        finish r execution now ExecutionPhaseSkipped ''no resources to handle in namespace'' w1
      else
     (case (if IsSleepOperation sleepInfoData then Sleep (r_libs r) resources w1
            else if IsWakeUpOperation sleepInfoData then WakeUp (r_libs r) resources w1
            else ((None, resources), w1)) of
        ((Some e, resources1), w2) \<Rightarrow> ((empty_result, Some e), w2)
      | ((None, resources1), w2) \<Rightarrow>
     (case upsertSecret r now (getSecretName (m_Name (si_Meta sleepInfo))) (req_Namespace req)
             sleepInfo secret sleepInfoData resources1 w2 of
        (Some e, w3) \<Rightarrow> ((empty_result, Some e), w3)
      | (None, w3) \<Rightarrow>
     (case handleSleepInfoStatus r now sleepInfo (CurrentOperationType sleepInfoData) resources1 w3 of
        (Some e, w4) \<Rightarrow> ((empty_result, Some e), w4)
      | (None, w4) \<Rightarrow>
          finish r execution now ExecutionPhaseSucceeded
            (''operation '' @ Operation (ex_Spec execution) @ '' executed'') w4)))))"

definition isAsleep :: "Secret option \<Rightarrow> bool" where
  "isAsleep secret =
     (case secret of
        None \<Rightarrow> False
      | Some s \<Rightarrow>
          (case sec_Data s of
             None \<Rightarrow> False
           | Some data \<Rightarrow> data_string data lastOperationKey = sleepOperation))"

definition Reconcile_execution ::
    "('w, 's, 'p) SleepInfoReconciler \<Rightarrow> Request \<Rightarrow> 'w \<Rightarrow> (Result \<times> goerror option) \<times> 'w" where
  "Reconcile_execution r req w0 =
     (case GetExecution (r_Client r) (req_Namespace req) (req_Name req) w0 of
        (Inl e, w1) \<Rightarrow> ((empty_result, ignore_not_found e), w1)
      | (Inr execution0, w1) \<Rightarrow>
     (if IsProcessed execution0 then ((empty_result, None), w1)
      else
     (let now = r_Now r w1 in
      case GetSleepInfo (r_Client r) (req_Namespace req) (SleepInfoName (ex_Spec execution0)) w1 of
        (Inl e, w2) \<Rightarrow>
          (if is_not_found e then
             finish r execution0 now ExecutionPhaseFailed
               (''SleepInfo '' @ quoted (SleepInfoName (ex_Spec execution0)) @
                '' not found in namespace '' @ quoted (req_Namespace req)) w2
           else ((empty_result, Some e), w2))
      | (Inr sleepInfo, w2) \<Rightarrow>
     (case setOwnerReference r execution0 sleepInfo w2 of
        (Inl e, w3) \<Rightarrow> ((empty_result, Some e), w3)
      | (Inr execution, w3) \<Rightarrow>
     (case getSecret r (getSecretName (m_Name (si_Meta sleepInfo))) (req_Namespace req) w3 of
        (secretRes, w4) \<Rightarrow>
     (case (case secretRes of Inl e \<Rightarrow> ignore_not_found e | Inr _ \<Rightarrow> None) of
        Some e \<Rightarrow> ((empty_result, Some e), w4)
      | None \<Rightarrow>
     (let secret = (case secretRes of Inl _ \<Rightarrow> None | Inr s \<Rightarrow> Some s);
          op = Operation (ex_Spec execution)
      in
      if op = ExecutionOpWake \<and> \<not> isAsleep secret then
        finish r execution now ExecutionPhaseSkipped
          ''resources are not asleep, nothing to wake up'' w4
      else if op = ExecutionOpSleep \<and> isAsleep secret then
        finish r execution now ExecutionPhaseSkipped ''resources are already asleep'' w4
      else
     (case getSleepInfoData (r_tz r) secret sleepInfo of
        Inl e \<Rightarrow> ((empty_result, Some e), w4)
      | Inr data0 \<Rightarrow>
     (case applyExecutionOverride data0 op sleepInfo of
        Inl e \<Rightarrow> finish r execution now ExecutionPhaseFailed (error_text e) w4
      | Inr sleepInfoData \<Rightarrow>
          run_execution r req execution now sleepInfo secret sleepInfoData w4)))))))))"

section \<open>Properties\<close>

text \<open>
  What the handler has read when it decides: an execution that is not processed yet, with
  its owner reference set, the SleepInfo and the secret; and the time at which it began.
\<close>

definition exec_reads ::
    "('w, 's, 'p) SleepInfoReconciler \<Rightarrow> Request \<Rightarrow> 'w \<Rightarrow> SleepInfoExecution \<Rightarrow> gotime \<Rightarrow> SleepInfo \<Rightarrow>
     Secret option \<Rightarrow> 'w \<Rightarrow> bool" where
  "exec_reads r req w ex now si secret w' =
     (\<exists>ex0 w1 w2 w3 sres.
        GetExecution (r_Client r) (req_Namespace req) (req_Name req) w = (Inr ex0, w1) \<and>
        \<not> IsProcessed ex0 \<and> now = r_Now r w1 \<and>
        GetSleepInfo (r_Client r) (req_Namespace req) (SleepInfoName (ex_Spec ex0)) w1 = (Inr si, w2) \<and>
        setOwnerReference r ex0 si w2 = (Inr ex, w3) \<and>
        GetSecret (r_Client r) (req_Namespace req) (''sleepinfo-'' @ m_Name (si_Meta si)) w3 = (sres, w') \<and>
        (case sres of Inl e \<Rightarrow> is_not_found e \<and> secret = None | Inr s \<Rightarrow> secret = Some s))"

lemma Reconcile_execution_reads:
  assumes "exec_reads r req w ex now si secret w'"
  shows "Reconcile_execution r req w =
    (let op = Operation (ex_Spec ex) in
     if op = ExecutionOpWake \<and> \<not> isAsleep secret then
       finish r ex now ExecutionPhaseSkipped ''resources are not asleep, nothing to wake up'' w'
     else if op = ExecutionOpSleep \<and> isAsleep secret then
       finish r ex now ExecutionPhaseSkipped ''resources are already asleep'' w'
     else case getSleepInfoData (r_tz r) secret si of
       Inl e \<Rightarrow> ((empty_result, Some e), w')
     | Inr data0 \<Rightarrow>
         (case applyExecutionOverride data0 op si of
            Inl e \<Rightarrow> finish r ex now ExecutionPhaseFailed (error_text e) w'
          | Inr data \<Rightarrow> run_execution r req ex now si secret data w'))"
proof -
  obtain ex0 w1 w2 w3 sres where
    steps: "GetExecution (r_Client r) (req_Namespace req) (req_Name req) w = (Inr ex0, w1)"
      "\<not> IsProcessed ex0" "now = r_Now r w1"
      "GetSleepInfo (r_Client r) (req_Namespace req) (SleepInfoName (ex_Spec ex0)) w1 = (Inr si, w2)"
      "setOwnerReference r ex0 si w2 = (Inr ex, w3)"
      "GetSecret (r_Client r) (req_Namespace req) (''sleepinfo-'' @ m_Name (si_Meta si)) w3 = (sres, w')"
    and sres: "case sres of Inl e \<Rightarrow> is_not_found e \<and> secret = None | Inr s \<Rightarrow> secret = Some s"
    using assms by (auto simp: exec_reads_def)
  have "(case sres of Inl e \<Rightarrow> ignore_not_found e | Inr _ \<Rightarrow> None) = None"
    and "(case sres of Inl _ \<Rightarrow> None | Inr s \<Rightarrow> Some s) = secret"
    using sres by (auto split: sum.splits)
  with steps show ?thesis
    by (simp add: Reconcile_execution_def getSecret_def getSecretName_def Let_def split: sum.split)
qed

lemma isAsleep_recorded: "isAsleep secret \<longleftrightarrow> recorded_operation secret = sleepOperation"
  by (auto simp: isAsleep_def recorded_operation_def operation_names split: option.split)

section \<open>Example executions\<close>

definition example_execution :: "string \<Rightarrow> string \<Rightarrow> SleepInfoExecution" where
  "example_execution op phase =
     \<lparr>ex_Meta = example_meta\<lparr>m_Name := ''now''\<rparr>,
      ex_Spec = \<lparr>SleepInfoName = ''working-hours'', Operation = op\<rparr>,
      ex_Status = \<lparr>Phase = phase, StartTime = None, CompletionTime = None, Message = []\<rparr>\<rparr>"

definition exec_request :: Request where
  "exec_request = \<lparr>req_Namespace = ''default'', req_Name = ''now''\<rparr>"

definition exec_world :: "string \<Rightarrow> string \<Rightarrow> Secret option \<Rightarrow> example_world" where
  "exec_world op phase secret =
     start_world\<lparr>ew_execution := Some (example_execution op phase), ew_secret := secret\<rparr>"

lemma world_exec_reads:
  assumes "ew_execution w = Some (example_execution op [])" and "ew_info w = Some si"
  shows "exec_reads example_reconciler exec_request w (example_execution op []) (ew_now w) si (ew_secret w) w"
  using assms
  by (auto simp: exec_reads_def world_client_def found_def IsProcessed_def execution_consts
      example_execution_def setOwnerReference_def example_reconciler_def split: option.split)

lemma exec_world_reads:
  "exec_reads example_reconciler exec_request (exec_world op [] secret) (example_execution op []) (at_ns 0)
     example_sleepinfo secret (exec_world op [] secret)"
  using world_exec_reads [of "exec_world op [] secret" op example_sleepinfo]
  by (simp add: exec_world_def start_world_def)

lemma world_StatusUpdateExecution:
  "StatusUpdateExecution world_client e w = (None, w\<lparr>ew_execution := Some e\<rparr>)"
  by (simp add: world_client_def)

lemma first_secret_recorded: "recorded_operation (Some first_secret) = sleepOperation"
  using world_HasResource(2) by (simp add: first_secret_def recorded_new_secret first_run_data_def)

section \<open>Theorems\<close>

text \<open>
  What reading and writing executions leaves alone: an observation \<open>obs\<close> of the world, such as
  its resources, its secrets or its SleepInfos, that the calls reading the execution, the
  SleepInfo and the secret and the two calls writing an execution do not change.
\<close>

definition apart_from_executions :: "'w client \<Rightarrow> ('w \<Rightarrow> 'o) \<Rightarrow> bool" where
  "apart_from_executions cl obs =
     (\<forall>w. (\<forall>ns n. obs (snd (GetExecution cl ns n w)) = obs w \<and> obs (snd (GetSleepInfo cl ns n w)) = obs w \<and>
             obs (snd (GetSecret cl ns n w)) = obs w) \<and>
          (\<forall>ex. obs (snd (UpdateExecution cl ex w)) = obs w \<and> obs (snd (StatusUpdateExecution cl ex w)) = obs w))"

lemma setOwnerReference_apart:
  "apart_from_executions (r_Client r) obs \<Longrightarrow> setOwnerReference r ex si w = (res, w') \<Longrightarrow> obs w' = obs w"
  unfolding apart_from_executions_def
  by (auto simp: setOwnerReference_def Let_def split: sum.splits if_splits) (metis snd_conv)

lemma exec_reads_apart:
  assumes "apart_from_executions (r_Client r) obs" and "exec_reads r req w ex now si secret w'"
  shows "obs w' = obs w"
proof -
  obtain ex0 w1 w2 w3 sres where
    "GetExecution (r_Client r) (req_Namespace req) (req_Name req) w = (Inr ex0, w1)"
      "GetSleepInfo (r_Client r) (req_Namespace req) (SleepInfoName (ex_Spec ex0)) w1 = (Inr si, w2)"
      "setOwnerReference r ex0 si w2 = (Inr ex, w3)"
      "GetSecret (r_Client r) (req_Namespace req) (''sleepinfo-'' @ m_Name (si_Meta si)) w3 = (sres, w')"
    using assms(2) by (auto simp: exec_reads_def)
  with assms(1) setOwnerReference_apart [OF assms(1)] show ?thesis
    unfolding apart_from_executions_def by (metis snd_conv)
qed

text \<open>
  C26: an execution never touches a namespace that is already in the requested state: a
  sleep while the secret records a sleep, and a wake up while it records none, end with the
  status Skipped. Nothing is written but the execution itself: the owner reference that its
  first reconcile adds (\<open>setOwnerReference\<close>, part of \<open>exec_reads\<close>) and the status; every
  observation apart from executions, the resources and the secret with the saved original
  state in particular, is what it was.
\<close>

theorem execution_guards:
  assumes "exec_reads r req w ex now si secret w'"
    and "Operation (ex_Spec ex) = ''SLEEP'' \<and> recorded_operation secret = sleepOperation \<or>
      Operation (ex_Spec ex) = ''WAKE_UP'' \<and> recorded_operation secret \<noteq> sleepOperation"
    and "apart_from_executions (r_Client r) obs"
  shows "(\<exists>message. Reconcile_execution r req w =
      (case StatusUpdateExecution (r_Client r) (finished_execution ex now ''Skipped'' message) w' of
         (err, w2) \<Rightarrow> ((\<lparr>Requeue = False, RequeueAfter = 0\<rparr>, err), w2))) \<and>
    obs (snd (Reconcile_execution r req w)) = obs w"
proof -
  obtain message where run: "Reconcile_execution r req w =
      (case StatusUpdateExecution (r_Client r) (finished_execution ex now ''Skipped'' message) w' of
         (err, w2) \<Rightarrow> ((\<lparr>Requeue = False, RequeueAfter = 0\<rparr>, err), w2))"
    using assms(2)
    by (auto simp: Reconcile_execution_reads [OF assms(1)] Let_def isAsleep_recorded finish_def
        updateExecutionStatus_def execution_consts empty_result_def)
  have "obs (snd (StatusUpdateExecution (r_Client r) e w')) = obs w" for e
    using assms(3) exec_reads_apart [OF assms(3,1)] by (simp add: apart_from_executions_def)
  with run show ?thesis by (auto simp: case_prod_unfold)
qed

text \<open>The example with a reconciler that adds an owner reference on the first reconcile.\<close>

definition info_owner :: OwnerReference where
  "info_owner = \<lparr>or_APIVersion = ''kube-green.com/v1alpha1'', or_Kind = ''SleepInfo'', or_Name = ''working-hours'', or_UID = ''1''\<rparr>"

definition owning_reconciler :: "(example_world, unit, json) SleepInfoReconciler" where
  "owning_reconciler = example_reconciler\<lparr>r_SetOwnerReference := (\<lambda>si refs. Inr (info_owner # refs))\<rparr>"

definition owned_execution :: "string \<Rightarrow> SleepInfoExecution" where
  "owned_execution op = (example_execution op [])\<lparr>ex_Meta := (ex_Meta (example_execution op []))
     \<lparr>m_OwnerReferences := info_owner # m_OwnerReferences (ex_Meta (example_execution op []))\<rparr>\<rparr>"

lemma owning_reads:
  "exec_reads owning_reconciler exec_request (exec_world op [] secret) (owned_execution op) (at_ns 0)
     example_sleepinfo secret ((exec_world op [] secret)\<lparr>ew_execution := Some (owned_execution op)\<rparr>)"
  by (auto simp: exec_reads_def exec_world_def start_world_def world_client_def found_def IsProcessed_def
      execution_consts example_execution_def owned_execution_def setOwnerReference_def owning_reconciler_def
      example_reconciler_def Let_def split: option.split)

theorem execution_guards_witness:
  "(\<exists>message. Reconcile_execution owning_reconciler exec_request (exec_world ''SLEEP'' [] (Some first_secret)) =
      ((\<lparr>Requeue = False, RequeueAfter = 0\<rparr>, None), (exec_world ''SLEEP'' [] (Some first_secret))
        \<lparr>ew_execution := Some (finished_execution (owned_execution ''SLEEP'') (at_ns 0) ''Skipped'' message)\<rparr>)) \<and>
   (\<lambda>w. (ew_objs w, ew_secret w, ew_info w))
     (snd (Reconcile_execution owning_reconciler exec_request (exec_world ''SLEEP'' [] (Some first_secret)))) =
   ([example_obj ''a'' ''3''], Some first_secret, Some example_sleepinfo)"
proof -
  have "Operation (ex_Spec (owned_execution ''SLEEP'')) = ''SLEEP''"
    by (simp add: owned_execution_def example_execution_def)
  moreover have client: "r_Client owning_reconciler = world_client" by (simp add: owning_reconciler_def)
  moreover have "apart_from_executions (r_Client owning_reconciler) (\<lambda>w. (ew_objs w, ew_secret w, ew_info w))"
    unfolding client by (simp add: apart_from_executions_def world_client_def)
  ultimately show ?thesis
    using execution_guards [OF owning_reads [of "''SLEEP''" "Some first_secret"],
        where obs = "\<lambda>w. (ew_objs w, ew_secret w, ew_info w)"] first_secret_recorded
    by (simp add: world_StatusUpdateExecution) (simp add: exec_world_def start_world_def)
qed

text \<open>
  Waking up a SleepInfo without a wake up time is a permanent failure: the execution
  ends as Failed, with the reason in its message, and nothing else is written.
\<close>

lemma execution_wake_unsupported:
  assumes "exec_reads r req w ex now si secret w'"
    and "Operation (ex_Spec ex) = ''WAKE_UP''" and "recorded_operation secret = sleepOperation"
    and "getSleepInfoData (r_tz r) secret si = Inr data" and "WakeUpTime (si_Spec si) = []"
  shows "Reconcile_execution r req w =
    (case StatusUpdateExecution (r_Client r)
        (finished_execution ex now ''Failed''
          (''SleepInfo '' @ quoted (m_Name (si_Meta si)) @ '' has no wakeUpAt; WAKE_UP is not supported'')) w' of
       (err, w2) \<Rightarrow> ((\<lparr>Requeue = False, RequeueAfter = 0\<rparr>, err), w2))"
proof -
  obtain sleep where sleep: "GetSleepSchedule si = Inr sleep" and wake: "GetWakeUpSchedule si = Inr []"
    using getSleepInfoData_ok [OF assms(4)] assms(5)
    by (auto simp: data_ok_def GetWakeUpSchedule_def split: sum.splits)
  then show ?thesis
    using assms(2-4)
    by (simp add: Reconcile_execution_reads [OF assms(1)] Let_def isAsleep_recorded execution_consts
        applyExecutionOverride_def finish_def updateExecutionStatus_def empty_result_def)
qed

definition sleep_only_info :: SleepInfo where
  "sleep_only_info = example_sleepinfo\<lparr>si_Spec := example_spec\<lparr>WakeUpTime := []\<rparr>\<rparr>"

lemma execution_wake_unsupported_example:
  "\<exists>w. Reconcile_execution example_reconciler exec_request
      ((exec_world ''WAKE_UP'' [] (Some first_secret))\<lparr>ew_info := Some sleep_only_info\<rparr>) =
    ((\<lparr>Requeue = False, RequeueAfter = 0\<rparr>, None), w) \<and>
    map_option (\<lambda>e. Phase (ex_Status e)) (ew_execution w) = Some ''Failed''"
proof -
  let ?w = "(exec_world ''WAKE_UP'' [] (Some first_secret))\<lparr>ew_info := Some sleep_only_info\<rparr>"
  have reads: "exec_reads example_reconciler exec_request ?w (example_execution ''WAKE_UP'' []) (at_ns 0)
      sleep_only_info (Some first_secret) ?w"
    using world_exec_reads [of ?w "''WAKE_UP''" sleep_only_info] by (simp add: exec_world_def start_world_def)
  have "GetSleepSchedule sleep_only_info = Inr ''00 20 * * 1-5''" "GetWakeUpSchedule sleep_only_info = Inr []"
    by (simp_all add: sleep_only_info_def example_defs GetSleepSchedule_def GetWakeUpSchedule_def
        getScheduleFromWeekdayAndTime_def)
  then obtain d where "getSleepInfoData (r_tz example_reconciler) (Some first_secret) sleep_only_info = Inr d"
    using reachable_readable [OF first_secret_reachable] by (auto simp: secret_readable_def)
  with execution_wake_unsupported [OF reads _ first_secret_recorded] show ?thesis
    by (simp add: world_StatusUpdateExecution example_execution_def sleep_only_info_def finished_execution_def)
qed

lemma finish_None:
  "finish r ex now phase message w = ((res, None), w') \<Longrightarrow>
   StatusUpdateExecution (r_Client r) (finished_execution ex now phase message) w = (None, w')"
  by (auto simp: finish_def updateExecutionStatus_def split: prod.splits)

lemma run_execution_None:
  assumes "run_execution r req ex now si secret data w = ((res, None), w')"
  shows "\<exists>phase message w1. phase \<in> {ExecutionPhaseSucceeded, ExecutionPhaseSkipped} \<and>
    StatusUpdateExecution (r_Client r) (finished_execution ex now phase message) w1 = (None, w')"
  using assms
  by (auto simp: run_execution_def split: sum.splits prod.splits if_splits option.splits dest!: finish_None)

lemma execution_writes:
  assumes "exec_reads r req w ex now si secret w'"
    and "Reconcile_execution r req w = ((res, None), w2)"
  shows "\<exists>phase message w1. phase \<in> {ExecutionPhaseSucceeded, ExecutionPhaseFailed, ExecutionPhaseSkipped} \<and>
    StatusUpdateExecution (r_Client r) (finished_execution ex now phase message) w1 = (None, w2)"
  using assms(2) unfolding Reconcile_execution_reads [OF assms(1)] Let_def
  by (fastforce split: if_splits sum.splits dest: finish_None run_execution_None)

lemma finished_processed:
  "phase \<in> {ExecutionPhaseSucceeded, ExecutionPhaseFailed, ExecutionPhaseSkipped} \<Longrightarrow>
   IsProcessed (finished_execution ex now phase message)"
  by (auto simp: finished_execution_def IsProcessed_def)

text \<open>
  A run that reports success has left its mark: the last thing it wrote is a terminal
  status of the execution (so it is never run again), with the completion time set to the
  time of the run and an earlier start time kept. Without it the run ends in an error and
  is retried.
\<close>

lemma execution_terminal:
  assumes "exec_reads r req w ex now si secret w'"
    and "Reconcile_execution r req w = ((res, None), w2)"
  shows "\<exists>ex' w1. StatusUpdateExecution (r_Client r) ex' w1 = (None, w2) \<and> IsProcessed ex' \<and>
    CompletionTime (ex_Status ex') = Some now \<and>
    StartTime (ex_Status ex') =
      (case StartTime (ex_Status ex) of None \<Rightarrow> Some now | Some t \<Rightarrow> Some t) \<and>
    ex_Spec ex' = ex_Spec ex"
proof -
  obtain phase message w1 where
    "phase \<in> {ExecutionPhaseSucceeded, ExecutionPhaseFailed, ExecutionPhaseSkipped}"
    "StatusUpdateExecution (r_Client r) (finished_execution ex now phase message) w1 = (None, w2)"
    using execution_writes [OF assms] by blast
  then show ?thesis
    by (intro exI [of _ "finished_execution ex now phase message"] exI [of _ w1])
      (simp add: finished_processed, simp add: finished_execution_def)
qed

lemma execution_terminal_example:
  "\<exists>ex' w1 w2. StatusUpdateExecution world_client ex' w1 = (None, w2) \<and> IsProcessed ex' \<and>
    CompletionTime (ex_Status ex') = Some (at_ns 0)"
proof -
  have "\<exists>w2. Reconcile_execution example_reconciler exec_request (exec_world ''WAKE_UP'' [] None) =
      ((empty_result, None), w2)"
    by (simp add: Reconcile_execution_reads [OF exec_world_reads] Let_def example_execution_def
        isAsleep_def execution_consts finish_def updateExecutionStatus_def world_StatusUpdateExecution)
  then show ?thesis using execution_terminal [OF exec_world_reads] by fastforce
qed

text \<open>
  C25: an execution is carried out once: when a run has reported success and the API server
  returns the execution as it was last written, the next reconcile of the same request
  reads the execution and does nothing else.
\<close>

theorem execution_once:
  assumes "exec_reads r req w ex now si secret w'"
    and "Reconcile_execution r req w = ((res, None), w2)"
    and "\<And>ex' w1. StatusUpdateExecution (r_Client r) ex' w1 = (None, w2) \<Longrightarrow>
      \<exists>w3. GetExecution (r_Client r) (req_Namespace req) (req_Name req) w2 = (Inr ex', w3)"
  shows "\<exists>ex' w3. GetExecution (r_Client r) (req_Namespace req) (req_Name req) w2 = (Inr ex', w3) \<and>
    Reconcile_execution r req w2 = ((\<lparr>Requeue = False, RequeueAfter = 0\<rparr>, None), w3)"
proof -
  obtain phase message w1 where f:
    "phase \<in> {ExecutionPhaseSucceeded, ExecutionPhaseFailed, ExecutionPhaseSkipped}"
    "StatusUpdateExecution (r_Client r) (finished_execution ex now phase message) w1 = (None, w2)"
    using execution_writes [OF assms(1,2)] by blast
  from assms(3) [OF f(2)] finished_processed [OF f(1)] show ?thesis
    by (auto simp: Reconcile_execution_def empty_result_def)
qed

theorem execution_once_witness:
  "\<exists>w2 ex' w3. Reconcile_execution example_reconciler exec_request (exec_world ''WAKE_UP'' [] None) =
      ((empty_result, None), w2) \<and>
    GetExecution world_client ''default'' ''now'' w2 = (Inr ex', w3) \<and>
    Reconcile_execution example_reconciler exec_request w2 = ((\<lparr>Requeue = False, RequeueAfter = 0\<rparr>, None), w3)"
proof -
  obtain w2 where w2: "Reconcile_execution example_reconciler exec_request (exec_world ''WAKE_UP'' [] None) =
      ((empty_result, None), w2)"
    by (simp add: Reconcile_execution_reads [OF exec_world_reads] Let_def example_execution_def
        isAsleep_def execution_consts finish_def updateExecutionStatus_def world_StatusUpdateExecution)
  have "\<exists>w3. GetExecution (r_Client example_reconciler) (req_Namespace exec_request) (req_Name exec_request) w2 =
      (Inr ex', w3)"
    if "StatusUpdateExecution (r_Client example_reconciler) ex' w1 = (None, w2)" for ex' w1
    using that by (auto simp: world_client_def found_def)
  from execution_once [OF exec_world_reads w2 this] w2 show ?thesis by (auto simp: exec_request_def)
qed

end
