(* ===== verification/Full_Cycle.thy ===== *)
theory Full_Cycle
  imports Controller_Properties
begin

text \<open>
  A whole night: the resources are listed and put to sleep, the restore patches go into
  the secret, the next run reads the secret, lists the resources again and wakes them up.
  The components proved one by one are composed here.
\<close>

lemma plain_kindsI:
  assumes "gm_wf (resMapping g)"
    and "\<And>k res. gm_get (resMapping g) k = Some res \<Longrightarrow> CHR ''.'' \<notin> set (pt_Kind k)"
  shows "plain_kinds g"
  using assms(2) gm_wf_distinct [OF assms(1)]
  by (auto simp: plain_kinds_def list_all_iff map_of_eq_Some_iff)

lemma plain_kinds_keys: "map fst (resMapping g1) = map fst (resMapping g) \<Longrightarrow> plain_kinds g \<Longrightarrow> plain_kinds g1"
proof -
  have eq: "plain_kinds h \<longleftrightarrow> (\<forall>k \<in> set (map fst (resMapping h)). CHR ''.'' \<notin> set (pt_Kind k))" for h :: "'x managedResources"
    by (auto simp: plain_kinds_def list_all_iff)
  assume "map fst (resMapping g1) = map fst (resMapping g)" and "plain_kinds g"
  then show ?thesis by (simp only: eq)
qed

lemma managed_groupD:
  assumes "managed_group L c ns rps ps w k = Some res"
  shows "\<exists>pd items. last_patch ps k = Some pd \<and> p_Target pd = k \<and> pd \<in> set ps \<and> items \<noteq> [] \<and>
    fst (getListByNamespace (l_unstr L) (l_sel L) c ns k w) = (items, None) \<and> res = new_group c rps pd items"
  using assms
  by (auto simp: managed_group_def last_patch_def find_Some_iff
      split: option.splits prod.splits if_splits) (metis nth_mem length_rev set_rev)

text \<open>What the saved patches give back for a target, when its group is made again.\<close>

lemma saved_group:
  assumes "range_ok L" and "gm_wf (resMapping g)" and "plain_kinds g" and "gm_get (resMapping g) k = Some res"
    and "g_restorePatches res = Some m" and "p_Target pd = k"
  shows "new_group c (data_to_save (resMapping g) (l_range L (map fst (resMapping g))) []) pd items =
    (newGenericResource c pd (g_restorePatches res))\<lparr>g_data := items\<rparr>"
  using saved_entry [OF assms(1-4)] assms(5,6) by (simp add: new_group_def rp_empty_def)

section \<open>The first night\<close>

text \<open>The morning after: what the wake up run makes of the secret of the evening.\<close>

lemma morning_data:
  assumes "printable (r_tz r) now" and "live_resources g1" and "HasResource g1" and "IsSleepOperation data"
    and "GetSleepSchedule si = Inr sleep" and "GetWakeUpSchedule si = Inr wake" and "WakeUpTime (si_Spec si) \<noteq> []"
  shows "\<exists>d. getSleepInfoData (r_tz r)
        (Some (convertSecretStringData (new_secret r now name ns si data g1))) si = Inr d \<and> IsWakeUpOperation d \<and>
      OriginalGenericResourceInfo d =
        Some (data_to_save (resMapping g1) (l_range (r_libs r) (map fst (resMapping g1))) [])"
proof -
  obtain d where d: "getSleepInfoData (r_tz r) (Some (stored_secret r now name ns si data g1)) si = Inr d"
      "OriginalGenericResourceInfo d = Some (saved_patches r data g1)"
    using getSleepInfoData_stored [OF assms(1) live_savable [OF assms(2)] assms(5,6)] by blast
  then show ?thesis
    using getSleepInfoData_wake [OF d(1)] assms(3,4,7)
    by (auto simp: stored_secret_def [symmetric] recorded_stored IsSleepOperation_def saved_patches_def)
qed

text \<open>The group of a target after the sleep: still there, with its patches and its data.\<close>

lemma evening_group:
  assumes "range_ok L" and "gm_wf (resMapping g)" and "Sleep L g w = ((None, g1), w1)"
    and "gm_get (resMapping g) k = Some res" and "res = new_group c [] pd items"
  shows "\<exists>res1 m w2 w3. sleep_target L (mr_namespace g) res w2 = ((None, res1), w3) \<and>
    gm_get (resMapping g1) k = Some res1 \<and> g_data res1 = items \<and> g_restorePatches res1 = Some m"
proof -
  have fresh: "\<not> g_isCacheInvalid res" "g_restorePatches res = Some []" "g_data res = items"
    by (simp_all add: assms(5) new_group_def newGenericResource_def)
  obtain w2 res1 w3 where run: "sleep_target L (mr_namespace g) res w2 = ((None, res1), w3)"
      "gm_get (resMapping g1) k = Some res1"
    using Sleep_targets [OF assms(1-4)] by blast
  with fresh(3) show ?thesis
    unfolding sleep_target_fresh [OF fresh(1,2)] by fastforce
qed

lemma evening:
  assumes "range_ok L" and "\<And>t w. snd (getListByNamespace (l_unstr L) (l_sel L) c ns t w) = w"
    and "\<And>pd. pd \<in> set (GetPatches si) \<Longrightarrow> CHR ''.'' \<notin> set (pt_Kind (p_Target pd))"
    and "rc_SleepInfo c = Some si" and "NewResources L c ns None w = (Inr g, w1)"
    and "Sleep L g w2 = ((None, g1), w3)" and "gm_get (resMapping g) k = Some res"
  obtains pd items res1 m w4 w5 where "last_patch (GetPatches si) k = Some pd" and "p_Target pd = k"
    and "items \<noteq> []" and "res = new_group c [] pd items"
    and "sleep_target L ns res w4 = ((None, res1), w5)" and "gm_get (resMapping g1) k = Some res1"
    and "g_restorePatches res1 = Some m"
    and "gm_wf (resMapping g1)" and "plain_kinds g1" and "live_resources g1" and "HasResource g1"
proof -
  have g: "gm_wf (resMapping g)" "mr_namespace g = ns"
      "gm_get (resMapping g) t = managed_group L c ns [] (GetPatches si) w t" for t
    using NewResources_groups [OF assms(2,4,5)] by simp_all
  obtain pd items where pd: "last_patch (GetPatches si) k = Some pd" "p_Target pd = k" "items \<noteq> []"
      "res = new_group c [] pd items"
    using managed_groupD [of L c ns "[]" "GetPatches si" w k res] assms(7) g(3) by auto
  obtain res1 m w4 w5 where res1: "sleep_target L ns res w4 = ((None, res1), w5)"
      "gm_get (resMapping g1) k = Some res1" "g_data res1 = items" "g_restorePatches res1 = Some m"
    using evening_group [OF assms(1) g(1) assms(6,7) pd(4)] g(2) by auto
  have keys: "gm_wf (resMapping g1)" "map fst (resMapping g1) = map fst (resMapping g)"
    using sleeping.for_targets_keys [OF g(1) assms(6) [unfolded Sleep_def]] by simp_all
  have live: "live_resources g1"
    using operation_live [OF NewResources_live [OF _ assms(5)] disjI1 [OF assms(6)]] by (simp add: restore_live_def)
  have has: "HasResource g1" using res1(2,3) pd(3) HasResource_iff [OF keys(1)] by blast
  have "plain_kinds g"
  proof (rule plain_kindsI [OF g(1)])
    fix t x
    assume "gm_get (resMapping g) t = Some x"
    then obtain pd' where "p_Target pd' = t" "pd' \<in> set (GetPatches si)"
      using managed_groupD [of L c ns "[]" "GetPatches si" w t x] g(3) by auto
    then show "CHR ''.'' \<notin> set (pt_Kind t)" using assms(3) by blast
  qed
  from pd res1(1,2,4) keys(1) plain_kinds_keys [OF keys(2) this] live has show ?thesis by (rule that)
qed

text \<open>
  C4: the first night of a SleepInfo ends where it began. The resources are listed and put
  to sleep, the secret is written, stored by the API server and read again, and the
  resources, found with the content of their sleep state, are listed again: what is due is
  a wake up, every target of the evening is managed in the morning, and waking it up
  patches every resource that was changed, in order, to an object with the content of the
  original one, and writes nothing else. The numbers of the originals are \<open>float64\<close> values.
\<close>

theorem first_night_restored:
  assumes "range_ok (r_libs r)"
    and "\<And>t w. snd (getListByNamespace (l_unstr (r_libs r)) (l_sel (r_libs r)) (resource_client r si) ns t w) = w"
    and "\<And>pd. pd \<in> set (GetPatches si) \<Longrightarrow> CHR ''.'' \<notin> set (pt_Kind (p_Target pd))"
    and "getSleepInfoData (r_tz r) None si = Inr data" and "WakeUpTime (si_Spec si) \<noteq> []"
    and "NewResources (r_libs r) (resource_client r si) ns (OriginalGenericResourceInfo data) w = (Inr g, w1)"
    and "Sleep (r_libs r) g w2 = ((None, g1), w3)"
    and "printable (r_tz r) now"
    and "gm_get (resMapping g) k = Some res"
    and "New (l_patch (r_libs r)) (p_Patch (g_patchData res)) = Inr p"
    and "distinct (map (u_GetName (l_unstr (r_libs r))) (g_data res))"
    and "\<forall>d \<in> set (g_data res). go_value (JObj d)"
    and "fst (getListByNamespace (l_unstr (r_libs r)) (l_sel (r_libs r)) (resource_client r si) ns k w4) = (items, None)"
    and "list_all2 (asleep_as content (r_libs r) p) (g_data res) items"
    and "list_all2 (engine_contract content (r_libs r) p) (g_data res) items"
  shows "\<exists>d g2 res2 objs. getSleepInfoData (r_tz r)
        (Some (convertSecretStringData (new_secret r now name ns si data g1))) si = Inr d \<and> IsWakeUpOperation d \<and>
      NewResources (r_libs r) (resource_client r si) ns (OriginalGenericResourceInfo d) w4 = (Inr g2, w4) \<and>
      gm_get (resMapping g2) k = Some res2 \<and>
      map content objs = map (content \<circ> fst) (put_to_sleep (r_libs r) p (g_data res) items) \<and>
      (\<forall>w5 w6. (\<exists>res3. wake_target (r_libs r) ns res2 w5 = ((None, res3), w6)) \<longleftrightarrow>
        patch_all (resource_client r si)
          (zip (map snd (put_to_sleep (r_libs r) p (g_data res) items)) objs) w5 = (None, w6))"
proof -
  let ?L = "r_libs r" and ?c = "resource_client r si"
  have si: "rc_SleepInfo ?c = Some si" by (simp add: resource_client_def)
  obtain sleep wake where sch: "GetSleepSchedule si = Inr sleep" "GetWakeUpSchedule si = Inr wake"
      and data: "data = first_run_data sleep wake"
    using assms(4) by (auto simp: getSleepInfoData_def Let_def split: sum.splits)
  have op: "IsSleepOperation data" "OriginalGenericResourceInfo data = None"
    by (simp_all add: data first_run_data_def IsSleepOperation_def)
  obtain pd items0 res1 m w7 w8 where pd: "last_patch (GetPatches si) k = Some pd" "p_Target pd = k" "items0 \<noteq> []"
      "res = new_group ?c [] pd items0"
    and res1: "sleep_target ?L ns res w7 = ((None, res1), w8)" "gm_get (resMapping g1) k = Some res1"
      "g_restorePatches res1 = Some m"
    and g1: "gm_wf (resMapping g1)" "plain_kinds g1" "live_resources g1" "HasResource g1"
    by (rule evening [OF assms(1-3) si assms(6) [unfolded op(2)] assms(7,9)])
  let ?saved = "data_to_save (resMapping g1) (l_range ?L (map fst (resMapping g1))) []"
  obtain d where d: "getSleepInfoData (r_tz r) (Some (convertSecretStringData (new_secret r now name ns si data g1))) si =
        Inr d" "IsWakeUpOperation d" "OriginalGenericResourceInfo d = Some ?saved"
    using morning_data [OF assms(8) g1(3,4) op(1) sch assms(5)] by blast
  obtain g2 w9 where new: "NewResources ?L ?c ns (OriginalGenericResourceInfo d) w4 = (Inr g2, w9)"
    using NewResources_total [OF si] by blast
  have g2: "w9 = w4" "gm_get (resMapping g2) k = managed_group ?L ?c ns ?saved (GetPatches si) w4 k"
    using NewResources_groups [OF assms(2) si new] d(3) by simp_all
  have "items \<noteq> []" using assms(14) pd(3,4) by (auto simp: new_group_def)
  then have "gm_get (resMapping g2) k = Some ((newGenericResource ?c pd (g_restorePatches res1))\<lparr>g_data := items\<rparr>)"
    using g2(2) pd(1) assms(13) saved_group [OF assms(1) g1(1,2) res1(2,3) pd(2)]
    by (simp add: managed_group_def)
  moreover obtain objs
    where "map content objs = map (content \<circ> fst) (put_to_sleep ?L p (g_data res) items)"
      and "\<forall>w5 w6. (\<exists>res3. wake_target ?L ns
          ((newGenericResource ?c pd (g_restorePatches res1))\<lparr>g_data := items\<rparr>) w5 = ((None, res3), w6)) \<longleftrightarrow>
        patch_all ?c (zip (map snd (put_to_sleep ?L p (g_data res) items)) objs) w5 = (None, w6)"
    using wake_after_sleep [OF _ _ assms(11,12) res1(1) assms(10,14,15), of ns ?c] pd(4)
    by (auto simp: new_group_def newGenericResource_def)
  ultimately show ?thesis using d(1,2) new g2(1) by blast
qed

lemma world_reads_only:
  "snd (getListByNamespace (l_unstr (r_libs example_reconciler)) (l_sel (r_libs example_reconciler))
     (resource_client example_reconciler example_sleepinfo) ns t w) = w"
  using world_list [OF example_no_filters, of ns t w] by simp

lemma example_kinds: "pd \<in> set (GetPatches example_sleepinfo) \<Longrightarrow> CHR ''.'' \<notin> set (pt_Kind (p_Target pd))"
  by (auto simp: example_patches patch_targets default_targets)

text \<open>The world of the morning: the API server gave the sleeping object a new resource version.\<close>

definition served_world :: example_world where
  "served_world = slept_world\<lparr>ew_objs := [served_obj ''2'' ''a'' ''0'']\<rparr>"

theorem first_night_restored_witness:
  "\<exists>d g2 res2 objs. getSleepInfoData (\<lambda>t. 0) (Some first_secret) example_sleepinfo = Inr d \<and> IsWakeUpOperation d \<and>
     NewResources example_libs (resource_client example_reconciler example_sleepinfo) ''default''
       (OriginalGenericResourceInfo d) served_world = (Inr g2, served_world) \<and>
     gm_get (resMapping g2) DeploymentTarget = Some res2 \<and>
     map example_content objs = [(''a'', Some (JObj [(''replicas'', JNum ''3'')]))] \<and>
     (\<forall>w5 w6. (\<exists>res3. wake_target example_libs ''default'' res2 w5 = ((None, res3), w6)) \<longleftrightarrow>
       patch_all (resource_client example_reconciler example_sleepinfo)
         (zip [served_obj ''2'' ''a'' ''0''] objs) w5 = (None, w6))"
proof -
  let ?r = example_reconciler and ?d = "example_obj ''a'' ''3''" and ?d' = "served_obj ''2'' ''a'' ''0''"
  let ?res = "world_group example_sleepinfo [?d]"
  have new: "NewResources (r_libs ?r) (resource_client ?r example_sleepinfo) ''default''
      (OriginalGenericResourceInfo example_data) start_world = (Inr (world_resources [?d]), start_world)"
    using world_NewResources by (simp add: first_run_data_def)
  have sleep: "Sleep (r_libs ?r) (world_resources [?d]) start_world =
      ((None, slept_world_resources), start_world\<lparr>ew_objs := [example_obj ''a'' ''0'']\<rparr>)"
    using world_Sleep [of start_world] by (simp add: start_world_def)
  have res: "gm_get (resMapping (world_resources [?d])) DeploymentTarget = Some ?res" "g_data ?res = [?d]"
    by (simp_all add: world_resources_def world_group_def)
  have "New (l_patch (r_libs ?r)) (p_Patch (g_patchData ?res)) = Inr example_patcher"
    by (simp only: example_reconciler_simps example_New)
  moreover have "distinct (map (u_GetName (l_unstr (r_libs ?r))) (g_data ?res))" by (simp add: res(2))
  moreover have "\<forall>d \<in> set (g_data ?res). go_value (JObj d)"
    using example_go_value [of "''3''" "''a''"] by (simp add: res(2))
  moreover have "fst (getListByNamespace (l_unstr (r_libs ?r)) (l_sel (r_libs ?r)) (resource_client ?r example_sleepinfo)
      ''default'' DeploymentTarget served_world) = ([?d'], None)"
    using world_list [OF example_no_filters, of "''default''" DeploymentTarget served_world]
    by (simp add: served_world_def slept_world_def start_world_def DeploymentTarget_def)
  moreover have "list_all2 (asleep_as example_content (r_libs ?r) example_patcher) (g_data ?res) [?d']"
    using example_asleep by (simp add: res(2))
  moreover have "list_all2 (engine_contract example_content (r_libs ?r) example_patcher) (g_data ?res) [?d']"
    using example_contract [of "''3''" "''a''"] by (simp add: res(2))
  moreover have "printable (r_tz ?r) (at_ns 0)" using printable_start by simp
  moreover have "getSleepInfoData (r_tz ?r) None example_sleepinfo = Inr example_data"
    using example_first_run by simp
  moreover have "WakeUpTime (si_Spec example_sleepinfo) \<noteq> []" by (simp add: example_defs)
  moreover have "range_ok (r_libs ?r)" using example_range_ok by simp
  ultimately show ?thesis
    using first_night_restored [OF _ world_reads_only example_kinds _ _ new sleep _ res(1),
        where p = example_patcher and now = "at_ns 0" and ?w4.0 = served_world and items = "[?d']"
          and name = "''sleepinfo-working-hours''" and content = example_content]
    by (simp add: res(2) example_recorded put_to_sleep_def first_secret_def del: marshal.simps go_value.simps)
qed

end
