(* ===== verification/Cluster.thy ===== *)
theory Cluster
  imports Execution_Controller Full_Cycle
begin

text \<open>
  The controllers and the API server together: what a namespace holds is what listing its
  resources and reading its secret gives. The behaviour asked of the API server and of the
  patch engine is stated here, with what a successful sleep and a successful wake up then
  do to the objects themselves. Servers manage parts of an object on their own (its
  version, its managed fields), so objects are compared by a \<open>content\<close> that leaves those
  parts out.
\<close>

section \<open>Writing several objects\<close>

text \<open>Writing a list of things, stopping at the first error.\<close>

fun write_all :: "('x \<Rightarrow> 'w \<Rightarrow> goerror option \<times> 'w) \<Rightarrow> 'x list \<Rightarrow> 'w \<Rightarrow> goerror option \<times> 'w" where
  "write_all f [] w = (None, w)"
| "write_all f (x # xs) w = (case f x w of (Some e, w1) \<Rightarrow> (Some e, w1) | (None, w1) \<Rightarrow> write_all f xs w1)"

lemma apply_all_write: "apply_all u rc xs w = write_all (SSAPatch u rc) xs w"
  by (induction xs arbitrary: w) (auto split: prod.split option.split)

lemma patch_all_write: "patch_all rc xs w = write_all (\<lambda>(old, new). rc_Patch rc old new) xs w"
  by (induction xs arbitrary: w) (auto split: prod.split option.split)

definition put_object :: "('a \<Rightarrow> 'n) \<Rightarrow> 'a \<Rightarrow> 'a list \<Rightarrow> 'a list" where
  "put_object nm d xs = map (\<lambda>x. if nm x = nm d then d else x) xs"

lemma put_object_names [simp]: "map nm (put_object nm d xs) = map nm xs"
  by (simp add: put_object_def)

lemma list_all2_put_object:
  assumes "list_all2 (\<lambda>x x'. if x \<in> set rs then R x x' else x' = x) (put_object nm d' xs) ys"
    and "nm d' = nm d" and "R d d'" and "distinct (map nm xs)" and "set (d # rs) \<subseteq> set xs" and "d \<notin> set rs"
  shows "list_all2 (\<lambda>x x'. if x \<in> set (d # rs) then R x x' else x' = x) xs ys"
proof -
  let ?f = "\<lambda>x. if nm x = nm d' then d' else x"
  have one: "x = d" if "x \<in> set xs" "nm x = nm d" for x
    using that assms(4,5) by (auto simp: distinct_map inj_on_def)
  have d': "d' \<notin> set rs" using one [of d'] assms(2,5,6) by auto
  have "list_all2 (\<lambda>x x'. if ?f x \<in> set rs then R (?f x) x' else x' = ?f x) xs ys"
    using assms(1) by (simp only: put_object_def list.rel_map)
  then show ?thesis
  proof (rule list.rel_mono_strong)
    fix x y
    assume x: "x \<in> set xs" and y: "if ?f x \<in> set rs then R (?f x) y else y = ?f x"
    show "if x \<in> set (d # rs) then R x y else y = x"
    proof (cases "nm x = nm d")
      case True
      with one [OF x True] y assms(2,3) d' show ?thesis by simp
    next
      case False
      then have "x \<noteq> d" by blast
      with False y assms(2) show ?thesis by (simp split: if_splits)
    qed
  qed
qed

text \<open>What a pass leaves as it is, and what it brings into the state \<open>R\<close>.\<close>

definition passed :: "('a \<Rightarrow> 'a \<Rightarrow> bool) \<Rightarrow> 'a list \<Rightarrow> 'a list \<Rightarrow> 'a list \<Rightarrow> bool" where
  "passed R rs = list_all2 (\<lambda>x x'. if x \<in> set rs then R x x' else x' = x)"

lemma passed_Nil: "passed R [] xs xs"
  by (simp add: passed_def list.rel_refl)

lemma passed_same: "passed R rs xs ys \<Longrightarrow> R d d \<Longrightarrow> d \<notin> set rs \<Longrightarrow> passed R (d # rs) xs ys"
  unfolding passed_def by (erule list.rel_mono_strong) (simp split: if_splits)

lemma passed_put:
  "passed R rs (put_object nm d' xs) ys \<Longrightarrow> nm d' = nm d \<Longrightarrow> R d d' \<Longrightarrow> distinct (map nm xs) \<Longrightarrow>
   set (d # rs) \<subseteq> set xs \<Longrightarrow> d \<notin> set rs \<Longrightarrow> passed R (d # rs) xs ys"
  unfolding passed_def by (rule list_all2_put_object)

lemma passed_all: "passed R xs xs ys \<Longrightarrow> list_all2 R xs ys"
  unfolding passed_def by (erule list.rel_mono_strong) simp

text \<open>
  A pass over some objects \<open>rs\<close> of a listed target writes what \<open>out\<close> says. When every
  write succeeds and puts a new object in place of the one it is for, the pass ends with
  each of these objects in the state \<open>R\<close> and everything else as it was.
\<close>

lemma write_all_listed:
  assumes "\<And>w d x. ok w \<Longrightarrow> d \<in> set (view w k) \<Longrightarrow> d \<in> set rs \<Longrightarrow> out d = Some x \<Longrightarrow>
      \<exists>w' d'. f x w = (None, w') \<and> ok w' \<and> obs w' = obs w \<and> nm d' = nm d \<and> R d d' \<and>
        view w' = (view w)(k := put_object nm d' (view w k))"
    and "\<And>d. d \<in> set rs \<Longrightarrow> out d = None \<Longrightarrow> R d d"
    and "ok w" and "distinct (map nm (view w k))" and "set rs \<subseteq> set (view w k)" and "distinct rs"
  shows "\<exists>w'. write_all f (List.map_filter out rs) w = (None, w') \<and> ok w' \<and> obs w' = obs w \<and>
    (\<forall>t. t \<noteq> k \<longrightarrow> view w' t = view w t) \<and> passed R rs (view w k) (view w' k)"
  using assms
proof (induction rs arbitrary: w)
  case Nil
  then show ?case by (simp add: List.map_filter_simps passed_Nil)
next
  case (Cons d rs)
  have IH: "\<exists>w'. write_all f (List.map_filter out rs) w1 = (None, w') \<and> ok w' \<and> obs w' = obs w1 \<and>
      (\<forall>t. t \<noteq> k \<longrightarrow> view w' t = view w1 t) \<and> passed R rs (view w1 k) (view w' k)"
    if "ok w1" "distinct (map nm (view w1 k))" "set rs \<subseteq> set (view w1 k)" for w1
    using Cons.prems(6) that by (intro Cons.IH Cons.prems(1,2)) simp_all
  have d: "d \<in> set (view w k)" "d \<notin> set rs" and sub: "set rs \<subseteq> set (view w k)" using Cons.prems(5,6) by auto
  show ?case
  proof (cases "out d")
    case None
    obtain w' where "write_all f (List.map_filter out rs) w = (None, w') \<and> ok w' \<and> obs w' = obs w \<and>
        (\<forall>t. t \<noteq> k \<longrightarrow> view w' t = view w t)" and "passed R rs (view w k) (view w' k)"
      using IH [OF Cons.prems(3,4) sub] by blast
    with passed_same [of R rs] Cons.prems(2) [of d] d(2) None show ?thesis by (auto simp: List.map_filter_simps)
  next
    case (Some x)
    obtain w1 d' where f: "f x w = (None, w1)" "ok w1" "obs w1 = obs w" "nm d' = nm d" "R d d'"
        and view: "view w1 = (view w)(k := put_object nm d' (view w k))"
      using Cons.prems(1) [OF Cons.prems(3) d(1) _ Some] by (meson list.set_intros(1))
    have "nm y \<noteq> nm d" if "y \<in> set rs" for y
      using that Cons.prems(4) d sub by (auto simp: distinct_map inj_on_def)
    then have "set rs \<subseteq> set (view w1 k)"
      using sub f(4) by (fastforce simp: view put_object_def)
    then obtain w' where w': "write_all f (List.map_filter out rs) w1 = (None, w')" "ok w'" "obs w' = obs w1"
        "\<forall>t. t \<noteq> k \<longrightarrow> view w' t = view w1 t" and all: "passed R rs (view w1 k) (view w' k)"
      using IH [OF f(2)] Cons.prems(4) by (auto simp: view)
    have "passed R (d # rs) (view w k) (view w' k)"
      using passed_put [of R rs nm d' "view w k" "view w' k" d] f(4,5) Cons.prems(4,5) d(2) all by (simp add: view)
    with w' f Some show ?thesis by (simp add: List.map_filter_simps view)
  qed
qed

text \<open>
  The loop over the targets, when the operation succeeds on the group of every target and
  touches the objects of that target only.
\<close>

definition visited ::
    "('w \<Rightarrow> PatchTarget \<Rightarrow> 'a list) \<Rightarrow> (PatchTarget \<Rightarrow> 'w genericResource \<Rightarrow> 'a list \<Rightarrow> bool) \<Rightarrow>
     PatchTarget list \<Rightarrow> 'w managedResources \<Rightarrow> 'w \<Rightarrow> 'w managedResources \<Rightarrow> 'w \<Rightarrow> PatchTarget \<Rightarrow> bool" where
  "visited view Q ks g w g' w' k =
     (if k \<in> set ks \<and> gm_get (resMapping g) k \<noteq> None
      then \<exists>res'. gm_get (resMapping g') k = Some res' \<and> Q k res' (view w' k)
      else gm_get (resMapping g') k = gm_get (resMapping g) k \<and> view w' k = view w k)"

lemma for_targets_listed:
  assumes "\<And>k res w1. k \<in> set ks \<Longrightarrow> gm_get (resMapping g) k = Some res \<Longrightarrow> ok w1 \<Longrightarrow> view w1 k = view w k \<Longrightarrow>
      \<exists>res' w2. body (mr_namespace g) res w1 = ((None, res'), w2) \<and> ok w2 \<and> obs w2 = obs w1 \<and>
        (\<forall>t. t \<noteq> k \<longrightarrow> view w2 t = view w1 t) \<and> Q k res' (view w2 k)"
    and "ok w" and "distinct ks"
  shows "\<exists>g' w'. for_targets body ks g w = ((None, g'), w') \<and> ok w' \<and> obs w' = obs w \<and>
    (\<forall>k. visited view Q ks g w g' w' k)"
  using assms
proof (induction ks arbitrary: g w)
  case Nil
  then show ?case by (simp add: visited_def)
next
  case (Cons x ks)
  show ?case
  proof (cases "gm_get (resMapping g) x")
    case None
    have "\<exists>g' w'. for_targets body ks g w = ((None, g'), w') \<and> ok w' \<and> obs w' = obs w \<and>
        (\<forall>k. visited view Q ks g w g' w' k)"
      using Cons.prems by (intro Cons.IH) simp_all
    moreover have "visited view Q (x # ks) g w g' w' = visited view Q ks g w g' w'" for g' w'
    proof
      fix k
      have "k \<in> set (x # ks) \<and> gm_get (resMapping g) k \<noteq> None \<longleftrightarrow> k \<in> set ks \<and> gm_get (resMapping g) k \<noteq> None"
        using None by auto
      then show "visited view Q (x # ks) g w g' w' k = visited view Q ks g w g' w' k" unfolding visited_def by simp
    qed
    ultimately show ?thesis using None by simp
  next
    case (Some res)
    obtain res1 w1 where b: "body (mr_namespace g) res w = ((None, res1), w1)" "ok w1" "obs w1 = obs w"
        "\<forall>t. t \<noteq> x \<longrightarrow> view w1 t = view w t" "Q x res1 (view w1 x)"
      using Cons.prems(1) [of x res w] Cons.prems(2) Some by auto
    let ?g1 = "g\<lparr>resMapping := gm_put x res1 (resMapping g)\<rparr>"
    have "\<exists>g' w'. for_targets body ks ?g1 w1 = ((None, g'), w') \<and> ok w' \<and> obs w' = obs w1 \<and>
        (\<forall>k. visited view Q ks ?g1 w1 g' w' k)"
    proof (rule Cons.IH)
      fix k res2 w2
      assume k: "k \<in> set ks" "gm_get (resMapping ?g1) k = Some res2" "ok w2" "view w2 k = view w1 k"
      then have "k \<noteq> x" using Cons.prems(3) by auto
      with k b(4) Cons.prems(1) [of k res2 w2]
      show "\<exists>res' w3. body (mr_namespace ?g1) res2 w2 = ((None, res'), w3) \<and> ok w3 \<and> obs w3 = obs w2 \<and>
          (\<forall>t. t \<noteq> k \<longrightarrow> view w3 t = view w2 t) \<and> Q k res' (view w3 k)" by simp
    qed (use b(2) Cons.prems(3) in auto)
    then obtain g' w' where run: "for_targets body ks ?g1 w1 = ((None, g'), w')" "ok w'" "obs w' = obs w1"
      and all: "\<And>k. visited view Q ks ?g1 w1 g' w' k"
      by blast
    have "\<forall>k. visited view Q (x # ks) g w g' w' k"
    proof
      fix k
      show "visited view Q (x # ks) g w g' w' k"
        using all [of k] b(4,5) Some Cons.prems(3) by (cases "k = x") (simp_all add: visited_def)
    qed
    with run b(1,3) Some show ?thesis by simp
  qed
qed

section \<open>A namespace and its API server\<close>

text \<open>
  A namespace with one SleepInfo: the reconciler, the SleepInfo and the namespace, the
  states of the world in which the API server answers, and the content of an object.
\<close>

record ('w, 's, 'p, 'v) cluster =
  cl_rec :: "('w, 's, 'p) SleepInfoReconciler"
  cl_info :: SleepInfo
  cl_ns :: string
  cl_ok :: "'w \<Rightarrow> bool"
  cl_content :: "unstructured \<Rightarrow> 'v"

abbreviation cl_libs :: "('w, 's, 'p, 'v) cluster \<Rightarrow> 'p libs" where
  "cl_libs C \<equiv> r_libs (cl_rec C)"

abbreviation cl_api :: "('w, 's, 'p, 'v) cluster \<Rightarrow> 'w client" where
  "cl_api C \<equiv> r_Client (cl_rec C)"

abbreviation cl_name :: "('w, 's, 'p, 'v) cluster \<Rightarrow> unstructured \<Rightarrow> string" where
  "cl_name C \<equiv> u_GetName (l_unstr (cl_libs C))"

definition cl_secret :: "('w, 's, 'p, 'v) cluster \<Rightarrow> string" where
  "cl_secret C = getSecretName (m_Name (si_Meta (cl_info C)))"

definition listed :: "('w, 's, 'p, 'v) cluster \<Rightarrow> 'w \<Rightarrow> PatchTarget \<Rightarrow> unstructured list" where
  "listed C w t =
     fst (fst (getListByNamespace (l_unstr (cl_libs C)) (l_sel (cl_libs C))
       (resource_client (cl_rec C) (cl_info C)) (cl_ns C) t w))"

definition stored :: "('w, 's, 'p, 'v) cluster \<Rightarrow> 'w \<Rightarrow> Secret option" where
  "stored C w =
     (case fst (GetSecret (cl_api C) (cl_ns C) (cl_secret C) w) of Inl _ \<Rightarrow> None | Inr s \<Rightarrow> Some s)"

definition keeps :: "('w, 's, 'p, 'v) cluster \<Rightarrow> 'w \<Rightarrow> 'w \<Rightarrow> bool" where
  "keeps C w w' = (cl_ok C w' \<and> listed C w' = listed C w \<and> stored C w' = stored C w)"

text \<open>The SleepInfo up to its status and its version.\<close>

definition same_info :: "SleepInfo \<Rightarrow> SleepInfo \<Rightarrow> bool" where
  "same_info si si' =
     (si_Spec si' = si_Spec si \<and> m_Name (si_Meta si') = m_Name (si_Meta si) \<and>
      m_UID (si_Meta si') = m_UID (si_Meta si))"

lemma same_info_spec:
  assumes "same_info si si'"
  shows "GetPatches si' = GetPatches si" "GetSleepSchedule si' = GetSleepSchedule si"
    "GetWakeUpSchedule si' = GetWakeUpSchedule si" "getSleepInfoData tz secret si' = getSleepInfoData tz secret si"
    "applyExecutionOverride d op si' = applyExecutionOverride d op si"
    "new_secret r now sn ns si' data g = new_secret r now sn ns si data g"
    "getListByNamespace u sl (resource_client r si') ns t w = getListByNamespace u sl (resource_client r si) ns t w"
proof -
  have spec: "si_Spec si' = si_Spec si" and meta: "m_Name (si_Meta si') = m_Name (si_Meta si)"
      "m_UID (si_Meta si') = m_UID (si_Meta si)"
    using assms by (simp_all add: same_info_def)
  show sched: "GetSleepSchedule si' = GetSleepSchedule si" "GetWakeUpSchedule si' = GetWakeUpSchedule si"
    unfolding GetSleepSchedule_def GetWakeUpSchedule_def getScheduleFromWeekdayAndTime_def spec by (rule refl)+
  show "GetPatches si' = GetPatches si" by (simp add: GetPatches_def suspend_defs spec)
  show "getSleepInfoData tz secret si' = getSleepInfoData tz secret si"
    and "applyExecutionOverride d op si' = applyExecutionOverride d op si"
    unfolding getSleepInfoData_def applyExecutionOverride_def sched meta by (rule refl)+
  show "new_secret r now sn ns si' data g = new_secret r now sn ns si data g"
    by (simp add: new_secret_def base_secret_def meta)
  have "getListOptions sl si' ns t = getListOptions sl si ns t"
    unfolding getListOptions_def GetIncludeRef_def GetExcludeRef_def spec by (rule refl)
  then show "getListByNamespace u sl (resource_client r si') ns t w = getListByNamespace u sl (resource_client r si) ns t w"
    by (simp add: getListByNamespace_def resource_client_def split: sum.split)
qed

section \<open>What is asked of the API server\<close>

text \<open>Reads answer and change nothing; what is found under a name is the SleepInfo of the namespace.\<close>

definition reads_ok :: "('w, 's, 'p, 'v) cluster \<Rightarrow> bool" where
  "reads_ok C =
     (\<forall>w. cl_ok C w \<longrightarrow>
        (\<forall>t. getListByNamespace (l_unstr (cl_libs C)) (l_sel (cl_libs C))
            (resource_client (cl_rec C) (cl_info C)) (cl_ns C) t w = ((listed C w t, None), w)) \<and>
        (\<exists>x. GetSecret (cl_api C) (cl_ns C) (cl_secret C) w = (x, w) \<and> (\<forall>e. x = Inl e \<longrightarrow> is_not_found e)) \<and>
        (\<forall>n. \<exists>x. GetSleepInfo (cl_api C) (cl_ns C) n w = (x, w) \<and>
            (\<forall>si. x = Inr si \<longrightarrow> same_info (cl_info C) si)) \<and>
        (\<forall>n. snd (GetExecution (cl_api C) (cl_ns C) n w) = w) \<and>
        printable (r_tz (cl_rec C)) (r_Now (cl_rec C) w))"

text \<open>
  Writes of other things, successful or not, leave the resources and the secret alone: the
  status of the SleepInfo, executions, the gauge.
\<close>

definition other_writes_ok :: "('w, 's, 'p, 'v) cluster \<Rightarrow> bool" where
  "other_writes_ok C =
     (\<forall>w. cl_ok C w \<longrightarrow>
        (\<forall>si. same_info (cl_info C) si \<longrightarrow> keeps C w (snd (StatusUpdateSleepInfo (cl_api C) si w))) \<and>
        (\<forall>ex. keeps C w (snd (UpdateExecution (cl_api C) ex w)) \<and>
              keeps C w (snd (StatusUpdateExecution (cl_api C) ex w))) \<and>
        (\<forall>n m v. keeps C w (r_MetricSet (cl_rec C) n m v w) \<and> keeps C w (r_MetricDelete (cl_rec C) n m w)))"

text \<open>A secret that does not exist can be created, one that exists can be replaced.\<close>

definition secret_writes_ok :: "('w, 's, 'p, 'v) cluster \<Rightarrow> bool" where
  "secret_writes_ok C =
     (\<forall>w s. cl_ok C w \<and> m_Name (sec_Meta s) = cl_secret C \<and> m_Namespace (sec_Meta s) = cl_ns C \<longrightarrow>
        (\<exists>w'. (if stored C w = None then CreateSecret (cl_api C) s w else UpdateSecret (cl_api C) s w) = (None, w') \<and>
           cl_ok C w' \<and> listed C w' = listed C w \<and> stored C w' = Some (convertSecretStringData s)))"

text \<open>The object is in its sleep state: its content is that of the patched document.\<close>

definition asleep_content ::
    "('w, 's, 'p, 'v) cluster \<Rightarrow> 'p Patcher \<Rightarrow> unstructured \<Rightarrow> unstructured \<Rightarrow> bool" where
  "asleep_content C p d d' =
     (cl_name C d' = cl_name C d \<and>
      (\<exists>modified e. Exec (l_patch (cl_libs C)) p (marshal (JObj d)) = Inr modified \<and>
         unmarshal_object modified = Inr (Some e) \<and> cl_content C d' = cl_content C e))"

text \<open>Applying the sparse object of a listed resource gives it the content of its patched document.\<close>

definition apply_ok :: "('w, 's, 'p, 'v) cluster \<Rightarrow> bool" where
  "apply_ok C =
     (\<forall>w k pd p d rp sp. cl_ok C w \<and> last_patch (GetPatches (cl_info C)) k = Some pd \<and>
        New (l_patch (cl_libs C)) (p_Patch pd) = Inr p \<and> d \<in> set (listed C w k) \<and>
        sleep_outcome (cl_libs C) p d = Changed rp sp \<longrightarrow>
        (\<exists>w' d'. ApplyObject (cl_api C)
             (u_SetResourceVersion (l_unstr (cl_libs C)) [] (u_ClearManagedFields (l_unstr (cl_libs C)) sp))
             (r_ManagerName (cl_rec C)) w = (None, w') \<and>
           cl_ok C w' \<and> stored C w' = stored C w \<and> asleep_content C p d d' \<and>
           listed C w' = (listed C w)(k := put_object (cl_name C) d' (listed C w k))))"

text \<open>
  Patching a listed resource with an object of the same name gives it the content of that
  object. \<open>V\<close> tells the contents that the resources of a target have while awake.
\<close>

definition patch_ok :: "('w, 's, 'p, 'v) cluster \<Rightarrow> (PatchTarget \<Rightarrow> 'v list) \<Rightarrow> bool" where
  "patch_ok C V =
     (\<forall>w k d new. cl_ok C w \<and> d \<in> set (listed C w k) \<and> cl_name C new = cl_name C d \<and>
        cl_content C new \<in> set (V k) \<longrightarrow>
        (\<exists>w' d'. PatchObject (cl_api C) new d w = (None, w') \<and> cl_ok C w' \<and> stored C w' = stored C w \<and>
           cl_content C d' = cl_content C new \<and>
           listed C w' = (listed C w)(k := put_object (cl_name C) d' (listed C w k))))"

section \<open>What is asked of the patch engine\<close>

text \<open>
  Every patch decodes, and on resources with the contents of the namespace: the merge
  patches can be made, the patch leaves a resource in its sleep state as it is, and
  merging the restore patch into such a resource gives the original content back.
\<close>

definition restores ::
    "('w, 's, 'p, 'v) cluster \<Rightarrow> 'p Patcher \<Rightarrow> unstructured \<Rightarrow> bool" where
  "restores C p d =
     ((\<forall>e. sleep_outcome (cl_libs C) p d \<noteq> Broken e) \<and>
      (\<forall>rp d'. recorded_patch (cl_libs C) p d = Some rp \<and> asleep_content C p d d' \<longrightarrow>
         (\<exists>again. Exec (l_patch (cl_libs C)) p (marshal (JObj d')) = Inr again \<and>
            JsonEqual (l_patch (cl_libs C)) (marshal (JObj d')) again) \<and>
         (\<exists>c obj. MergePatch (l_patch (cl_libs C)) (marshal (JObj d')) rp = Inr c \<and>
            unmarshal_object c = Inr (Some obj) \<and> cl_content C obj = cl_content C d)))"

definition engine_ok :: "('w, 's, 'p, 'v) cluster \<Rightarrow> (PatchTarget \<Rightarrow> 'v list) \<Rightarrow> bool" where
  "engine_ok C V =
     (\<forall>k pd. last_patch (GetPatches (cl_info C)) k = Some pd \<longrightarrow>
        p_Patch pd \<noteq> [] \<and>
        (\<exists>p. New (l_patch (cl_libs C)) (p_Patch pd) = Inr p \<and>
           (\<forall>d. cl_content C d \<in> set (V k) \<longrightarrow> restores C p d)))"

text \<open>The content of an object tells its name, and no two resources of a target share one.\<close>

definition contents_ok :: "('w, 's, 'p, 'v) cluster \<Rightarrow> (PatchTarget \<Rightarrow> 'v list) \<Rightarrow> bool" where
  "contents_ok C V =
     ((\<forall>d d'. cl_content C d = cl_content C d' \<longrightarrow> cl_name C d = cl_name C d') \<and>
      (\<forall>t ds. map (cl_content C) ds = V t \<longrightarrow> distinct (map (cl_name C) ds)))"

definition cluster_ok :: "('w, 's, 'p, 'v) cluster \<Rightarrow> (PatchTarget \<Rightarrow> 'v list) \<Rightarrow> bool" where
  "cluster_ok C V =
     (reads_ok C \<and> other_writes_ok C \<and> secret_writes_ok C \<and> apply_ok C \<and> patch_ok C V \<and> engine_ok C V \<and>
      contents_ok C V \<and> range_ok (cl_libs C) \<and> WakeUpTime (si_Spec (cl_info C)) \<noteq> [] \<and>
      (\<forall>pd \<in> set (GetPatches (cl_info C)). CHR ''.'' \<notin> set (pt_Kind (p_Target pd))))"

lemma cluster_okD:
  assumes "cluster_ok C V"
  shows "reads_ok C" "other_writes_ok C" "secret_writes_ok C" "apply_ok C" "patch_ok C V" "engine_ok C V"
    "contents_ok C V" "range_ok (cl_libs C)" "WakeUpTime (si_Spec (cl_info C)) \<noteq> []"
    "\<And>pd. pd \<in> set (GetPatches (cl_info C)) \<Longrightarrow> CHR ''.'' \<notin> set (pt_Kind (p_Target pd))"
  using assms by (simp_all add: cluster_ok_def)

section \<open>The groups of a run\<close>

lemma listed_reads:
  assumes "reads_ok C" and "cl_ok C w" and "same_info (cl_info C) si"
  shows "getListByNamespace (l_unstr (cl_libs C)) (l_sel (cl_libs C)) (resource_client (cl_rec C) si) (cl_ns C) t w =
    ((listed C w t, None), w)"
  using assms by (simp add: reads_ok_def same_info_spec(7) [OF assms(3)])

lemma cluster_groups:
  assumes "cluster_ok C V" and "cl_ok C w" and "same_info (cl_info C) si"
    and "NewResources (cl_libs C) (resource_client (cl_rec C) si) (cl_ns C) rps w = (Inr g, w1)"
  shows "w1 = w" and "gm_wf (resMapping g)" and "mr_namespace g = cl_ns C" and "plain_kinds g"
    and "gm_get (resMapping g) t =
      (case last_patch (GetPatches (cl_info C)) t of
         None \<Rightarrow> None
       | Some pd \<Rightarrow> if listed C w t = [] then None
           else Some (new_group (resource_client (cl_rec C) si) (case rps of None \<Rightarrow> [] | Some m \<Rightarrow> m) pd (listed C w t)))"
proof -
  note list = listed_reads [OF cluster_okD(1) [OF assms(1)] assms(2,3)]
  have si: "rc_SleepInfo (resource_client (cl_rec C) si) = Some si" by (simp add: resource_client_def)
  note groups = NewResources_groups [OF _ si assms(4)]
  show "w1 = w" and wf: "gm_wf (resMapping g)" and "mr_namespace g = cl_ns C" using groups by (simp_all add: list)
  have get: "gm_get (resMapping g) t =
      (case last_patch (GetPatches (cl_info C)) t of
         None \<Rightarrow> None
       | Some pd \<Rightarrow> if listed C w t = [] then None
           else Some (new_group (resource_client (cl_rec C) si) (case rps of None \<Rightarrow> [] | Some m \<Rightarrow> m) pd (listed C w t)))"
    for t
    using groups by (simp add: list managed_group_def same_info_spec(1) [OF assms(3)] split: option.split)
  then show "gm_get (resMapping g) t =
      (case last_patch (GetPatches (cl_info C)) t of
         None \<Rightarrow> None
       | Some pd \<Rightarrow> if listed C w t = [] then None
           else Some (new_group (resource_client (cl_rec C) si) (case rps of None \<Rightarrow> [] | Some m \<Rightarrow> m) pd (listed C w t)))" .
  show "plain_kinds g"
  proof (rule plain_kindsI [OF wf])
    fix k res
    assume "gm_get (resMapping g) k = Some res"
    then obtain pd where "last_patch (GetPatches (cl_info C)) k = Some pd" using get [of k] by (auto split: option.splits)
    then have "pd \<in> set (GetPatches (cl_info C))" and "p_Target pd = k"
      by (auto simp: last_patch_def find_Some_iff) (metis nth_mem length_rev set_rev)
    then show "CHR ''.'' \<notin> set (pt_Kind k)" using cluster_okD(10) [OF assms(1)] by blast
  qed
qed

lemma last_patch_target: "last_patch ps k = Some pd \<Longrightarrow> p_Target pd = k"
  by (auto simp: last_patch_def find_Some_iff)

section \<open>Putting the resources to sleep\<close>

text \<open>A resource of the evening and the same one during the night.\<close>

definition night_form ::
    "('w, 's, 'p, 'v) cluster \<Rightarrow> 'p Patcher \<Rightarrow> unstructured \<Rightarrow> unstructured \<Rightarrow> bool" where
  "night_form C p d d' =
     (if recorded_patch (cl_libs C) p d = None then cl_content C d' = cl_content C d else asleep_content C p d d')"

definition sparse_of :: "'p libs \<Rightarrow> 'p Patcher \<Rightarrow> unstructured \<Rightarrow> unstructured option" where
  "sparse_of L p d = (case sleep_outcome L p d of Changed _ sp \<Rightarrow> Some sp | _ \<Rightarrow> None)"

lemma sparse_objects_filter: "sparse_objects L p rs = List.map_filter (sparse_of L p) rs"
  by (induction rs)
    (simp_all add: sparse_objects_def sparse_of_def List.map_filter_simps split: sleep_outcome.split)

lemma engine_okD:
  assumes "engine_ok C V" and "last_patch (GetPatches (cl_info C)) k = Some pd"
  obtains p where "p_Patch pd \<noteq> []" and "New (l_patch (cl_libs C)) (p_Patch pd) = Inr p"
    and "\<forall>d. cl_content C d \<in> set (V k) \<longrightarrow> restores C p d"
  using assms unfolding engine_ok_def by blast

text \<open>All the writes of an evening for one target.\<close>

lemma sleep_writes:
  assumes "cluster_ok C V" and "cl_ok C w" and dist: "distinct (map (cl_name C) (listed C w k))"
    and "last_patch (GetPatches (cl_info C)) k = Some pd" and p: "New (l_patch (cl_libs C)) (p_Patch pd) = Inr p"
    and ok: "\<And>d. d \<in> set (listed C w k) \<Longrightarrow> restores C p d"
    and rc: "rc_Client rc = Some (cl_api C)" "rc_SleepInfo rc = Some si" "rc_FieldManagerName rc = r_ManagerName (cl_rec C)"
  shows "\<exists>w'. apply_all (l_unstr (cl_libs C)) rc (sparse_objects (cl_libs C) p (listed C w k)) w = (None, w') \<and>
    cl_ok C w' \<and> stored C w' = stored C w \<and> (\<forall>t. t \<noteq> k \<longrightarrow> listed C w' t = listed C w t) \<and>
    list_all2 (night_form C p) (listed C w k) (listed C w' k)"
proof -
  let ?L = "cl_libs C" and ?xs = "listed C w k" and ?nm = "cl_name C"
  have "\<exists>w'. write_all (SSAPatch (l_unstr ?L) rc) (List.map_filter (sparse_of ?L p) ?xs) w = (None, w') \<and>
      cl_ok C w' \<and> stored C w' = stored C w \<and> (\<forall>t. t \<noteq> k \<longrightarrow> listed C w' t = listed C w t) \<and>
      passed (night_form C p) ?xs ?xs (listed C w' k)"
  proof (rule write_all_listed [where ok = "cl_ok C" and nm = ?nm and obs = "stored C" and view = "listed C"])
    fix v d x
    assume v: "cl_ok C v" "d \<in> set (listed C v k)" "d \<in> set ?xs" "sparse_of ?L p d = Some x"
    then obtain rp where out: "sleep_outcome ?L p d = Changed rp x"
      by (auto simp: sparse_of_def split: sleep_outcome.splits)
    obtain v' d' where "ApplyObject (cl_api C)
        (u_SetResourceVersion (l_unstr ?L) [] (u_ClearManagedFields (l_unstr ?L) x)) (r_ManagerName (cl_rec C)) v = (None, v')"
        "cl_ok C v'" "stored C v' = stored C v" "asleep_content C p d d'"
        "listed C v' = (listed C v)(k := put_object ?nm d' (listed C v k))"
      using cluster_okD(4) [OF assms(1), unfolded apply_ok_def] v(1,2) assms(4) p out by blast
    then show "\<exists>v' d'. SSAPatch (l_unstr ?L) rc x v = (None, v') \<and> cl_ok C v' \<and>
        stored C v' = stored C v \<and> ?nm d' = ?nm d \<and> night_form C p d d' \<and>
        listed C v' = (listed C v)(k := put_object ?nm d' (listed C v k))"
      using recorded_patch_outcome(2) [OF out]
      by (auto simp: SSAPatch_valid [OF rc(1,2)] rc(3) night_form_def asleep_content_def)
  next
    fix d
    assume "d \<in> set ?xs" and "sparse_of ?L p d = None"
    then have "sleep_outcome ?L p d = Untouched"
      using ok [of d] by (auto simp: sparse_of_def restores_def split: sleep_outcome.splits)
    then show "night_form C p d d" by (simp add: night_form_def recorded_patch_outcome(1))
  qed (use assms(2) dist in \<open>auto simp: distinct_map\<close>)
  then show ?thesis unfolding apply_all_write sparse_objects_filter using passed_all by blast
qed

lemma sleep_target_listed:
  assumes "cluster_ok C V" and "cl_ok C w" and "map (cl_content C) (listed C w k) = V k"
    and "last_patch (GetPatches (cl_info C)) k = Some pd"
    and "res = new_group (resource_client (cl_rec C) si) [] pd (listed C w k)"
  shows "\<exists>res' w'. sleep_target (cl_libs C) ns res w = ((None, res'), w') \<and> cl_ok C w' \<and> stored C w' = stored C w \<and>
    (\<forall>t. t \<noteq> k \<longrightarrow> listed C w' t = listed C w t) \<and>
    (\<exists>p. New (l_patch (cl_libs C)) (p_Patch pd) = Inr p \<and>
       g_restorePatches res' = Some (fold (record_restore (cl_libs C) p) (listed C w k) []) \<and>
       g_data res' = listed C w k \<and> list_all2 (night_form C p) (listed C w k) (listed C w' k))"
proof -
  let ?L = "cl_libs C" and ?xs = "listed C w k"
  obtain p where p: "p_Patch pd \<noteq> []" "New (l_patch ?L) (p_Patch pd) = Inr p"
      "\<forall>d. cl_content C d \<in> set (V k) \<longrightarrow> restores C p d"
    by (rule engine_okD [OF cluster_okD(6) [OF assms(1)] assms(4)])
  have ok: "restores C p d" if "d \<in> set ?xs" for d using p(3) that by (simp flip: assms(3))
  have dist: "distinct (map (cl_name C) ?xs)" using cluster_okD(7) [OF assms(1)] assms(3) by (simp add: contents_ok_def)
  have res: "\<not> g_isCacheInvalid res" "g_restorePatches res = Some []" "g_patchData res = pd" "g_data res = ?xs"
      "rc_Client (g_Client res) = Some (cl_api C)" "rc_SleepInfo (g_Client res) = Some si"
      "rc_FieldManagerName (g_Client res) = r_ManagerName (cl_rec C)"
    by (simp_all add: assms(5) new_group_def newGenericResource_def resource_client_def)
  obtain w' where w': "apply_all (l_unstr ?L) (g_Client res) (sparse_objects ?L p ?xs) w = (None, w')"
      "cl_ok C w'" "stored C w' = stored C w" "\<forall>t. t \<noteq> k \<longrightarrow> listed C w' t = listed C w t"
      "list_all2 (night_form C p) ?xs (listed C w' k)"
    using sleep_writes [OF assms(1,2) dist assms(4) p(2) ok res(5-7)] by blast
  let ?res' = "res\<lparr>g_restorePatches := Some (fold (record_restore ?L p) ?xs []),
      g_isCacheInvalid := sparse_objects ?L p ?xs \<noteq> []\<rparr>"
  have "sleep_target ?L ns res w = ((None, ?res'), w')"
    unfolding sleep_target_fresh [OF res(1,2)] using p(1,2) w'(1) ok by (auto simp: res(3,4) restores_def)
  moreover have "g_restorePatches ?res' = Some (fold (record_restore ?L p) ?xs [])" "g_data ?res' = ?xs"
    by (simp_all add: res(4))
  ultimately show ?thesis using w'(2-5) p(2) by blast
qed

section \<open>Waking the resources up\<close>

lemma content_name: "contents_ok C V \<Longrightarrow> cl_content C d = cl_content C d' \<Longrightarrow> cl_name C d = cl_name C d'"
  unfolding contents_ok_def by blast

lemma night_form_name: "contents_ok C V \<Longrightarrow> night_form C p d d' \<Longrightarrow> cl_name C d' = cl_name C d"
  by (auto simp: night_form_def asleep_content_def dest: content_name split: if_splits)

lemma restoresD:
  assumes "restores C p d" and "recorded_patch (cl_libs C) p d = Some rp" and "asleep_content C p d d'"
  obtains again c obj where "Exec (l_patch (cl_libs C)) p (marshal (JObj d')) = Inr again"
    and "JsonEqual (l_patch (cl_libs C)) (marshal (JObj d')) again"
    and "MergePatch (l_patch (cl_libs C)) (marshal (JObj d')) rp = Inr c"
    and "unmarshal_object c = Inr (Some obj)" and "cl_content C obj = cl_content C d"
proof -
  note both = assms(1) [unfolded restores_def, THEN conjunct2, THEN spec, THEN spec, THEN mp, OF conjI, OF assms(2,3)]
  obtain again where "Exec (l_patch (cl_libs C)) p (marshal (JObj d')) = Inr again \<and>
      JsonEqual (l_patch (cl_libs C)) (marshal (JObj d')) again"
    using both [THEN conjunct1] ..
  moreover obtain c obj where "MergePatch (l_patch (cl_libs C)) (marshal (JObj d')) rp = Inr c \<and>
      unmarshal_object c = Inr (Some obj) \<and> cl_content C obj = cl_content C d"
    using both [THEN conjunct2] by (elim exE)
  ultimately show ?thesis using that by blast
qed

lemma wake_outcome_Restored:
  assumes "Option.bind rp (\<lambda>m. gm_get m (u_GetName (l_unstr L) d)) = Some raw"
    and "Exec (l_patch L) p (marshal (JObj d)) = Inr again" and "JsonEqual (l_patch L) (marshal (JObj d)) again"
    and "MergePatch (l_patch L) (marshal (JObj d)) raw = Inr c" and "unmarshal_object c = Inr (Some obj)"
  shows "wake_outcome L p rp d = Restored obj"
  using assms by (simp add: wake_outcome_def IsResourceChanged_def del: marshal.simps)

text \<open>What waking up makes of one resource, with the restore patch that the evening recorded for it.\<close>

lemma wake_outcome_night:
  assumes "contents_ok C V" and "restores C p d" and "night_form C p d d'"
    and "Option.bind rp (\<lambda>m. gm_get m (cl_name C d)) = recorded_patch (cl_libs C) p d"
  shows "wake_outcome (cl_libs C) p rp d' = Kept \<and> cl_content C d' = cl_content C d \<or>
    (\<exists>obj. wake_outcome (cl_libs C) p rp d' = Restored obj \<and> cl_content C obj = cl_content C d)"
proof (cases "recorded_patch (cl_libs C) p d")
  case None
  with assms(3,4) night_form_name [OF assms(1,3)] show ?thesis by (simp add: wake_outcome_def night_form_def)
next
  case (Some raw)
  then have "asleep_content C p d d'" using assms(3) by (simp add: night_form_def)
  then obtain again c obj where wake: "Exec (l_patch (cl_libs C)) p (marshal (JObj d')) = Inr again"
      "JsonEqual (l_patch (cl_libs C)) (marshal (JObj d')) again"
      "MergePatch (l_patch (cl_libs C)) (marshal (JObj d')) raw = Inr c"
      "unmarshal_object c = Inr (Some obj)" and obj: "cl_content C obj = cl_content C d"
    by (rule restoresD [OF assms(2) Some])
  have "Option.bind rp (\<lambda>m. gm_get m (cl_name C d')) = Some raw"
    using Some assms(4) night_form_name [OF assms(1,3)] by simp
  from wake_outcome_Restored [OF this wake] obj show ?thesis by blast
qed

definition restored_of ::
    "'p libs \<Rightarrow> 'p Patcher \<Rightarrow> RestorePatches \<Rightarrow> unstructured \<Rightarrow> (unstructured \<times> unstructured) option" where
  "restored_of L p rp d = (case wake_outcome L p rp d of Restored obj \<Rightarrow> Some (d, obj) | _ \<Rightarrow> None)"

lemma restored_objects_filter: "restored_objects L p rp rs = List.map_filter (restored_of L p rp) rs"
  by (induction rs)
    (simp_all add: restored_objects_def restored_of_def List.map_filter_simps split: wake_outcome.split)

definition restore_entry :: "(string, RestorePatches) gomap \<Rightarrow> PatchTarget \<Rightarrow> RestorePatches" where
  "restore_entry rps t = (case gm_get rps (target_string t) of None \<Rightarrow> Some [] | Some rp \<Rightarrow> rp)"

text \<open>
  A target during the night: its resources are those of an evening \<open>ds\<close> in their night form,
  and the saved patches hold what that evening recorded.
\<close>

definition night_target ::
    "('w, 's, 'p, 'v) cluster \<Rightarrow> (PatchTarget \<Rightarrow> 'v list) \<Rightarrow> (string, RestorePatches) gomap \<Rightarrow> 'w \<Rightarrow>
     PatchTarget \<Rightarrow> Patch \<Rightarrow> bool" where
  "night_target C V rps w t pd =
     (\<exists>p ds. New (l_patch (cl_libs C)) (p_Patch pd) = Inr p \<and> map (cl_content C) ds = V t \<and>
        list_all2 (night_form C p) ds (listed C w t) \<and>
        (\<forall>d \<in> set ds. Option.bind (restore_entry rps t) (\<lambda>m. gm_get m (cl_name C d)) =
           recorded_patch (cl_libs C) p d))"

lemma list_all2_names: "list_all2 P xs ys \<Longrightarrow> (\<And>x y. P x y \<Longrightarrow> nm y = nm x) \<Longrightarrow> map nm ys = map nm xs"
  by (induction rule: list_all2_induct) simp_all

lemma list_all2_partner:
  assumes "list_all2 P xs ys" and "y \<in> set ys"
  obtains x where "x \<in> set xs" and "P x y"
  using assms by (metis in_set_conv_nth list_all2_conv_all_nth)

text \<open>Writing an original back.\<close>

lemma patch_listed:
  assumes "patch_ok C V" and "contents_ok C V" and "cl_ok C w" and "d' \<in> set (listed C w k)"
    and "cl_content C d \<in> set (V k)" and "cl_name C d' = cl_name C d" and "cl_content C obj = cl_content C d"
  obtains w' d'' where "PatchObject (cl_api C) obj d' w = (None, w')" and "cl_ok C w'" and "stored C w' = stored C w"
    and "cl_name C d'' = cl_name C d'" and "cl_content C d'' = cl_content C d"
    and "listed C w' = (listed C w)(k := put_object (cl_name C) d'' (listed C w k))"
proof -
  have obj: "cl_name C obj = cl_name C d'" using content_name [OF assms(2,7)] assms(6) by simp
  obtain w' d'' where w': "PatchObject (cl_api C) obj d' w = (None, w')" "cl_ok C w'" "stored C w' = stored C w"
      "cl_content C d'' = cl_content C obj"
      "listed C w' = (listed C w)(k := put_object (cl_name C) d'' (listed C w k))"
    using assms(1) [unfolded patch_ok_def, rule_format, of w d' k obj] assms(3-5,7) obj by auto
  have "cl_name C d'' = cl_name C d'" using content_name [OF assms(2) w'(4)] obj by simp
  from that [OF w'(1-3) this _ w'(5)] w'(4) assms(7) show ?thesis by simp
qed

text \<open>All the writes of a morning for one target.\<close>

lemma wake_writes:
  assumes "cluster_ok C V" and "cl_ok C w" and ds: "map (cl_content C) ds = V k"
    and night: "list_all2 (night_form C p) ds (listed C w k)"
    and out: "\<And>d d'. d \<in> set ds \<Longrightarrow> night_form C p d d' \<Longrightarrow>
      wake_outcome (cl_libs C) p rp d' = Kept \<and> cl_content C d' = cl_content C d \<or>
      (\<exists>obj. wake_outcome (cl_libs C) p rp d' = Restored obj \<and> cl_content C obj = cl_content C d)"
    and rc: "rc_Client rc = Some (cl_api C)" "rc_SleepInfo rc = Some si"
  shows "\<exists>w'. patch_all rc (restored_objects (cl_libs C) p rp (listed C w k)) w = (None, w') \<and> cl_ok C w' \<and>
    stored C w' = stored C w \<and> (\<forall>t. t \<noteq> k \<longrightarrow> listed C w' t = listed C w t) \<and>
    map (cl_content C) (listed C w' k) = V k"
proof -
  let ?L = "cl_libs C" and ?xs = "listed C w k" and ?nm = "cl_name C"
  note names = cluster_okD(7) [OF assms(1)]
  have nm: "map ?nm ?xs = map ?nm ds" by (rule list_all2_names [OF night night_form_name [OF names]])
  have dist: "distinct (map ?nm ds)" using names ds by (simp add: contents_ok_def)
  have dist_xs: "distinct ?xs" using dist by (metis nm distinct_map)
  have same: "e = d" if "d \<in> set ds" "e \<in> set ds" "?nm e = ?nm d" for d e
    using that dist by (auto simp: distinct_map inj_on_def)
  let ?R = "\<lambda>d' d''. \<forall>d \<in> set ds. ?nm d = ?nm d' \<longrightarrow> cl_content C d'' = cl_content C d"
  have "\<exists>w'. write_all (\<lambda>(old, new). rc_Patch rc old new) (List.map_filter (restored_of ?L p rp) ?xs) w =
        (None, w') \<and> cl_ok C w' \<and> stored C w' = stored C w \<and> (\<forall>t. t \<noteq> k \<longrightarrow> listed C w' t = listed C w t) \<and>
      passed ?R ?xs ?xs (listed C w' k)"
  proof (rule write_all_listed [where ok = "cl_ok C" and nm = ?nm and obs = "stored C" and view = "listed C"])
    fix v d' x
    assume v: "cl_ok C v" "d' \<in> set (listed C v k)" "d' \<in> set ?xs" "restored_of ?L p rp d' = Some x"
    obtain d where d: "d \<in> set ds" "night_form C p d d'" by (rule list_all2_partner [OF night v(3)])
    obtain obj where x: "x = (d', obj)" and obj: "cl_content C obj = cl_content C d"
      using v(4) out [OF d] by (auto simp: restored_of_def)
    have V: "cl_content C d \<in> set (V k)" using d(1) by (simp flip: ds)
    obtain v' d'' where "PatchObject (cl_api C) obj d' v = (None, v')" "cl_ok C v'" "stored C v' = stored C v"
        "?nm d'' = ?nm d'" "listed C v' = (listed C v)(k := put_object ?nm d'' (listed C v k))"
        and new: "cl_content C d'' = cl_content C d"
      by (rule patch_listed [OF cluster_okD(5) [OF assms(1)] names v(1,2) V night_form_name [OF names d(2)] obj])
    moreover have "?R d' d''" using same d(1) night_form_name [OF names d(2)] new by metis
    ultimately show "\<exists>v' d''. (\<lambda>(old, new). rc_Patch rc old new) x v = (None, v') \<and> cl_ok C v' \<and>
        stored C v' = stored C v \<and> ?nm d'' = ?nm d' \<and> ?R d' d'' \<and>
        listed C v' = (listed C v)(k := put_object ?nm d'' (listed C v k))"
      by (auto simp: x rc_Patch_valid [OF rc])
  next
    fix d'
    assume "d' \<in> set ?xs" and none: "restored_of ?L p rp d' = None"
    then obtain d where d: "d \<in> set ds" "night_form C p d d'" using list_all2_partner [OF night] by blast
    then have "cl_content C d' = cl_content C d" using out [OF d] none by (auto simp: restored_of_def)
    then show "?R d' d'" using same d(1) night_form_name [OF names d(2)] by metis
  qed (use assms(2) dist dist_xs in \<open>simp_all add: nm\<close>)
  moreover have "map (cl_content C) ys = V k" if "passed ?R ?xs ?xs ys" for ys
    using night passed_all [OF that] night_form_name [OF names]
    by (auto simp: list_eq_iff_nth_eq list_all2_conv_all_nth simp flip: ds)
  ultimately show ?thesis unfolding patch_all_write restored_objects_filter by blast
qed

lemma wake_target_listed:
  assumes "cluster_ok C V" and "cl_ok C w" and "night_target C V rps w k pd"
    and "last_patch (GetPatches (cl_info C)) k = Some pd"
    and "res = new_group (resource_client (cl_rec C) si) rps pd (listed C w k)"
  shows "\<exists>res' w'. wake_target (cl_libs C) ns res w = ((None, res'), w') \<and> cl_ok C w' \<and> stored C w' = stored C w \<and>
    (\<forall>t. t \<noteq> k \<longrightarrow> listed C w' t = listed C w t) \<and> map (cl_content C) (listed C w' k) = V k"
proof -
  let ?L = "cl_libs C" and ?xs = "listed C w k" and ?rp = "restore_entry rps k"
  obtain p ds where p: "New (l_patch ?L) (p_Patch pd) = Inr p" and ds: "map (cl_content C) ds = V k"
      and night: "list_all2 (night_form C p) ds ?xs"
      and saved: "\<forall>d \<in> set ds. Option.bind ?rp (\<lambda>m. gm_get m (cl_name C d)) = recorded_patch ?L p d"
    using assms(3) unfolding night_target_def by blast
  have ok: "restores C p d" if "d \<in> set ds" for d
    using engine_okD [OF cluster_okD(6) [OF assms(1)] assms(4)] p that
    by (metis Inr_inject ds imageI list.set_map)
  have out: "wake_outcome ?L p ?rp d' = Kept \<and> cl_content C d' = cl_content C d \<or>
      (\<exists>obj. wake_outcome ?L p ?rp d' = Restored obj \<and> cl_content C obj = cl_content C d)"
    if "d \<in> set ds" "night_form C p d d'" for d d'
    using wake_outcome_night [OF cluster_okD(7) [OF assms(1)] ok] that saved by blast
  have res: "\<not> g_isCacheInvalid res" "g_restorePatches res = ?rp" "g_patchData res = pd" "g_data res = ?xs"
      "rc_Client (g_Client res) = Some (cl_api C)" "rc_SleepInfo (g_Client res) = Some si"
    by (simp_all add: assms(5) new_group_def newGenericResource_def resource_client_def restore_entry_def
        last_patch_target [OF assms(4)])
  obtain w' where w': "patch_all (g_Client res) (restored_objects ?L p ?rp ?xs) w = (None, w')"
      "cl_ok C w'" "stored C w' = stored C w" "\<forall>t. t \<noteq> k \<longrightarrow> listed C w' t = listed C w t"
      "map (cl_content C) (listed C w' k) = V k"
    using wake_writes [OF assms(1,2) ds night out res(5,6)] by blast
  have "\<forall>d' \<in> set ?xs. \<forall>e. wake_outcome ?L p ?rp d' \<noteq> Failing e"
    using out list_all2_partner [OF night] by (metis wake_outcome.distinct(1) wake_outcome.distinct(5))
  then have "\<exists>res'. wake_target ?L ns res w = ((None, res'), w')"
    unfolding wake_target_fresh [OF res(1)] res(2-4) using p w'(1) by blast
  with w'(2-5) show ?thesis by blast
qed

end
