(* ===== verification/Every_Night.thy ===== *)
theory Every_Night
  imports Cluster
begin

text \<open>
  Every night of a namespace: the runs of both controllers in any order, with anything in
  between that leaves the contents of the resources alone. By day the resources have their
  original contents; by night the secret holds what leads back to them.
\<close>

section \<open>Day and night\<close>

definition resting :: "('w, 's, 'p, 'v) cluster \<Rightarrow> (PatchTarget \<Rightarrow> 'v list) \<Rightarrow> 'w \<Rightarrow> bool" where
  "resting C V w =
     ((\<forall>t. map (cl_content C) (listed C w t) = V t) \<and> recorded_operation (stored C w) \<noteq> sleepOperation \<and>
      (\<forall>d. getSleepInfoData (r_tz (cl_rec C)) (stored C w) (cl_info C) = Inr d \<longrightarrow>
         OriginalGenericResourceInfo d = None \<or> OriginalGenericResourceInfo d = Some []))"

definition by_night :: "('w, 's, 'p, 'v) cluster \<Rightarrow> (PatchTarget \<Rightarrow> 'v list) \<Rightarrow> (string, RestorePatches) gomap \<Rightarrow>
     'w \<Rightarrow> bool" where
  "by_night C V rps w =
     (\<forall>t. case last_patch (GetPatches (cl_info C)) t of
        None \<Rightarrow> map (cl_content C) (listed C w t) = V t
      | Some pd \<Rightarrow> night_target C V rps w t pd)"

definition asleep :: "('w, 's, 'p, 'v) cluster \<Rightarrow> (PatchTarget \<Rightarrow> 'v list) \<Rightarrow> 'w \<Rightarrow> bool" where
  "asleep C V w =
     (recorded_operation (stored C w) = sleepOperation \<and>
      (\<exists>rps. by_night C V rps w \<and> restore_live (Some rps) \<and>
         (\<forall>d. getSleepInfoData (r_tz (cl_rec C)) (stored C w) (cl_info C) = Inr d \<longrightarrow>
            OriginalGenericResourceInfo d = Some rps)))"

definition settled :: "('w, 's, 'p, 'v) cluster \<Rightarrow> (PatchTarget \<Rightarrow> 'v list) \<Rightarrow> 'w \<Rightarrow> bool" where
  "settled C V w = (cl_ok C w \<and> (resting C V w \<or> asleep C V w))"

text \<open>Night is a matter of contents.\<close>

lemma night_form_content:
  "contents_ok C V \<Longrightarrow> cl_content C d'' = cl_content C d' \<Longrightarrow> night_form C p d d' \<Longrightarrow> night_form C p d d''"
  using content_name [of C V d'' d'] by (simp add: night_form_def asleep_content_def split: if_splits)

lemma night_target_content:
  assumes "contents_ok C V" and "map (cl_content C) (listed C w' t) = map (cl_content C) (listed C w t)"
    and "night_target C V rps w t pd"
  shows "night_target C V rps w' t pd"
proof -
  have "list_all2 (night_form C p) ds (listed C w' t)" if "list_all2 (night_form C p) ds (listed C w t)" for p ds
    using that assms(2) night_form_content [OF assms(1)]
    by (auto simp: list_all2_conv_all_nth list_eq_iff_nth_eq)
  with assms(3) show ?thesis unfolding night_target_def by blast
qed

lemma by_night_content:
  assumes "contents_ok C V" and "\<And>t. map (cl_content C) (listed C w' t) = map (cl_content C) (listed C w t)"
    and "by_night C V rps w"
  shows "by_night C V rps w'"
  unfolding by_night_def
proof
  fix t
  show "case last_patch (GetPatches (cl_info C)) t of
      None \<Rightarrow> map (cl_content C) (listed C w' t) = V t | Some pd \<Rightarrow> night_target C V rps w' t pd"
    using assms(3) [unfolded by_night_def, rule_format, of t] assms(2) [of t] night_target_content [OF assms(1,2)]
    by (simp split: option.splits)
qed

section \<open>What the secret of a run says\<close>

lemma new_secret_meta:
  "m_Name (sec_Meta (new_secret r now sn ns si data g)) = sn"
  "m_Namespace (sec_Meta (new_secret r now sn ns si data g)) = ns"
  by (simp_all add: new_secret_def base_secret_def put_string_def Let_def)

lemma upsert_stored:
  assumes "cluster_ok C V" and "cl_ok C w" and "same_info (cl_info C) si" and "secret = stored C w"
  shows "\<exists>w'. upsertSecret (cl_rec C) now (cl_secret C) (cl_ns C) si secret data g w = (None, w') \<and> cl_ok C w' \<and>
    listed C w' = listed C w \<and>
    stored C w' = Some (stored_secret (cl_rec C) now (cl_secret C) (cl_ns C) (cl_info C) data g)"
proof -
  let ?s = "new_secret (cl_rec C) now (cl_secret C) (cl_ns C) (cl_info C) data g"
  have "\<exists>w'. (if stored C w = None then CreateSecret (cl_api C) ?s w else UpdateSecret (cl_api C) ?s w) = (None, w') \<and>
      cl_ok C w' \<and> listed C w' = listed C w \<and> stored C w' = Some (convertSecretStringData ?s)"
    using cluster_okD(3) [OF assms(1)] assms(2) unfolding secret_writes_ok_def by (simp only: new_secret_meta simp_thms)
  then show ?thesis
    unfolding upsertSecret_def Let_def assms(4) stored_secret_def same_info_spec(6) [OF assms(3)] .
qed

lemma stored_info:
  assumes "printable (r_tz r) now" and "live_resources g"
    and "getSleepInfoData (r_tz r) (Some (stored_secret r now sn ns si data g)) si = Inr d"
  shows "OriginalGenericResourceInfo d = Some (saved_patches r data g)"
proof -
  obtain sleep wake where "GetSleepSchedule si = Inr sleep" "GetWakeUpSchedule si = Inr wake"
    using getSleepInfoData_ok [OF assms(3)] by (auto simp: data_ok_def split: sum.splits)
  from getSleepInfoData_stored [OF assms(1) live_savable [OF assms(2)] this, of sn ns si data] assms(3)
  show ?thesis by auto
qed

text \<open>A secret that records no sleep holds no restore patches.\<close>

lemma stored_rest:
  assumes "\<not> (HasResource g \<and> IsSleepOperation data)" and "printable (r_tz (cl_rec C)) now" and "live_resources g"
    and "stored C w = Some (stored_secret (cl_rec C) now (cl_secret C) (cl_ns C) (cl_info C) data g)"
    and "\<And>t. map (cl_content C) (listed C w t) = V t"
  shows "resting C V w"
proof -
  have "recorded_operation (stored C w) \<noteq> sleepOperation"
    using assms(1) by (auto simp: assms(4) recorded_stored IsSleepOperation_def operation_names)
  moreover have "OriginalGenericResourceInfo d = Some []"
    if "getSleepInfoData (r_tz (cl_rec C)) (stored C w) (cl_info C) = Inr d" for d
    using stored_info [OF assms(2,3)] that assms(1) by (auto simp: assms(4) saved_patches_def)
  ultimately show ?thesis using assms(5) by (simp add: resting_def)
qed

text \<open>The secret was written by a run at \<open>now\<close>.\<close>

definition written :: "('w, 's, 'p, 'v) cluster \<Rightarrow> gotime \<Rightarrow> 'w \<Rightarrow> bool" where
  "written C now w =
     (\<exists>data g. live_resources g \<and>
        stored C w = Some (stored_secret (cl_rec C) now (cl_secret C) (cl_ns C) (cl_info C) data g))"

section \<open>An evening\<close>

lemma cluster_range:
  assumes "cluster_ok C V" and "gm_wf (resMapping g)"
  shows "distinct (l_range (cl_libs C) (map fst (resMapping g)))"
    and "k \<in> set (l_range (cl_libs C) (map fst (resMapping g))) \<longleftrightarrow> gm_get (resMapping g) k \<noteq> None"
  using cluster_okD(8) [OF assms(1)] gm_wf_distinct [OF assms(2)]
  by (auto simp: range_ok_def map_of_eq_None_iff)

lemma cluster_HasResource:
  assumes "cluster_ok C V" and "cl_ok C w" and "same_info (cl_info C) si"
    and "NewResources (cl_libs C) (resource_client (cl_rec C) si) (cl_ns C) rps w = (Inr g, w1)"
  shows "HasResource g \<longleftrightarrow> (\<exists>k. gm_get (resMapping g) k \<noteq> None)"
    and "gm_get (resMapping g) k = None \<longleftrightarrow> last_patch (GetPatches (cl_info C)) k = None \<or> listed C w k = []"
proof -
  note groups = cluster_groups [OF assms]
  have "g_data res \<noteq> []" if "gm_get (resMapping g) k = Some res" for k res
    using that groups(5) [of k] by (auto simp: new_group_def split: option.splits if_splits)
  then show "HasResource g \<longleftrightarrow> (\<exists>k. gm_get (resMapping g) k \<noteq> None)" using HasResource_iff [OF groups(2)] by auto
  show "gm_get (resMapping g) k = None \<longleftrightarrow> last_patch (GetPatches (cl_info C)) k = None \<or> listed C w k = []"
    using groups(5) [of k] by (simp split: option.split)
qed

text \<open>The group of a target after its sleep, and its resources.\<close>

definition evening_done ::
    "('w, 's, 'p, 'v) cluster \<Rightarrow> (PatchTarget \<Rightarrow> unstructured list) \<Rightarrow> PatchTarget \<Rightarrow> 'w genericResource \<Rightarrow>
     unstructured list \<Rightarrow> bool" where
  "evening_done C xs k res ys =
     (\<exists>pd p. last_patch (GetPatches (cl_info C)) k = Some pd \<and> New (l_patch (cl_libs C)) (p_Patch pd) = Inr p \<and>
        g_restorePatches res = Some (fold (record_restore (cl_libs C) p) (xs k) []) \<and>
        g_data res = xs k \<and> list_all2 (night_form C p) (xs k) ys)"

lemma Sleep_listed:
  assumes "cluster_ok C V" and "cl_ok C w" and "\<And>t. map (cl_content C) (listed C w t) = V t"
    and "same_info (cl_info C) si"
    and "NewResources (cl_libs C) (resource_client (cl_rec C) si) (cl_ns C) rps w = (Inr g, w1)"
    and "rps = None \<or> rps = Some []" and "keeps C w w2"
  shows "\<exists>g' w'. Sleep (cl_libs C) g w2 = ((None, g'), w') \<and> cl_ok C w' \<and> stored C w' = stored C w \<and>
    (\<forall>k. if gm_get (resMapping g) k = None then gm_get (resMapping g') k = None \<and> listed C w' k = listed C w k
       else \<exists>res. gm_get (resMapping g') k = Some res \<and> evening_done C (listed C w) k res (listed C w' k))"
proof -
  note groups = cluster_groups [OF assms(1,2,4,5)]
  let ?ks = "l_range (cl_libs C) (map fst (resMapping g))"
  have w2: "cl_ok C w2" "listed C w2 = listed C w" "stored C w2 = stored C w" using assms(7) by (simp_all add: keeps_def)
  have "\<exists>g' w'. for_targets (sleep_target (cl_libs C)) ?ks g w2 = ((None, g'), w') \<and> cl_ok C w' \<and>
      stored C w' = stored C w2 \<and> (\<forall>k. visited (listed C) (evening_done C (listed C w)) ?ks g w2 g' w' k)"
  proof (rule for_targets_listed [where ok = "cl_ok C" and obs = "stored C"])
    fix k res v
    assume res: "gm_get (resMapping g) k = Some res" and v: "cl_ok C v" "listed C v k = listed C w2 k"
    have rps: "(case rps of None \<Rightarrow> [] | Some m \<Rightarrow> m) = []" using assms(6) by auto
    obtain pd where pd: "last_patch (GetPatches (cl_info C)) k = Some pd"
        and g: "res = new_group (resource_client (cl_rec C) si) [] pd (listed C v k)"
      using res groups(5) [of k, unfolded rps] v(2) w2(2) by (auto split: option.splits if_splits)
    show "\<exists>res' v'. sleep_target (cl_libs C) (mr_namespace g) res v = ((None, res'), v') \<and> cl_ok C v' \<and>
        stored C v' = stored C v \<and> (\<forall>t. t \<noteq> k \<longrightarrow> listed C v' t = listed C v t) \<and>
        evening_done C (listed C w) k res' (listed C v' k)"
      using sleep_target_listed [OF assms(1) v(1) _ pd g, of "mr_namespace g"] assms(3) [of k] v(2) w2(2) pd
      unfolding evening_done_def by metis
  qed (use w2(1) cluster_range(1) [OF assms(1) groups(2)] in auto)
  then obtain g' w' where run: "for_targets (sleep_target (cl_libs C)) ?ks g w2 = ((None, g'), w')" "cl_ok C w'"
      "stored C w' = stored C w2" and each: "\<And>k. visited (listed C) (evening_done C (listed C w)) ?ks g w2 g' w' k"
    by blast
  have "if gm_get (resMapping g) k = None then gm_get (resMapping g') k = None \<and> listed C w' k = listed C w k
       else \<exists>res. gm_get (resMapping g') k = Some res \<and> evening_done C (listed C w) k res (listed C w' k)" for k
    using each [of k] cluster_range(2) [OF assms(1) groups(2), of k] w2(2) by (simp add: visited_def split: if_splits)
  with run w2(3) show ?thesis unfolding Sleep_def by auto
qed

lemma evening_saved:
  assumes "cluster_ok C V" and "\<And>t. map (cl_content C) (listed C w t) = V t"
    and "gm_wf (resMapping g)" and "plain_kinds g" and "gm_get (resMapping g) k = Some res"
    and "evening_done C (listed C w) k res (listed C w' k)" and "last_patch (GetPatches (cl_info C)) k = Some pd"
  shows "night_target C V (data_to_save (resMapping g) (l_range (cl_libs C) (map fst (resMapping g))) []) w' k pd"
proof -
  let ?L = "cl_libs C" and ?xs = "listed C w k"
  obtain p where p: "New (l_patch ?L) (p_Patch pd) = Inr p"
      "g_restorePatches res = Some (fold (record_restore ?L p) ?xs [])"
      "list_all2 (night_form C p) ?xs (listed C w' k)"
    using assms(6,7) by (auto simp: evening_done_def)
  have ok: "\<forall>d \<in> set ?xs. \<forall>e. sleep_outcome ?L p d \<noteq> Broken e"
  proof
    fix d
    assume "d \<in> set ?xs"
    then have "cl_content C d \<in> set (V k)" using assms(2) [of k] by (metis imageI list.set_map)
    with engine_okD [OF cluster_okD(6) [OF assms(1)] assms(7)] p(1) show "\<forall>e. sleep_outcome ?L p d \<noteq> Broken e"
      by (metis Inr_inject restores_def)
  qed
  have "distinct (map (cl_name C) ?xs)" using cluster_okD(7) [OF assms(1)] assms(2) by (simp add: contents_ok_def)
  note recorded = fold_record_recorded [OF this _ ok, of _ "[]"]
  have "restore_entry (data_to_save (resMapping g) (l_range ?L (map fst (resMapping g))) []) k = g_restorePatches res"
    using saved_entry [OF cluster_okD(8) [OF assms(1)] assms(3-5)] p(2) by (auto simp: restore_entry_def rp_empty_def)
  then show ?thesis
    unfolding night_target_def using p recorded assms(2) [of k]
    by (intro exI [of _ p] exI [of _ ?xs]) (auto split: option.splits)
qed

text \<open>A target without resources has nothing to remember.\<close>

lemma night_target_empty:
  assumes "cluster_ok C V" and "last_patch (GetPatches (cl_info C)) k = Some pd" and "V k = []" and "listed C w k = []"
  shows "night_target C V rps w k pd"
  using engine_okD [OF cluster_okD(6) [OF assms(1)] assms(2)] assms(3,4) unfolding night_target_def
  by (metis empty_iff list.map_disc_iff list.rel_inject(1) list.set(1))

text \<open>During the night, a target that is not managed, or has no resources, is as by day.\<close>

lemma unmanaged:
  assumes "by_night C V rps w" and "last_patch (GetPatches (cl_info C)) t = None \<or> listed C w t = []"
  shows "map (cl_content C) (listed C w t) = V t"
  using assms(1) [unfolded by_night_def, rule_format, of t] assms(2)
  by (auto simp: night_target_def split: option.splits)

lemma evening_by_night:
  assumes "cluster_ok C V" and "\<And>t. map (cl_content C) (listed C w t) = V t"
    and "gm_wf (resMapping g')" and "plain_kinds g'"
    and "\<And>k. if gm_get (resMapping g) k = None
      then gm_get (resMapping g') k = None \<and> listed C w' k = listed C w k
      else \<exists>res. gm_get (resMapping g') k = Some res \<and> evening_done C (listed C w) k res (listed C w' k)"
    and "\<And>k. gm_get (resMapping g) k = None \<longleftrightarrow> last_patch (GetPatches (cl_info C)) k = None \<or> listed C w k = []"
  shows "by_night C V (data_to_save (resMapping g') (l_range (cl_libs C) (map fst (resMapping g'))) []) w'"
  unfolding by_night_def
proof
  fix t
  show "case last_patch (GetPatches (cl_info C)) t of
      None \<Rightarrow> map (cl_content C) (listed C w' t) = V t
    | Some pd \<Rightarrow> night_target C V (data_to_save (resMapping g') (l_range (cl_libs C) (map fst (resMapping g'))) []) w' t pd"
  proof (cases "last_patch (GetPatches (cl_info C)) t")
    case None
    then show ?thesis using assms(2,5,6) [of t] by simp
  next
    case (Some pd)
    show ?thesis
    proof (cases "gm_get (resMapping g) t")
      case None
      then have "listed C w' t = []" and "V t = []" using assms(2,5,6) [of t] Some by auto
      with Some night_target_empty [OF assms(1) Some] show ?thesis by simp
    next
      case (Some res)
      then show ?thesis
        using evening_saved [OF assms(1-4)] assms(5) [of t] \<open>last_patch _ t = Some pd\<close> by fastforce
    qed
  qed
qed

lemma run_sleep:
  assumes "cluster_ok C V" and "cl_ok C w" and "resting C V w" and "same_info (cl_info C) si"
    and "IsSleepOperation data" and "OriginalGenericResourceInfo data = None \<or> OriginalGenericResourceInfo data = Some []"
    and "NewResources (cl_libs C) (resource_client (cl_rec C) si) (cl_ns C) (OriginalGenericResourceInfo data) w = (Inr g, w1)"
    and "keeps C w w2" and "printable (r_tz (cl_rec C)) now" and "secret = stored C w" and "HasResource g"
  shows "\<exists>g' w3 w4. perform (cl_libs C) data g w2 = ((None, g'), w3) \<and>
    upsertSecret (cl_rec C) now (cl_secret C) (cl_ns C) si secret data g' w3 = (None, w4) \<and> cl_ok C w4 \<and> written C now w4 \<and>
    asleep C V w4"
proof -
  note groups = cluster_groups [OF assms(1,2,4,7)] and has_iff = cluster_HasResource [OF assms(1,2,4,7)]
  have V: "map (cl_content C) (listed C w t) = V t" for t using assms(3) by (simp add: resting_def)
  obtain g' w3 where sleep: "Sleep (cl_libs C) g w2 = ((None, g'), w3)" "cl_ok C w3" "stored C w3 = stored C w"
    and each: "\<And>k. if gm_get (resMapping g) k = None
      then gm_get (resMapping g') k = None \<and> listed C w3 k = listed C w k
      else \<exists>res. gm_get (resMapping g') k = Some res \<and> evening_done C (listed C w) k res (listed C w3 k)"
    using Sleep_listed [OF assms(1,2) V assms(4,7,6,8)] by blast
  have keys: "gm_wf (resMapping g')" "map fst (resMapping g') = map fst (resMapping g)"
    using sleeping.for_targets_keys [OF groups(2) sleep(1) [unfolded Sleep_def]] by simp_all
  have live: "live_resources g'"
    using operation_live [OF NewResources_live [OF _ assms(7)] disjI1 [OF sleep(1)]] assms(6)
    by (auto simp: restore_live_def all_values_def)
  have has: "HasResource g'"
    using assms(11) each HasResource_iff [OF keys(1)] unfolding has_iff(1) evening_done_def by (metis has_iff(2))
  obtain w4 where w4: "upsertSecret (cl_rec C) now (cl_secret C) (cl_ns C) si secret data g' w3 = (None, w4)"
      "cl_ok C w4" "listed C w4 = listed C w3"
      "stored C w4 = Some (stored_secret (cl_rec C) now (cl_secret C) (cl_ns C) (cl_info C) data g')"
    using upsert_stored [OF assms(1) sleep(2) assms(4)] sleep(3) assms(10) by metis
  let ?rps = "data_to_save (resMapping g') (l_range (cl_libs C) (map fst (resMapping g'))) []"
  have "by_night C V ?rps w4"
    by (rule by_night_content [OF cluster_okD(7) [OF assms(1)] _
          evening_by_night [OF assms(1) V keys(1) plain_kinds_keys [OF keys(2) groups(4)] each has_iff(2)]])
      (simp add: w4(3))
  moreover have "restore_live (Some ?rps)"
    using live by (simp add: live_resources_def restore_live_def data_to_save_live)
  moreover have "recorded_operation (stored C w4) = sleepOperation"
    using has assms(5) by (simp add: w4(4) recorded_stored IsSleepOperation_def)
  moreover have "OriginalGenericResourceInfo d = Some ?rps"
    if "getSleepInfoData (r_tz (cl_rec C)) (stored C w4) (cl_info C) = Inr d" for d
    using stored_info [OF assms(9) live] that has assms(5) by (simp add: w4(4) saved_patches_def)
  ultimately have "asleep C V w4" unfolding asleep_def by blast
  moreover have "written C now w4" using live w4(4) unfolding written_def by blast
  ultimately show ?thesis using assms(5,11) sleep(1) w4(1,2) by (auto simp: perform_def)
qed

text \<open>Without resources there is nothing to do: whatever is due, the secret records no operation.\<close>

lemma run_empty:
  assumes "cluster_ok C V" and "cl_ok C w" and "same_info (cl_info C) si"
    and "NewResources (cl_libs C) (resource_client (cl_rec C) si) (cl_ns C) rps w = (Inr g, w1)" and "\<not> HasResource g"
    and "keeps C w w2" and "printable (r_tz (cl_rec C)) now" and "secret = stored C w"
    and "live_resources g" and "\<And>t. last_patch (GetPatches (cl_info C)) t = None \<or> listed C w t = [] \<Longrightarrow>
      map (cl_content C) (listed C w t) = V t"
  shows "\<exists>w4. perform (cl_libs C) data g w2 = ((None, g), w2) \<and>
    upsertSecret (cl_rec C) now (cl_secret C) (cl_ns C) si secret data g w2 = (None, w4) \<and> cl_ok C w4 \<and> written C now w4 \<and>
    resting C V w4"
proof -
  have w2: "cl_ok C w2" "listed C w2 = listed C w" "stored C w2 = stored C w" using assms(6) by (simp_all add: keeps_def)
  obtain w4 where w4: "upsertSecret (cl_rec C) now (cl_secret C) (cl_ns C) si secret data g w2 = (None, w4)"
      "cl_ok C w4" "listed C w4 = listed C w2"
      "stored C w4 = Some (stored_secret (cl_rec C) now (cl_secret C) (cl_ns C) (cl_info C) data g)"
    using upsert_stored [OF assms(1) w2(1) assms(3)] w2(3) assms(8) by metis
  have "map (cl_content C) (listed C w t) = V t" for t
    using assms(5,10) cluster_HasResource [OF assms(1-4)] by blast
  then have "resting C V w4" using stored_rest [OF _ assms(7,9) w4(4)] assms(5) w2(2) w4(3) by simp
  moreover have "written C now w4" using assms(9) w4(4) unfolding written_def by blast
  ultimately show ?thesis using assms(5) w4(1,2) by (simp add: perform_def)
qed

section \<open>A morning\<close>

lemma WakeUp_listed:
  assumes "cluster_ok C V" and "cl_ok C w" and "by_night C V rps w" and "same_info (cl_info C) si"
    and "NewResources (cl_libs C) (resource_client (cl_rec C) si) (cl_ns C) (Some rps) w = (Inr g, w1)"
    and "keeps C w w2"
  shows "\<exists>g' w'. WakeUp (cl_libs C) g w2 = ((None, g'), w') \<and> cl_ok C w' \<and> stored C w' = stored C w \<and>
    (\<forall>k. map (cl_content C) (listed C w' k) = V k)"
proof -
  note groups = cluster_groups [OF assms(1,2,4,5)]
  let ?ks = "l_range (cl_libs C) (map fst (resMapping g))" and ?Q = "\<lambda>k res ys. map (cl_content C) ys = V k"
  have w2: "cl_ok C w2" "listed C w2 = listed C w" "stored C w2 = stored C w" using assms(6) by (simp_all add: keeps_def)
  have night: "night_target C V rps v k pd" if "last_patch (GetPatches (cl_info C)) k = Some pd" "listed C v k = listed C w k"
    for v k pd
    using assms(3) [unfolded by_night_def, rule_format, of k] that by (simp add: night_target_def)
  have "\<exists>g' w'. for_targets (wake_target (cl_libs C)) ?ks g w2 = ((None, g'), w') \<and> cl_ok C w' \<and>
      stored C w' = stored C w2 \<and> (\<forall>k. visited (listed C) ?Q ?ks g w2 g' w' k)"
  proof (rule for_targets_listed [where ok = "cl_ok C" and obs = "stored C"])
    fix k res v
    assume res: "gm_get (resMapping g) k = Some res" and v: "cl_ok C v" "listed C v k = listed C w2 k"
    obtain pd where pd: "last_patch (GetPatches (cl_info C)) k = Some pd"
        and g: "res = new_group (resource_client (cl_rec C) si) rps pd (listed C v k)"
      using res groups(5) [of k] v(2) w2(2) by (auto split: option.splits if_splits)
    have "night_target C V rps v k pd" using night [OF pd] v(2) w2(2) by simp
    from wake_target_listed [OF assms(1) v(1) this pd g]
    show "\<exists>res' v'. wake_target (cl_libs C) (mr_namespace g) res v = ((None, res'), v') \<and> cl_ok C v' \<and>
        stored C v' = stored C v \<and> (\<forall>t. t \<noteq> k \<longrightarrow> listed C v' t = listed C v t) \<and>
        map (cl_content C) (listed C v' k) = V k" .
  qed (use w2(1) cluster_range(1) [OF assms(1) groups(2)] in auto)
  then obtain g' w' where run: "for_targets (wake_target (cl_libs C)) ?ks g w2 = ((None, g'), w')" "cl_ok C w'"
      "stored C w' = stored C w2" and each: "\<And>k. visited (listed C) ?Q ?ks g w2 g' w' k"
    by blast
  have "map (cl_content C) (listed C w' k) = V k" for k
  proof (cases "gm_get (resMapping g) k")
    case None
    then have "listed C w' k = listed C w k" using each [of k] w2(2) by (simp add: visited_def)
    with None groups(5) [of k] unmanaged [OF assms(3), of k] show ?thesis by (auto split: option.splits if_splits)
  next
    case (Some res)
    then show ?thesis using each [of k] cluster_range(2) [OF assms(1) groups(2), of k] by (simp add: visited_def)
  qed
  with run w2(3) show ?thesis unfolding WakeUp_def by auto
qed

lemma run_wake:
  assumes "cluster_ok C V" and "cl_ok C w" and "by_night C V rps w" and "same_info (cl_info C) si"
    and "\<not> IsSleepOperation data" and "OriginalGenericResourceInfo data = Some rps" and "restore_live (Some rps)"
    and "NewResources (cl_libs C) (resource_client (cl_rec C) si) (cl_ns C) (OriginalGenericResourceInfo data) w = (Inr g, w1)"
    and "keeps C w w2" and "printable (r_tz (cl_rec C)) now" and "secret = stored C w" and "HasResource g"
  shows "\<exists>g' w3 w4. perform (cl_libs C) data g w2 = ((None, g'), w3) \<and>
    upsertSecret (cl_rec C) now (cl_secret C) (cl_ns C) si secret data g' w3 = (None, w4) \<and> cl_ok C w4 \<and>
    written C now w4 \<and> resting C V w4"
proof -
  note new = assms(8) [unfolded assms(6)]
  obtain g' w3 where run: "perform (cl_libs C) data g w2 = ((None, g'), w3)" "cl_ok C w3" "stored C w3 = stored C w"
      and V: "\<And>k. map (cl_content C) (listed C w3 k) = V k"
    using WakeUp_listed [OF assms(1-4) new assms(9)] assms(5,12) by (auto simp: perform_def)
  obtain w4 where w4: "upsertSecret (cl_rec C) now (cl_secret C) (cl_ns C) si secret data g' w3 = (None, w4)"
      "cl_ok C w4" "listed C w4 = listed C w3"
      "stored C w4 = Some (stored_secret (cl_rec C) now (cl_secret C) (cl_ns C) (cl_info C) data g')"
    using upsert_stored [OF assms(1) run(2) assms(4)] run(3) assms(11) by metis
  note live = perform_live [OF NewResources_live [OF assms(7) new] run(1)]
  have "resting C V w4" using stored_rest [OF _ assms(10) live w4(4)] assms(5) V w4(3) by simp
  moreover have "written C now w4" using live w4(4) unfolding written_def by blast
  ultimately show ?thesis using run(1) w4(1,2) by blast
qed

section \<open>One run\<close>

lemma settled_content:
  assumes "cluster_ok C V" and "settled C V w" and "cl_ok C w'" and "stored C w' = stored C w"
    and "\<And>t. map (cl_content C) (listed C w' t) = map (cl_content C) (listed C w t)"
  shows "settled C V w'"
proof -
  have "resting C V w' \<longleftrightarrow> resting C V w" by (simp add: resting_def assms(4,5))
  moreover have "asleep C V w \<Longrightarrow> asleep C V w'"
    using by_night_content [OF cluster_okD(7) [OF assms(1)] assms(5)] unfolding asleep_def assms(4) by blast
  ultimately show ?thesis using assms(2,3) by (auto simp: settled_def)
qed

lemma settled_keeps: "cluster_ok C V \<Longrightarrow> settled C V w \<Longrightarrow> keeps C w w' \<Longrightarrow> settled C V w'"
  by (rule settled_content) (simp_all add: keeps_def)

lemma keeps_refl: "settled C V w \<Longrightarrow> keeps C w w"
  by (simp add: keeps_def settled_def)

lemma keeps_trans: "keeps C w1 w2 \<Longrightarrow> keeps C w2 w3 \<Longrightarrow> keeps C w1 w3"
  by (simp add: keeps_def)

text \<open>The operation fits the time of day.\<close>

definition fitting :: "('w, 's, 'p, 'v) cluster \<Rightarrow> 'w \<Rightarrow> SleepInfoData \<Rightarrow> bool" where
  "fitting C w data =
     ((IsSleepOperation data \<longleftrightarrow> recorded_operation (stored C w) \<noteq> sleepOperation) \<and>
      (\<exists>d. getSleepInfoData (r_tz (cl_rec C)) (stored C w) (cl_info C) = Inr d \<and>
         OriginalGenericResourceInfo data = OriginalGenericResourceInfo d))"

lemma due_fitting:
  assumes "cluster_ok C V" and "getSleepInfoData (r_tz (cl_rec C)) (stored C w) (cl_info C) = Inr d"
  shows "fitting C w d"
  using getSleepInfoData_wake [OF assms(2)] secret_source.supported [OF assms(2)] cluster_okD(9) [OF assms(1)] assms(2)
  by (auto simp: fitting_def)

lemma run_settled:
  assumes "cluster_ok C V" and "settled C V w" and "same_info (cl_info C) si" and "fitting C w data"
    and "NewResources (cl_libs C) (resource_client (cl_rec C) si) (cl_ns C) (OriginalGenericResourceInfo data) w = (Inr g, w1)"
    and "keeps C w w2" and "printable (r_tz (cl_rec C)) now" and "secret = stored C w"
  shows "\<exists>g' w3 w4. perform (cl_libs C) data g w2 = ((None, g'), w3) \<and>
    upsertSecret (cl_rec C) now (cl_secret C) (cl_ns C) si secret data g' w3 = (None, w4) \<and> cl_ok C w4 \<and>
    written C now w4 \<and> (if HasResource g \<and> IsSleepOperation data then asleep C V w4 else resting C V w4)"
proof -
  have ok: "cl_ok C w" and state: "resting C V w \<or> asleep C V w" using assms(2) by (simp_all add: settled_def)
  obtain d where d: "getSleepInfoData (r_tz (cl_rec C)) (stored C w) (cl_info C) = Inr d"
      "OriginalGenericResourceInfo data = OriginalGenericResourceInfo d" using assms(4) by (auto simp: fitting_def)
  show ?thesis
  proof (cases "IsSleepOperation data")
    case True
    then have rest: "resting C V w" using state assms(4) by (auto simp: fitting_def asleep_def)
    then have info: "OriginalGenericResourceInfo data = None \<or> OriginalGenericResourceInfo data = Some []"
      using d by (simp add: resting_def)
    have live: "live_resources g"
      using NewResources_live [OF _ assms(5)] info by (auto simp: restore_live_def all_values_def)
    show ?thesis
      using True run_sleep [OF assms(1) ok rest assms(3) True info assms(5-8)]
        run_empty [OF assms(1) ok assms(3,5) _ assms(6-8) live, where data = data] rest
      by (cases "HasResource g") (auto simp: resting_def)
  next
    case False
    then have "asleep C V w" using state assms(4) by (auto simp: fitting_def resting_def)
    then obtain rps where night: "by_night C V rps w" and live: "restore_live (Some rps)"
        and info: "OriginalGenericResourceInfo data = Some rps"
      using d by (auto simp: asleep_def)
    show ?thesis
      using False run_wake [OF assms(1) ok night assms(3) False info live assms(5-8)]
        run_empty [OF assms(1) ok assms(3,5) _ assms(6-8) NewResources_live [OF _ assms(5)] unmanaged [OF night], where data = data]
        live info
      by (cases "HasResource g") auto
  qed
qed

section \<open>Runs of the SleepInfo controller\<close>

lemma stored_read:
  assumes "cluster_ok C V" and "cl_ok C w"
  obtains sres where "GetSecret (cl_api C) (cl_ns C) (''sleepinfo-'' @ m_Name (si_Meta (cl_info C))) w = (sres, w)"
    and "case sres of Inl e \<Rightarrow> is_not_found e \<and> stored C w = None | Inr s \<Rightarrow> stored C w = Some s"
proof -
  obtain x where "GetSecret (cl_api C) (cl_ns C) (cl_secret C) w = (x, w)" "\<forall>e. x = Inl e \<longrightarrow> is_not_found e"
    using cluster_okD(1) [OF assms(1)] assms(2) unfolding reads_ok_def by blast
  with that [of x] show ?thesis by (auto simp: stored_def cl_secret_def getSecretName_def split: sum.splits)
qed

lemma status_keeps:
  assumes "cluster_ok C V" and "cl_ok C w" and "same_info (cl_info C) si"
  shows "keeps C w (snd (handleSleepInfoStatus (cl_rec C) now si op g w))"
  using cluster_okD(2) [OF assms(1)] assms(2,3)
  by (simp add: other_writes_ok_def handleSleepInfoStatus_def same_info_def)

definition info_request :: "('w, 's, 'p, 'v) cluster \<Rightarrow> Request" where
  "info_request C = \<lparr>req_Namespace = cl_ns C, req_Name = m_Name (si_Meta (cl_info C))\<rparr>"

lemma resource_client_info: "rc_SleepInfo (resource_client r si) = Some si"
  by (simp add: resource_client_def)

lemma cluster_new:
  assumes "cluster_ok C V" and "cl_ok C w" and "same_info (cl_info C) si"
  obtains g where "NewResources (cl_libs C) (resource_client (cl_rec C) si) (cl_ns C) rps w = (Inr g, w)"
proof -
  obtain g w1 where new: "NewResources (cl_libs C) (resource_client (cl_rec C) si) (cl_ns C) rps w = (Inr g, w1)"
    using NewResources_total [OF resource_client_info [of "cl_rec C" si]] by blast
  with cluster_groups(1) [OF assms this] show ?thesis by (intro that) simp
qed

text \<open>What the run of an operation leaves, and how it ends when the status can be written.\<close>

lemma run_operation_settled:
  assumes "cluster_ok C V" and "settled C V w" and "same_info (cl_info C) si" and "fitting C w data"
    and "NewResources (cl_libs C) (resource_client (cl_rec C) si) (cl_ns C) (OriginalGenericResourceInfo data) w = (Inr g, w1)"
    and "printable (r_tz (cl_rec C)) now" and "secret = stored C w"
    and "run_operation (cl_rec C) (info_request C) si secret data now next after g w = (x, w')"
  shows "settled C V w'"
    and "fst (handleSleepInfoStatus (cl_rec C) now si (CurrentOperationType data) g w) = None \<Longrightarrow>
      x = (requeue_after (r_cron (cl_rec C)) data (HasResource g) next now after, None) \<and> written C now w' \<and>
      (if HasResource g \<and> IsSleepOperation data then asleep C V w' else resting C V w')"
proof -
  have ok: "cl_ok C w" using assms(2) by (simp add: settled_def)
  obtain err w2 where status: "handleSleepInfoStatus (cl_rec C) now si (CurrentOperationType data) g w = (err, w2)"
    by (metis surj_pair)
  then have keep: "keeps C w w2" using status_keeps [OF assms(1) ok assms(3)] by (metis snd_conv)
  obtain g' w3 w4 where run: "perform (cl_libs C) data g w2 = ((None, g'), w3)"
      "upsertSecret (cl_rec C) now (cl_secret C) (cl_ns C) si secret data g' w3 = (None, w4)" "cl_ok C w4"
      "written C now w4" "if HasResource g \<and> IsSleepOperation data then asleep C V w4 else resting C V w4"
    using run_settled [OF assms(1-5) keep assms(6,7)] by blast
  have names: "getSecretName (req_Name (info_request C)) = cl_secret C" "req_Namespace (info_request C) = cl_ns C"
    by (simp_all add: info_request_def cl_secret_def)
  note eq = assms(8) [unfolded run_operation_def names status]
  show "settled C V w'"
    using eq run settled_keeps [OF assms(1,2) keep] by (cases err) (auto simp: settled_def split: if_splits)
  show "x = (requeue_after (r_cron (cl_rec C)) data (HasResource g) next now after, None) \<and> written C now w' \<and>
      (if HasResource g \<and> IsSleepOperation data then asleep C V w' else resting C V w')"
    if "fst (handleSleepInfoStatus (cl_rec C) now si (CurrentOperationType data) g w) = None"
    using eq run that status by auto
qed

text \<open>The run after its reads: the world is settled again, and a due operation has been performed.\<close>

lemma Reconcile_reads_settled:
  assumes "cluster_ok C V" and "settled C V w2" and "same_info (cl_info C) si"
    and "reads (cl_rec C) (info_request C) w si (stored C w2) data w2"
    and "Reconcile (cl_rec C) (info_request C) w = (x, w')"
  shows "settled C V w'"
    and "getNextSchedule (r_cron (cl_rec C)) (r_SleepDelta (cl_rec C)) data (r_Now (cl_rec C) w2) = Inr (True, next, after) \<Longrightarrow>
      \<forall>st. fst (StatusUpdateSleepInfo (cl_api C) (si\<lparr>si_Status := st\<rparr>) w2) = None \<Longrightarrow>
      snd x = None \<and> written C (r_Now (cl_rec C) w2) w' \<and>
      (if recorded_operation (stored C w2) = sleepOperation then fst x = after_result after \<and> resting C V w'
       else if \<forall>t. last_patch (GetPatches (cl_info C)) t = None \<or> V t = [] then resting C V w'
       else fst x = after_result after \<and> asleep C V w')"
proof -
  let ?r = "cl_rec C"
  have ok: "cl_ok C w2" using assms(2) by (simp add: settled_def)
  have data: "getSleepInfoData (r_tz ?r) (stored C w2) (cl_info C) = Inr data"
    using assms(4) by (auto simp: reads_def same_info_spec(4) [OF assms(3)])
  obtain g where new: "NewResources (cl_libs C) (resource_client ?r si) (cl_ns C)
      (OriginalGenericResourceInfo data) w2 = (Inr g, w2)"
    by (rule cluster_new [OF assms(1) ok assms(3)])
  have now: "printable (r_tz ?r) (r_Now ?r w2)" using cluster_okD(1) [OF assms(1)] ok by (simp add: reads_ok_def)
  note fit = due_fitting [OF assms(1) data]
  note settle = run_operation_settled [OF assms(1-3) fit new now refl]
  have req: "req_Namespace (info_request C) = cl_ns C" by (simp add: info_request_def)
  note eq = assms(5) [unfolded Reconcile_reads [OF assms(4)] req new]
  show "settled C V w'" using eq assms(2) by (auto split: sum.splits if_splits dest: settle(1))
  assume due: "getNextSchedule (r_cron ?r) (r_SleepDelta ?r) data (r_Now ?r w2) = Inr (True, next, after)"
    and status: "\<forall>st. fst (StatusUpdateSleepInfo (cl_api C) (si\<lparr>si_Status := st\<rparr>) w2) = None"
  have "run_operation ?r (info_request C) si (stored C w2) data (r_Now ?r w2) next after g w2 = (x, w')"
    using eq due by simp
  from settle(2) [OF this] have ran: "snd x = None" "written C (r_Now ?r w2) w'"
      "fst x = requeue_after (r_cron ?r) data (HasResource g) next (r_Now ?r w2) after"
      "if HasResource g \<and> IsSleepOperation data then asleep C V w' else resting C V w'"
    using status by (simp_all add: handleSleepInfoStatus_def)
  have sleep: "IsSleepOperation data \<longleftrightarrow> recorded_operation (stored C w2) \<noteq> sleepOperation"
    using fit by (simp add: fitting_def)
  have has: "HasResource g \<longleftrightarrow> (\<exists>t. last_patch (GetPatches (cl_info C)) t \<noteq> None \<and> listed C w2 t \<noteq> [])"
    unfolding cluster_HasResource [OF assms(1) ok assms(3) new] by simp
  have "listed C w2 t = [] \<longleftrightarrow> V t = []" if "recorded_operation (stored C w2) \<noteq> sleepOperation" for t
    using assms(2) that by (auto simp: settled_def asleep_def resting_def) (metis list.map_disc_iff)+
  then have "HasResource g \<longleftrightarrow> \<not> (\<forall>t. last_patch (GetPatches (cl_info C)) t = None \<or> V t = [])"
    if "recorded_operation (stored C w2) \<noteq> sleepOperation"
    using has that by simp
  then show "snd x = None \<and> written C (r_Now ?r w2) w' \<and>
      (if recorded_operation (stored C w2) = sleepOperation then fst x = after_result after \<and> resting C V w'
       else if \<forall>t. last_patch (GetPatches (cl_info C)) t = None \<or> V t = [] then resting C V w'
       else fst x = after_result after \<and> asleep C V w')"
    using ran unfolding sleep requeue_after_def by (cases "recorded_operation (stored C w2) = sleepOperation") simp_all
qed

lemma Reconcile_settled:
  assumes "cluster_ok C V" and "settled C V w" and "Reconcile (cl_rec C) (info_request C) w = (x, w')"
  shows "settled C V w'"
proof -
  let ?r = "cl_rec C" and ?n = "m_Name (si_Meta (cl_info C))"
  have req: "req_Namespace (info_request C) = cl_ns C" "req_Name (info_request C) = ?n" by (simp_all add: info_request_def)
  have ok: "cl_ok C w" using assms(2) by (simp add: settled_def)
  note others = cluster_okD(2) [OF assms(1), unfolded other_writes_ok_def, rule_format, OF ok]
  obtain info where info: "GetSleepInfo (cl_api C) (cl_ns C) ?n w = (info, w)"
      and same: "\<And>si. info = Inr si \<Longrightarrow> same_info (cl_info C) si"
    using cluster_okD(1) [OF assms(1), unfolded reads_ok_def, rule_format, OF ok] by blast
  show ?thesis
  proof (cases info)
    case (Inl e)
    then have "w' = r_MetricDelete ?r ?n (cl_ns C) w \<or> w' = w"
      using assms(3) info by (auto simp: Reconcile_def getSleepInfo_def req Let_def)
    then show ?thesis using others settled_keeps [OF assms(1,2)] assms(2) by blast
  next
    case si: (Inr si)
    let ?w2 = "r_MetricSet ?r ?n (cl_ns C) 1 w"
    have w2: "settled C V ?w2" "cl_ok C ?w2" using others settled_keeps [OF assms(1,2)] by (auto simp: settled_def)
    obtain sres where sec: "GetSecret (cl_api C) (cl_ns C) (''sleepinfo-'' @ ?n) ?w2 = (sres, ?w2)"
        "case sres of Inl e \<Rightarrow> is_not_found e \<and> stored C ?w2 = None | Inr s \<Rightarrow> stored C ?w2 = Some s"
      by (rule stored_read [OF assms(1) w2(2)])
    show ?thesis
    proof (cases "getSleepInfoData (r_tz ?r) (stored C ?w2) si")
      case (Inl e)
      then have "w' = ?w2"
        using assms(3) info si sec
        by (auto simp: Reconcile_def getSleepInfo_def getSecret_def getSecretName_def req Let_def split: sum.splits)
      then show ?thesis using w2(1) by simp
    next
      case (Inr data)
      then have "reads ?r (info_request C) w si (stored C ?w2) data ?w2"
        using info si sec unfolding reads_def req by blast
      from Reconcile_reads_settled(1) [OF assms(1) w2(1) same [OF si] this assms(3)] show ?thesis .
    qed
  qed
qed

section \<open>Runs of the execution controller\<close>

lemma finish_keeps:
  assumes "cluster_ok C V" and "cl_ok C w" and "finish (cl_rec C) ex now phase message w = (x, w')"
  shows "keeps C w w'"
  using cluster_okD(2) [OF assms(1)] assms(2,3)
  by (auto simp: other_writes_ok_def finish_def updateExecutionStatus_def split: prod.splits) (metis snd_conv)

lemma owner_keeps:
  assumes "cluster_ok C V" and "settled C V w" and "setOwnerReference (cl_rec C) ex si w = (y, w')"
  shows "keeps C w w'"
proof -
  have "keeps C w (snd (UpdateExecution (cl_api C) e w))" for e
    using cluster_okD(2) [OF assms(1)] assms(2) by (simp add: other_writes_ok_def settled_def)
  with keeps_refl [OF assms(2)] assms(3) show ?thesis
    by (auto simp: setOwnerReference_def Let_def split: sum.splits if_splits) (metis snd_conv)
qed

lemma run_execution_settled:
  assumes "cluster_ok C V" and "settled C V w" and "same_info (cl_info C) si" and "fitting C w data"
    and "IsSleepOperation data \<noteq> IsWakeUpOperation data" and "req_Namespace req = cl_ns C"
    and "printable (r_tz (cl_rec C)) now"
    and "run_execution (cl_rec C) req ex now si (stored C w) data w = (x, w')"
  shows "settled C V w'"
proof -
  let ?r = "cl_rec C"
  have ok: "cl_ok C w" using assms(2) by (simp add: settled_def)
  obtain g where new: "NewResources (cl_libs C) (resource_client ?r si) (cl_ns C)
      (OriginalGenericResourceInfo data) w = (Inr g, w)"
    by (rule cluster_new [OF assms(1) ok assms(3)])
  have name: "getSecretName (m_Name (si_Meta si)) = cl_secret C" using assms(3) by (simp add: cl_secret_def same_info_def)
  note run = assms(8) [unfolded run_execution_def assms(6) new name]
  show ?thesis
  proof (cases "HasResource g")
    case False
    then have "finish ?r ex now ExecutionPhaseSkipped ''no resources to handle in namespace'' w = (x, w')" using run by simp
    from settled_keeps [OF assms(1,2) finish_keeps [OF assms(1) ok this]] show ?thesis .
  next
    case True
    obtain g' w3 w4 where "perform (cl_libs C) data g w = ((None, g'), w3)"
        and save: "upsertSecret ?r now (cl_secret C) (cl_ns C) si (stored C w) data g' w3 = (None, w4)"
        and w4: "settled C V w4" "cl_ok C w4"
      using run_settled [OF assms(1-4) new keeps_refl [OF assms(2)] assms(7) refl] unfolding settled_def by metis
    then have op: "(if IsSleepOperation data then Sleep (cl_libs C) g w
        else if IsWakeUpOperation data then WakeUp (cl_libs C) g w else ((None, g), w)) = ((None, g'), w3)"
      using True assms(5) by (simp add: perform_def split: if_splits)
    obtain err w5 where status: "handleSleepInfoStatus ?r now si (CurrentOperationType data) g' w4 = (err, w5)"
      by (metis surj_pair)
    then have w5: "settled C V w5" "cl_ok C w5"
      using settled_keeps [OF assms(1) w4(1)] status_keeps [OF assms(1) w4(2) assms(3)]
      by (metis snd_conv) (metis keeps_def snd_conv status status_keeps [OF assms(1) w4(2) assms(3)])
    show ?thesis
    proof (cases err)
      case None
      then have "\<exists>phase message. finish ?r ex now phase message w5 = (x, w')" using run True op save status by auto
      then show ?thesis using settled_keeps [OF assms(1) w5(1)] finish_keeps [OF assms(1) w5(2)] by blast
    next
      case (Some e)
      then show ?thesis using run True op save status w5(1) by auto
    qed
  qed
qed

text \<open>The decisions of the handler after its reads.\<close>

lemma execution_reads_settled:
  assumes "cluster_ok C V" and "settled C V w2" and "same_info (cl_info C) si" and "req_Namespace req = cl_ns C"
    and "exec_reads (cl_rec C) req w ex now si (stored C w2) w2" and "printable (r_tz (cl_rec C)) now"
    and "Reconcile_execution (cl_rec C) req w = (x, w')"
  shows "settled C V w'"
proof -
  let ?r = "cl_rec C" and ?op = "Operation (ex_Spec ex)"
  have ok: "cl_ok C w2" using assms(2) by (simp add: settled_def)
  have finish: "settled C V v" if "finish ?r ex now phase message w2 = (y, v)" for phase message y v
    using settled_keeps [OF assms(1,2) finish_keeps [OF assms(1) ok that]] .
  have fit: "fitting C w2 data" if "getSleepInfoData (r_tz ?r) (stored C w2) si = Inr d"
      "applyExecutionOverride d ?op si = Inr data" "\<not> (?op = ExecutionOpWake \<and> \<not> isAsleep (stored C w2))"
      "\<not> (?op = ExecutionOpSleep \<and> isAsleep (stored C w2))" for d data
  proof -
    have "OriginalGenericResourceInfo data = OriginalGenericResourceInfo d" by (rule override_info [OF that(2)])
    moreover have "IsSleepOperation data \<longleftrightarrow> ?op = ExecutionOpSleep" "?op = ExecutionOpSleep \<or> ?op = ExecutionOpWake"
      using that(2) by (auto simp: applyExecutionOverride_def IsSleepOperation_def split: sum.splits if_splits)
    ultimately show ?thesis
      using that(1,3,4) by (auto simp: fitting_def isAsleep_recorded same_info_spec(4) [OF assms(3)] execution_consts)
  qed
  show ?thesis
    using assms(2,7) unfolding Reconcile_execution_reads [OF assms(5)] Let_def
    by (auto split: if_splits sum.splits dest: finish
        run_execution_settled [OF assms(1-3) fit override_source.supported assms(4,6)])
qed

lemma Reconcile_execution_settled:
  assumes "cluster_ok C V" and "settled C V w" and "req_Namespace req = cl_ns C"
    and "Reconcile_execution (cl_rec C) req w = (x, w')"
  shows "settled C V w'"
proof -
  let ?r = "cl_rec C"
  have ok: "cl_ok C w" using assms(2) by (simp add: settled_def)
  note reads = cluster_okD(1) [OF assms(1), unfolded reads_ok_def, rule_format]
  obtain ex0 where ex0: "GetExecution (cl_api C) (cl_ns C) (req_Name req) w = (ex0, w)"
    using reads [OF ok] by (metis prod.collapse)
  note run = assms(4) [unfolded Reconcile_execution_def assms(3) ex0]
  show ?thesis
  proof (cases "\<exists>ex. ex0 = Inr ex \<and> \<not> IsProcessed ex")
    case False
    then show ?thesis using run assms(2) by (auto split: sum.splits if_splits)
  next
    case True
    then obtain ex where ex: "ex0 = Inr ex" "\<not> IsProcessed ex" by blast
    obtain info where info: "GetSleepInfo (cl_api C) (cl_ns C) (SleepInfoName (ex_Spec ex)) w = (info, w)"
        and same: "\<And>si. info = Inr si \<Longrightarrow> same_info (cl_info C) si" using reads [OF ok] by blast
    show ?thesis
    proof (cases info)
      case (Inl e)
      then have "w' = w \<or> (\<exists>phase message. finish ?r ex (r_Now ?r w) phase message w = (x, w'))"
        using run ex info by (auto simp: Let_def split: if_splits)
      then show ?thesis using assms(2) settled_keeps [OF assms(1,2) finish_keeps [OF assms(1) ok]] by blast
    next
      case si: (Inr si)
      obtain ex1 w1 where own: "setOwnerReference ?r ex si w = (ex1, w1)" by (metis surj_pair)
      have w1: "settled C V w1" "cl_ok C w1"
        using owner_keeps [OF assms(1,2) own] settled_keeps [OF assms(1,2)] by (auto simp: keeps_def)
      show ?thesis
      proof (cases ex1)
        case (Inl e)
        then show ?thesis using run ex info si own w1(1) by (auto simp: Let_def)
      next
        case (Inr ex')
        obtain sres where "GetSecret (cl_api C) (cl_ns C) (''sleepinfo-'' @ m_Name (si_Meta (cl_info C))) w1 = (sres, w1)"
            "case sres of Inl e \<Rightarrow> is_not_found e \<and> stored C w1 = None | Inr s \<Rightarrow> stored C w1 = Some s"
          by (rule stored_read [OF assms(1) w1(2)])
        then have "exec_reads ?r req w ex' (r_Now ?r w) si (stored C w1) w1"
          using ex0 ex info si own Inr same [OF si] unfolding exec_reads_def assms(3) same_info_def by auto
        from execution_reads_settled [OF assms(1) w1(1) same [OF si] assms(3) this _ assms(4)] reads [OF ok]
        show ?thesis by blast
      qed
    qed
  qed
qed

section \<open>Every night\<close>

text \<open>
  A resource \<open>d\<close> of the evening and what is there now, \<open>d'\<close>: without a saved restore patch the
  content is the original one; with one, the patch is that of the resource, which sleeps.
\<close>

definition secured ::
    "('w, 's, 'p, 'v) cluster \<Rightarrow> 'p Patcher \<Rightarrow> RestorePatches \<Rightarrow> unstructured \<Rightarrow> unstructured \<Rightarrow> bool" where
  "secured C p entry d d' =
     (case Option.bind entry (\<lambda>m. gm_get m (cl_name C d)) of
        None \<Rightarrow> cl_content C d' = cl_content C d
      | Some rp \<Rightarrow> recorded_patch (cl_libs C) p d = Some rp \<and> asleep_content C p d d')"

lemma night_targetD:
  assumes "night_target C V rps w t pd"
  obtains p ds where "New (l_patch (cl_libs C)) (p_Patch pd) = Inr p" and "map (cl_content C) ds = V t"
    and "list_all2 (secured C p (restore_entry rps t)) ds (listed C w t)"
proof -
  obtain p ds where p: "New (l_patch (cl_libs C)) (p_Patch pd) = Inr p" "map (cl_content C) ds = V t"
      and forms: "list_all2 (night_form C p) ds (listed C w t)"
      and saved: "\<forall>d \<in> set ds. Option.bind (restore_entry rps t) (\<lambda>m. gm_get m (cl_name C d)) =
        recorded_patch (cl_libs C) p d"
    using assms unfolding night_target_def by blast
  have "list_all2 (secured C p (restore_entry rps t)) ds (listed C w t)"
    using forms by (rule list.rel_mono_strong)
      (use saved in \<open>auto simp: night_form_def secured_def split: option.splits if_splits\<close>)
  with p show ?thesis by (rule that)
qed

text \<open>
  The states of a namespace: runs of both controllers follow each other in any order, as
  often as they like and at any time; in between anything may happen that leaves the
  secret and the contents of the resources as they are.
\<close>

definition same_contents :: "('w, 's, 'p, 'v) cluster \<Rightarrow> 'w \<Rightarrow> 'w \<Rightarrow> bool" where
  "same_contents C w w' =
     (cl_ok C w' \<and> stored C w' = stored C w \<and>
      (\<forall>t. map (cl_content C) (listed C w' t) = map (cl_content C) (listed C w t)))"

inductive cluster_run :: "('w, 's, 'p, 'v) cluster \<Rightarrow> 'w \<Rightarrow> 'w \<Rightarrow> bool" for C w0 where
  start: "cluster_run C w0 w0"
| schedule: "cluster_run C w0 w \<Longrightarrow> Reconcile (cl_rec C) (info_request C) w = (x, w') \<Longrightarrow> cluster_run C w0 w'"
| execution: "cluster_run C w0 w \<Longrightarrow> req_Namespace req = cl_ns C \<Longrightarrow>
    Reconcile_execution (cl_rec C) req w = (x, w') \<Longrightarrow> cluster_run C w0 w'"
| others: "cluster_run C w0 w \<Longrightarrow> same_contents C w w' \<Longrightarrow> cluster_run C w0 w'"

lemma cluster_run_settled:
  assumes "cluster_run C w0 w" and "cluster_ok C V" and "settled C V w0"
  shows "settled C V w"
  using assms(1)
proof (induction rule: cluster_run.induct)
  case start
  show ?case by (rule assms(3))
next
  case (schedule w x w')
  from Reconcile_settled [OF assms(2) schedule.IH schedule.hyps(2)] show ?case .
next
  case (execution w req x w')
  from Reconcile_execution_settled [OF assms(2) execution.IH execution.hyps(2,3)] show ?case .
next
  case (others w w')
  with settled_content [OF assms(2) others.IH] show ?case by (simp add: same_contents_def)
qed

lemma start_settled:
  assumes "cl_ok C w0" and "stored C w0 = None" and "\<And>t. map (cl_content C) (listed C w0 t) = V t"
  shows "settled C V w0"
  using assms by (auto simp: settled_def resting_def recorded_operation_def operation_names
      getSleepInfoData_def first_run_data_def Let_def split: sum.splits)

text \<open>
  C1: no night loses anything. Starting from resources awake and no secret, whatever
  sequence of scheduled runs and executions follows, while the secret does not record a
  sleep every resource has its original content; and while it does, every target of the
  SleepInfo has exactly its resources, each either with its original content or in its
  sleep state with the restore patch of that resource saved in the secret.
\<close>

theorem every_night_restored:
  assumes "cluster_ok C V" and "cl_ok C w0" and "stored C w0 = None"
    and "\<And>t. map (cl_content C) (listed C w0 t) = V t"
    and "cluster_run C w0 w"
  shows "if recorded_operation (stored C w) \<noteq> ''SLEEP'' then \<forall>t. map (cl_content C) (listed C w t) = V t
    else \<forall>data t pd. getSleepInfoData (r_tz (cl_rec C)) (stored C w) (cl_info C) = Inr data \<longrightarrow>
      last_patch (GetPatches (cl_info C)) t = Some pd \<longrightarrow>
      (\<exists>rps p ds. OriginalGenericResourceInfo data = Some rps \<and> New (l_patch (cl_libs C)) (p_Patch pd) = Inr p \<and>
         map (cl_content C) ds = V t \<and> list_all2 (secured C p (restore_entry rps t)) ds (listed C w t))"
proof -
  from cluster_run_settled [OF assms(5,1) start_settled [OF assms(2-4)]] consider "resting C V w" | "asleep C V w" by (auto simp: settled_def)
  then show ?thesis
  proof cases
    case 1
    then show ?thesis by (simp add: resting_def operation_names)
  next
    case 2
    then obtain rps where night: "by_night C V rps w" and sleep: "recorded_operation (stored C w) = ''SLEEP''"
        and info: "\<forall>d. getSleepInfoData (r_tz (cl_rec C)) (stored C w) (cl_info C) = Inr d \<longrightarrow>
          OriginalGenericResourceInfo d = Some rps"
      by (auto simp: asleep_def operation_names)
    have "\<exists>p ds. New (l_patch (cl_libs C)) (p_Patch pd) = Inr p \<and> map (cl_content C) ds = V t \<and>
        list_all2 (secured C p (restore_entry rps t)) ds (listed C w t)"
      if "last_patch (GetPatches (cl_info C)) t = Some pd" for t pd
    proof -
      have "night_target C V rps w t pd" using night [unfolded by_night_def, rule_format, of t] that by simp
      then show ?thesis by (rule night_targetD) blast
    qed
    with sleep info show ?thesis by simp
  qed
qed

text \<open>The reads of a run happen in one world, the one after setting the gauge.\<close>

lemma reads_world:
  assumes "cluster_ok C V" and "settled C V w" and "reads (cl_rec C) (info_request C) w si secret data w2"
  shows "same_info (cl_info C) si" and "settled C V w2" and "secret = stored C w2" and "keeps C w w2"
proof -
  let ?w = "r_MetricSet (cl_rec C) (m_Name (si_Meta (cl_info C))) (cl_ns C) 1 w"
  have ok: "cl_ok C w" using assms(2) by (simp add: settled_def)
  have w: "keeps C w ?w" using cluster_okD(2) [OF assms(1)] ok by (simp add: other_writes_ok_def)
  obtain info where info: "GetSleepInfo (cl_api C) (cl_ns C) (m_Name (si_Meta (cl_info C))) w = (info, w)"
      "\<forall>si. info = Inr si \<longrightarrow> same_info (cl_info C) si"
    using cluster_okD(1) [OF assms(1)] ok unfolding reads_ok_def by blast
  obtain sres where "GetSecret (cl_api C) (cl_ns C) (''sleepinfo-'' @ m_Name (si_Meta (cl_info C))) ?w = (sres, ?w)"
      "case sres of Inl e \<Rightarrow> is_not_found e \<and> stored C ?w = None | Inr s \<Rightarrow> stored C ?w = Some s"
    using stored_read [OF assms(1), of ?w] w by (auto simp: keeps_def)
  with info assms(3) have "same_info (cl_info C) si \<and> w2 = ?w \<and> secret = stored C ?w"
    by (auto simp: reads_def info_request_def split: sum.splits)
  then show "same_info (cl_info C) si" and "settled C V w2" and "secret = stored C w2" and "keeps C w w2"
    using settled_keeps [OF assms(1,2) w] w by simp_all
qed

text \<open>
  C2: a due run completes. In every state that runs and executions can reach, a scheduled
  run whose operation is due ends without an error; after a wake up every resource has
  its original content and the secret records no sleep, and after a sleep the secret
  records it, unless the SleepInfo manages no resources at all.
\<close>

theorem due_run_completes:
  assumes "cluster_ok C V" and "cl_ok C w0" and "stored C w0 = None"
    and "\<And>t. map (cl_content C) (listed C w0 t) = V t"
    and "cluster_run C w0 w"
    and "reads (cl_rec C) (info_request C) w si secret data w2"
    and "getNextSchedule (r_cron (cl_rec C)) (r_SleepDelta (cl_rec C)) data (r_Now (cl_rec C) w2) = Inr (True, next, after)"
    and "\<forall>st. fst (StatusUpdateSleepInfo (cl_api C) (si\<lparr>si_Status := st\<rparr>) w2) = None"
  shows "\<exists>result w'. Reconcile (cl_rec C) (info_request C) w = ((result, None), w') \<and>
    (if IsWakeUpOperation data
     then recorded_operation (stored C w') \<noteq> ''SLEEP'' \<and> (\<forall>t. map (cl_content C) (listed C w' t) = V t)
     else recorded_operation (stored C w') = ''SLEEP'' \<or> (\<forall>t. last_patch (GetPatches (cl_info C)) t = None \<or> V t = []))"
proof -
  note run = cluster_run_settled [OF assms(5,1) start_settled [OF assms(2-4)]]
  note reads = reads_world [OF assms(1) run assms(6)]
  obtain x w' where eq: "Reconcile (cl_rec C) (info_request C) w = (x, w')" by (metis surj_pair)
  have "getSleepInfoData (r_tz (cl_rec C)) secret si = Inr data" using assms(6) by (auto simp: reads_def)
  then have "IsWakeUpOperation data \<longleftrightarrow> recorded_operation (stored C w2) = sleepOperation"
    using getSleepInfoData_wake cluster_okD(9) [OF assms(1)] reads(1,3) by (simp add: same_info_def)
  with Reconcile_reads_settled(2) [OF assms(1) reads(2,1) assms(6) [unfolded reads(3)] eq assms(7,8)] eq
  show ?thesis by (cases x) (auto simp: asleep_def resting_def operation_names split: if_splits)
qed

section \<open>An example cluster\<close>

text \<open>The content of an object is the object itself: the example server manages nothing on its own.\<close>

definition night_cluster :: "(example_world, unit, json, unstructured) cluster" where
  "night_cluster =
     \<lparr>cl_rec = example_reconciler, cl_info = example_sleepinfo, cl_ns = ''default'',
      cl_ok = (\<lambda>w. ew_list_error w = None \<and> (\<exists>si. ew_info w = Some si \<and> same_info example_sleepinfo si) \<and>
        printable (\<lambda>t. 0) (ew_now w) \<and> ew_objs w \<in> {[example_obj ''a'' ''3''], [example_obj ''a'' ''0'']}),
      cl_content = (\<lambda>d. d)\<rparr>"

definition day_contents :: "PatchTarget \<Rightarrow> unstructured list" where
  "day_contents t = (if t = DeploymentTarget then [example_obj ''a'' ''3''] else [])"

lemma night_cluster_simps [simp]:
  "cl_rec night_cluster = example_reconciler" "cl_info night_cluster = example_sleepinfo"
  "cl_ns night_cluster = ''default''" "cl_content night_cluster d = d"
  by (simp_all add: night_cluster_def)

lemma night_cluster_ok:
  "cl_ok night_cluster w \<longleftrightarrow> ew_list_error w = None \<and> (\<exists>si. ew_info w = Some si \<and> same_info example_sleepinfo si) \<and>
     printable (\<lambda>t. 0) (ew_now w) \<and> ew_objs w \<in> {[example_obj ''a'' ''3''], [example_obj ''a'' ''0'']}"
  by (simp add: night_cluster_def)

lemma night_listed: "listed night_cluster w t = (if t = DeploymentTarget then ew_objs w else [])"
  by (simp add: listed_def world_list [OF example_no_filters])

lemma night_stored: "stored night_cluster w = ew_secret w"
  by (simp add: stored_def world_client_def found_def split: option.split)

lemma night_reads: "reads_ok night_cluster"
  unfolding reads_ok_def
  by (auto simp: night_cluster_ok night_listed world_list [OF example_no_filters] world_client_def found_def
      split: option.split)

lemma night_other_writes: "other_writes_ok night_cluster"
  by (auto simp: other_writes_ok_def keeps_def night_cluster_ok night_listed night_stored world_client_def fun_eq_iff)

lemma night_secret_writes: "secret_writes_ok night_cluster"
  by (auto simp: secret_writes_ok_def night_cluster_ok night_listed night_stored world_client_def fun_eq_iff)

lemma night_asleep:
  assumes "number_ok n"
  shows "asleep_content night_cluster example_patcher (example_obj name n) d' \<longleftrightarrow> d' = example_obj name ''0''"
  using example_Exec [OF assms, of name] unmarshal_marshal_object [OF example_go_value [OF number_ok_digits(1)], of name]
  by (auto simp: asleep_content_def simp del: marshal.simps)

lemma night_apply: "apply_ok night_cluster"
  unfolding apply_ok_def
proof (intro allI impI, elim conjE)
  fix w k pd p d rp sp
  assume ok: "cl_ok night_cluster w" and New: "New (l_patch (cl_libs night_cluster)) (p_Patch pd) = Inr p"
    and d: "d \<in> set (listed night_cluster w k)"
    and out: "sleep_outcome (cl_libs night_cluster) p d = Changed rp sp"
  have p: "p = example_patcher" using New example_New by simp
  have objs: "ew_objs w \<in> {[example_obj ''a'' ''3''], [example_obj ''a'' ''0'']}" using ok by (simp add: night_cluster_ok)
  have k: "k = DeploymentTarget" using d by (simp add: night_listed split: if_splits)
  have "d \<noteq> example_obj ''a'' ''0''" using out by (auto simp: p example_outcome)
  with d objs k have obj: "d = example_obj ''a'' ''3''" "ew_objs w = [d]" by (auto simp: night_listed)
  have sp: "sp = example_sparse ''a''" using out by (simp add: p obj(1) example_outcome)
  let ?w' = "w\<lparr>ew_objs := [example_obj ''a'' ''0'']\<rparr>"
  have "gm_put ''spec'' (JObj [(''replicas'', JNum ''0'')]) (example_obj ''a'' ''3'') = example_obj ''a'' ''0''"
      "obj_name (example_obj ''a'' ''3'') = ''a''"
    by (simp_all add: example_obj_def obj_name_def obj_field_def)
  then have "ApplyObject (cl_api night_cluster) (u_SetResourceVersion (l_unstr (cl_libs night_cluster)) []
      (u_ClearManagedFields (l_unstr (cl_libs night_cluster)) sp)) (r_ManagerName (cl_rec night_cluster)) w = (None, ?w')"
    by (simp add: sp obj world_client_def example_unstr_def) (simp add: example_sparse_def obj_name_def obj_field_def)
  moreover have "cl_ok night_cluster ?w'" using ok by (auto simp: night_cluster_ok)
  moreover have "listed night_cluster ?w' = (listed night_cluster w)
      (k := put_object (cl_name night_cluster) (example_obj ''a'' ''0'') (listed night_cluster w k))"
    by (auto simp: night_listed k obj put_object_def fun_eq_iff)
  moreover have "asleep_content night_cluster p d (example_obj ''a'' ''0'')" by (simp add: p obj(1) night_asleep)
  ultimately show "\<exists>w' d'. ApplyObject (cl_api night_cluster) (u_SetResourceVersion (l_unstr (cl_libs night_cluster)) []
        (u_ClearManagedFields (l_unstr (cl_libs night_cluster)) sp)) (r_ManagerName (cl_rec night_cluster)) w = (None, w') \<and>
      cl_ok night_cluster w' \<and> stored night_cluster w' = stored night_cluster w \<and>
      asleep_content night_cluster p d d' \<and>
      listed night_cluster w' = (listed night_cluster w)(k := put_object (cl_name night_cluster) d' (listed night_cluster w k))"
    by (intro exI [of _ ?w'] exI [of _ "example_obj ''a'' ''0''"]) (simp add: night_stored)
qed

lemma night_patch: "patch_ok night_cluster day_contents"
  unfolding patch_ok_def
proof (intro allI impI, elim conjE)
  fix w k d new
  assume ok: "cl_ok night_cluster w" and d: "d \<in> set (listed night_cluster w k)"
    and "cl_content night_cluster new \<in> set (day_contents k)"
  then have k: "k = DeploymentTarget" and new: "new = example_obj ''a'' ''3''"
    by (auto simp: day_contents_def night_listed split: if_splits)
  let ?w' = "w\<lparr>ew_objs := [example_obj ''a'' ''3'']\<rparr>"
  have "obj_name (example_obj ''a'' n) = ''a''" for n by (simp add: example_obj_def obj_name_def obj_field_def)
  then have "PatchObject (cl_api night_cluster) new d w = (None, ?w')"
    using ok by (auto simp: new night_cluster_ok world_client_def)
  moreover have "cl_ok night_cluster ?w'" using ok by (auto simp: night_cluster_ok)
  moreover have "listed night_cluster ?w' =
      (listed night_cluster w)(k := put_object (cl_name night_cluster) new (listed night_cluster w k))"
    using ok by (auto simp: night_listed night_cluster_ok k new put_object_def fun_eq_iff)
  ultimately show "\<exists>w' d'. PatchObject (cl_api night_cluster) new d w = (None, w') \<and> cl_ok night_cluster w' \<and>
      stored night_cluster w' = stored night_cluster w \<and> cl_content night_cluster d' = cl_content night_cluster new \<and>
      listed night_cluster w' = (listed night_cluster w)(k := put_object (cl_name night_cluster) d' (listed night_cluster w k))"
    by (intro exI [of _ ?w'] exI [of _ new]) (simp add: night_stored)
qed

lemma night_restores: "restores night_cluster example_patcher (example_obj ''a'' ''3'')"
proof -
  let ?d = "example_obj ''a'' ''3''" and ?d' = "example_obj ''a'' ''0''"
  have "Exec example_lib example_patcher (marshal (JObj ?d')) = Inr (marshal (JObj ?d'))"
    by (rule example_Exec) simp
  moreover have "JsonEqual example_lib (marshal (JObj ?d')) (marshal (JObj ?d'))"
    using same_doc_marshal [OF go_value_json_ok [OF example_go_value [OF number_ok_digits(1), of "''a''"]]]
    by (simp add: example_lib_def del: marshal.simps)
  moreover have "MergePatch example_lib (marshal (JObj ?d')) (marshal (JObj (spec_member ''3''))) = Inr (marshal (JObj ?d))"
    by (rule example_merge) simp_all
  moreover have "unmarshal_object (marshal (JObj ?d)) = Inr (Some ?d)"
    by (rule unmarshal_marshal_object [OF example_go_value]) simp
  ultimately show ?thesis
    unfolding restores_def by (simp add: night_asleep example_recorded example_outcome del: marshal.simps)
qed

lemma night_engine: "engine_ok night_cluster day_contents"
  unfolding engine_ok_def
proof (intro allI impI conjI)
  fix k pd
  assume "last_patch (GetPatches (cl_info night_cluster)) k = Some pd"
  then have "pd = deploymentPatch \<or> pd = cronjobPatch"
    by (auto simp: last_patch_def example_patches split: if_splits)
  then show "p_Patch pd \<noteq> []" by (auto simp: deploymentPatch_def cronjobPatch_def)
  show "\<exists>p. New (l_patch (cl_libs night_cluster)) (p_Patch pd) = Inr p \<and>
      (\<forall>d. cl_content night_cluster d \<in> set (day_contents k) \<longrightarrow> restores night_cluster p d)"
    using example_New night_restores by (auto simp: day_contents_def)
qed

lemma night_cluster_good: "cluster_ok night_cluster day_contents"
proof -
  have "contents_ok night_cluster day_contents" by (auto simp: contents_ok_def day_contents_def)
  moreover have "WakeUpTime (si_Spec example_sleepinfo) \<noteq> []" by (simp add: example_defs)
  ultimately show ?thesis
    using night_reads night_other_writes night_secret_writes night_apply night_patch night_engine example_range_ok example_kinds
    by (simp add: cluster_ok_def)
qed

lemma night_start:
  "cl_ok night_cluster start_world" "stored night_cluster start_world = None"
  "map (cl_content night_cluster) (listed night_cluster start_world t) = day_contents t"
  using printable_start
  by (simp_all add: night_cluster_ok night_stored night_listed day_contents_def start_world_def same_info_def)

lemma night_managed:
  "\<exists>t. last_patch (GetPatches (cl_info night_cluster)) t \<noteq> None \<and> day_contents t \<noteq> []"
  by (rule exI [of _ DeploymentTarget])
    (simp add: last_patch_def example_patches patch_targets default_targets day_contents_def)

lemma night_request: "info_request night_cluster = example_request"
  by (simp add: info_request_def example_request_def example_defs)

theorem every_night_restored_witness:
  "\<exists>w. cluster_run night_cluster start_world w \<and> w = snd (Reconcile example_reconciler example_request start_world) \<and>
    (if recorded_operation (ew_secret w) \<noteq> ''SLEEP''
     then \<forall>t. map (cl_content night_cluster) (listed night_cluster w t) = day_contents t
     else \<forall>data t pd. getSleepInfoData (\<lambda>t. 0) (ew_secret w) example_sleepinfo = Inr data \<longrightarrow>
      last_patch (GetPatches example_sleepinfo) t = Some pd \<longrightarrow>
      (\<exists>rps p ds. OriginalGenericResourceInfo data = Some rps \<and> map (cl_content night_cluster) ds = day_contents t \<and>
         list_all2 (secured night_cluster p (restore_entry rps t)) ds (listed night_cluster w t)))"
proof -
  obtain x w where eq: "Reconcile (cl_rec night_cluster) (info_request night_cluster) start_world = (x, w)"
    by (metis surj_pair)
  note run = cluster_run.schedule [OF cluster_run.start eq]
  have w: "w = snd (Reconcile example_reconciler example_request start_world)" using eq by (simp add: night_request)
  from every_night_restored [OF night_cluster_good night_start run]
  show ?thesis
    by (intro exI [of _ w] conjI run w) (simp add: night_stored split: if_splits, blast)
qed

theorem due_run_completes_witness:
  "\<exists>result w'. Reconcile example_reconciler example_request start_world = ((result, None), w') \<and>
    recorded_operation (ew_secret w') = ''SLEEP''"
proof -
  have due: "getNextSchedule (r_cron (cl_rec night_cluster)) (r_SleepDelta (cl_rec night_cluster)) example_data
      (r_Now (cl_rec night_cluster) start_world) =
      Inr (True, at_ns 3600000000000, time_Sub (at_ns 3600000000000) (at_ns 0))"
    using start_due by simp
  have reads: "reads (cl_rec night_cluster) (info_request night_cluster) start_world example_sleepinfo None example_data start_world"
    using start_reads by (simp add: night_request)
  have "\<forall>st. fst (StatusUpdateSleepInfo (cl_api night_cluster) (example_sleepinfo\<lparr>si_Status := st\<rparr>) start_world) = None"
    by (simp add: world_client_def)
  from due_run_completes [OF night_cluster_good night_start cluster_run.start reads due this]
  have "\<exists>result w'. Reconcile example_reconciler example_request start_world = ((result, None), w') \<and>
      (recorded_operation (ew_secret w') = ''SLEEP'' \<or>
       (\<forall>t. last_patch (GetPatches example_sleepinfo) t = None \<or> day_contents t = []))"
    by (simp add: night_stored night_request IsWakeUpOperation_def first_run_data_def)
  moreover have "(\<forall>t. last_patch (GetPatches example_sleepinfo) t = None \<or> day_contents t = []) \<longleftrightarrow> False"
    using night_managed by auto
  ultimately show ?thesis by simp
qed

end
