(* ===== verification/Restore_Loss.thy ===== *)
theory Restore_Loss
  imports Full_Cycle
begin

text \<open>
  What happens to the restore patches when the secret of a sleep is lost, for example
  because the write after the sleep failed and the run is repeated.
\<close>

lemma data_to_save_none:
  "(\<And>k res. gm_get mapping k = Some res \<Longrightarrow> rp_empty (g_restorePatches res)) \<Longrightarrow>
   data_to_save mapping ks acc = acc"
  by (induction ks arbitrary: acc) (auto split: option.split)

lemma new_groups_fresh:
  assumes "gm_wf (resMapping g)"
    and "\<And>k res. gm_get (resMapping g) k = Some res \<Longrightarrow> \<exists>pd items. res = new_group c [] pd items"
  shows "fresh_resources g" and "gm_get (resMapping g) k = Some res \<Longrightarrow> g_restorePatches res = Some []"
proof -
  have "\<not> g_isCacheInvalid res \<and> g_restorePatches res = Some []" if "gm_get (resMapping g) k = Some res" for k res
    using assms(2) [OF that] by (auto simp: new_group_def newGenericResource_def)
  then show "fresh_resources g" and "gm_get (resMapping g) k = Some res \<Longrightarrow> g_restorePatches res = Some []"
    using gm_wf_distinct [OF assms(1)] by (auto simp: fresh_resources_def list_all_iff map_of_eq_Some_iff)
qed

text \<open>
  C27: a sleep whose secret was not stored cannot be undone. When a run finds no secret and
  every resource already in its sleep state (as after a sleep whose secret write failed),
  it succeeds, writes nothing to the resources, and stores a secret that records a sleep
  without any restore patch: the next operation is a wake up that has nothing to restore.
\<close>

theorem unsaved_sleep_loses_restore_info:
  fixes w :: 'w
  assumes "reads r req w si None data w'"
    and "getNextSchedule (r_cron r) (r_SleepDelta r) data (r_Now r w') = Inr (True, nextSchedule, requeueAfter)"
    and "\<And>t w. snd (getListByNamespace (l_unstr (r_libs r)) (l_sel (r_libs r)) (resource_client r si)
      (req_Namespace req) t w) = w"
    and "NewResources (r_libs r) (resource_client r si) (req_Namespace req)
      (OriginalGenericResourceInfo data) w' = (Inr g, w1)"
    and "HasResource g"
    and "\<And>k res. gm_get (resMapping g) k = Some res \<Longrightarrow> p_Patch (g_patchData res) \<noteq> [] \<and>
      (\<exists>p. New (l_patch (r_libs r)) (p_Patch (g_patchData res)) = Inr p \<and>
        list_all (left_alone (r_libs r) p) (g_data res))"
    and "\<And>x w. \<exists>w'. StatusUpdateSleepInfo (r_Client r) x w = (None, w')"
    and "\<And>x w. \<exists>w'. CreateSecret (r_Client r) x w = (None, w')"
    and "printable (r_tz r) (r_Now r w')" and "WakeUpTime (si_Spec si) \<noteq> []"
  shows "\<exists>s w2 w3 d. Reconcile r req w = ((\<lparr>Requeue = False, RequeueAfter = requeueAfter\<rparr>, None), w3) \<and>
    CreateSecret (r_Client r) s w2 = (None, w3) \<and>
    getSleepInfoData (r_tz r) (Some (convertSecretStringData s)) si = Inr d \<and>
    IsWakeUpOperation d \<and> OriginalGenericResourceInfo d = Some []"
proof -
  have data0: "getSleepInfoData (r_tz r) None si = Inr data" using assms(1) by (auto simp: reads_def)
  then obtain sleep wake where sch: "GetSleepSchedule si = Inr sleep" "GetWakeUpSchedule si = Inr wake"
      and data: "data = first_run_data sleep wake"
    by (auto simp: getSleepInfoData_def Let_def split: sum.splits)
  have op: "IsSleepOperation data" "\<not> IsWakeUpOperation data" "OriginalGenericResourceInfo data = None"
    by (simp_all add: data first_run_data_def IsSleepOperation_def IsWakeUpOperation_def operation_names)
  have g: "w1 = w'" "gm_wf (resMapping g)"
      "\<And>k. gm_get (resMapping g) k =
        managed_group (r_libs r) (resource_client r si) (req_Namespace req) [] (GetPatches si) w' k"
    using NewResources_groups [OF assms(3) _ assms(4)] op(3) by (auto simp: resource_client_def)
  have groups: "\<exists>pd items. res = new_group (resource_client r si) [] pd items"
    if "gm_get (resMapping g) k = Some res" for k res
    using managed_groupD [of "r_libs r" "resource_client r si" "req_Namespace req" "[]" "GetPatches si" w' k res]
      that g(3) by auto
  note fresh = new_groups_fresh [OF g(2) groups]
  obtain w2 where status: "handleSleepInfoStatus r (r_Now r w') si (CurrentOperationType data) g w1 = (None, w2)"
    unfolding handleSleepInfoStatus_def using assms(7) by blast
  have sleep: "Sleep (r_libs r) g w2 = ((None, g), w2)" by (rule Sleep_idle [OF g(2) fresh(1) assms(6)])
  let ?s = "new_secret r (r_Now r w') (''sleepinfo-'' @ req_Name req) (req_Namespace req) si data g"
  obtain w3 where save: "CreateSecret (r_Client r) ?s w2 = (None, w3)" using assms(8) by blast
  have "Reconcile r req w = ((\<lparr>Requeue = False, RequeueAfter = requeueAfter\<rparr>, None), w3)"
    using assms(2,4,5) status sleep save op(1,2)
    by (simp add: Reconcile_reads [OF assms(1)] run_operation_def perform_def upsertSecret_def getSecretName_def
        requeue_after_def after_result_def)
  moreover have "live_resources g"
    using NewResources_live [OF _ assms(4)] op(3) by (simp add: restore_live_def)
  from morning_data [OF assms(9) this assms(5) op(1) sch assms(10)]
  obtain d where "getSleepInfoData (r_tz r) (Some (convertSecretStringData ?s)) si = Inr d" "IsWakeUpOperation d"
      "OriginalGenericResourceInfo d =
        Some (data_to_save (resMapping g) (l_range (r_libs r) (map fst (resMapping g))) [])" by blast
  moreover have "data_to_save (resMapping g) (l_range (r_libs r) (map fst (resMapping g))) [] = []"
    using fresh(2) by (intro data_to_save_none) (simp add: rp_empty_def)
  ultimately show ?thesis using save by auto
qed

text \<open>The deployment sleeps, and there is no secret.\<close>

definition unsaved_world :: example_world where
  "unsaved_world = start_world\<lparr>ew_objs := [example_obj ''a'' ''0'']\<rparr>"

lemma unsaved_left_alone:
  assumes "gm_get (resMapping (world_resources [example_obj ''a'' ''0''])) k = Some res"
  shows "p_Patch (g_patchData res) \<noteq> [] \<and>
    (\<exists>p. New (l_patch (r_libs example_reconciler)) (p_Patch (g_patchData res)) = Inr p \<and>
      list_all (left_alone (r_libs example_reconciler) p) (g_data res))"
proof -
  have "res = world_group example_sleepinfo [example_obj ''a'' ''0'']"
    using assms by (auto simp: world_resources_def split: if_splits)
  moreover have "left_alone example_libs example_patcher (example_obj ''a'' ''0'')"
    by (simp add: left_alone_Untouched example_outcome)
  ultimately show ?thesis using example_New by (simp add: world_group_def deploymentPatch_def)
qed

theorem unsaved_sleep_loses_restore_info_witness:
  "\<exists>s w2 w3 d. Reconcile example_reconciler example_request unsaved_world =
      ((\<lparr>Requeue = False, RequeueAfter = time_Sub (at_ns 3600000000000) (at_ns 0)\<rparr>, None), w3) \<and>
    CreateSecret world_client s w2 = (None, w3) \<and>
    getSleepInfoData (\<lambda>t. 0) (Some (convertSecretStringData s)) example_sleepinfo = Inr d \<and>
    IsWakeUpOperation d \<and> OriginalGenericResourceInfo d = Some []"
proof -
  let ?r = example_reconciler and ?g = "world_resources [example_obj ''a'' ''0'']"
  have reads: "reads ?r example_request unsaved_world example_sleepinfo None example_data unsaved_world"
    using world_reads [of unsaved_world example_sleepinfo example_data example_request]
    by (simp add: unsaved_world_def start_world_def example_first_run)
  have now: "r_Now ?r unsaved_world = r_Now ?r start_world" by (simp add: unsaved_world_def)
  have new: "NewResources (r_libs ?r) (resource_client ?r example_sleepinfo) (req_Namespace example_request)
      (OriginalGenericResourceInfo example_data) unsaved_world = (Inr ?g, unsaved_world)"
    using world_NewResources_objs [of unsaved_world]
    by (simp add: unsaved_world_def start_world_def first_run_data_def example_request_def)
  have has: "HasResource ?g" by (simp add: HasResource_def world_resources_def world_group_def)
  have "\<And>x w. \<exists>w'. StatusUpdateSleepInfo (r_Client ?r) x w = (None, w')"
    and "\<And>x w. \<exists>w'. CreateSecret (r_Client ?r) x w = (None, w')"
    by (simp_all add: world_client_def)
  moreover have "printable (r_tz ?r) (r_Now ?r unsaved_world)"
    using printable_start by (simp add: unsaved_world_def start_world_def)
  moreover have "WakeUpTime (si_Spec example_sleepinfo) \<noteq> []" by (simp add: example_defs)
  ultimately show ?thesis
    using unsaved_sleep_loses_restore_info [OF reads start_due [folded now] world_reads_only new has unsaved_left_alone]
    by simp
qed

end
