(* ===== verification/Concurrent_Runs.thy ===== *)
theory Concurrent_Runs
  imports Every_Night Restore_Loss
begin

text \<open>
  The two controllers work on the same secret without excluding each other: each handler
  reads the secret first and acts on what it read. Here a scheduled sleep happens between
  the read of an execution and its own operation.
\<close>

lemma stale_sleep:
  assumes "cluster_ok C V" and "cl_ok C w" and "same_info (cl_info C) si"
    and "rps = None \<or> rps = Some []"
    and "NewResources (cl_libs C) (resource_client (cl_rec C) si) (cl_ns C) rps w = (Inr g, w1)"
    and "\<And>t pd p. last_patch (GetPatches (cl_info C)) t = Some pd \<Longrightarrow> New (l_patch (cl_libs C)) (p_Patch pd) = Inr p \<Longrightarrow>
      list_all (left_alone (cl_libs C) p) (listed C w t)"
  shows "Sleep (cl_libs C) g w = ((None, g), w)"
    and "data_to_save (resMapping g) ks [] = []" and "live_resources g"
proof -
  have rps: "(case rps of None \<Rightarrow> [] | Some m \<Rightarrow> m) = []" using assms(4) by auto
  note groups = cluster_groups [OF assms(1-3,5), unfolded rps]
  have new: "\<exists>pd items. res = new_group (resource_client (cl_rec C) si) [] pd items"
    if "gm_get (resMapping g) k = Some res" for k res
    using that groups(5) [of k] by (auto split: option.splits if_splits)
  note fresh = new_groups_fresh [OF groups(2) new]
  show "Sleep (cl_libs C) g w = ((None, g), w)"
  proof (rule Sleep_idle [OF groups(2) fresh(1)])
    fix k res
    assume "gm_get (resMapping g) k = Some res"
    then obtain pd where pd: "last_patch (GetPatches (cl_info C)) k = Some pd"
        and res: "res = new_group (resource_client (cl_rec C) si) [] pd (listed C w k)"
      using groups(5) [of k] by (auto split: option.splits if_splits)
    obtain p where "p_Patch pd \<noteq> []" "New (l_patch (cl_libs C)) (p_Patch pd) = Inr p"
      using engine_okD [OF cluster_okD(6) [OF assms(1)] pd] by blast
    with assms(6) [OF pd] show "p_Patch (g_patchData res) \<noteq> [] \<and>
        (\<exists>p. New (l_patch (cl_libs C)) (p_Patch (g_patchData res)) = Inr p \<and>
          list_all (left_alone (cl_libs C) p) (g_data res))"
      by (simp add: res new_group_def newGenericResource_def)
  qed
  show "data_to_save (resMapping g) ks [] = []"
    using fresh(2) by (intro data_to_save_none) (simp add: rp_empty_def)
  show "live_resources g"
    using NewResources_live [OF _ assms(5)] assms(4) by (auto simp: restore_live_def all_values_def)
qed

text \<open>The two status updates at the end of an execution, when they succeed.\<close>

lemma statuses:
  assumes "cluster_ok C V" and "cl_ok C w" and "same_info (cl_info C) si"
    and "\<And>st w. fst (StatusUpdateSleepInfo (cl_api C) (si\<lparr>si_Status := st\<rparr>) w) = None"
    and "\<And>ex w. fst (StatusUpdateExecution (cl_api C) ex w) = None"
  obtains w1 w2 where "handleSleepInfoStatus (cl_rec C) now si op g w = (None, w1)"
    and "finish (cl_rec C) ex now phase message w1 = ((empty_result, None), w2)" and "keeps C w w2"
proof -
  obtain w1 where w1: "handleSleepInfoStatus (cl_rec C) now si op g w = (None, w1)" "keeps C w w1"
    using status_keeps [OF assms(1-3)] assms(4) unfolding handleSleepInfoStatus_def by (metis prod.collapse)
  obtain w2 where w2: "StatusUpdateExecution (cl_api C) (finished_execution ex now phase message) w1 = (None, w2)"
    using assms(5) by (metis prod.collapse)
  then have "finish (cl_rec C) ex now phase message w1 = ((empty_result, None), w2)"
    by (simp add: finish_def updateExecutionStatus_def)
  with w1 finish_keeps [OF assms(1) _ this] show ?thesis using keeps_trans that by (auto simp: keeps_def)
qed

text \<open>
  C28: the guard of an execution does not protect against a concurrent run. An execution
  of SLEEP has read a secret that records no sleep; before it lists the resources, a
  scheduled run puts them to sleep and stores their restore patches. The execution goes
  on from what it read, finds nothing to change, succeeds, and replaces the secret: the
  namespace stays asleep, the secret still records a sleep, and all restore patches are
  gone, so that the next wake up has nothing to restore.
\<close>

theorem concurrent_sleep_loses_restore_info:
  assumes "cluster_ok C V" and "cl_ok C w1" and "resting C V w1" and "stored C w1 = Some s"
    and "getSleepInfoData (r_tz (cl_rec C)) (Some s) (cl_info C) = Inr d"
    and "applyExecutionOverride d ''SLEEP'' (cl_info C) = Inr data"
    and "Reconcile (cl_rec C) (info_request C) w1 = (x, w2)" and "asleep C V w2"
    and "\<And>t pd p. last_patch (GetPatches (cl_info C)) t = Some pd \<Longrightarrow> New (l_patch (cl_libs C)) (p_Patch pd) = Inr p \<Longrightarrow>
      list_all (left_alone (cl_libs C) p) (listed C w2 t)"
    and "\<exists>t. last_patch (GetPatches (cl_info C)) t \<noteq> None \<and> listed C w2 t \<noteq> []"
    and "req_Namespace req = cl_ns C" and "printable (r_tz (cl_rec C)) now"
    and "\<And>st w. fst (StatusUpdateSleepInfo (cl_api C) ((cl_info C)\<lparr>si_Status := st\<rparr>) w) = None"
    and "\<And>ex w. fst (StatusUpdateExecution (cl_api C) ex w) = None"
  shows "\<exists>w3. run_execution (cl_rec C) req ex now (cl_info C) (Some s) data w2 =
      ((\<lparr>Requeue = False, RequeueAfter = 0\<rparr>, None), w3) \<and>
    listed C w3 = listed C w2 \<and> recorded_operation (stored C w3) = ''SLEEP'' \<and>
    (\<exists>d'. getSleepInfoData (r_tz (cl_rec C)) (stored C w3) (cl_info C) = Inr d' \<and>
       IsWakeUpOperation d' \<and> OriginalGenericResourceInfo d' = Some [])"
proof -
  let ?r = "cl_rec C" and ?si = "cl_info C"
  have si: "same_info ?si ?si" by (simp add: same_info_def)
  have w2: "cl_ok C w2"
    using Reconcile_settled [OF assms(1) _ assms(7)] assms(2,3) by (auto simp: settled_def)
  have data: "IsSleepOperation data" "OriginalGenericResourceInfo data = OriginalGenericResourceInfo d"
    using assms(6) by (auto simp: applyExecutionOverride_def IsSleepOperation_def operation_names execution_consts
        split: sum.splits if_splits)
  have rps: "OriginalGenericResourceInfo data = None \<or> OriginalGenericResourceInfo data = Some []"
    using assms(3,4,5) data(2) by (simp add: resting_def)
  obtain g where new: "NewResources (cl_libs C) (resource_client ?r ?si) (cl_ns C)
      (OriginalGenericResourceInfo data) w2 = (Inr g, w2)"
    by (rule cluster_new [OF assms(1) w2 si])
  note idle = stale_sleep [OF assms(1) w2 si rps new assms(9)]
  have live: "live_resources g" by (rule idle(3))
  have has: "HasResource g" using assms(10) unfolding cluster_HasResource [OF assms(1) w2 si new] by simp
  obtain w4 where w4: "upsertSecret ?r now (cl_secret C) (cl_ns C) ?si (stored C w2) data g w2 = (None, w4)"
      "cl_ok C w4" "listed C w4 = listed C w2"
      "stored C w4 = Some (stored_secret ?r now (cl_secret C) (cl_ns C) ?si data g)"
    using upsert_stored [OF assms(1) w2 si refl] by blast
  have "stored C w2 \<noteq> None" using assms(8) by (cases "stored C w2") (auto simp: asleep_def recorded_operation_def operation_names)
  then have save: "upsertSecret ?r now (getSecretName (m_Name (si_Meta ?si))) (cl_ns C) ?si (Some s) data g w2 = (None, w4)"
    using w4(1) by (auto simp: upsertSecret_def cl_secret_def Let_def)
  obtain w5 w6 where w5: "handleSleepInfoStatus ?r now ?si (CurrentOperationType data) g w4 = (None, w5)"
      and w6: "finish ?r ex now ExecutionPhaseSucceeded (''operation '' @ Operation (ex_Spec ex) @ '' executed'') w5 =
        ((empty_result, None), w6)" and "keeps C w4 w6"
    by (rule statuses [OF assms(1) w4(2) si assms(13,14)])
  then have keep: "listed C w6 = listed C w2" "stored C w6 = stored C w4" using w4(3) by (simp_all add: keeps_def)
  have run: "run_execution ?r req ex now ?si (Some s) data w2 = ((empty_result, None), w6)"
    using w6 by (simp add: run_execution_def assms(11) new has data(1) idle(1) save w5)
  obtain sleep wake where "GetSleepSchedule ?si = Inr sleep" "GetWakeUpSchedule ?si = Inr wake"
    using getSleepInfoData_ok [OF assms(5)] by (auto simp: data_ok_def split: sum.splits)
  from getSleepInfoData_stored [OF assms(12) live_savable [OF live] this, of "cl_secret C" "cl_ns C" ?si data]
  obtain d' where d': "getSleepInfoData (r_tz ?r) (stored C w6) ?si = Inr d'" "OriginalGenericResourceInfo d' = Some []"
    by (auto simp: keep(2) w4(4) saved_patches_def idle(2))
  have rec: "recorded_operation (stored C w6) = sleepOperation"
    using has data(1) by (simp add: keep(2) w4(4) recorded_stored IsSleepOperation_def)
  moreover have "IsWakeUpOperation d'"
    using getSleepInfoData_wake [OF d'(1)] rec cluster_okD(9) [OF assms(1)] by simp
  ultimately show ?thesis using run keep(1) d' by (auto simp: empty_result_def operation_names)
qed

section \<open>An example\<close>

text \<open>The namespace in the morning after a night, when the next sleep is due.\<close>

definition woken_secret :: Secret where
  "woken_secret = stored_secret example_reconciler (at_ns 0) ''sleepinfo-working-hours'' ''default'' example_sleepinfo
     (example_data\<lparr>CurrentOperationType := wakeUpOperation\<rparr>) slept_world_resources"

definition woken_world :: example_world where
  "woken_world = start_world\<lparr>ew_secret := Some woken_secret\<rparr>"

lemma woken_recorded: "recorded_operation (Some woken_secret) \<noteq> sleepOperation"
  using world_HasResource(2) by (simp add: woken_secret_def recorded_stored)

lemma getNextSchedule_info:
  "getNextSchedule cron delta (d\<lparr>OriginalGenericResourceInfo := x\<rparr>) now = getNextSchedule cron delta d now"
  by (cases d) (simp only: getNextSchedule_def SleepInfoData.simps)

lemma woken_data:
  "getSleepInfoData (\<lambda>t. 0) (Some woken_secret) example_sleepinfo =
   Inr (example_data\<lparr>OriginalGenericResourceInfo := Some []\<rparr>)"
proof -
  have p: "printable (r_tz example_reconciler) (at_ns 0)" using printable_start by simp
  have s: "savable slept_world_resources"
    by (simp add: savable_def slept_world_resources_def slept_group_def patches_good_def gm_wf_def)
  obtain d where d: "getSleepInfoData (\<lambda>t. 0) (Some woken_secret) example_sleepinfo = Inr d"
      "LastSchedule d = truncated (\<lambda>t. 0) (at_ns 0)" "OriginalGenericResourceInfo d = Some []"
    using getSleepInfoData_stored [OF p s example_schedules, of "''sleepinfo-working-hours''" "''default''"
        example_sleepinfo "example_data\<lparr>CurrentOperationType := wakeUpOperation\<rparr>"]
    by (auto simp: woken_secret_def saved_patches_def IsSleepOperation_def)
  moreover have "truncated (\<lambda>t. 0) (at_ns 0) = zero_time"
    by (simp add: truncated_def zone_offset_def at_ns_def zero_time_def)
  moreover have "IsSleepOperation d \<noteq> IsWakeUpOperation d" by (rule secret_source.supported [OF d(1)])
  then have "IsSleepOperation d"
    using getSleepInfoData_wake [OF d(1)] woken_recorded by blast
  with getSleepInfoData_ok [OF d(1)] have "CurrentOperationType d = sleepOperation"
      "CurrentOperationSchedule d = ''00 20 * * 1-5''" "NextOperationSchedule d = ''00 08 * * 1-5''"
    by (simp_all add: data_ok_def example_schedules IsSleepOperation_def)
  ultimately have "d = example_data\<lparr>OriginalGenericResourceInfo := Some []\<rparr>"
    by (cases d) (simp add: first_run_data_def)
  with d(1) show ?thesis by simp
qed

lemma woken_resting: "cl_ok night_cluster woken_world" "resting night_cluster day_contents woken_world"
proof -
  show "cl_ok night_cluster woken_world" using night_start(1) by (simp add: night_cluster_ok woken_world_def)
  show "resting night_cluster day_contents woken_world"
    by (simp add: resting_def night_stored night_listed woken_world_def start_world_def day_contents_def woken_data
        woken_recorded)
qed

text \<open>The scheduled run of that moment puts the namespace to sleep.\<close>

lemma woken_sleeps:
  assumes "Reconcile (cl_rec night_cluster) (info_request night_cluster) woken_world = (x, w)"
  shows "asleep night_cluster day_contents w"
proof -
  let ?d = "example_data\<lparr>OriginalGenericResourceInfo := Some []\<rparr>"
  have settled: "settled night_cluster day_contents woken_world" using woken_resting by (simp add: settled_def)
  have info: "same_info (cl_info night_cluster) example_sleepinfo" by (simp add: same_info_def)
  have reads: "reads (cl_rec night_cluster) (info_request night_cluster) woken_world example_sleepinfo
      (stored night_cluster woken_world) ?d woken_world"
    using world_reads [of woken_world example_sleepinfo ?d example_request] woken_data
    by (simp add: night_request night_stored woken_world_def start_world_def)
  have due: "getNextSchedule (r_cron (cl_rec night_cluster)) (r_SleepDelta (cl_rec night_cluster)) ?d
      (r_Now (cl_rec night_cluster) woken_world) =
      Inr (True, at_ns 3600000000000, time_Sub (at_ns 3600000000000) (at_ns 0))"
    using start_due by (simp add: getNextSchedule_info woken_world_def)
  have "\<forall>st. fst (StatusUpdateSleepInfo (cl_api night_cluster) (example_sleepinfo\<lparr>si_Status := st\<rparr>) woken_world) = None"
    by (simp add: world_client_def)
  note ran = Reconcile_reads_settled(2) [OF night_cluster_good settled info reads assms due this]
  have "(\<forall>t. last_patch (GetPatches (cl_info night_cluster)) t = None \<or> day_contents t = []) \<longleftrightarrow> False"
    using night_managed by auto
  from ran [unfolded this if_False] woken_recorded show ?thesis by (simp add: night_stored woken_world_def)
qed

lemma night_objects:
  assumes "asleep night_cluster day_contents w"
  shows "ew_objs w = [example_obj ''a'' ''0'']"
proof -
  obtain rps where "by_night night_cluster day_contents rps w" using assms by (auto simp: asleep_def)
  moreover have "last_patch (GetPatches (cl_info night_cluster)) DeploymentTarget = Some deploymentPatch"
    by (simp add: last_patch_def example_patches patch_targets default_targets)
  ultimately have "night_target night_cluster day_contents rps w DeploymentTarget deploymentPatch"
    unfolding by_night_def by (metis option.simps(5))
  then obtain p ds where "p = example_patcher" "ds = [example_obj ''a'' ''3'']"
      "list_all2 (night_form night_cluster p) ds (ew_objs w)"
    using example_New by (auto simp: night_target_def night_listed day_contents_def)
  then show ?thesis
    by (auto simp: list_all2_Cons1 night_form_def example_recorded night_asleep simp del: marshal.simps)
qed

theorem concurrent_sleep_loses_restore_info_witness:
  "\<exists>x w2 data w3. Reconcile example_reconciler example_request woken_world = (x, w2) \<and>
    ew_objs w2 = [example_obj ''a'' ''0''] \<and>
    run_execution example_reconciler exec_request (example_execution ''SLEEP'' []) (at_ns 0) example_sleepinfo
      (Some woken_secret) data w2 = ((\<lparr>Requeue = False, RequeueAfter = 0\<rparr>, None), w3) \<and>
    recorded_operation (ew_secret w3) = ''SLEEP'' \<and>
    (\<exists>d'. getSleepInfoData (\<lambda>t. 0) (ew_secret w3) example_sleepinfo = Inr d' \<and> IsWakeUpOperation d' \<and>
       OriginalGenericResourceInfo d' = Some [])"
proof -
  obtain x w2 where eq: "Reconcile (cl_rec night_cluster) (info_request night_cluster) woken_world = (x, w2)"
    by (metis surj_pair)
  have night: "asleep night_cluster day_contents w2" by (rule woken_sleeps [OF eq])
  note objs = night_objects [OF night]
  obtain data where over: "applyExecutionOverride (example_data\<lparr>OriginalGenericResourceInfo := Some []\<rparr>) ''SLEEP''
      (cl_info night_cluster) = Inr data"
    by (simp add: applyExecutionOverride_def example_schedules execution_consts)
  have stored: "stored night_cluster woken_world = Some woken_secret" by (simp add: night_stored woken_world_def)
  have read: "getSleepInfoData (r_tz (cl_rec night_cluster)) (Some woken_secret) (cl_info night_cluster) =
      Inr (example_data\<lparr>OriginalGenericResourceInfo := Some []\<rparr>)"
    using woken_data by simp
  have alone: "list_all (left_alone (cl_libs night_cluster) p) (listed night_cluster w2 t)"
    if "New (l_patch (cl_libs night_cluster)) (p_Patch pd) = Inr p" for t pd p
    using that example_New by (simp add: night_listed objs left_alone_Untouched example_outcome)
  have some: "\<exists>t. last_patch (GetPatches (cl_info night_cluster)) t \<noteq> None \<and> listed night_cluster w2 t \<noteq> []"
    by (rule exI [of _ DeploymentTarget])
      (simp add: last_patch_def example_patches patch_targets default_targets night_listed objs)
  have "\<exists>w3. run_execution (cl_rec night_cluster) exec_request (example_execution ''SLEEP'' []) (at_ns 0) (cl_info night_cluster)
        (Some woken_secret) data w2 = ((\<lparr>Requeue = False, RequeueAfter = 0\<rparr>, None), w3) \<and>
      listed night_cluster w3 = listed night_cluster w2 \<and> recorded_operation (stored night_cluster w3) = ''SLEEP'' \<and>
      (\<exists>d'. getSleepInfoData (r_tz (cl_rec night_cluster)) (stored night_cluster w3) (cl_info night_cluster) = Inr d' \<and>
         IsWakeUpOperation d' \<and> OriginalGenericResourceInfo d' = Some [])"
    by (rule concurrent_sleep_loses_restore_info [OF night_cluster_good woken_resting stored read over eq night alone some])
      (use printable_start in \<open>simp_all add: exec_request_def world_client_def\<close>)
  with eq objs show ?thesis by (auto simp: night_request night_stored)
qed

end
