(* ===== verification/Requeue.thy ===== *)
theory Requeue
  imports Schedule
begin

text \<open>
  The time a run asks to be called again at (\<open>schedule.go\<close>): when it is served there, at
  most the delta late, the tick is still in the window and the operation is due. With a
  delta of zero the first tick of a SleepInfo cannot be caught that way.
\<close>

section \<open>Ticks\<close>

text \<open>
  The documented contract of \<open>Schedule.Next\<close>: the next activation, which is later than the
  given time, so that the same one is next for every time up to it. A schedule without a
  time zone is local to the time it is given, so the same activation is promised for times
  of the same location only; \<open>locs\<close> are the locations among which the schedule reads alike:
  all of them when it carries its time zone, a single one when it does not.
\<close>

definition next_activation :: "location set \<Rightarrow> 's cron_lib \<Rightarrow> string \<Rightarrow> bool" where
  "next_activation locs cron text =
     (\<forall>sched t. ParseStandard cron text = Inr sched \<longrightarrow>
        t_ns t < t_ns (sched_Next cron sched t) \<and>
        (\<forall>u. t_loc t \<in> locs \<and> t_loc u \<in> locs \<and> t_ns t \<le> t_ns u \<and> t_ns u < t_ns (sched_Next cron sched t) \<longrightarrow>
           t_ns (sched_Next cron sched u) = t_ns (sched_Next cron sched t)))"

lemma next_activation_later: "next_activation locs cron text \<Longrightarrow> ticks_later cron text"
  by (simp add: next_activation_def ticks_later_def)

text \<open>Between two times there is a tick, or both have the same next one.\<close>

lemma next_between:
  assumes "next_activation locs cron text" and "ParseStandard cron text = Inr sched" and "t_ns t \<le> t_ns u"
    and "t_loc t \<in> locs" and "t_loc u \<in> locs"
  shows "t_ns (sched_Next cron sched t) \<le> t_ns u \<or> t_ns (sched_Next cron sched u) = t_ns (sched_Next cron sched t)"
  using assms by (auto simp: next_activation_def not_le [symmetric])

lemma next_later:
  "next_activation locs cron text \<Longrightarrow> ParseStandard cron text = Inr sched \<Longrightarrow> t_ns t < t_ns (sched_Next cron sched t)"
  by (simp add: next_activation_def)

lemma hourly_activation: "next_activation locs hourly_cron text"
proof -
  have "n < (n div 3600000000000 + 1) * 3600000000000" for n :: int by presburger
  moreover have "m div 3600000000000 = n div 3600000000000" if "n \<le> m" "m < (n div 3600000000000 + 1) * 3600000000000"
    for m n :: int
  proof (rule int_div_pos_eq)
    show "m = 3600000000000 * (n div 3600000000000) + (m - 3600000000000 * (n div 3600000000000))" by simp
    have "3600000000000 * (n div 3600000000000) \<le> n" by simp
    then show "0 \<le> m - 3600000000000 * (n div 3600000000000)" using that(1) by linarith
    show "m - 3600000000000 * (n div 3600000000000) < 3600000000000" using that(2) by (simp add: algebra_simps)
  qed
  ultimately show ?thesis by (auto simp: next_activation_def hourly_cron_def)
qed

section \<open>Serving a requeue\<close>

text \<open>The length of the window in nanoseconds, and the times within it of a tick.\<close>

abbreviation delta_ns :: "i64 \<Rightarrow> int" where
  "delta_ns sleepDelta \<equiv> sint sleepDelta * 1000000000"

lemma near_in_window: "\<bar>t_ns t - t_ns u\<bar> \<le> delta_ns d \<Longrightarrow> in_window d t u"
  by (simp add: in_window_def)

lemma back_delta: "delta_ok d \<Longrightarrow> t_ns (time_Add t (- (d * Second))) = t_ns t - delta_ns d"
  by (simp add: time_Add_def sint_minus_delta)

lemma forth_delta: "delta_ok d \<Longrightarrow> t_ns (time_Add t (d * Second)) = t_ns t + delta_ns d"
  by (simp add: time_Add_def sint_delta)

lemma time_Add_loc [simp]: "t_loc (time_Add t d) = t_loc t"
  by (simp add: time_Add_def)

lemma due_tick_if:
  "due_tick cron sched d previous t =
   (if \<not> IsZero previous \<and>
       (t_ns t \<le> t_ns (sched_Next cron sched previous) \<or> in_window d (sched_Next cron sched previous) t)
    then sched_Next cron sched previous else sched_Next cron sched (time_Add t (- (d * Second))))"
  by (simp only: due_tick_def Let_def)

text \<open>A tick that lay ahead is due around its time.\<close>

lemma pending_tick_due:
  assumes "delta_ok d" and "next_activation locs cron text" and "ParseStandard cron text = Inr sched"
    and "t_ns now \<le> t_ns now'"
    and "t_ns (due_tick cron sched d previous now) \<le> t_ns now'"
    and "t_ns now' < t_ns (due_tick cron sched d previous now) + delta_ns d"
    and locs: "t_loc now \<in> locs" "t_loc now' \<in> locs"
  shows "in_window d now' (due_tick cron sched d previous now')"
proof -
  let ?tick = "due_tick cron sched d previous" and ?from = "\<lambda>t. time_Add t (- (d * Second))"
  let ?first = "sched_Next cron sched previous"
  let ?keep = "\<lambda>t. \<not> IsZero previous \<and> (t_ns t \<le> t_ns ?first \<or> in_window d ?first t)"
  note tick = due_tick_if [of cron sched d previous]
  have kept: "in_window d ?first now'" if "?keep now"
    using that assms(5,6) unfolding tick by (intro near_in_window) simp
  show ?thesis
  proof (cases "?keep now'")
    case True
    then have "in_window d ?first now'" using kept assms(4) by auto
    with True show ?thesis unfolding tick by (simp add: in_window_sym)
  next
    case False
    then have "\<not> ?keep now" using kept by blast
    with False have ticks: "?tick now = sched_Next cron sched (?from now)" "?tick now' = sched_Next cron sched (?from now')"
      by (simp_all only: tick if_False)
    have "t_ns (?from now) \<le> t_ns (?from now')" using assms(4) by (simp add: back_delta [OF assms(1)])
    from next_between [OF assms(2,3) this, simplified time_Add_loc, OF locs] assms(6)
    have "t_ns (?tick now') = t_ns (?tick now)"
      unfolding ticks back_delta [OF assms(1)] by linarith
    with assms(5,6) show ?thesis by (intro near_in_window) simp
  qed
qed

text \<open>After an operation, the first tick of the next one is due around its time.\<close>

lemma near_tick:
  assumes "delta_ok d" and "next_activation locs cron text" and "ParseStandard cron text = Inr sched" and "t_ns now \<le> t_ns now'"
    and "next = sched_Next cron sched (time_Add now (d * Second))"
    and "t_ns next \<le> t_ns now'" and "t_ns now' < t_ns next + delta_ns d"
    and "t_loc now \<in> locs"
    and "t_ns t \<le> t_ns now + delta_ns d" and "t_ns now' - delta_ns d \<le> t_ns (sched_Next cron sched t)"
    and "t_loc t \<in> locs"
  shows "in_window d now' (sched_Next cron sched t)"
proof -
  have until: "t_ns (time_Add now (d * Second)) = t_ns now + delta_ns d" by (rule forth_delta [OF assms(1)])
  have "t_ns (sched_Next cron sched t) \<le> t_ns now + delta_ns d \<or> t_ns (sched_Next cron sched t) = t_ns next"
    using next_between [OF assms(2,3), of t "time_Add now (d * Second)"] assms(5,8,9,11) unfolding until by auto
  moreover have "0 \<le> delta_ns d" using assms(1) by (simp add: delta_ok_def)
  ultimately have "t_ns (sched_Next cron sched t) \<le> t_ns now' + delta_ns d" using assms(4,6) by linarith
  with assms(10) show ?thesis by (intro near_in_window) (simp only: abs_le_iff, linarith)
qed

lemma following_tick_due:
  assumes "delta_ok d" and "next_activation locs cron text" and "ParseStandard cron text = Inr sched"
    and "t_ns previous \<le> t_ns now" and "t_ns now \<le> t_ns now'"
    and "next = sched_Next cron sched (time_Add now (d * Second))"
    and "t_ns next \<le> t_ns now'" and "t_ns now' < t_ns next + delta_ns d"
    and "t_loc now \<in> locs" and "t_loc now' \<in> locs" and "t_loc previous \<in> locs"
  shows "in_window d now' (due_tick cron sched d previous now')"
proof -
  let ?from = "time_Add now' (- (d * Second))" and ?first = "sched_Next cron sched previous"
  have pos: "0 \<le> delta_ns d" using assms(1) by (simp add: delta_ok_def)
  have from_ns: "t_ns ?from = t_ns now' - delta_ns d" by (rule back_delta [OF assms(1)])
  note near = near_tick [OF assms(1-3,5-9)]
  show ?thesis
  proof (cases "\<not> IsZero previous \<and> (t_ns now' \<le> t_ns ?first \<or> in_window d ?first now')")
    case True
    then have tick: "due_tick cron sched d previous now' = ?first" unfolding due_tick_if by (rule if_P)
    have "t_ns previous \<le> t_ns now + delta_ns d" using assms(4) pos by linarith
    moreover have "t_ns now' - delta_ns d \<le> t_ns ?first" if "t_ns now' \<le> t_ns ?first" using that pos by linarith
    ultimately show ?thesis unfolding tick using True near assms(11) in_window_sym by metis
  next
    case False
    then have tick: "due_tick cron sched d previous now' = sched_Next cron sched ?from"
      unfolding due_tick_if by (rule if_not_P)
    have later: "t_ns ?from < t_ns (sched_Next cron sched ?from)" by (rule next_later [OF assms(2,3)])
    show ?thesis
    proof (cases "t_ns ?from \<le> t_ns now + delta_ns d")
      case True
      from near [OF this] later from_ns assms(10) show ?thesis unfolding tick by simp
    next
      case False
      moreover have "\<not> t_ns next \<le> t_ns ?from" using assms(8) from_ns by linarith
      ultimately have "t_ns (sched_Next cron sched ?from) = t_ns next"
        using next_between [OF assms(2,3), of "time_Add now (d * Second)" ?from] assms(6,9,10) forth_delta [OF assms(1)] by simp
      with assms(7,8) show ?thesis unfolding tick by (intro near_in_window) (simp only: abs_le_iff, linarith)
    qed
  qed
qed

text \<open>
  A run that is served in time is due: the run decided at \<open>now\<close>, whatever it decided, and is
  called again after the time it asked for, less than the delta late. When it was executed
  the operation to look at is the next one, last scheduled not after \<open>now\<close> and recorded with
  one of the locations; when not, it is the same.
\<close>

definition answers :: "location set \<Rightarrow> SleepInfoData \<Rightarrow> gotime \<Rightarrow> bool \<Rightarrow> SleepInfoData \<Rightarrow> bool" where
  "answers locs data now executed data' =
     (if executed
      then CurrentOperationSchedule data' = NextOperationSchedule data \<and>
        t_ns (LastSchedule data') \<le> t_ns now \<and> t_loc (LastSchedule data') \<in> locs
      else CurrentOperationSchedule data' = CurrentOperationSchedule data \<and> LastSchedule data' = LastSchedule data)"

lemma requeue_due:
  assumes d: "delta_ok d"
    and ticks: "next_activation locs cron (CurrentOperationSchedule data)" "next_activation locs cron (NextOperationSchedule data)"
    and run: "getNextSchedule cron d data now = Inr (executed, next, requeueAfter)"
    and locs: "t_loc now \<in> locs" "t_loc now' \<in> locs"
    and again: "answers locs data now executed data'" "ParseStandard cron (NextOperationSchedule data') = Inr sched'"
    and time: "sint requeueAfter < max_duration" "t_ns now + sint requeueAfter \<le> t_ns now'"
      "t_ns now' < t_ns now + sint requeueAfter + delta_ns d"
  shows "\<exists>next' after'. getNextSchedule cron d data' now' = Inr (True, next', after')"
proof -
  have later: "t_ns now + delta_ns d < t_ns next"
    using getNextSchedule_later [OF d next_activation_later [OF ticks(1)] next_activation_later [OF ticks(2)] run] by simp
  have "requeueAfter = time_Sub next now"
    using run by (auto simp: getNextSchedule_tick [OF d] Let_def split: sum.splits if_splits)
  moreover have pos: "0 \<le> delta_ns d" using d by (simp add: delta_ok_def)
  ultimately have "sint requeueAfter = t_ns next - t_ns now"
    using time(1) later by (simp add: sint_time_Sub min_duration_def max_duration_def)
  with time later pos have now': "t_ns now \<le> t_ns now'" "t_ns next \<le> t_ns now'" "t_ns now' < t_ns next + delta_ns d"
    by simp_all
  obtain sched where sched: "ParseStandard cron (CurrentOperationSchedule data') = Inr sched"
      and due: "in_window d now' (due_tick cron sched d (LastSchedule data') now')"
  proof (cases executed)
    case True
    then obtain sched where s: "ParseStandard cron (NextOperationSchedule data) = Inr sched"
        "next = sched_Next cron sched (time_Add now (d * Second))"
      using run by (auto simp: getNextSchedule_tick [OF d] Let_def split: sum.splits if_splits)
    have data': "CurrentOperationSchedule data' = NextOperationSchedule data" "t_ns (LastSchedule data') \<le> t_ns now"
        "t_loc (LastSchedule data') \<in> locs"
      using again(1) True by (simp_all add: answers_def)
    show ?thesis
      by (rule that [of sched], use s(1) data'(1) in simp)
        (rule following_tick_due [OF d ticks(2) s(1) data'(2) now'(1) s(2) now'(2,3) locs data'(3)])
  next
    case False
    then obtain sched where s: "ParseStandard cron (CurrentOperationSchedule data) = Inr sched"
        "next = due_tick cron sched d (LastSchedule data) now"
      using run by (auto simp: getNextSchedule_tick [OF d] Let_def split: sum.splits if_splits)
    have data': "CurrentOperationSchedule data' = CurrentOperationSchedule data" "LastSchedule data' = LastSchedule data"
      using again(1) False by (simp_all add: answers_def)
    show ?thesis
      by (rule that [of sched], use s(1) data'(1) in simp, unfold data'(2))
        (rule pending_tick_due [OF d ticks(1) s(1) now' [unfolded s(2)] locs])
  qed
  then show ?thesis using again(2) by (simp add: getNextSchedule_tick [OF d] Let_def)
qed

section \<open>A delta of zero\<close>

text \<open>
  C16: with a delta of zero a SleepInfo that has never run looks for the first tick after now:
  when it is called at a tick or after it, that tick is passed over, and the run is not due
  unless another tick follows within the millisecond.
\<close>

theorem zero_delta_passes_tick:
  assumes "sint sleepDelta = 0" and "IsZero (LastSchedule data)"
    and "ParseStandard cron (CurrentOperationSchedule data) = Inr sched"
    and "t_ns now + 1000000 \<le> t_ns (sched_Next cron sched now)"
  shows "getNextSchedule cron sleepDelta data now =
    Inr (False, sched_Next cron sched now, time_Sub (sched_Next cron sched now) now)"
proof -
  have d: "delta_ok sleepDelta" using assms(1) by (simp add: delta_ok_def)
  have "t_ns (time_Add now (- (sleepDelta * Second))) = t_ns now" using back_delta [OF d] assms(1) by simp
  then have "time_Add now (- (sleepDelta * Second)) = now" by (simp add: time_Add_def)
  with assms show ?thesis by (simp add: getNextSchedule_tick [OF d] Let_def due_tick_def in_window_def)
qed

theorem zero_delta_passes_tick_witness:
  "getNextSchedule hourly_cron 0 (first_run_data ''a'' ''b'') (at_ns 3600000000000) =
   Inr (False, at_ns 7200000000000, time_Sub (at_ns 7200000000000) (at_ns 3600000000000))"
proof -
  have "sched_Next hourly_cron () (at_ns 3600000000000) = at_ns 7200000000000" by (simp add: hourly_cron_def at_ns_def)
  moreover have "ParseStandard hourly_cron x = Inr ()" for x by (simp add: hourly_cron_def)
  moreover have "IsZero (LastSchedule (first_run_data ''a'' ''b''))"
    by (simp add: first_run_data_def IsZero_def zero_time_def)
  ultimately show ?thesis
    using zero_delta_passes_tick [of 0 "first_run_data ''a'' ''b''" hourly_cron "()" "at_ns 3600000000000"]
    by (simp add: at_ns_def)
qed

end
