(* ===== verification/On_Time.thy ===== *)
theory On_Time
  imports Every_Night Requeue
begin

text \<open>
  Runs that are served on time: each run of the SleepInfo controller asks to be called
  again after some time, and the run that follows then performs the operation whose tick
  has come, so that the namespace falls asleep and wakes up at its ticks.
\<close>

section \<open>The next operation\<close>

lemma truncated_le: "t_ns (truncated tz t) \<le> t_ns t"
  by (simp add: truncated_def Let_def)

lemma written_read:
  assumes "written C now w" and "printable (r_tz (cl_rec C)) now"
    and "GetSleepSchedule (cl_info C) = Inr sleep" and "GetWakeUpSchedule (cl_info C) = Inr wake"
  shows "\<exists>d. getSleepInfoData (r_tz (cl_rec C)) (stored C w) (cl_info C) = Inr d \<and>
    LastSchedule d = truncated (r_tz (cl_rec C)) now"
proof -
  obtain data g where g: "live_resources g"
      "stored C w = Some (stored_secret (cl_rec C) now (cl_secret C) (cl_ns C) (cl_info C) data g)"
    using assms(1) unfolding written_def by blast
  from getSleepInfoData_stored [OF assms(2) live_savable [OF g(1)] assms(3,4), of "cl_secret C" "cl_ns C" "cl_info C" data]
  show ?thesis unfolding g(2) by auto
qed

lemma written_last:
  assumes "written C now w" and "printable (r_tz (cl_rec C)) now"
    and "getSleepInfoData (r_tz (cl_rec C)) (stored C w) (cl_info C) = Inr d"
  shows "LastSchedule d = truncated (r_tz (cl_rec C)) now"
proof -
  obtain sleep wake where "GetSleepSchedule (cl_info C) = Inr sleep" "GetWakeUpSchedule (cl_info C) = Inr wake"
    using getSleepInfoData_ok [OF assms(3)] by (auto simp: data_ok_def split: sum.splits)
  from written_read [OF assms(1,2) this] assms(3) show ?thesis by auto
qed

text \<open>Sleep and wake up take turns, each with the schedule of the other as the next one.\<close>

lemma turn_schedules:
  assumes "data_ok si d" and "data_ok si d'" and "IsSleepOperation d' \<longleftrightarrow> \<not> IsSleepOperation d"
  shows "CurrentOperationSchedule d' = NextOperationSchedule d"
  using assms by (auto simp: data_ok_def IsSleepOperation_def split: sum.splits if_splits)

text \<open>What is read after a run answers what the run decided.\<close>

lemma read_answers:
  assumes "cluster_ok C V" and "settled C V w2"
    and "getSleepInfoData (r_tz (cl_rec C)) (stored C w2) (cl_info C) = Inr data"
    and "getSleepInfoData (r_tz (cl_rec C)) (stored C w1) (cl_info C) = Inr data'"
    and "if executed then written C (r_Now (cl_rec C) w2) w1 \<and>
        (if IsSleepOperation data then asleep C V w1 else resting C V w1)
      else stored C w1 = stored C w2"
    and "t_loc (truncated (r_tz (cl_rec C)) (r_Now (cl_rec C) w2)) \<in> locs"
  shows "answers locs data (r_Now (cl_rec C) w2) executed data'"
    and "IsSleepOperation data' \<longleftrightarrow> (IsSleepOperation data \<longleftrightarrow> \<not> executed)"
proof -
  have now: "printable (r_tz (cl_rec C)) (r_Now (cl_rec C) w2)"
    using cluster_okD(1) [OF assms(1)] assms(2) by (simp add: reads_ok_def settled_def)
  have fit: "IsSleepOperation data' \<longleftrightarrow> recorded_operation (stored C w1) \<noteq> sleepOperation"
    using due_fitting [OF assms(1,4)] by (simp add: fitting_def)
  have same: "data' = data" if "\<not> executed" using assms(3-5) that by simp
  have turn: "IsSleepOperation data' \<longleftrightarrow> \<not> IsSleepOperation data" if executed
    using assms(5) that unfolding fit by (auto simp: asleep_def resting_def split: if_splits)
  show "IsSleepOperation data' \<longleftrightarrow> (IsSleepOperation data \<longleftrightarrow> \<not> executed)" using same turn by auto
  show "answers locs data (r_Now (cl_rec C) w2) executed data'"
    using same turn turn_schedules [OF getSleepInfoData_ok [OF assms(3)] getSleepInfoData_ok [OF assms(4)]]
      written_last [OF _ now assms(4)] truncated_le assms(5,6)
    by (auto simp: answers_def)
qed

section \<open>Runs on time\<close>

text \<open>A scheduled run, executed or not: how it ends and what it leaves.\<close>

lemma run_on_time:
  assumes "cluster_ok C V" and "settled C V w"
    and "\<exists>t. last_patch (GetPatches (cl_info C)) t \<noteq> None \<and> V t \<noteq> []"
    and "reads (cl_rec C) (info_request C) w si secret data w2"
    and "getNextSchedule (r_cron (cl_rec C)) (r_SleepDelta (cl_rec C)) data (r_Now (cl_rec C) w2) = Inr (executed, next, after)"
    and "\<forall>st. fst (StatusUpdateSleepInfo (cl_api C) (si\<lparr>si_Status := st\<rparr>) w2) = None"
    and "Reconcile (cl_rec C) (info_request C) w = (x, w1)"
  shows "x = (after_result after, None)" and "settled C V w1"
    and "if executed then written C (r_Now (cl_rec C) w2) w1 \<and>
        (if IsSleepOperation data then asleep C V w1 else resting C V w1)
      else stored C w1 = stored C w2"
proof -
  note world = reads_world [OF assms(1,2,4)]
  note run = Reconcile_reads_settled [OF assms(1) world(2,1) assms(4) [unfolded world(3)] assms(7)]
  have "getSleepInfoData (r_tz (cl_rec C)) (stored C w2) (cl_info C) = Inr data"
    using assms(4) world(3) by (auto simp: reads_def same_info_spec(4) [OF world(1)])
  then have sleep: "IsSleepOperation data \<longleftrightarrow> recorded_operation (stored C w2) \<noteq> sleepOperation"
    using due_fitting [OF assms(1)] by (auto simp: fitting_def)
  show "settled C V w1" by (rule run(1))
  have "x = (after_result after, None) \<and>
      (if executed then written C (r_Now (cl_rec C) w2) w1 \<and>
         (if IsSleepOperation data then asleep C V w1 else resting C V w1)
       else stored C w1 = stored C w2)"
  proof (cases executed)
    case True
    then have "getNextSchedule (r_cron (cl_rec C)) (r_SleepDelta (cl_rec C)) data (r_Now (cl_rec C) w2) =
        Inr (True, next, after)" using assms(5) by simp
    note ran = run(2) [OF this assms(6)]
    have "(\<forall>t. last_patch (GetPatches (cl_info C)) t = None \<or> V t = []) \<longleftrightarrow> False" using assms(3) by auto
    from ran [unfolded this if_False] True show ?thesis unfolding sleep by (cases x) (simp split: if_splits)
  next
    case False
    then show ?thesis using assms(5,7) by (simp add: Reconcile_reads [OF assms(4)])
  qed
  then show "x = (after_result after, None)"
    and "if executed then written C (r_Now (cl_rec C) w2) w1 \<and>
        (if IsSleepOperation data then asleep C V w1 else resting C V w1)
      else stored C w1 = stored C w2"
    by simp_all
qed

text \<open>
  C3: runs that are served on time follow the schedule. In every state that runs and
  executions can reach, a scheduled run, executed or not, asks to be called again after
  some time; a run that is called after that time, less than the delta late, performs its
  operation: after a sleep, or when a wake up is pending, every resource gets its original
  content back and the secret records no sleep; after a wake up, or when a sleep is pending,
  the secret records the sleep. The schedules read alike in the locations of the current
  times and of the time that the secret records (\<open>next_activation\<close>): always for a SleepInfo
  with a time zone; for one without, when the process runs in UTC or in a zone whose offset
  is never zero, since the recorded time is then read back in the location of the process.
\<close>

theorem requeue_answered:
  assumes "cluster_ok C V" and "cl_ok C w0" and "stored C w0 = None"
    and "\<And>t. map (cl_content C) (listed C w0 t) = V t"
    and "\<exists>t. last_patch (GetPatches (cl_info C)) t \<noteq> None \<and> V t \<noteq> []"
    and "0 \<le> sint (r_SleepDelta (cl_rec C))" and "sint (r_SleepDelta (cl_rec C)) \<le> 9223372036"
    and "\<And>s. Inr s \<in> {GetSleepSchedule (cl_info C), GetWakeUpSchedule (cl_info C)} \<Longrightarrow>
      next_activation locs (r_cron (cl_rec C)) s \<and> (\<exists>sched. ParseStandard (r_cron (cl_rec C)) s = Inr sched)"
    and "cluster_run C w0 w"
    and "reads (cl_rec C) (info_request C) w si secret data w2"
    and "getNextSchedule (r_cron (cl_rec C)) (r_SleepDelta (cl_rec C)) data (r_Now (cl_rec C) w2) = Inr (executed, next, after)"
    and "\<forall>st. fst (StatusUpdateSleepInfo (cl_api C) (si\<lparr>si_Status := st\<rparr>) w2) = None"
    and "Reconcile (cl_rec C) (info_request C) w = (x, w1)" and "same_contents C w1 w'"
    and "reads (cl_rec C) (info_request C) w' si' secret' data' w2'"
    and "\<forall>st. fst (StatusUpdateSleepInfo (cl_api C) (si'\<lparr>si_Status := st\<rparr>) w2') = None"
    and "sint after < max_duration"
    and "t_ns (r_Now (cl_rec C) w2) + sint after \<le> t_ns (r_Now (cl_rec C) w2')"
    and "t_ns (r_Now (cl_rec C) w2') < t_ns (r_Now (cl_rec C) w2) + sint after + delta_ns (r_SleepDelta (cl_rec C))"
    and "t_loc (r_Now (cl_rec C) w2) \<in> locs" and "t_loc (r_Now (cl_rec C) w2') \<in> locs"
    and "t_loc (truncated (r_tz (cl_rec C)) (r_Now (cl_rec C) w2)) \<in> locs"
  shows "x = (after_result after, None) \<and>
    (\<exists>result w''. Reconcile (cl_rec C) (info_request C) w' = ((result, None), w'') \<and>
      (if IsSleepOperation data \<longleftrightarrow> executed
       then recorded_operation (stored C w'') \<noteq> ''SLEEP'' \<and> (\<forall>t. map (cl_content C) (listed C w'' t) = V t)
       else recorded_operation (stored C w'') = ''SLEEP''))"
proof -
  let ?r = "cl_rec C"
  note settled = cluster_run_settled [OF assms(9,1) start_settled [OF assms(2-4)]]
  note run = run_on_time [OF assms(1) settled assms(5,10-13)] and world = reads_world [OF assms(1) settled assms(10)]
  have settled': "settled C V w'"
    using settled_content [OF assms(1) run(2)] assms(14) by (simp add: same_contents_def)
  note world' = reads_world [OF assms(1) settled' assms(15)]
  have same: "stored C w2' = stored C w1" using world'(4) assms(14) by (simp add: keeps_def same_contents_def)
  have data: "getSleepInfoData (r_tz ?r) (stored C w2) (cl_info C) = Inr data"
    using assms(10) world(3) by (auto simp: reads_def same_info_spec(4) [OF world(1)])
  have data': "getSleepInfoData (r_tz ?r) (stored C w1) (cl_info C) = Inr data'"
    using assms(15) world'(3) same by (auto simp: reads_def same_info_spec(4) [OF world'(1)])
  note answer = read_answers [OF assms(1) world(2) data data' run(3) assms(22)]
  have ticks: "next_activation locs (r_cron ?r) (CurrentOperationSchedule data)"
      "next_activation locs (r_cron ?r) (NextOperationSchedule data)"
    using secret_source.schedules [OF data] assms(8) by auto
  obtain sched' where parse: "ParseStandard (r_cron ?r) (NextOperationSchedule data') = Inr sched'"
    using secret_source.schedules [OF data'] assms(8) by auto
  have "delta_ok (r_SleepDelta ?r)" using assms(6,7) by (simp add: delta_ok_def)
  from requeue_due [OF this ticks assms(11,20,21) answer(1) parse assms(17-19)] obtain next' after' where
    due: "getNextSchedule (r_cron ?r) (r_SleepDelta ?r) data' (r_Now ?r w2') = Inr (True, next', after')" by blast
  obtain x' w'' where again: "Reconcile ?r (info_request C) w' = (x', w'')" by (metis surj_pair)
  note run' = run_on_time [OF assms(1) settled' assms(5,15) due assms(16) again]
  have "if IsSleepOperation data \<longleftrightarrow> executed then resting C V w'' else asleep C V w''"
    using run'(3) answer(2) by (auto split: if_splits)
  with run(1) run'(1) again show ?thesis by (auto simp: resting_def asleep_def operation_names)
qed

section \<open>An example\<close>

text \<open>A sleep at the first tick; the next run comes half a minute after the tick it asked for.\<close>

theorem requeue_answered_witness:
  "\<exists>w1 result w''. Reconcile example_reconciler example_request start_world =
      ((after_result (time_Sub (at_ns 3600000000000) (at_ns 0)), None), w1) \<and>
    Reconcile example_reconciler example_request (w1\<lparr>ew_now := at_ns 3630000000000\<rparr>) = ((result, None), w'') \<and>
    ew_objs w'' = [example_obj ''a'' ''3'']"
proof -
  let ?C = night_cluster
  have cron: "next_activation UNIV (r_cron (cl_rec ?C)) s \<and> (\<exists>sched. ParseStandard (r_cron (cl_rec ?C)) s = Inr sched)" for s
    using hourly_activation by (simp add: hourly_cron_def)
  have reads: "reads (cl_rec ?C) (info_request ?C) start_world example_sleepinfo None example_data start_world"
    using start_reads by (simp add: night_request)
  have due: "getNextSchedule (r_cron (cl_rec ?C)) (r_SleepDelta (cl_rec ?C)) example_data (r_Now (cl_rec ?C) start_world) =
      Inr (True, at_ns 3600000000000, time_Sub (at_ns 3600000000000) (at_ns 0))"
    using start_due by simp
  have status: "\<forall>st. fst (StatusUpdateSleepInfo (cl_api ?C) (si\<lparr>si_Status := st\<rparr>) w) = None" for si w
    by (simp add: world_client_def)
  obtain x w1 where eq: "Reconcile (cl_rec ?C) (info_request ?C) start_world = (x, w1)" by (metis surj_pair)
  note run = run_on_time [OF night_cluster_good start_settled [OF night_start] night_managed reads due status eq]
  let ?w' = "w1\<lparr>ew_now := at_ns 3630000000000\<rparr>"
  have ok: "cl_ok ?C w1" using run(2) by (simp add: settled_def)
  have "printable (\<lambda>t. 0) (at_ns 3630000000000)"
    by (simp add: printable_def Let_def zone_offset_def at_ns_def, code_simp)
  with ok have later: "same_contents ?C w1 ?w'"
    by (simp add: same_contents_def night_cluster_ok night_stored night_listed)
  obtain si where si: "ew_info ?w' = Some si" "same_info example_sleepinfo si" using ok by (auto simp: night_cluster_ok)
  have "printable (r_tz (cl_rec ?C)) (r_Now (cl_rec ?C) start_world)"
    using printable_start by (simp add: start_world_def)
  from written_read [OF _ this, of w1] run(3) example_schedules
  obtain d where "getSleepInfoData (\<lambda>t. 0) (ew_secret ?w') si = Inr d"
    by (auto simp: night_stored same_info_spec(4) [OF si(2)])
  from world_reads [OF si(1) this, of example_request]
  have reads': "reads (cl_rec ?C) (info_request ?C) ?w' si (ew_secret ?w') d ?w'" by (simp add: night_request)
  have late: "sint (time_Sub (at_ns 3600000000000) (at_ns 0)) = 3600000000000"
    by (simp add: sint_time_Sub min_duration_def max_duration_def at_ns_def)
  have now: "t_ns (r_Now (cl_rec ?C) start_world) = 0" "t_ns (r_Now (cl_rec ?C) ?w') = 3630000000000"
      "sint (r_SleepDelta (cl_rec ?C)) = 60"
    by (simp_all add: start_world_def at_ns_def)
  note answered = requeue_answered [OF night_cluster_good night_start night_managed _ _ cron cluster_run.start reads due status eq
      later reads' status, unfolded late now]
  have sleep: "IsSleepOperation example_data" by (simp add: IsSleepOperation_def first_run_data_def)
  from answered obtain result w'' where x: "x = (after_result (time_Sub (at_ns 3600000000000) (at_ns 0)), None)"
      and again: "Reconcile (cl_rec ?C) (info_request ?C) ?w' = ((result, None), w'')"
      and awake: "\<And>t. map (cl_content ?C) (listed ?C w'' t) = day_contents t"
    using sleep by (auto simp: max_duration_def)
  have "ew_objs w'' = [example_obj ''a'' ''3'']"
    using awake [of DeploymentTarget] by (auto simp: night_listed day_contents_def map_eq_Cons_conv)
  with eq x again show ?thesis by (simp add: night_request)
qed

end
