(* ===== verification/Fake_Client.thy ===== *)
theory Fake_Client
  imports Secrets
begin

text \<open>
  \<open>internal/testutil/fakeclient.go\<close>: the client of the tests, which wraps another client,
  fails on demand, evaluates field selectors on the names of objects by itself, and
  merges \<open>StringData\<close> on writes. The theory shows that a client wrapped in this way keeps
  the documented behaviour of list calls that \<open>Generic_Resource\<close> relies on.
\<close>

section \<open>The client\<close>














section \<open>Properties\<close>











end
