(* ===== verification/Startup.thy ===== *)
theory Startup
  imports Schedule
begin

text \<open>
  \<open>cmd/main.go\<close>: what the process configures and in which order, from the parsed flags
  to the start of the manager; with \<open>internal/controller/sleepinfo/metrics/metrics.go\<close>
  and the \<open>SetupWithManager\<close> of the two controllers and of the webhook. The calls into
  \<open>controller-runtime\<close> are the fields of \<open>runtime_lib\<close>: each may fail, and changes a
  world of type \<open>'w\<close>.
\<close>

section \<open>Flags\<close>

text \<open>The variables of \<open>main\<close> after \<open>flag.Parse\<close>.\<close>

record flags =
  webhookHost :: string
  webhookPort :: int
  metricsAddr :: string
  probeAddr :: string
  sleepDelta :: i64
  enableLeaderElection :: bool
  secureMetrics :: bool
  webhookCertPath :: string
  webhookCertName :: string
  webhookCertKey :: string
  metricsCertPath :: string
  metricsCertName :: string
  metricsCertKey :: string
  enableHTTP2 :: bool
  maxConcurrentReconciles :: int

text \<open>The values declared with the flags.\<close>

definition default_flags :: flags where
  "default_flags =
     \<lparr>webhookHost = [], webhookPort = 9443, metricsAddr = ''0'', probeAddr = '':8081'', sleepDelta = 60,
      enableLeaderElection = False, secureMetrics = True,
      webhookCertPath = [], webhookCertName = ''tls.crt'', webhookCertKey = ''tls.key'',
      metricsCertPath = [], metricsCertName = ''tls.crt'', metricsCertKey = ''tls.key'',
      enableHTTP2 = False, maxConcurrentReconciles = 20\<rparr>"

section \<open>Paths\<close>

text \<open>
  \<open>filepath.Clean\<close> and \<open>filepath.Join\<close> of the standard library, on Unix: empty and dot
  elements go, and a double dot removes the element before it.
\<close>

fun clean_elems :: "bool \<Rightarrow> string list \<Rightarrow> string list \<Rightarrow> string list" where
  "clean_elems rooted out [] = rev out"
| "clean_elems rooted out (e # es) =
     (if e = [] \<or> e = ''.'' then clean_elems rooted out es
      else if e = ''..'' then
        (case out of
           [] \<Rightarrow> clean_elems rooted (if rooted then [] else [e]) es
         | o1 # out' \<Rightarrow> (if o1 = ''..'' then clean_elems rooted (e # out) es else clean_elems rooted out' es))
      else clean_elems rooted (e # out) es)"

definition path_clean :: "string \<Rightarrow> string" where
  "path_clean p =
     (let rooted = (take 1 p = ''/'');
          s = (if rooted then ''/'' else []) @ join ''/'' (clean_elems rooted [] (split_on (CHR ''/'') p))
      in if s = [] then ''.'' else s)"

definition path_join :: "string \<Rightarrow> string \<Rightarrow> string" where
  "path_join a b =
     (let es = filter (\<lambda>e. e \<noteq> []) [a, b] in if es = [] then [] else path_clean (join ''/'' es))"

section \<open>Servers\<close>

text \<open>
  A function of type \<open>func(*tls.Config)\<close> is one of the two that \<open>main\<close> builds. A
  certificate watcher is known by the certificate and key files it watches.
\<close>

type_synonym cert_files = "string \<times> string"

datatype tls_opt = DisableHTTP2 | ServeCertificate cert_files

record tls_config =
  NextProtos :: "string list"
  GetCertificate :: "cert_files option"

fun apply_tls_opt :: "tls_opt \<Rightarrow> tls_config \<Rightarrow> tls_config" where
  "apply_tls_opt DisableHTTP2 c = c\<lparr>NextProtos := [''http/1.1'']\<rparr>"
| "apply_tls_opt (ServeCertificate files) c = c\<lparr>GetCertificate := Some files\<rparr>"

record webhook_options =
  wo_Host :: string
  wo_TLSOpts :: "tls_opt list"
  wo_Port :: int

record metrics_options =
  mo_BindAddress :: string
  mo_SecureServing :: bool
  mo_TLSOpts :: "tls_opt list"
  mo_WithAuthenticationAndAuthorization :: bool

record manager_options =
  op_Metrics :: metrics_options
  op_WebhookServer :: webhook_options
  op_HealthProbeBindAddress :: string
  op_LeaderElection :: bool
  op_LeaderElectionID :: string
  op_CacheDisabledFor :: "string list"

section \<open>Metrics and controllers\<close>

record gauge_vec =
  gv_Namespace :: string
  gv_Name :: string
  gv_Help :: string
  gv_Labels :: "string list"

definition SetupMetricsOrDie :: "string \<Rightarrow> gauge_vec" where
  "SetupMetricsOrDie prefix =
     \<lparr>gv_Namespace = prefix, gv_Name = ''current_sleepinfo'', gv_Help = ''Info about SleepInfo resource'',
      gv_Labels = [''name'', ''namespace'']\<rparr>"

text \<open>The clock of a reconciler; \<open>None\<close> is a nil \<open>Clock\<close>.\<close>

datatype clock = RealClock

record reconciler_fields =
  rf_SleepDelta :: i64
  rf_ManagerName :: string
  rf_MaxConcurrentReconciles :: int
  rf_Clock :: "clock option"

record controller_spec =
  cs_For :: string
  cs_Named :: string
  cs_MaxConcurrentReconciles :: int
  cs_GenerationChangedPredicate :: bool
  cs_Reconciler :: reconciler_fields

record 'w runtime_lib =
  rt_NewCertWatcher :: "cert_files \<Rightarrow> 'w \<Rightarrow> goerror option \<times> 'w"
  rt_GetConfig :: "'w \<Rightarrow> goerror option \<times> 'w"
  rt_NewManager :: "manager_options \<Rightarrow> 'w \<Rightarrow> goerror option \<times> 'w"
  rt_Register :: "gauge_vec \<Rightarrow> 'w \<Rightarrow> goerror option \<times> 'w"
  rt_NewController :: "controller_spec \<Rightarrow> 'w \<Rightarrow> goerror option \<times> 'w"
  rt_NewWebhook :: "string \<Rightarrow> 'w \<Rightarrow> goerror option \<times> 'w"
  rt_Add :: "cert_files \<Rightarrow> 'w \<Rightarrow> goerror option \<times> 'w"
  rt_AddHealthzCheck :: "string \<Rightarrow> 'w \<Rightarrow> goerror option \<times> 'w"
  rt_AddReadyzCheck :: "string \<Rightarrow> 'w \<Rightarrow> goerror option \<times> 'w"
  rt_Start :: "'w \<Rightarrow> goerror option \<times> 'w"

definition MustRegister :: "'w runtime_lib \<Rightarrow> gauge_vec \<Rightarrow> 'w \<Rightarrow> goerror option \<times> 'w" where
  "MustRegister R currentSleepInfo w = rt_Register R currentSleepInfo w"

definition with_clock :: "reconciler_fields \<Rightarrow> reconciler_fields" where
  "with_clock r = (if rf_Clock r = None then r\<lparr>rf_Clock := Some RealClock\<rparr> else r)"

text \<open>The reconciler is shared by pointer: the clock that is set stays set.\<close>

definition SleepInfo_SetupWithManager ::
    "'w runtime_lib \<Rightarrow> reconciler_fields \<Rightarrow> 'w \<Rightarrow> (goerror option \<times> reconciler_fields) \<times> 'w" where
  "SleepInfo_SetupWithManager R r w =
     (let r1 = with_clock r in
      case rt_NewController R
        \<lparr>cs_For = ''SleepInfo'', cs_Named = ''kubegreen-sleepinfo'',
         cs_MaxConcurrentReconciles = rf_MaxConcurrentReconciles r1,
         cs_GenerationChangedPredicate = True, cs_Reconciler = r1\<rparr> w of
        (err, w1) \<Rightarrow> ((err, r1), w1))"

text \<open>Without options the controller runtime runs one reconcile at a time.\<close>

definition SleepInfoExecution_SetupWithManager ::
    "'w runtime_lib \<Rightarrow> reconciler_fields \<Rightarrow> 'w \<Rightarrow> (goerror option \<times> reconciler_fields) \<times> 'w" where
  "SleepInfoExecution_SetupWithManager R r w =
     (let r1 = with_clock r in
      case rt_NewController R
        \<lparr>cs_For = ''SleepInfoExecution'', cs_Named = ''kubegreen-sleepinfoexecution'',
         cs_MaxConcurrentReconciles = 0, cs_GenerationChangedPredicate = True, cs_Reconciler = r1\<rparr> w of
        (err, w1) \<Rightarrow> ((err, r1), w1))"

definition SetupWebhookWithManager :: "'w runtime_lib \<Rightarrow> 'w \<Rightarrow> goerror option \<times> 'w" where
  "SetupWebhookWithManager R w = rt_NewWebhook R ''SleepInfo'' w"

section \<open>main\<close>

definition managerName :: string where
  "managerName = ''kube-green''"

text \<open>How the process ends: \<open>os.Exit\<close> with a status, a panic, or the return of \<open>main\<close>.\<close>

datatype ending = Exit int | Panic goerror | Return

text \<open>\<open>if err := call; err != nil { ...; os.Exit(1) }\<close>, then the rest.\<close>

definition or_exit :: "('w \<Rightarrow> goerror option \<times> 'w) \<Rightarrow> ('w \<Rightarrow> ending \<times> 'w) \<Rightarrow> 'w \<Rightarrow> ending \<times> 'w" where
  "or_exit call rest w = (case call w of (Some e, w1) \<Rightarrow> (Exit 1, w1) | (None, w1) \<Rightarrow> rest w1)"

text \<open>The part of \<open>main\<close> after the servers are configured.\<close>

definition start_manager ::
    "'w runtime_lib \<Rightarrow> flags \<Rightarrow> webhook_options \<Rightarrow> cert_files option \<Rightarrow> metrics_options \<Rightarrow> cert_files option \<Rightarrow>
     'w \<Rightarrow> ending \<times> 'w" where
  "start_manager R f webhookServer webhookCertWatcher metricsServerOptions metricsCertWatcher =
     or_exit (rt_GetConfig R)
    (or_exit (rt_NewManager R
       \<lparr>op_Metrics = metricsServerOptions, op_WebhookServer = webhookServer,
        op_HealthProbeBindAddress = probeAddr f, op_LeaderElection = enableLeaderElection f,
        op_LeaderElectionID = ''2bd226ed.kube-green.com'', op_CacheDisabledFor = [''Secret'']\<rparr>)
    (\<lambda>w1. case MustRegister R (SetupMetricsOrDie ''kube_green'') w1 of
        (Some e, w2) \<Rightarrow> (Panic e, w2)
      | (None, w2) \<Rightarrow>
    (let reconciler =
           \<lparr>rf_SleepDelta = sleepDelta f, rf_ManagerName = managerName,
            rf_MaxConcurrentReconciles = maxConcurrentReconciles f, rf_Clock = None\<rparr>
     in case SleepInfo_SetupWithManager R reconciler w2 of
        ((Some e, reconciler1), w3) \<Rightarrow> (Exit 1, w3)
      | ((None, reconciler1), w3) \<Rightarrow>
    (case SleepInfoExecution_SetupWithManager R reconciler1 w3 of
        ((Some e, reconciler2), w4) \<Rightarrow> (Exit 1, w4)
      | ((None, reconciler2), w4) \<Rightarrow>
     or_exit (SetupWebhookWithManager R)
    (or_exit (case metricsCertWatcher of None \<Rightarrow> Pair None | Some c \<Rightarrow> rt_Add R c)
    (or_exit (case webhookCertWatcher of None \<Rightarrow> Pair None | Some c \<Rightarrow> rt_Add R c)
    (or_exit (rt_AddHealthzCheck R ''health'')
    (or_exit (rt_AddReadyzCheck R ''check'')
    (or_exit (rt_Start R) (Pair Return)))))) w4))))"

definition main :: "'w runtime_lib \<Rightarrow> flags \<Rightarrow> 'w \<Rightarrow> ending \<times> 'w" where
  "main R f =
     (let tlsOpts = (if \<not> enableHTTP2 f then [] @ [DisableHTTP2] else []);
          webhookFiles = (path_join (webhookCertPath f) (webhookCertName f),
                          path_join (webhookCertPath f) (webhookCertKey f));
          metricsFiles = (path_join (metricsCertPath f) (metricsCertName f),
                          path_join (metricsCertPath f) (metricsCertKey f));
          metricsServerOptions =
            \<lparr>mo_BindAddress = metricsAddr f, mo_SecureServing = secureMetrics f, mo_TLSOpts = tlsOpts,
             mo_WithAuthenticationAndAuthorization = False\<rparr>;
          withMetrics = (\<lambda>webhookTLSOpts webhookCertWatcher.
            let webhookServer = \<lparr>wo_Host = webhookHost f, wo_TLSOpts = webhookTLSOpts, wo_Port = webhookPort f\<rparr>
            in if secureMetrics f then
                 (let secured = metricsServerOptions\<lparr>mo_WithAuthenticationAndAuthorization := True\<rparr> in
                  if 0 < length (metricsCertPath f) then
                    or_exit (rt_NewCertWatcher R metricsFiles)
                      (start_manager R f webhookServer webhookCertWatcher
                         (secured\<lparr>mo_TLSOpts := mo_TLSOpts secured @ [ServeCertificate metricsFiles]\<rparr>)
                         (Some metricsFiles))
                  else start_manager R f webhookServer webhookCertWatcher secured None)
               else start_manager R f webhookServer webhookCertWatcher metricsServerOptions None)
      in if 0 < length (webhookCertPath f) then
           or_exit (rt_NewCertWatcher R webhookFiles)
             (withMetrics (tlsOpts @ [ServeCertificate webhookFiles]) (Some webhookFiles))
         else withMetrics tlsOpts None)"

section \<open>The sequence of calls\<close>

text \<open>Reference description: the calls of a start, in order, as a function of the flags.\<close>

datatype call =
    NewWatcher cert_files
  | Config
  | NewManager manager_options
  | Register gauge_vec
  | NewController controller_spec
  | NewWebhook string
  | AddWatcher cert_files
  | Healthz string
  | Readyz string
  | Start

fun do_call :: "'w runtime_lib \<Rightarrow> call \<Rightarrow> 'w \<Rightarrow> goerror option \<times> 'w" where
  "do_call R (NewWatcher files) = rt_NewCertWatcher R files"
| "do_call R Config = rt_GetConfig R"
| "do_call R (NewManager opts) = rt_NewManager R opts"
| "do_call R (Register g) = rt_Register R g"
| "do_call R (NewController c) = rt_NewController R c"
| "do_call R (NewWebhook k) = rt_NewWebhook R k"
| "do_call R (AddWatcher files) = rt_Add R files"
| "do_call R (Healthz n) = rt_AddHealthzCheck R n"
| "do_call R (Readyz n) = rt_AddReadyzCheck R n"
| "do_call R Start = rt_Start R"

text \<open>A failing registration panics, every other failing call ends the process with status 1.\<close>

fun failing :: "call \<Rightarrow> goerror \<Rightarrow> ending" where
  "failing (Register g) e = Panic e"
| "failing _ e = Exit 1"

fun run_calls :: "'w runtime_lib \<Rightarrow> call list \<Rightarrow> 'w \<Rightarrow> ending \<times> 'w" where
  "run_calls R [] w = (Return, w)"
| "run_calls R (c # cs) w =
     (case do_call R c w of (Some e, w1) \<Rightarrow> (failing c e, w1) | (None, w1) \<Rightarrow> run_calls R cs w1)"

definition http_opts :: "flags \<Rightarrow> tls_opt list" where
  "http_opts f = (if enableHTTP2 f then [] else [DisableHTTP2])"

definition webhook_watcher :: "flags \<Rightarrow> cert_files list" where
  "webhook_watcher f =
     (if webhookCertPath f = [] then []
      else [(path_join (webhookCertPath f) (webhookCertName f), path_join (webhookCertPath f) (webhookCertKey f))])"

definition metrics_watcher :: "flags \<Rightarrow> cert_files list" where
  "metrics_watcher f =
     (if secureMetrics f \<and> metricsCertPath f \<noteq> []
      then [(path_join (metricsCertPath f) (metricsCertName f), path_join (metricsCertPath f) (metricsCertKey f))]
      else [])"

definition manager_opts :: "flags \<Rightarrow> manager_options" where
  "manager_opts f =
     \<lparr>op_Metrics =
        \<lparr>mo_BindAddress = metricsAddr f, mo_SecureServing = secureMetrics f,
         mo_TLSOpts = http_opts f @ map ServeCertificate (metrics_watcher f),
         mo_WithAuthenticationAndAuthorization = secureMetrics f\<rparr>,
      op_WebhookServer =
        \<lparr>wo_Host = webhookHost f, wo_TLSOpts = http_opts f @ map ServeCertificate (webhook_watcher f),
         wo_Port = webhookPort f\<rparr>,
      op_HealthProbeBindAddress = probeAddr f, op_LeaderElection = enableLeaderElection f,
      op_LeaderElectionID = ''2bd226ed.kube-green.com'', op_CacheDisabledFor = [''Secret'']\<rparr>"

definition reconciler_of :: "flags \<Rightarrow> reconciler_fields" where
  "reconciler_of f =
     \<lparr>rf_SleepDelta = sleepDelta f, rf_ManagerName = ''kube-green'',
      rf_MaxConcurrentReconciles = maxConcurrentReconciles f, rf_Clock = Some RealClock\<rparr>"

definition startup_calls :: "flags \<Rightarrow> call list" where
  "startup_calls f =
     map NewWatcher (webhook_watcher f) @ map NewWatcher (metrics_watcher f) @
     [Config, NewManager (manager_opts f), Register (SetupMetricsOrDie ''kube_green''),
      NewController
        \<lparr>cs_For = ''SleepInfo'', cs_Named = ''kubegreen-sleepinfo'',
         cs_MaxConcurrentReconciles = maxConcurrentReconciles f, cs_GenerationChangedPredicate = True,
         cs_Reconciler = reconciler_of f\<rparr>,
      NewController
        \<lparr>cs_For = ''SleepInfoExecution'', cs_Named = ''kubegreen-sleepinfoexecution'',
         cs_MaxConcurrentReconciles = 0, cs_GenerationChangedPredicate = True, cs_Reconciler = reconciler_of f\<rparr>,
      NewWebhook ''SleepInfo''] @
     map AddWatcher (metrics_watcher f) @ map AddWatcher (webhook_watcher f) @
     [Healthz ''health'', Readyz ''check'', Start]"

named_theorems call_simps

lemma or_exit_run [call_simps]:
  "or_exit (rt_NewCertWatcher R files) (run_calls R cs) = run_calls R (NewWatcher files # cs)"
  "or_exit (rt_GetConfig R) (run_calls R cs) = run_calls R (Config # cs)"
  "or_exit (rt_NewManager R opts) (run_calls R cs) = run_calls R (NewManager opts # cs)"
  "or_exit (rt_NewWebhook R k) (run_calls R cs) = run_calls R (NewWebhook k # cs)"
  "or_exit (rt_Add R files) (run_calls R cs) = run_calls R (AddWatcher files # cs)"
  "or_exit (Pair None) (run_calls R cs) = run_calls R cs"
  "or_exit (rt_AddHealthzCheck R n) (run_calls R cs) = run_calls R (Healthz n # cs)"
  "or_exit (rt_AddReadyzCheck R n) (run_calls R cs) = run_calls R (Readyz n # cs)"
  "or_exit (rt_Start R) (Pair Return) = run_calls R [Start]"
  by (simp_all add: or_exit_def fun_eq_iff split: prod.split option.split)

lemma setup_controllers:
  "(case SleepInfo_SetupWithManager R r w of
      ((Some e, r1), w1) \<Rightarrow> (Exit 1, w1) | ((None, r1), w1) \<Rightarrow> k r1 w1) =
   (case rt_NewController R
      \<lparr>cs_For = ''SleepInfo'', cs_Named = ''kubegreen-sleepinfo'',
       cs_MaxConcurrentReconciles = rf_MaxConcurrentReconciles (with_clock r),
       cs_GenerationChangedPredicate = True, cs_Reconciler = with_clock r\<rparr> w of
      (Some e, w1) \<Rightarrow> (Exit 1, w1) | (None, w1) \<Rightarrow> k (with_clock r) w1)"
  "(case SleepInfoExecution_SetupWithManager R r w of
      ((Some e, r1), w1) \<Rightarrow> (Exit 1, w1) | ((None, r1), w1) \<Rightarrow> k r1 w1) =
   (case rt_NewController R
      \<lparr>cs_For = ''SleepInfoExecution'', cs_Named = ''kubegreen-sleepinfoexecution'',
       cs_MaxConcurrentReconciles = 0, cs_GenerationChangedPredicate = True, cs_Reconciler = with_clock r\<rparr> w of
      (Some e, w1) \<Rightarrow> (Exit 1, w1) | (None, w1) \<Rightarrow> k (with_clock r) w1)"
  by (simp_all add: SleepInfo_SetupWithManager_def SleepInfoExecution_SetupWithManager_def
      split: prod.split option.split)

definition watcher_opt :: "cert_files list \<Rightarrow> cert_files option" where
  "watcher_opt ws = (case ws of [] \<Rightarrow> None | c # _ \<Rightarrow> Some c)"

lemma start_manager_run:
  assumes "length mw \<le> 1" and "length ww \<le> 1"
  shows "start_manager R f ws (watcher_opt ww) ms (watcher_opt mw) =
    run_calls R
      ([Config, NewManager
          \<lparr>op_Metrics = ms, op_WebhookServer = ws, op_HealthProbeBindAddress = probeAddr f,
           op_LeaderElection = enableLeaderElection f, op_LeaderElectionID = ''2bd226ed.kube-green.com'',
           op_CacheDisabledFor = [''Secret'']\<rparr>, Register (SetupMetricsOrDie ''kube_green''),
        NewController
          \<lparr>cs_For = ''SleepInfo'', cs_Named = ''kubegreen-sleepinfo'',
           cs_MaxConcurrentReconciles = maxConcurrentReconciles f, cs_GenerationChangedPredicate = True,
           cs_Reconciler = reconciler_of f\<rparr>,
        NewController
          \<lparr>cs_For = ''SleepInfoExecution'', cs_Named = ''kubegreen-sleepinfoexecution'',
           cs_MaxConcurrentReconciles = 0, cs_GenerationChangedPredicate = True, cs_Reconciler = reconciler_of f\<rparr>,
        NewWebhook ''SleepInfo''] @ map AddWatcher mw @ map AddWatcher ww @
       [Healthz ''health'', Readyz ''check'', Start])"
proof -
  have ww: "or_exit (case watcher_opt ws of None \<Rightarrow> Pair None | Some c \<Rightarrow> rt_Add R c) (run_calls R cs) =
      run_calls R (map AddWatcher ws @ cs)" if "length ws \<le> 1" for ws cs
    using that by (cases ws) (simp_all add: watcher_opt_def call_simps del: run_calls.simps)
  show ?thesis
    unfolding start_manager_def SetupWebhookWithManager_def MustRegister_def call_simps ww [OF assms(1)] ww [OF assms(2)]
    by (simp add: or_exit_def setup_controllers fun_eq_iff with_clock_def managerName_def reconciler_of_def
        cong: option.case_cong)
qed

lemma watchers_short: "length (webhook_watcher f) \<le> 1" "length (metrics_watcher f) \<le> 1"
  by (simp_all add: webhook_watcher_def metrics_watcher_def)

fun watching :: "'w runtime_lib \<Rightarrow> cert_files list \<Rightarrow> ('w \<Rightarrow> ending \<times> 'w) \<Rightarrow> 'w \<Rightarrow> ending \<times> 'w" where
  "watching R [] rest = rest"
| "watching R (c # cs) rest = or_exit (rt_NewCertWatcher R c) (watching R cs rest)"

lemma watching_run: "watching R ws (run_calls R cs) = run_calls R (map NewWatcher ws @ cs)"
  by (induction ws) (simp_all add: call_simps del: run_calls.simps)

lemma main_watching:
  "main R f =
   watching R (webhook_watcher f) (watching R (metrics_watcher f)
     (start_manager R f (op_WebhookServer (manager_opts f)) (watcher_opt (webhook_watcher f))
       (op_Metrics (manager_opts f)) (watcher_opt (metrics_watcher f))))"
  by (cases "enableHTTP2 f"; cases "secureMetrics f"; cases "metricsCertPath f"; cases "webhookCertPath f")
    (simp_all add: main_def Let_def webhook_watcher_def metrics_watcher_def watcher_opt_def manager_opts_def
      http_opts_def)

lemma main_is_run: "main R f = run_calls R (startup_calls f)"
  unfolding main_watching start_manager_run [OF watchers_short(2,1)] watching_run startup_calls_def
  by (simp add: manager_opts_def)

text \<open>
  C31: a start is the sequence of calls of the reference description, whatever the calls
  do: certificate watchers first and only for the certificates that are configured, then
  the manager, the metric, the two controllers, the webhook, the watchers, the checks and
  the manager's run; the first failing call ends the process, with status 1 or, for the
  metric, with a panic.
\<close>

theorem main_runs_calls: "main R f w = run_calls R (startup_calls f) w"
  by (simp add: main_is_run)

text \<open>A runtime that records the calls made to it, in order.\<close>

definition log_call :: "('w \<Rightarrow> goerror option \<times> 'w) \<Rightarrow> call \<Rightarrow> 'w \<times> call list \<Rightarrow> goerror option \<times> 'w \<times> call list" where
  "log_call run c = (\<lambda>(w, calls). case run w of (err, w1) \<Rightarrow> (err, w1, calls @ [c]))"

definition logged :: "'w runtime_lib \<Rightarrow> ('w \<times> call list) runtime_lib" where
  "logged R =
     \<lparr>rt_NewCertWatcher = (\<lambda>files. log_call (rt_NewCertWatcher R files) (NewWatcher files)),
      rt_GetConfig = log_call (rt_GetConfig R) Config,
      rt_NewManager = (\<lambda>opts. log_call (rt_NewManager R opts) (NewManager opts)),
      rt_Register = (\<lambda>g. log_call (rt_Register R g) (Register g)),
      rt_NewController = (\<lambda>c. log_call (rt_NewController R c) (NewController c)),
      rt_NewWebhook = (\<lambda>k. log_call (rt_NewWebhook R k) (NewWebhook k)),
      rt_Add = (\<lambda>files. log_call (rt_Add R files) (AddWatcher files)),
      rt_AddHealthzCheck = (\<lambda>n. log_call (rt_AddHealthzCheck R n) (Healthz n)),
      rt_AddReadyzCheck = (\<lambda>n. log_call (rt_AddReadyzCheck R n) (Readyz n)),
      rt_Start = log_call (rt_Start R) Start\<rparr>"

lemma do_call_logged: "do_call (logged R) c = log_call (do_call R c) c"
  by (cases c) (simp_all add: logged_def)

lemma run_calls_logged:
  "run_calls (logged R) cs (w, calls) = (Return, w', calls') \<Longrightarrow> calls' = calls @ cs"
proof (induction cs arbitrary: w calls)
  case (Cons d cs)
  have "failing d e \<noteq> Return" for e by (cases d) simp_all
  with Cons show ?case by (fastforce simp: do_call_logged log_call_def split: prod.splits option.splits)
qed simp

lemma fold_tls:
  "NextProtos (fold apply_tls_opt (map ServeCertificate ws) c) = NextProtos c"
  "GetCertificate (fold apply_tls_opt (map ServeCertificate ws) c) = (if ws = [] then GetCertificate c else Some (last ws))"
  by (induction ws arbitrary: c rule: rev_induct) simp_all

lemma fold_http:
  "NextProtos (fold apply_tls_opt (http_opts f) c) = (if enableHTTP2 f then NextProtos c else [''http/1.1''])"
  "GetCertificate (fold apply_tls_opt (http_opts f) c) = GetCertificate c"
  by (simp_all add: http_opts_def)

lemma manager_opts_simps:
  "mo_TLSOpts (op_Metrics (manager_opts f)) = http_opts f @ map ServeCertificate (metrics_watcher f)"
  "wo_TLSOpts (op_WebhookServer (manager_opts f)) = http_opts f @ map ServeCertificate (webhook_watcher f)"
  "mo_WithAuthenticationAndAuthorization (op_Metrics (manager_opts f)) = secureMetrics f"
  "op_CacheDisabledFor (manager_opts f) = [''Secret'']"
  by (simp_all add: manager_opts_def)

text \<open>
  C32: a process that has started has configured its servers as its flags ask. It made one
  manager, whose options are such that, whatever TLS configuration the servers start from:
  unless HTTP/2 is enabled, both speak HTTP/1.1 only; the webhook serves the certificate
  and the key of the flags when a path is given, and the metrics server serves its own when
  it is secure and a path is given; no other certificate is set. For each of the two a
  watcher was made and added to the manager. The metrics are protected exactly when they
  are secure, Secrets are not cached, and the controllers are the two of the program, with
  the delta of the flags and a clock.
\<close>

theorem main_serves:
  assumes "main (logged R) f (w, []) = (Return, w', calls)"
  shows "\<exists>opts. NewManager opts \<in> set calls \<and> (\<forall>opts'. NewManager opts' \<in> set calls \<longrightarrow> opts' = opts) \<and>
    (\<forall>c. NextProtos (fold apply_tls_opt (wo_TLSOpts (op_WebhookServer opts)) c) =
           (if enableHTTP2 f then NextProtos c else [''http/1.1'']) \<and>
         NextProtos (fold apply_tls_opt (mo_TLSOpts (op_Metrics opts)) c) =
           (if enableHTTP2 f then NextProtos c else [''http/1.1'']) \<and>
         GetCertificate (fold apply_tls_opt (wo_TLSOpts (op_WebhookServer opts)) c) =
           (if webhookCertPath f = '''' then GetCertificate c
            else Some (path_join (webhookCertPath f) (webhookCertName f),
                       path_join (webhookCertPath f) (webhookCertKey f))) \<and>
         GetCertificate (fold apply_tls_opt (mo_TLSOpts (op_Metrics opts)) c) =
           (if secureMetrics f \<and> metricsCertPath f \<noteq> ''''
            then Some (path_join (metricsCertPath f) (metricsCertName f),
                       path_join (metricsCertPath f) (metricsCertKey f))
            else GetCertificate c)) \<and>
    {files. NewWatcher files \<in> set calls \<and> AddWatcher files \<in> set calls} =
      (if webhookCertPath f = '''' then {}
       else {(path_join (webhookCertPath f) (webhookCertName f), path_join (webhookCertPath f) (webhookCertKey f))}) \<union>
      (if secureMetrics f \<and> metricsCertPath f \<noteq> ''''
       then {(path_join (metricsCertPath f) (metricsCertName f), path_join (metricsCertPath f) (metricsCertKey f))}
       else {}) \<and>
    mo_WithAuthenticationAndAuthorization (op_Metrics opts) = secureMetrics f \<and>
    op_CacheDisabledFor opts = [''Secret''] \<and>
    cs_For ` {spec. NewController spec \<in> set calls} = {''SleepInfo'', ''SleepInfoExecution''} \<and>
    (\<forall>spec. NewController spec \<in> set calls \<longrightarrow>
       rf_SleepDelta (cs_Reconciler spec) = sleepDelta f \<and> rf_Clock (cs_Reconciler spec) \<noteq> None)"
proof -
  have calls: "calls = startup_calls f"
    using run_calls_logged [OF assms [unfolded main_is_run]] by simp
  have managers: "NewManager opts \<in> set calls \<longleftrightarrow> opts = manager_opts f" for opts
    by (auto simp: calls startup_calls_def)
  have watchers: "{files. NewWatcher files \<in> set calls \<and> AddWatcher files \<in> set calls} =
      set (webhook_watcher f) \<union> set (metrics_watcher f)"
    by (auto simp: calls startup_calls_def)
  have controllers: "{spec. NewController spec \<in> set calls} =
      {\<lparr>cs_For = ''SleepInfo'', cs_Named = ''kubegreen-sleepinfo'',
         cs_MaxConcurrentReconciles = maxConcurrentReconciles f, cs_GenerationChangedPredicate = True,
         cs_Reconciler = reconciler_of f\<rparr>,
       \<lparr>cs_For = ''SleepInfoExecution'', cs_Named = ''kubegreen-sleepinfoexecution'',
         cs_MaxConcurrentReconciles = 0, cs_GenerationChangedPredicate = True, cs_Reconciler = reconciler_of f\<rparr>}"
    by (auto simp: calls startup_calls_def)
  have kinds: "cs_For ` {spec. NewController spec \<in> set calls} = {''SleepInfo'', ''SleepInfoExecution''}"
    unfolding controllers by simp
  have fields: "rf_SleepDelta (cs_Reconciler spec) = sleepDelta f" "rf_Clock (cs_Reconciler spec) \<noteq> None"
    if "NewController spec \<in> set calls" for spec
  proof -
    have "spec \<in> {spec. NewController spec \<in> set calls}" using that by simp
    then have "cs_Reconciler spec = reconciler_of f" unfolding controllers by auto
    then show "rf_SleepDelta (cs_Reconciler spec) = sleepDelta f" "rf_Clock (cs_Reconciler spec) \<noteq> None"
      by (simp_all add: reconciler_of_def)
  qed
  have certs: "set (webhook_watcher f) = (if webhookCertPath f = '''' then {}
       else {(path_join (webhookCertPath f) (webhookCertName f), path_join (webhookCertPath f) (webhookCertKey f))})"
      "set (metrics_watcher f) = (if secureMetrics f \<and> metricsCertPath f \<noteq> ''''
       then {(path_join (metricsCertPath f) (metricsCertName f), path_join (metricsCertPath f) (metricsCertKey f))}
       else {})"
    by (simp_all add: webhook_watcher_def metrics_watcher_def)
  show ?thesis
    by (rule exI [of _ "manager_opts f"], unfold manager_opts_simps managers watchers certs kinds,
        intro conjI allI impI refl fields, assumption+)
      (simp_all add: fold_tls fold_http webhook_watcher_def metrics_watcher_def)
qed

text \<open>A runtime in which every call succeeds.\<close>

definition calm_runtime :: "unit runtime_lib" where
  "calm_runtime =
     \<lparr>rt_NewCertWatcher = (\<lambda>_. Pair None), rt_GetConfig = Pair None, rt_NewManager = (\<lambda>_. Pair None),
      rt_Register = (\<lambda>_. Pair None), rt_NewController = (\<lambda>_. Pair None), rt_NewWebhook = (\<lambda>_. Pair None),
      rt_Add = (\<lambda>_. Pair None), rt_AddHealthzCheck = (\<lambda>_. Pair None), rt_AddReadyzCheck = (\<lambda>_. Pair None),
      rt_Start = Pair None\<rparr>"

definition served_flags :: flags where
  "served_flags = default_flags\<lparr>webhookCertPath := ''/certs/webhook'', metricsCertPath := ''/certs/metrics/''\<rparr>"

lemma calm_logged: "\<exists>calls. main (logged calm_runtime) f ((), []) = (Return, (), calls)"
proof -
  have "do_call (logged calm_runtime) c (w, calls) = (None, w, calls @ [c])" for c w calls
    by (cases c) (simp_all add: logged_def log_call_def calm_runtime_def)
  then have "\<exists>calls'. run_calls (logged calm_runtime) cs ((), calls) = (Return, (), calls')" for cs calls
    by (induction cs arbitrary: calls) simp_all
  then show ?thesis by (simp add: main_is_run)
qed

theorem main_serves_witness:
  "\<exists>calls opts. main (logged calm_runtime) served_flags ((), []) = (Return, (), calls) \<and> NewManager opts \<in> set calls \<and>
     fold apply_tls_opt (wo_TLSOpts (op_WebhookServer opts)) \<lparr>NextProtos = [], GetCertificate = None\<rparr> =
       \<lparr>NextProtos = [''http/1.1''], GetCertificate = Some (''/certs/webhook/tls.crt'', ''/certs/webhook/tls.key'')\<rparr> \<and>
     fold apply_tls_opt (mo_TLSOpts (op_Metrics opts)) \<lparr>NextProtos = [], GetCertificate = None\<rparr> =
       \<lparr>NextProtos = [''http/1.1''], GetCertificate = Some (''/certs/metrics/tls.crt'', ''/certs/metrics/tls.key'')\<rparr> \<and>
     {files. NewWatcher files \<in> set calls \<and> AddWatcher files \<in> set calls} =
       {(''/certs/webhook/tls.crt'', ''/certs/webhook/tls.key''), (''/certs/metrics/tls.crt'', ''/certs/metrics/tls.key'')} \<and>
     mo_WithAuthenticationAndAuthorization (op_Metrics opts) \<and> op_CacheDisabledFor opts = [''Secret'']"
proof -
  obtain calls where run: "main (logged calm_runtime) served_flags ((), []) = (Return, (), calls)"
    using calm_logged by blast
  have paths: "path_join ''/certs/webhook'' ''tls.crt'' = ''/certs/webhook/tls.crt''"
      "path_join ''/certs/webhook'' ''tls.key'' = ''/certs/webhook/tls.key''"
      "path_join ''/certs/metrics/'' ''tls.crt'' = ''/certs/metrics/tls.crt''"
      "path_join ''/certs/metrics/'' ''tls.key'' = ''/certs/metrics/tls.key''"
    by (simp_all add: path_join_def path_clean_def)
  have flags: "\<not> enableHTTP2 served_flags" "secureMetrics served_flags"
      "webhookCertPath served_flags = ''/certs/webhook''" "webhookCertName served_flags = ''tls.crt''"
      "webhookCertKey served_flags = ''tls.key''" "metricsCertPath served_flags = ''/certs/metrics/''"
      "metricsCertName served_flags = ''tls.crt''" "metricsCertKey served_flags = ''tls.key''"
    by (simp_all add: served_flags_def default_flags_def)
  obtain opts where opts: "NewManager opts \<in> set calls"
      "\<And>c. NextProtos (fold apply_tls_opt (wo_TLSOpts (op_WebhookServer opts)) c) = [''http/1.1'']"
      "\<And>c. NextProtos (fold apply_tls_opt (mo_TLSOpts (op_Metrics opts)) c) = [''http/1.1'']"
      "\<And>c. GetCertificate (fold apply_tls_opt (wo_TLSOpts (op_WebhookServer opts)) c) =
         Some (''/certs/webhook/tls.crt'', ''/certs/webhook/tls.key'')"
      "\<And>c. GetCertificate (fold apply_tls_opt (mo_TLSOpts (op_Metrics opts)) c) =
         Some (''/certs/metrics/tls.crt'', ''/certs/metrics/tls.key'')"
      "{files. NewWatcher files \<in> set calls \<and> AddWatcher files \<in> set calls} =
         {(''/certs/webhook/tls.crt'', ''/certs/webhook/tls.key''), (''/certs/metrics/tls.crt'', ''/certs/metrics/tls.key'')}"
      "mo_WithAuthenticationAndAuthorization (op_Metrics opts)" "op_CacheDisabledFor opts = [''Secret'']"
    using main_serves [OF run] by (auto simp: flags paths)
  have eq: "c = \<lparr>NextProtos = NextProtos c, GetCertificate = GetCertificate c\<rparr>" for c :: tls_config by simp
  show ?thesis
    by (intro exI [of _ calls] exI [of _ opts] conjI run opts(1,6-8))
      (subst eq, simp only: opts(2-5))+
qed

end
