(* ===== verification/Test_Support.thy ===== *)
theory Test_Support
  imports Startup
begin

text \<open>
  \<open>internal/testutil\<close>: \<open>testenv.go\<close>, \<open>realk8s.go\<close> and \<open>random.go\<close>, which start an API server
  for the tests, give each test a namespace of its own and make random names. The test
  framework, the processes that are run and the operating system are the fields of
  \<open>test_lib\<close>; test logs are left out.
\<close>

section \<open>The surroundings\<close>

text \<open>
  \<open>'rest\<close> is a client configuration, \<open>'k\<close> a client of the end-to-end framework, \<open>'conf\<close> its
  \<open>envconf.Config\<close>, \<open>'d\<close> a discovery client. A process has an error and a result.
\<close>

record proc =
  p_Err :: "goerror option"
  p_Result :: string

text \<open>The name and the labels of a \<open>v1.Namespace\<close>.\<close>

record Namespace =
  ns_Name :: string
  ns_Labels :: "(string, string) gomap"

record ('w, 'rest, 'k, 'conf, 'd) test_lib =
  LookupEnv :: "string \<Rightarrow> 'w \<Rightarrow> string option"
  Setenv :: "string \<Rightarrow> string \<Rightarrow> 'w \<Rightarrow> goerror option \<times> 'w"
  Unsetenv :: "string \<Rightarrow> 'w \<Rightarrow> goerror option \<times> 'w"
  Stat :: "string \<Rightarrow> 'w \<Rightarrow> goerror option"
  SetProcEnv :: "string \<Rightarrow> string \<Rightarrow> 'w \<Rightarrow> 'w"
  RunProc :: "string \<Rightarrow> 'w \<Rightarrow> proc \<times> 'w"
  EnvStart :: "string list \<Rightarrow> 'w \<Rightarrow> 'rest res \<times> 'w"
  EnvStop :: "string list \<Rightarrow> 'w \<Rightarrow> goerror option \<times> 'w"
  KlientNew :: "'rest \<Rightarrow> 'w \<Rightarrow> 'k res \<times> 'w"
  WithClient :: "'k \<Rightarrow> 'conf \<Rightarrow> 'conf"
  WithNamespace :: "string \<Rightarrow> 'conf \<Rightarrow> 'conf"
  ConfClient :: "'conf \<Rightarrow> 'k"
  RESTConfig :: "'k \<Rightarrow> 'rest"
  NewDiscoveryClientForConfig :: "'rest \<Rightarrow> 'd res"
  ServerVersion :: "'d \<Rightarrow> 'w \<Rightarrow> string res \<times> 'w"
  Printf :: "string \<Rightarrow> 'w \<Rightarrow> 'w"
  RandomName :: "string \<Rightarrow> nat \<Rightarrow> 'w \<Rightarrow> string \<times> 'w"
  CreateNamespaceObject :: "'k \<Rightarrow> Namespace \<Rightarrow> 'w \<Rightarrow> goerror option \<times> 'w"
  DeleteNamespaceObject :: "'k \<Rightarrow> Namespace \<Rightarrow> 'w \<Rightarrow> goerror option \<times> 'w"
  ResourcesNew :: "'rest \<Rightarrow> goerror option"
  CreateEachFile :: "'rest \<Rightarrow> string \<Rightarrow> string \<Rightarrow> 'w \<Rightarrow> goerror option \<times> 'w"
  GetObject :: "string \<Rightarrow> string \<Rightarrow> 'w \<Rightarrow> unstructured res \<times> 'w"
  RandInt :: "int \<Rightarrow> 'w \<Rightarrow> int res \<times> 'w"

text \<open>A \<open>context.Context\<close>: the values put into it, the latest first. Keys are compared with their types.\<close>

datatype ctx_key = NsKey | OtherKey string

datatype ctx_value = StringValue string | OtherValue

type_synonym go_context = "(ctx_key \<times> ctx_value) list"

definition WithValue :: "go_context \<Rightarrow> ctx_key \<Rightarrow> ctx_value \<Rightarrow> go_context" where
  "WithValue ctx k v = (k, v) # ctx"

section \<open>Random names\<close>

definition letterBytes :: string where
  "letterBytes = ''abcdefghijklmnopqrstuvwxyz''"

text \<open>The loop fills the remaining bytes; a failing source and an index out of range panic.\<close>

fun rand_letters :: "('w, 'rest, 'k, 'conf, 'd) test_lib \<Rightarrow> nat \<Rightarrow> 'w \<Rightarrow> string res \<times> 'w" where
  "rand_letters T 0 w = (Inr [], w)"
| "rand_letters T (Suc n) w =
     (case RandInt T (int (length letterBytes)) w of
        (Inl e, w1) \<Rightarrow> (Inl (PanicErr (''random error: '' @ error_text e)), w1)
      | (Inr random, w1) \<Rightarrow>
          (if random < 0 \<or> int (length letterBytes) \<le> random then (Inl (PanicErr ''index out of range''), w1)
           else case rand_letters T n w1 of
             (Inl e, w2) \<Rightarrow> (Inl e, w2)
           | (Inr b, w2) \<Rightarrow> (Inr (letterBytes ! nat random # b), w2)))"

definition RandString :: "('w, 'rest, 'k, 'conf, 'd) test_lib \<Rightarrow> int \<Rightarrow> 'w \<Rightarrow> string res \<times> 'w" where
  "RandString T n w =
     (if n < 0 then (Inl (PanicErr ''makeslice: len out of range''), w) else rand_letters T (nat n) w)"

section \<open>Namespaces of tests\<close>

definition GetResource ::
    "('w, 'rest, 'k, 'conf, 'd) test_lib \<Rightarrow> string \<Rightarrow> string \<Rightarrow> 'w \<Rightarrow> unstructured res \<times> 'w" where
  "GetResource T name namespace w = GetObject T name namespace w"

definition CreateNamespace ::
    "('w, 'rest, 'k, 'conf, 'd) test_lib \<Rightarrow> go_context \<Rightarrow> 'conf \<Rightarrow> string \<Rightarrow> 'w \<Rightarrow>
     (go_context \<times> goerror option) \<times> 'conf \<times> 'w" where
  "CreateNamespace T ctx cfg runID w =
     (case RandomName T runID 32 w of
        (ns, w1) \<Rightarrow>
          (let ctx1 = WithValue ctx NsKey (StringValue ns);
               cfg1 = WithNamespace T ns cfg;
               nsObj = \<lparr>ns_Name = ns, ns_Labels = [(''app.kubernetes.io/managed-by'', ''kube-green-test'')]\<rparr>
           in case CreateNamespaceObject T (ConfClient T cfg1) nsObj w1 of
                (err, w2) \<Rightarrow> ((ctx1, err), cfg1, w2)))"

definition DeleteNamespace ::
    "('w, 'rest, 'k, 'conf, 'd) test_lib \<Rightarrow> go_context \<Rightarrow> 'conf \<Rightarrow> 'w \<Rightarrow> (go_context \<times> goerror option) \<times> 'w" where
  "DeleteNamespace T ctx cfg w =
     (case map_of ctx NsKey of
        Some (StringValue ns) \<Rightarrow>
          (let nsObj = \<lparr>ns_Name = ns, ns_Labels = []\<rparr>
           in case DeleteNamespaceObject T (ConfClient T cfg) nsObj w of (err, w1) \<Rightarrow> ((ctx, err), w1))
      | _ \<Rightarrow> ((ctx, Some (Err ''namespace not in context'')), w))"

definition GetClusterVersion ::
    "('w, 'rest, 'k, 'conf, 'd) test_lib \<Rightarrow> 'conf \<Rightarrow> 'w \<Rightarrow> goerror option \<times> 'w" where
  "GetClusterVersion T c w =
     (case NewDiscoveryClientForConfig T (RESTConfig T (ConfClient T c)) of
        Inl e \<Rightarrow> (Some e, w)
      | Inr discoveryClient \<Rightarrow>
          (case ServerVersion T discoveryClient w of
             (Inl e, w1) \<Rightarrow> (Some e, w1)
           | (Inr info, w1) \<Rightarrow> (None, Printf T (''cluster version: '' @ info @ [CHR 0x0A]) w1)))"

definition SetupCRDs ::
    "('w, 'rest, 'k, 'conf, 'd) test_lib \<Rightarrow> string \<Rightarrow> string \<Rightarrow> 'conf \<Rightarrow> 'w \<Rightarrow> goerror option \<times> 'w" where
  "SetupCRDs T crdPath pattern c w =
     (let cfg = RESTConfig T (ConfClient T c) in
      case ResourcesNew T cfg of
        Some e \<Rightarrow> (Some e, w)
      | None \<Rightarrow> CreateEachFile T cfg crdPath pattern w)"

section \<open>The test API server\<close>

definition getLocalBin :: "string \<Rightarrow> string" where
  "getLocalBin basepath = path_join basepath ''../../bin''"

definition getSetupEnvPath :: "('w, 'rest, 'k, 'conf, 'd) test_lib \<Rightarrow> string \<Rightarrow> 'w \<Rightarrow> string" where
  "getSetupEnvPath T basepath w =
     (let envtestBinPath = path_join (getLocalBin basepath) ''setup-envtest''
      in if Stat T envtestBinPath w = None then envtestBinPath else [])"

definition getK8sVersionForEnvtest :: "('w, 'rest, 'k, 'conf, 'd) test_lib \<Rightarrow> 'w \<Rightarrow> string" where
  "getK8sVersionForEnvtest T w =
     (let version = (case LookupEnv T ''KIND_K8S_VERSION'' w of None \<Rightarrow> [] | Some v \<Rightarrow> v);
          splitVersion = split_on (CHR ''.'') (dropWhile (\<lambda>c. c = CHR ''v'') version)
      in if length splitVersion < 3 then version else splitVersion ! 0 @ ''.'' @ splitVersion ! 1)"

definition installTestEnv :: "('w, 'rest, 'k, 'conf, 'd) test_lib \<Rightarrow> string \<Rightarrow> 'w \<Rightarrow> string res \<times> 'w" where
  "installTestEnv T basepath w =
     (case RunProc T ''go install sigs.k8s.io/controller-runtime/tools/setup-envtest@latest''
             (SetProcEnv T ''GOBIN'' (getLocalBin basepath) w) of
        (p, w1) \<Rightarrow>
          (case p_Err p of
             Some e \<Rightarrow> (Inl (Err (''failed to install setup-envtest: '' @ error_text e)), w1)
           | None \<Rightarrow>
               (let setupEnvPath = getSetupEnvPath T basepath w1
                in if setupEnvPath \<noteq> [] then (Inr setupEnvPath, w1)
                   else (Inl (Err ''setup-envtest not available even after installation''), w1))))"

definition use_command :: "string \<Rightarrow> string \<Rightarrow> string \<Rightarrow> string" where
  "use_command setupEnvCommand basepath k8sVersion =
     setupEnvCommand @ '' use -p path --bin-dir '' @ getLocalBin basepath @ '' '' @ k8sVersion"

definition findOrInstallTestEnv ::
    "('w, 'rest, 'k, 'conf, 'd) test_lib \<Rightarrow> string \<Rightarrow> string \<Rightarrow> 'w \<Rightarrow> string res \<times> 'w" where
  "findOrInstallTestEnv T basepath k8sVersion w =
     (case (if getSetupEnvPath T basepath w = [] then installTestEnv T basepath w
            else (Inr (getSetupEnvPath T basepath w), w)) of
        (Inl e, w1) \<Rightarrow> (Inl e, w1)
      | (Inr setupEnvCommand, w1) \<Rightarrow>
          (let cmd = use_command setupEnvCommand basepath k8sVersion in
           case RunProc T cmd w1 of
             (p, w2) \<Rightarrow>
               (case p_Err p of
                  Some e \<Rightarrow> (Inl (Err (''failed to use envtest at version '' @ k8sVersion @ '': '' @ error_text e @
                              ''. Command: '' @ cmd)), w2)
                | None \<Rightarrow> (Inr (p_Result p), w2))))"

text \<open>An \<open>envtest.Environment\<close> is known by the directories of its CRDs; a nil pointer is \<open>None\<close>.\<close>

definition StartEnvTest ::
    "('w, 'rest, 'k, 'conf, 'd) test_lib \<Rightarrow> string \<Rightarrow> 'conf \<Rightarrow> string list \<Rightarrow> 'w \<Rightarrow>
     (string list option \<times> goerror option) \<times> 'conf \<times> 'w" where
  "StartEnvTest T basepath config crdDirPaths w =
     (let testEnv = crdDirPaths; version = getK8sVersionForEnvtest T w in
      case findOrInstallTestEnv T basepath version w of
        (Inl e, w1) \<Rightarrow> ((Some testEnv, Some e), config, w1)
      | (Inr assetsPath, w1) \<Rightarrow>
     (case Setenv T ''KUBEBUILDER_ASSETS'' assetsPath w1 of
        (Some e, w2) \<Rightarrow> ((Some testEnv, Some e), config, w2)
      | (None, w2) \<Rightarrow>
     (case EnvStart T testEnv w2 of
        (Inl e, w3) \<Rightarrow> ((Some testEnv, Some e), config, w3)
      | (Inr cfg, w3) \<Rightarrow>
     (case KlientNew T cfg w3 of
        (Inl e, w4) \<Rightarrow> ((Some testEnv, Some e), config, w4)
      | (Inr client, w4) \<Rightarrow>
     (let config1 = WithClient T client config in
      case GetClusterVersion T config1 w4 of
        (Some e, w5) \<Rightarrow> ((None, Some e), config1, w5)
      | (None, w5) \<Rightarrow> ((Some testEnv, None), config1, w5))))))"

definition StopEnvTest ::
    "('w, 'rest, 'k, 'conf, 'd) test_lib \<Rightarrow> string list \<Rightarrow> 'w \<Rightarrow> goerror option \<times> 'w" where
  "StopEnvTest T testEnv w =
     (case Unsetenv T ''KUBEBUILDER_ASSETS'' w of
        (Some e, w1) \<Rightarrow> (Some e, w1)
      | (None, w1) \<Rightarrow> EnvStop T testEnv w1)"

section \<open>Properties\<close>

text \<open>
  C40: a test deletes the namespace it was given. The name that is drawn is the one that is
  created and made the namespace of the configuration; whatever other values a test adds
  to its context, in any number and whatever it does to its configuration, deleting at the
  end asks for that namespace; and a context that never went through the creation gives an
  error and deletes nothing.
\<close>

theorem test_namespace_round_trip:
  assumes "CreateNamespace T ctx cfg runID w = ((ctx1, err), cfg1, w1)" and "NsKey \<notin> fst ` set extra"
  shows "\<exists>ns w0. RandomName T runID 32 w = (ns, w0) \<and> cfg1 = WithNamespace T ns cfg \<and>
    CreateNamespaceObject T (ConfClient T cfg1)
      \<lparr>ns_Name = ns, ns_Labels = [(''app.kubernetes.io/managed-by'', ''kube-green-test'')]\<rparr> w0 = (err, w1) \<and>
    (\<forall>cfg2 w2. DeleteNamespace T (extra @ ctx1) cfg2 w2 =
       (case DeleteNamespaceObject T (ConfClient T cfg2) \<lparr>ns_Name = ns, ns_Labels = []\<rparr> w2 of
          (e, w3) \<Rightarrow> ((extra @ ctx1, e), w3))) \<and>
    (\<forall>cfg2 w2. DeleteNamespace T extra cfg2 w2 = ((extra, Some (Err ''namespace not in context'')), w2))"
proof -
  obtain ns w0 where ns: "RandomName T runID 32 w = (ns, w0)" by (metis surj_pair)
  have none: "map_of extra NsKey = None" using assms(2) by (simp add: map_of_eq_None_iff)
  have ctx1: "ctx1 = (NsKey, StringValue ns) # ctx" and "cfg1 = WithNamespace T ns cfg"
    using assms(1) ns by (auto simp: CreateNamespace_def WithValue_def Let_def split: prod.splits)
  moreover have "map_of (extra @ ctx1) NsKey = Some (StringValue ns)" by (simp add: ctx1 map_add_def none)
  ultimately show ?thesis
    using assms(1) ns none by (auto simp: CreateNamespace_def DeleteNamespace_def Let_def split: prod.splits)
qed

text \<open>
  How a test API server comes up. Without an error the server runs with the given
  CRDs, its assets are those that \<open>setup-envtest\<close> reported for the wanted version, and the
  configuration has a client of it; a nil environment is returned in exactly one case: the
  server has been started and a client made, but its version cannot be read.
\<close>

lemma StartEnvTest_outcome:
  assumes "StartEnvTest T basepath config dirs w = ((env, err), config', w')"
  shows "(env = None \<or> err = None \<longrightarrow>
      (\<exists>command path w0 w1 w2 cfg w3 client w4.
         RunProc T (use_command command basepath (getK8sVersionForEnvtest T w)) w0 = (\<lparr>p_Err = None, p_Result = path\<rparr>, w1) \<and>
         Setenv T ''KUBEBUILDER_ASSETS'' path w1 = (None, w2) \<and> EnvStart T dirs w2 = (Inr cfg, w3) \<and>
         KlientNew T cfg w3 = (Inr client, w4) \<and> config' = WithClient T client config \<and>
         GetClusterVersion T config' w4 = (err, w'))) \<and>
    (env = None \<longrightarrow> err \<noteq> None) \<and> (env \<noteq> None \<longrightarrow> env = Some dirs) \<and> (err \<noteq> None \<and> env \<noteq> None \<longrightarrow> config' = config)"
proof -
  let ?v = "getK8sVersionForEnvtest T w"
  obtain found w1 where found: "findOrInstallTestEnv T basepath ?v w = (found, w1)" by (metis surj_pair)
  have path: "\<exists>command w0. RunProc T (use_command command basepath ?v) w0 = (\<lparr>p_Err = None, p_Result = path\<rparr>, w1)"
    if inr: "found = Inr path" for path
  proof -
    obtain command w0 p where "RunProc T (use_command command basepath ?v) w0 = (p, w1)" "p_Err p = None" "p_Result p = path"
      using found inr
      by (auto simp: findOrInstallTestEnv_def Let_def split: sum.splits prod.splits option.splits if_splits)
    then show ?thesis by (metis (full_types) old.unit.exhaust proc.surjective)
  qed
  show ?thesis
  proof (cases "env = None \<or> err = None")
    case True
    then obtain p w2 cfg w3 client w4 where "found = Inr p" "Setenv T ''KUBEBUILDER_ASSETS'' p w1 = (None, w2)"
        "EnvStart T dirs w2 = (Inr cfg, w3)" "KlientNew T cfg w3 = (Inr client, w4)" "config' = WithClient T client config"
        "GetClusterVersion T config' w4 = (err, w')" "env = None \<longrightarrow> err \<noteq> None" "env \<noteq> None \<longrightarrow> env = Some dirs"
      using assms found by (auto simp: StartEnvTest_def Let_def split: sum.splits prod.splits option.splits)
    with True path [of p] show ?thesis by blast
  next
    case False
    then show ?thesis using assms by (auto simp: StartEnvTest_def Let_def split: sum.splits prod.splits option.splits)
  qed
qed

text \<open>The version without its patch level; a version with fewer parts is passed on as it is.\<close>

lemma version_without_patch:
  assumes "LookupEnv T ''KIND_K8S_VERSION'' w = Some (''v'' @ major @ ''.'' @ minor @ ''.'' @ patch)"
    and "CHR ''.'' \<notin> set major" and "CHR ''.'' \<notin> set minor" and "major \<noteq> []" and "hd major \<noteq> CHR ''v''"
  shows "getK8sVersionForEnvtest T w = major @ ''.'' @ minor"
proof -
  have "dropWhile (\<lambda>c. c = CHR ''v'') (''v'' @ major @ ''.'' @ minor @ ''.'' @ patch) = major @ ''.'' @ minor @ ''.'' @ patch"
    using assms(4,5) by (cases major) simp_all
  moreover have "split_on (CHR ''.'') (major @ ''.'' @ minor @ ''.'' @ patch) = major # minor # split_on (CHR ''.'') patch"
    using assms(2,3) by (simp add: split_on_append)
  moreover have "0 < length (split_on (CHR ''.'') patch)" by simp
  ultimately show ?thesis using assms(1) by (simp add: getK8sVersionForEnvtest_def Let_def)
qed

text \<open>With a source that keeps to its range, a random string has the wanted length and only letters.\<close>

lemma rand_letters_ok:
  assumes "\<And>w. \<exists>i w'. RandInt T 26 w = (Inr i, w') \<and> 0 \<le> i \<and> i < 26"
  shows "\<exists>s w'. rand_letters T n w = (Inr s, w') \<and> length s = n \<and> set s \<subseteq> set letterBytes"
proof (induction n arbitrary: w)
  case (Suc n)
  obtain i w1 where i: "RandInt T 26 w = (Inr i, w1)" "0 \<le> i" "i < 26" using assms by blast
  obtain s w2 where s: "rand_letters T n w1 = (Inr s, w2)" "length s = n" "set s \<subseteq> set letterBytes" using Suc.IH by blast
  have len: "length letterBytes = 26" by (simp add: letterBytes_def)
  then have "letterBytes ! nat i \<in> set letterBytes" using i(2,3) by (intro nth_mem) simp
  with i s show ?case by (simp add: len)
qed simp

lemma RandString_letters:
  assumes "\<And>w. \<exists>i w'. RandInt T 26 w = (Inr i, w') \<and> 0 \<le> i \<and> i < 26" and "0 \<le> n"
  shows "\<exists>s w'. RandString T n w = (Inr s, w') \<and> int (length s) = n \<and> set s \<subseteq> set letterBytes"
  using rand_letters_ok [OF assms(1), of "nat n" w] assms(2) by (auto simp: RandString_def)

section \<open>An example\<close>

text \<open>A world that records the names of the namespaces there are.\<close>

definition example_tests :: "(string list, unit, unit, string, unit) test_lib" where
  "example_tests =
     \<lparr>LookupEnv = (\<lambda>k w. Some ''v1.31.2''), Setenv = (\<lambda>k v. Pair None), Unsetenv = (\<lambda>k. Pair None),
      Stat = (\<lambda>p w. None), SetProcEnv = (\<lambda>k v w. w), RunProc = (\<lambda>c. Pair \<lparr>p_Err = None, p_Result = ''/assets''\<rparr>),
      EnvStart = (\<lambda>d. Pair (Inr ())), EnvStop = (\<lambda>d. Pair None), KlientNew = (\<lambda>r. Pair (Inr ())),
      WithClient = (\<lambda>k c. c), WithNamespace = (\<lambda>ns c. ns), ConfClient = (\<lambda>c. ()), RESTConfig = (\<lambda>k. ()),
      NewDiscoveryClientForConfig = (\<lambda>r. Inr ()), ServerVersion = (\<lambda>d. Pair (Inr ''v1.31.2'')), Printf = (\<lambda>s w. w),
      RandomName = (\<lambda>s n. Pair (s @ ''-1'')), CreateNamespaceObject = (\<lambda>k ns w. (None, ns_Name ns # w)),
      DeleteNamespaceObject = (\<lambda>k ns w. (None, filter (\<lambda>n. n \<noteq> ns_Name ns) w)), ResourcesNew = (\<lambda>r. None),
      CreateEachFile = (\<lambda>r d p. Pair None), GetObject = (\<lambda>n ns. Pair (Inl (NotFoundErr n))),
      RandInt = (\<lambda>m. Pair (Inr 0))\<rparr>"

theorem test_namespace_round_trip_witness:
  "\<exists>ns. CreateNamespace example_tests [] [] ''run'' [] = (([(NsKey, StringValue ns)], None), ns, [ns]) \<and>
    DeleteNamespace example_tests ([] @ [(NsKey, StringValue ns)]) ns [ns] = (([(NsKey, StringValue ns)], None), [])"
proof -
  have create: "CreateNamespace example_tests [] [] ''run'' [] =
      (([(NsKey, StringValue ''run-1'')], None), ''run-1'', [''run-1''])"
    by (simp add: CreateNamespace_def example_tests_def WithValue_def)
  from test_namespace_round_trip [OF create, of "[]"] create show ?thesis by (simp add: example_tests_def)
qed

lemma StartEnvTest_outcome_example:
  "\<exists>command w0 w1. RunProc example_tests (use_command command ''/src/internal/testutil'' ''1.31'') w0 =
     (\<lparr>p_Err = None, p_Result = ''/assets''\<rparr>, w1)"
proof -
  have start: "StartEnvTest example_tests ''/src/internal/testutil'' [] [''crd''] [] = ((Some [''crd''], None), [], [])"
    by (simp add: StartEnvTest_def findOrInstallTestEnv_def GetClusterVersion_def getSetupEnvPath_def Let_def
        example_tests_def path_join_def path_clean_def getLocalBin_def)
  have "getK8sVersionForEnvtest example_tests [] = ''1.31''"
    by (simp add: getK8sVersionForEnvtest_def example_tests_def)
  with StartEnvTest_outcome [OF start] show ?thesis by (auto simp: example_tests_def)
qed

end
