(* ===== verification/Command_Line.thy ===== *)
theory Command_Line
  imports Startup Api_Types
begin

text \<open>
  \<open>cmd/main.go\<close> up to \<open>flag.Parse\<close>: the \<open>init\<close> functions that fill the scheme, the flags
  that are declared, and the package \<open>flag\<close> of the standard library that reads them from
  the arguments. The whole process is \<open>process\<close>. The flags of other packages (those of
  \<open>zap\<close> and of the controller runtime) and the schemes are parameters.
\<close>

section \<open>Numbers and booleans\<close>

text \<open>\<open>strconv.ParseInt\<close> with base 0 and 64 bits: a sign, a prefix for the base, digits and underscores.\<close>

definition num_base :: "string \<Rightarrow> nat \<times> string" where
  "num_base s =
     (case s of
        [] \<Rightarrow> (10, s)
      | c # r \<Rightarrow>
          (if c \<noteq> CHR ''0'' then (10, s)
           else case r of
             x # y # ds \<Rightarrow>
               (if lower_char x = CHR ''b'' then (2, y # ds)
                else if lower_char x = CHR ''o'' then (8, y # ds)
                else if lower_char x = CHR ''x'' then (16, y # ds)
                else (8, r))
           | _ \<Rightarrow> (8, r)))"

definition base_digit :: "char \<Rightarrow> nat option" where
  "base_digit c =
     (let n = (of_char (lower_char c) :: nat)
      in if is_digit c then Some (digit_val c) else if 97 \<le> n \<and> n \<le> 122 then Some (n - 87) else None)"

fun base_digits :: "nat \<Rightarrow> nat \<Rightarrow> string \<Rightarrow> nat option" where
  "base_digits b n [] = Some n"
| "base_digits b n (c # s) =
     (if c = CHR ''_'' then base_digits b n s
      else case base_digit c of
        None \<Rightarrow> None
      | Some d \<Rightarrow> (if b \<le> d then None else base_digits b (n * b + d) s))"

text \<open>Underscores must separate digits; a prefix counts as a digit.\<close>

datatype saw = SawStart | SawDigit | SawUnderscore | SawOther

fun underscores :: "bool \<Rightarrow> saw \<Rightarrow> string \<Rightarrow> bool" where
  "underscores hex saw [] = (saw \<noteq> SawUnderscore)"
| "underscores hex saw (c # s) =
     (if is_digit c \<or> (hex \<and> lower_char c \<in> set ''abcdef'') then underscores hex SawDigit s
      else if c = CHR ''_'' then saw = SawDigit \<and> underscores hex SawUnderscore s
      else saw \<noteq> SawUnderscore \<and> underscores hex SawOther s)"

definition underscoreOK :: "string \<Rightarrow> bool" where
  "underscoreOK s =
     (case s of
        z # x # r \<Rightarrow>
          (if z = CHR ''0'' \<and> lower_char x \<in> set ''box''
           then underscores (lower_char x = CHR ''x'') SawDigit r else underscores False SawStart s)
      | _ \<Rightarrow> underscores False SawStart s)"

definition ParseInt :: "string \<Rightarrow> int option" where
  "ParseInt s =
     (let neg = (take 1 s = ''-'');
          t = (if neg \<or> take 1 s = ''+'' then drop 1 s else s)
      in if t = [] then None
         else case num_base t of
           (b, ds) \<Rightarrow>
             (case base_digits b 0 ds of
                None \<Rightarrow> None
              | Some n \<Rightarrow>
                  (let i = (if neg then - int n else int n)
                   in if CHR ''_'' \<in> set ds \<and> \<not> underscoreOK t then None
                      else if - (2 ^ 63) \<le> i \<and> i < 2 ^ 63 then Some i else None)))"

definition ParseBool :: "string \<Rightarrow> bool option" where
  "ParseBool s =
     (if s \<in> {''1'', ''t'', ''T'', ''true'', ''TRUE'', ''True''} then Some True
      else if s \<in> {''0'', ''f'', ''F'', ''false'', ''FALSE'', ''False''} then Some False else None)"

section \<open>The flags of the program\<close>

text \<open>A declared flag: whether it is boolean, and what setting it to a text does; \<open>None\<close> is an error.\<close>

type_synonym 'a formal_flag = "bool \<times> (string \<Rightarrow> 'a \<Rightarrow> 'a option)"

definition StringVar :: "((string \<Rightarrow> string) \<Rightarrow> 'a \<Rightarrow> 'a) \<Rightarrow> 'a formal_flag" where
  "StringVar upd = (False, \<lambda>v f. Some (upd (\<lambda>_. v) f))"

definition IntVar :: "((int \<Rightarrow> int) \<Rightarrow> 'a \<Rightarrow> 'a) \<Rightarrow> 'a formal_flag" where
  "IntVar upd = (False, \<lambda>v f. map_option (\<lambda>i. upd (\<lambda>_. i) f) (ParseInt v))"

definition Int64Var :: "((i64 \<Rightarrow> i64) \<Rightarrow> 'a \<Rightarrow> 'a) \<Rightarrow> 'a formal_flag" where
  "Int64Var upd = (False, \<lambda>v f. map_option (\<lambda>i. upd (\<lambda>_. word_of_int i) f) (ParseInt v))"

definition BoolVar :: "((bool \<Rightarrow> bool) \<Rightarrow> 'a \<Rightarrow> 'a) \<Rightarrow> 'a formal_flag" where
  "BoolVar upd = (True, \<lambda>v f. map_option (\<lambda>b. upd (\<lambda>_. b) f) (ParseBool v))"

definition declared_flags :: "(string \<times> flags formal_flag) list" where
  "declared_flags =
     [(''webhook-host'', StringVar webhookHost_update),
      (''webhook-server-port'', IntVar webhookPort_update),
      (''metrics-bind-address'', StringVar metricsAddr_update),
      (''health-probe-bind-address'', StringVar probeAddr_update),
      (''sleep-delta'', Int64Var sleepDelta_update),
      (''leader-elect'', BoolVar enableLeaderElection_update),
      (''metrics-secure'', BoolVar secureMetrics_update),
      (''webhook-cert-path'', StringVar webhookCertPath_update),
      (''webhook-cert-name'', StringVar webhookCertName_update),
      (''webhook-cert-key'', StringVar webhookCertKey_update),
      (''metrics-cert-path'', StringVar metricsCertPath_update),
      (''metrics-cert-name'', StringVar metricsCertName_update),
      (''metrics-cert-key'', StringVar metricsCertKey_update),
      (''enable-http2'', BoolVar enableHTTP2_update),
      (''max-concurrent-reconciles'', IntVar maxConcurrentReconciles_update)]"

text \<open>The flags of other packages: their names, which are boolean, and the values they set.\<close>

record 'o other_flags =
  of_Names :: "string list"
  of_IsBool :: "string \<Rightarrow> bool"
  of_Set :: "string \<Rightarrow> string \<Rightarrow> 'o \<Rightarrow> 'o option"
  of_Initial :: 'o

definition flag_lookup :: "'o other_flags \<Rightarrow> string \<Rightarrow> (flags \<times> 'o) formal_flag option" where
  "flag_lookup F name =
     (case map_of declared_flags name of
        Some (isBool, set_value) \<Rightarrow> Some (isBool, \<lambda>v (f, x). map_option (\<lambda>f'. (f', x)) (set_value v f))
      | None \<Rightarrow>
          (if name \<in> set (of_Names F)
           then Some (of_IsBool F name, \<lambda>v (f, x). map_option (Pair f) (of_Set F name v x)) else None))"

section \<open>flag.Parse\<close>

text \<open>
  An argument is no flag and ends the flags, has bad syntax, or names a flag, with a value
  when there is an equals sign after the first character of the name.
\<close>

datatype arg = NoFlag | BadSyntax | FlagArg string "string option"

definition split_value :: "string \<Rightarrow> string \<times> string option" where
  "split_value name =
     (let first = take 1 name; r = drop 1 name; n = first @ takeWhile (\<lambda>c. c \<noteq> CHR ''='') r
      in case dropWhile (\<lambda>c. c \<noteq> CHR ''='') r of [] \<Rightarrow> (n, None) | _ # v \<Rightarrow> (n, Some v))"

definition read_arg :: "string \<Rightarrow> arg" where
  "read_arg s =
     (if length s < 2 \<or> take 1 s \<noteq> ''-'' \<or> s = ''--'' then NoFlag
      else let name = (if take 2 s = ''--'' then drop 2 s else drop 1 s)
           in if take 1 name \<in> {''-'', ''=''} then BadSyntax
              else case split_value name of (n, v) \<Rightarrow> FlagArg n v)"

text \<open>Errors end the process with status 2, a request for help with status 0.\<close>

fun parse_flags :: "'o other_flags \<Rightarrow> string list \<Rightarrow> flags \<times> 'o \<Rightarrow> ending + (flags \<times> 'o)" where
  "parse_flags F [] st = Inr st"
| "parse_flags F (s # args) st =
     (case read_arg s of
        NoFlag \<Rightarrow> Inr st
      | BadSyntax \<Rightarrow> Inl (Exit 2)
      | FlagArg name v \<Rightarrow>
     (case flag_lookup F name of
        None \<Rightarrow> Inl (Exit (if name = ''help'' \<or> name = ''h'' then 0 else 2))
      | Some (isBool, set_value) \<Rightarrow>
     (case (v, isBool, args) of
        (Some x, _, _) \<Rightarrow> (case set_value x st of None \<Rightarrow> Inl (Exit 2) | Some st' \<Rightarrow> parse_flags F args st')
      | (None, True, _) \<Rightarrow> (case set_value ''true'' st of None \<Rightarrow> Inl (Exit 2) | Some st' \<Rightarrow> parse_flags F args st')
      | (None, False, []) \<Rightarrow> Inl (Exit 2)
      | (None, False, x # rest) \<Rightarrow>
          (case set_value x st of None \<Rightarrow> Inl (Exit 2) | Some st' \<Rightarrow> parse_flags F rest st'))))"

section \<open>The process\<close>

text \<open>The schemes: the builder of the API package, the types of the client library.\<close>

record ('b, 'sch) scheme_lib =
  sl_Builder :: "string \<Rightarrow> 'b"
  sl_Register :: "string list \<Rightarrow> 'b \<Rightarrow> 'b"
  sl_AddToScheme :: "'b \<Rightarrow> 'sch \<Rightarrow> goerror option \<times> 'sch"
  sl_NewScheme :: 'sch
  sl_ClientGoAddToScheme :: "'sch \<Rightarrow> goerror option \<times> 'sch"

definition SleepInfo_init :: "('b, 'sch) scheme_lib \<Rightarrow> 'b \<Rightarrow> 'b" where
  "SleepInfo_init S b = sl_Register S [''SleepInfo'', ''SleepInfoList''] b"

definition SleepInfoExecution_init :: "('b, 'sch) scheme_lib \<Rightarrow> 'b \<Rightarrow> 'b" where
  "SleepInfoExecution_init S b = sl_Register S [''SleepInfoExecution'', ''SleepInfoExecutionList''] b"

definition SchemeBuilder :: "('b, 'sch) scheme_lib \<Rightarrow> 'b" where
  "SchemeBuilder S = SleepInfoExecution_init S (SleepInfo_init S (sl_Builder S GroupVersion_String))"

text \<open>\<open>utilruntime.Must\<close> panics with the error.\<close>

definition main_init :: "('b, 'sch) scheme_lib \<Rightarrow> ending + 'sch" where
  "main_init S =
     (case sl_ClientGoAddToScheme S (sl_NewScheme S) of
        (Some e, _) \<Rightarrow> Inl (Panic e)
      | (None, s1) \<Rightarrow>
          (case sl_AddToScheme S (SchemeBuilder S) s1 of (Some e, _) \<Rightarrow> Inl (Panic e) | (None, s2) \<Rightarrow> Inr s2))"

text \<open>
  The runtime is given the scheme. A flag that is declared twice panics; in which of the
  declarations this happens shows in the message only.
\<close>

definition process ::
    "('sch \<Rightarrow> 'w runtime_lib) \<Rightarrow> ('b, 'sch) scheme_lib \<Rightarrow> 'o other_flags \<Rightarrow> string list \<Rightarrow> 'w \<Rightarrow> ending \<times> 'w" where
  "process R S F args w =
     (case main_init S of
        Inl e \<Rightarrow> (e, w)
      | Inr scheme \<Rightarrow>
          (if \<not> distinct (map fst declared_flags @ of_Names F) then (Panic (Err ''flag redefined''), w)
           else case parse_flags F args (default_flags, of_Initial F) of
             Inl e \<Rightarrow> (e, w)
           | Inr (f, x) \<Rightarrow> main (R scheme) f w))"

section \<open>Reading back what is printed\<close>

lemma base_digits_decimal: "\<forall>c \<in> set s. is_digit c \<Longrightarrow> base_digits 10 n s = Some (fold (\<lambda>c acc. acc * 10 + digit_val c) s n)"
  by (induction s arbitrary: n) (auto simp: base_digit_def is_digit_def digit_val_def)

lemma nat_text_base:
  "\<exists>b ds. num_base (nat_text n) = (b, ds) \<and> base_digits b 0 ds = Some n \<and> CHR ''_'' \<notin> set ds"
proof -
  obtain c r where t: "nat_text n = c # r" by (cases "nat_text n") auto
  have digits: "\<forall>c \<in> set (c # r). is_digit c" using nat_text_digits [of n] t by simp
  have val: "fold (\<lambda>c acc. acc * 10 + digit_val c) (c # r) 0 = n"
    using digits_val_nat_text [of n] by (simp add: t digits_val_def)
  show ?thesis
  proof (cases "c = CHR ''0''")
    case True
    with nat_text_lead [OF t] have "r = []" .
    then show ?thesis using val True unfolding t num_base_def by (simp add: digit_val_def)
  next
    case False
    have "CHR ''_'' \<notin> set (c # r)" using digits by (auto simp: is_digit_def)
    with False base_digits_decimal [OF digits, of 0] val show ?thesis by (simp add: t num_base_def)
  qed
qed

lemma ParseInt_int_text:
  assumes "- (2 ^ 63) \<le> i" and "i < 2 ^ 63"
  shows "ParseInt (int_text i) = Some i"
proof -
  obtain b ds where num: "num_base (nat_text (nat \<bar>i\<bar>)) = (b, ds)" "base_digits b 0 ds = Some (nat \<bar>i\<bar>)"
      "CHR ''_'' \<notin> set ds" using nat_text_base by blast
  obtain c r where t: "nat_text (nat \<bar>i\<bar>) = c # r" by (cases "nat_text (nat \<bar>i\<bar>)") auto
  then have "is_digit c" using nat_text_digits [of "nat \<bar>i\<bar>"] by simp
  then have "c \<noteq> CHR ''-''" "c \<noteq> CHR ''+''" by (auto simp: is_digit_def)
  with num t assms show ?thesis by (auto simp: ParseInt_def int_text_def Let_def)
qed

lemma ParseInt_sint: "ParseInt (int_text (sint (x :: i64))) = Some (sint x)"
  using sint_range_size [of x] by (intro ParseInt_int_text) (simp_all add: word_size)

definition bool_text :: "bool \<Rightarrow> string" where
  "bool_text b = (if b then ''true'' else ''false'')"

lemma ParseBool_bool_text: "ParseBool (bool_text b) = Some b"
  by (simp add: ParseBool_def bool_text_def)

section \<open>Arguments for a configuration\<close>

text \<open>The text of each flag in a configuration, and whether two configurations agree on a flag.\<close>

definition flag_texts :: "flags \<Rightarrow> (string \<times> string) list" where
  "flag_texts f =
     [(''webhook-host'', webhookHost f), (''webhook-server-port'', int_text (webhookPort f)),
      (''metrics-bind-address'', metricsAddr f), (''health-probe-bind-address'', probeAddr f),
      (''sleep-delta'', int_text (sint (sleepDelta f))), (''leader-elect'', bool_text (enableLeaderElection f)),
      (''metrics-secure'', bool_text (secureMetrics f)), (''webhook-cert-path'', webhookCertPath f),
      (''webhook-cert-name'', webhookCertName f), (''webhook-cert-key'', webhookCertKey f),
      (''metrics-cert-path'', metricsCertPath f), (''metrics-cert-name'', metricsCertName f),
      (''metrics-cert-key'', metricsCertKey f), (''enable-http2'', bool_text (enableHTTP2 f)),
      (''max-concurrent-reconciles'', int_text (maxConcurrentReconciles f))]"

definition flag_text :: "flags \<Rightarrow> string \<Rightarrow> string" where
  "flag_text f name = the (map_of (flag_texts f) name)"

definition ints_ok :: "flags \<Rightarrow> bool" where
  "ints_ok f = (- (2 ^ 63) \<le> webhookPort f \<and> webhookPort f < 2 ^ 63 \<and>
     - (2 ^ 63) \<le> maxConcurrentReconciles f \<and> maxConcurrentReconciles f < 2 ^ 63)"

text \<open>How a flag is given: with one or two dashes, and with its value in the same or in the next argument.\<close>

record style =
  two_dashes :: bool
  next_arg :: bool

definition setting :: "style \<Rightarrow> string \<Rightarrow> string \<Rightarrow> string list" where
  "setting st name v =
     (let flag = (if two_dashes st then ''--'' else ''-'') @ name
      in if next_arg st then [flag, v] else [flag @ ''='' @ v])"

lemma read_setting:
  assumes "name = c # r" and "c \<noteq> CHR ''-''" and "CHR ''='' \<notin> set name"
  shows "read_arg ((if d then ''--'' else ''-'') @ name) = FlagArg name None"
    and "read_arg ((if d then ''--'' else ''-'') @ name @ ''='' @ v) = FlagArg name (Some v)"
proof -
  have "CHR ''='' \<notin> set r" using assms(1,3) by simp
  then have r: "takeWhile (\<lambda>c. c \<noteq> CHR ''='') r = r" "dropWhile (\<lambda>c. c \<noteq> CHR ''='') r = []"
      "takeWhile (\<lambda>c. c \<noteq> CHR ''='') (r @ CHR ''='' # v) = r"
      "dropWhile (\<lambda>c. c \<noteq> CHR ''='') (r @ CHR ''='' # v) = CHR ''='' # v"
    by (induction r) auto
  have c: "c \<noteq> CHR ''=''" using assms(1,3) by auto
  show "read_arg ((if d then ''--'' else ''-'') @ name) = FlagArg name None"
    using assms(2) c by (cases d) (simp_all add: assms(1) read_arg_def split_value_def Let_def r)
  show "read_arg ((if d then ''--'' else ''-'') @ name @ ''='' @ v) = FlagArg name (Some v)"
    using assms(2) c by (cases d) (simp_all add: assms(1) read_arg_def split_value_def Let_def r)
qed

abbreviation flag_names :: "string list" where
  "flag_names \<equiv> map fst declared_flags"

lemma flag_names_eq:
  "flag_names = [''webhook-host'', ''webhook-server-port'', ''metrics-bind-address'', ''health-probe-bind-address'',
     ''sleep-delta'', ''leader-elect'', ''metrics-secure'', ''webhook-cert-path'', ''webhook-cert-name'',
     ''webhook-cert-key'', ''metrics-cert-path'', ''metrics-cert-name'', ''metrics-cert-key'', ''enable-http2'',
     ''max-concurrent-reconciles'']"
  by (simp add: declared_flags_def)

lemma flag_names_plain:
  "list_all (\<lambda>n. n \<noteq> [] \<and> hd n \<noteq> CHR ''-'' \<and> CHR ''='' \<notin> set n) flag_names"
  by (simp add: flag_names_eq)

definition bool_flags :: "string list" where
  "bool_flags = [''leader-elect'', ''metrics-secure'', ''enable-http2'']"

text \<open>Setting a flag to its text in \<open>f\<close> makes it agree with \<open>f\<close> and leaves the others alone.\<close>

lemma set_flag:
  assumes "name \<in> set flag_names" and "ints_ok f"
  shows "\<exists>set_value g'. map_of declared_flags name = Some (name \<in> set bool_flags, set_value) \<and>
    set_value (flag_text f name) g = Some g' \<and>
    flag_texts g' = map (\<lambda>(n, t). (n, if n = name then flag_text f n else t)) (flag_texts g)"
proof -
  note defs = declared_flags_def flag_text_def flag_texts_def StringVar_def IntVar_def Int64Var_def BoolVar_def
  from assms(1) show ?thesis
    unfolding flag_names_eq list.set
    by (elim insertE emptyE; insert assms(2))
      (simp_all add: defs bool_flags_def ints_ok_def ParseInt_int_text ParseInt_sint ParseBool_bool_text)
qed

definition given :: "flags \<Rightarrow> string set \<Rightarrow> (string \<times> string) list \<Rightarrow> (string \<times> string) list" where
  "given f ns ts = map (\<lambda>(n, t). (n, if n \<in> ns then flag_text f n else t)) ts"

lemma given_given: "given f ns (given f ms ts) = given f (ns \<union> ms) ts"
  by (simp add: given_def split_beta)

lemma parse_setting:
  assumes "name \<in> set flag_names" and "ints_ok f" and "next_arg st \<longrightarrow> name \<notin> set bool_flags"
  shows "\<exists>g'. parse_flags F (setting st name (flag_text f name) @ args) (g, x) = parse_flags F args (g', x) \<and>
    flag_texts g' = given f {name} (flag_texts g)"
proof -
  obtain set_value g' where lookup: "map_of declared_flags name = Some (name \<in> set bool_flags, set_value)"
      "set_value (flag_text f name) g = Some g'" and g': "flag_texts g' = given f {name} (flag_texts g)"
    using set_flag [OF assms(1,2), of g] by (auto simp: given_def)
  have "name \<noteq> [] \<and> hd name \<noteq> CHR ''-'' \<and> CHR ''='' \<notin> set name"
    using flag_names_plain assms(1) unfolding list_all_iff by blast
  then obtain c r where "name = c # r" "c \<noteq> CHR ''-''" "CHR ''='' \<notin> set name" by (cases name) auto
  note read = read_setting [OF this]
  have "parse_flags F (setting st name (flag_text f name) @ args) (g, x) = parse_flags F args (g', x)"
    using assms(3) lookup read(1) [of "two_dashes st"] read(2) [of "two_dashes st" "flag_text f name"]
    by (auto simp: setting_def flag_lookup_def Let_def)
  with g' show ?thesis by blast
qed

definition settings :: "flags \<Rightarrow> (style \<times> string) list \<Rightarrow> string list" where
  "settings f ss = concat (map (\<lambda>(st, name). setting st name (flag_text f name)) ss)"

lemma parse_settings:
  assumes "ints_ok f" and "\<forall>(st, name) \<in> set ss. name \<in> set flag_names \<and> (next_arg st \<longrightarrow> name \<notin> set bool_flags)"
  shows "\<exists>g'. parse_flags F (settings f ss @ args) (g, x) = parse_flags F args (g', x) \<and>
    flag_texts g' = given f (snd ` set ss) (flag_texts g)"
  using assms(2)
proof (induction ss arbitrary: g)
  case Nil
  show ?case by (intro exI [of _ g]) (simp add: settings_def given_def)
next
  case (Cons s ss)
  obtain st name where s: "s = (st, name)" by (cases s)
  have "name \<in> set flag_names" "next_arg st \<longrightarrow> name \<notin> set bool_flags" using Cons.prems by (auto simp: s)
  from parse_setting [OF this(1) assms(1) this(2), of F "settings f ss @ args" g x] obtain g1 where
      g1: "parse_flags F (settings f (s # ss) @ args) (g, x) = parse_flags F (settings f ss @ args) (g1, x)"
        "flag_texts g1 = given f {name} (flag_texts g)"
    by (auto simp: settings_def s)
  from Cons obtain g' where "parse_flags F (settings f ss @ args) (g1, x) = parse_flags F args (g', x)"
      "flag_texts g' = given f (snd ` set ss) (flag_texts g1)" by auto
  with g1 show ?case by (auto simp: given_given s)
qed

lemma flag_texts_inj: "flag_texts g = flag_texts f \<Longrightarrow> g = f"
proof -
  assume same: "flag_texts g = flag_texts f"
  have int: "int_text i = int_text j \<longleftrightarrow> i = j" for i j
    by (metis int_literal_int_text option.inject)
  have sint: "sint a = sint b \<longleftrightarrow> a = b" for a b :: i64 by (rule inj_eq) simp
  have bool: "bool_text a = bool_text b \<longleftrightarrow> a = b" for a b by (simp add: bool_text_def)
  have "map snd (flag_texts g) = map snd (flag_texts f)" using same by (rule arg_cong)
  then show "g = f"
    by (intro flags.equality) (simp_all add: flag_texts_def int bool sint)
qed

lemma flag_texts_names: "flag_texts f = map (\<lambda>n. (n, flag_text f n)) flag_names"
  unfolding flag_names_eq list.map flag_text_def by (simp add: flag_texts_def)

lemma given_all:
  assumes "\<forall>name \<in> set flag_names. name \<in> ns \<or> flag_text g name = flag_text f name"
  shows "given f ns (flag_texts g) = flag_texts f"
  using assms by (auto simp: flag_texts_names given_def)

text \<open>
  C33: every configuration can be given on the command line. Whatever flags are set, in any
  order, with one or two dashes and with the value after an equals sign or, unless the flag
  is boolean, in the next argument: when every flag that is left out has its default value
  in \<open>f\<close>, the process is \<open>main\<close> with the flags \<open>f\<close>; arguments from the first that is no
  flag on are ignored.
\<close>

theorem command_line_round_trip:
  assumes "main_init S = Inr scheme" and "distinct (map fst declared_flags @ of_Names F)" and "ints_ok f"
    and "\<forall>(st, name) \<in> set ss. name \<in> set (map fst declared_flags) \<and> (next_arg st \<longrightarrow> name \<notin> set bool_flags)"
    and "\<forall>name \<in> set (map fst declared_flags). name \<in> snd ` set ss \<or> flag_text default_flags name = flag_text f name"
    and "rest = [] \<or> read_arg (hd rest) = NoFlag"
  shows "process R S F (settings f ss @ rest) w = main (R scheme) f w"
proof -
  obtain g where g: "parse_flags F (settings f ss @ rest) (default_flags, of_Initial F) = parse_flags F rest (g, of_Initial F)"
      "flag_texts g = given f (snd ` set ss) (flag_texts default_flags)"
    using parse_settings [OF assms(3,4), of F rest default_flags "of_Initial F"] by blast
  have "g = f" using g(2) given_all [OF assms(5)] by (intro flag_texts_inj) simp
  moreover have "parse_flags F rest st = Inr st" for st using assms(6) by (cases rest) auto
  ultimately show ?thesis using assms(1,2) g(1) by (simp add: process_def)
qed

section \<open>An example\<close>

definition example_schemes :: "(string list, string list) scheme_lib" where
  "example_schemes =
     \<lparr>sl_Builder = (\<lambda>gv. []), sl_Register = (\<lambda>ks b. b @ ks), sl_AddToScheme = (\<lambda>b s. (None, s @ b)),
      sl_NewScheme = [], sl_ClientGoAddToScheme = (\<lambda>s. (None, s @ [''Secret'']))\<rparr>"

definition zap_flags :: "string other_flags" where
  "zap_flags =
     \<lparr>of_Names = [''zap-log-level''], of_IsBool = (\<lambda>n. False), of_Set = (\<lambda>n v x. Some v), of_Initial = ''info''\<rparr>"

lemma example_init: "main_init example_schemes =
    Inr [''Secret'', ''SleepInfo'', ''SleepInfoList'', ''SleepInfoExecution'', ''SleepInfoExecutionList'']"
  by (simp add: main_init_def example_schemes_def SchemeBuilder_def SleepInfo_init_def SleepInfoExecution_init_def)

lemma flag_names_distinct: "distinct (flag_names @ [''zap-log-level''])"
  unfolding flag_names_eq by simp

definition election_flags :: flags where
  "election_flags = default_flags\<lparr>sleepDelta := 90, enableLeaderElection := True\<rparr>"

definition election_args :: "(style \<times> string) list" where
  "election_args = [(\<lparr>two_dashes = True, next_arg = False\<rparr>, ''leader-elect''),
     (\<lparr>two_dashes = False, next_arg = True\<rparr>, ''sleep-delta'')]"

lemma ninety_text: "digit_char 9 = CHR ''9''" "digit_char 0 = CHR ''0''"
  by code_simp+

lemma election_settings: "settings election_flags election_args = [''--leader-elect=true'', ''-sleep-delta'', ''90'']"
  by (simp add: settings_def election_args_def setting_def flag_text_def flag_texts_def election_flags_def
      default_flags_def bool_text_def int_text_def nat_text.simps ninety_text)

lemma election_rest:
  "\<forall>name \<in> set flag_names. name \<in> snd ` set election_args \<or> flag_text default_flags name = flag_text election_flags name"
  unfolding flag_names_eq by (simp add: election_args_def flag_text_def flag_texts_def election_flags_def)

theorem command_line_round_trip_witness:
  "process (\<lambda>s. calm_runtime) example_schemes zap_flags [''--leader-elect=true'', ''-sleep-delta'', ''90'', ''extra''] () =
   main calm_runtime election_flags ()"
proof -
  have "distinct (flag_names @ of_Names zap_flags)" using flag_names_distinct by (simp add: zap_flags_def)
  moreover have "ints_ok election_flags" by (simp add: ints_ok_def election_flags_def default_flags_def)
  moreover have "\<forall>(st, name) \<in> set election_args. name \<in> set flag_names \<and> (next_arg st \<longrightarrow> name \<notin> set bool_flags)"
    unfolding flag_names_eq by (simp add: election_args_def bool_flags_def)
  moreover have "[''extra''] = [] \<or> read_arg (hd [''extra'']) = NoFlag" by (simp add: read_arg_def)
  ultimately show ?thesis
    using command_line_round_trip [OF example_init _ _ _ election_rest, of zap_flags "[''extra'']" "\<lambda>s. calm_runtime" "()"]
    unfolding election_settings by simp
qed

end
