(* ===== verification/Spec2Isabelle.thy ===== *)
theory Spec2Isabelle
  imports Webhook Status_Memory Concurrent_Runs On_Time Fake_Client Test_Support Command_Line
begin

text \<open>
  kube-green puts the resources of a Kubernetes namespace to sleep at night and wakes them
  up in the morning. This development models the program and proves what makes it correct.

  \<^bold>\<open>The program.\<close> A SleepInfo (\<open>api/v1alpha1\<close>) says when the resources of its namespace
  sleep, which of them, and how they are patched. The webhook
  (\<open>internal/webhook/v1alpha1\<close>) admits the SleepInfos that validate. The SleepInfo
  controller (\<open>internal/controller/sleepinfo\<close>) reads the SleepInfo and its secret, derives
  the operation that is due (\<open>sleepinfodata.go\<close>) and whether now is the time for it
  (\<open>schedule.go\<close>); then it lists the resources of every patch target
  (\<open>jsonpatch/genericresources.go\<close>), puts them to sleep or wakes them up
  (\<open>jsonpatch/jsonpatch.go\<close>, with \<open>internal/patcher\<close> and \<open>resource/resource.go\<close>), and
  writes the operation and the patches back to the original state into the secret
  (\<open>secrets.go\<close>), which the next run reads. The SleepInfoExecution controller performs one
  operation on demand through the same parts. \<open>cmd/main.go\<close> wires everything.

  \<^bold>\<open>Theories and sources.\<close>
  \<^item> \<open>Prelude\<close>, \<open>Float64\<close>, \<open>Json\<close>, \<open>Go_Time\<close>: what the program uses of the language and its
    library.
    Errors are values of \<open>goerror\<close> (panics included), results are sums, Go maps are
    canonical association lists, durations are 64-bit words with wrap-around, and
    \<open>Time.Sub\<close> saturates. The JSON reader spends one unit of fuel per call;
    \<open>fuel_enough\<close> gives it two units per character and one more, and \<open>fuel_irrelevant\<close> shows that
    more fuel never changes a result. Decoding into a value of type \<open>any\<close> rounds every number
    to the nearest \<open>float64\<close>, printed as \<open>Marshal\<close> prints it (\<open>float_text\<close>).
  \<^item> \<open>Api_Types\<close>: \<open>sleepinfo_types.go\<close>, \<open>defaultpatches.go\<close>, \<open>sleepinfoexecution_types.go\<close>.
  \<^item> \<open>Patcher\<close>: \<open>patcher.go\<close>. \<open>Resource_Client\<close>: \<open>resource.go\<close>.
    \<open>Generic_Resource\<close>: \<open>genericresources.go\<close>.
  \<^item> \<open>Managed_Resources\<close>, \<open>Sleep_Wake\<close>, \<open>Restore_Info\<close>: \<open>jsonpatch.go\<close>; its operations, what
    sleeping and waking up do, and how restore patches are saved.
  \<^item> \<open>Legacy\<close>: \<open>deployments.go\<close> and \<open>cronjobs.go\<close>, the secrets of earlier releases.
  \<^item> \<open>Sleepinfo_Data\<close>, \<open>Schedule\<close>, \<open>Secrets\<close>: the files of the same names.
  \<^item> \<open>Sleepinfo_Controller\<close> and \<open>Controller_Properties\<close>: \<open>sleepinfo_controller.go\<close>;
    \<open>Execution_Controller\<close>: \<open>sleepinfoexecution_controller.go\<close>.
  \<^item> \<open>Secret_Cycle\<close>: the states in which runs of both controllers can leave the secret, as an
    inductive predicate; \<open>Full_Cycle\<close> and \<open>Restore_Loss\<close>: whole nights through all parts.
  \<^item> \<open>Cluster\<close>: a namespace with one SleepInfo and what is asked of its API server and of the
    patch engine; \<open>Every_Night\<close>: the runs of both controllers in any order, as an inductive
    predicate over the states of the namespace; \<open>Concurrent_Runs\<close>: a run between the read and
    the operation of another. \<open>Requeue\<close> and \<open>On_Time\<close>: what follows when the requeue times
    (\<open>schedule.go\<close>) are kept.
  \<^item> \<open>Webhook\<close>: \<open>sleepinfo_webhook.go\<close>.
  \<^item> \<open>Go_Memory\<close>, \<open>Deep_Copy\<close>, \<open>Status_Memory\<close>: \<open>zz_generated.deepcopy.go\<close> on an explicit
    memory of cells, slices and pointers, and the one place where the controller depends on it.
  \<^item> \<open>Startup\<close>: \<open>main.go\<close> after the flags are read, \<open>metrics.go\<close> and the \<open>SetupWithManager\<close>
    functions; \<open>Command_Line\<close>: \<open>main.go\<close> up to there, with the \<open>init\<close> functions of the
    API package and the package \<open>flag\<close>; the whole process is \<open>process\<close>.
  \<^item> \<open>Fake_Client\<close> and \<open>Test_Support\<close>: \<open>internal/testutil\<close>.

  \<^bold>\<open>State.\<close> A handler takes the world it runs in, of an arbitrary type, and returns the
  world after it; every call of the Kubernetes client is a function on the world, so other
  actors may act at every call. The state of the program itself is the secret, the status of
  the custom resources and the groups of listed resources, which are records.

  \<^bold>\<open>Parameters.\<close> Code outside the repository is an argument of the definitions that call
  it: the Kubernetes client, the accessors of unstructured objects, the selector parsers,
  the patch engine with the YAML converter, the cron library, the time zone database, the
  order in which \<open>range\<close> visits a map, owner references, the calls of the controller
  runtime at start, the schemes and the flags of other packages, the copies of metadata, the
  test framework, and the processes that tests run. Theorems that rely on documented behaviour
  of such code name it as a hypothesis (\<open>selectors_ok\<close>, \<open>lists_matching\<close>, \<open>range_ok\<close>,
  \<open>engine_contract\<close>, \<open>ticks_later\<close>, \<open>next_activation\<close>, \<open>metadata\<close>), and
  their witnesses instantiate the parameter with concrete functions. The theorems about
  whole namespaces ask for \<open>cluster_ok\<close>: reads answer (\<open>reads_ok\<close>), writes of other things
  leave resources and secret alone (\<open>other_writes_ok\<close>), the secret can be written
  (\<open>secret_writes_ok\<close>), an applied or patched object gets the content that was sent
  (\<open>apply_ok\<close>, \<open>patch_ok\<close>), and the patch engine makes and merges patches as RFC 6902 and RFC
  7386 say, with patches that leave a sleeping resource as it is (\<open>engine_ok\<close>). Contents are
  compared by \<open>cl_content\<close>, so that the server may change versions and managed fields; the
  theorems about one night do the same with their parameter \<open>content\<close> (\<open>asleep_as\<close>). A schedule
  without a time zone is local to the time it is given, so \<open>next_activation\<close> speaks of times
  in a set of locations among which the schedule reads alike. What happens when these calls fail is the subject of the theorems on single runs.

  \<^bold>\<open>Interfaces.\<close> \<open>target_operation\<close> is the contract of an operation on the group of one
  target, interpreted by sleeping and waking up; \<open>codec\<close> the round trip of an encoding,
  interpreted by strings, patches and the whole secret; \<open>legacy_format\<close> the shape of both
  formats of earlier releases; \<open>operation_source\<close> what the secret and an execution both
  promise about the operation that is due; \<open>copying\<close> with \<open>copying_kind\<close>, \<open>copying_pair\<close> and
  \<open>copying_struct\<close> the contract of a deep copy and its closure under slices, pointers and
  structs, interpreted by every copied type.

  \<^bold>\<open>What the theorems show.\<close>
  \<^item> No night loses anything: whatever runs of both controllers follow each other, each
    resource has its original content or sleeps with its restore patch in the secret
    (\<open>every_night_restored\<close>); due runs complete (\<open>due_run_completes\<close>); and when requeues are
    served less than the delta late, sleeps and wake ups take turns at their ticks
    (\<open>requeue_answered\<close>).
  \<^item> Sleeping and waking up are inverse on the contents of objects, per target and through
    the whole program (\<open>sleep_wake_round_trip\<close>, \<open>first_night_restored\<close>), for objects whose
    numbers are \<open>float64\<close> values; others are rounded (\<open>integer_above_2_53_rounded\<close>); what is recorded, what is left alone,
    and which errors can occur; restore patches and secrets survive being written and read.
  \<^item> Every secret the controllers can write is readable by them, never leads to a write to
    a nil map, and refines a machine that alternates between awake and asleep.
  \<^item> The schedule: when an operation is due, that the next look lies ahead, that missed
    ticks are skipped, for every delta that does not overflow; an admitted SleepInfo can
    always be scheduled.
  \<^item> The handlers: what they write on every branch, that an execution is carried out once,
    and the cases in which restore patches are lost (\<open>wake_list_failure_loses_restore_info\<close>,
    \<open>unsaved_sleep_loses_restore_info\<close>, \<open>concurrent_sleep_loses_restore_info\<close>) or a tick is
    (\<open>zero_delta_passes_tick\<close>).
  \<^item> Filters select what they mean; schedules and validation are characterised exactly.
  \<^item> Deep copies share no memory with their originals; the status update in memory refines
    the pure one; the start of the process is a fixed sequence of calls, and every
    configuration can be given on the command line (\<open>command_line_round_trip\<close>).
  \<^item> The tests' client behaves as the API server is assumed to, and a test deletes the
    namespace it was given.

  \<^bold>\<open>Not modelled.\<close> Log output; the text of a time parse error and of flag errors;
  interleavings inside the controller runtime, which hands one request for an object to
  one worker at a time, beyond the one of \<open>Concurrent_Runs\<close>; pages of a listing beyond the
  first 500 objects, which the program does not ask for either; the builders of test
  objects (\<open>internal/controller/sleepinfo/internal/mocks\<close>), which are literals of Kubernetes
  objects with a few fields replaced. What the map leaves out otherwise is imports,
  comments and blank lines.

  This theory holds what spans the webhook and the controller.
\<close>

section \<open>Admitted SleepInfos can be scheduled\<close>

lemma getNextSchedule_total:
  assumes "delta_ok delta"
    and "ParseStandard cron (CurrentOperationSchedule data) = Inr sched"
    and "ParseStandard cron (NextOperationSchedule data) = Inr sched'"
  shows "\<exists>x. getNextSchedule cron delta data now = Inr x"
  using assms by (auto simp: getNextSchedule_tick Let_def)

lemma data_ok_parses:
  assumes "data_ok si data" and "GetSleepSchedule si = Inr sleep" and "ParseStandard cron sleep = Inr sched"
    and "GetWakeUpSchedule si = Inr wake" and "wake = [] \<or> (\<exists>sched'. ParseStandard cron wake = Inr sched')"
  shows "(\<exists>s. ParseStandard cron (CurrentOperationSchedule data) = Inr s) \<and>
    (\<exists>s. ParseStandard cron (NextOperationSchedule data) = Inr s)"
  using assms by (auto simp: data_ok_def split: if_splits)

text \<open>
  C11: validation protects the controller: a SleepInfo that the webhook admits, on
  creation or on an update, can be
  scheduled with every secret the controller may have written for it. Reading the secret
  and deciding what is due never fail, at any time.
\<close>

theorem admitted_can_be_scheduled:
  assumes "(\<exists>ws. ValidateCreate (r_cron r) lib cl w (AdmSleepInfo si :: 'o admission_object) = Inr ws) \<or>
      (\<exists>old ws. ValidateUpdate (r_cron r) lib cl w old (AdmSleepInfo si :: 'o admission_object) = Inr ws)"
    and "reachable_secret r secret"
    and "0 \<le> sint (r_SleepDelta r)" and "sint (r_SleepDelta r) \<le> 9223372036"
  shows "\<exists>data x. getSleepInfoData (r_tz r) secret si = Inr data \<and>
    getNextSchedule (r_cron r) (r_SleepDelta r) data now = Inr x"
proof -
  have d: "delta_ok (r_SleepDelta r)" using assms(3,4) by (simp add: delta_ok_def)
  obtain sleep wake sched where sch: "GetSleepSchedule si = Inr sleep" "ParseStandard (r_cron r) sleep = Inr sched"
      "GetWakeUpSchedule si = Inr wake" "wake = [] \<or> (\<exists>sched'. ParseStandard (r_cron r) wake = Inr sched')"
    using admitted_schedules [OF admitted_def [THEN iffD2, OF assms(1)]] by blast
  obtain data where data: "getSleepInfoData (r_tz r) secret si = Inr data"
    using reachable_readable [OF assms(2)] sch(1,3) unfolding secret_readable_def by blast
  obtain current following where "ParseStandard (r_cron r) (CurrentOperationSchedule data) = Inr current"
      "ParseStandard (r_cron r) (NextOperationSchedule data) = Inr following"
    using data_ok_parses [OF getSleepInfoData_ok [OF data] sch] by blast
  from getNextSchedule_total [OF d this, of now] data show ?thesis by blast
qed

theorem admitted_can_be_scheduled_witness:
  "\<exists>data x. getSleepInfoData (\<lambda>t. 0) (Some first_secret) example_sleepinfo = Inr data \<and>
    getNextSchedule hourly_cron 60 data (at_ns 1) = Inr x"
proof -
  have "Validate (ParseStandard hourly_cron) (rest_error world_client start_world) example_lib example_sleepinfo =
      Inr []"
    by (simp add: Validate_def example_schedules validatePatches_def example_patches hourly_cron_def
        rest_error_def world_client_def New_def example_lib_def)
  then have "\<exists>ws. ValidateCreate (r_cron example_reconciler) example_lib world_client start_world
      (AdmSleepInfo example_sleepinfo :: unit admission_object) = Inr ws"
    by (simp add: ValidateCreate_def)
  from admitted_can_be_scheduled [OF disjI1 [OF this] first_secret_reachable, of "at_ns 1"] show ?thesis by simp
qed

end
